(* ===== verification/Prelude.thy ===== *)
theory Prelude
  imports Complex_Main "HOL-Library.Multiset"
begin

text \<open>
  Shared vocabulary of the development: the collections the component proofs draw on and the
  generic lemmas on lists and maps that more than one component needs.
\<close>

named_theorems num_val \<open>the rational value of a JavaScript number operation\<close>
named_theorems num_exact \<open>number operations on integers that need no rounding\<close>

subsection \<open>Lists\<close>

lemma filter_filter_mono:
  assumes "\<And>x. Q x \<Longrightarrow> P x"
  shows "filter Q (filter P xs) = filter Q xs"
proof -
  have "(\<lambda>x. P x \<and> Q x) = Q" using assms by auto
  then show ?thesis by simp
qed

lemma length_filter_mono:
  assumes "\<And>x. x \<in> set xs \<Longrightarrow> P x \<Longrightarrow> Q x"
  shows "length (filter P xs) \<le> length (filter Q xs)"
  using assms by (induction xs) auto

text \<open>The first element with a property (\<open>Array.prototype.find\<close>), updated in place.\<close>

fun update_first :: "('a \<Rightarrow> bool) \<Rightarrow> ('a \<Rightarrow> 'a) \<Rightarrow> 'a list \<Rightarrow> 'a list" where
  "update_first P f [] = []"
| "update_first P f (x # xs) = (if P x then f x # xs else x # update_first P f xs)"

lemma update_first_cong: "(\<And>x. x \<in> set xs \<Longrightarrow> P x \<longleftrightarrow> Q x) \<Longrightarrow> update_first P f xs = update_first Q f xs"
  by (induction xs) auto

lemma length_update_first [simp]: "length (update_first P f xs) = length xs"
  by (induction xs) auto

lemma update_first_id [simp]: "\<forall>x \<in> set xs. \<not> P x \<Longrightarrow> update_first P f xs = xs"
  by (induction xs) auto

lemma count_update_first:
  "\<exists>x \<in> set xs. P x \<Longrightarrow> (\<And>x. P x \<Longrightarrow> Q x) \<Longrightarrow> (\<And>x. P x \<Longrightarrow> \<not> Q (f x)) \<Longrightarrow>
   Suc (length (filter Q (update_first P f xs))) = length (filter Q xs)"
  by (induction xs) auto

lemma filter_update_first:
  "(\<And>x. P x \<Longrightarrow> \<not> Q x \<and> \<not> Q (f x)) \<Longrightarrow> filter Q (update_first P f xs) = filter Q xs"
  by (induction xs) auto

lemma map_update_first: "(\<And>x. P x \<Longrightarrow> g (f x) = g x) \<Longrightarrow> map g (update_first P f xs) = map g xs"
  by (induction xs) auto

lemma update_first_append:
  "update_first P f (xs @ ys) = (if \<exists>x \<in> set xs. P x then update_first P f xs @ ys else xs @ update_first P f ys)"
  by (induction xs) auto

subsection \<open>Text\<close>

text \<open>\<open>Array.prototype.join\<close> on an array of strings.\<close>

fun join :: "string \<Rightarrow> string list \<Rightarrow> string" where
  "join sep [] = []"
| "join sep [t] = t"
| "join sep (t # u # ts) = t @ sep @ join sep (u # ts)"

lemma join_Cons: "join sep (t # ts) = t @ concat (map (\<lambda>u. sep @ u) ts)"
  by (induction ts arbitrary: t) simp_all

definition hex_digit :: "nat \<Rightarrow> char" where
  "hex_digit d = char_of (if d < 10 then 48 + d else 87 + d)"

lemma of_hex_digit:
  assumes "d < 16" shows "of_char (hex_digit d) = (if d < 10 then 48 + d else 87 + d)"
proof -
  have "(if d < 10 then 48 + d else 87 + d) < 256" using assms by simp
  then show ?thesis by (simp only: hex_digit_def of_char_of mod_less)
qed

lemma hex_digit_inj:
  assumes "d < 16" "e < 16" "hex_digit d = hex_digit e" shows "d = e"
proof -
  have "(if d < 10 then 48 + d else 87 + d) = (if e < 10 then 48 + e else 87 + e)"
    using of_hex_digit [OF assms(1)] of_hex_digit [OF assms(2)] assms(3) by simp
  then show ?thesis by (simp split: if_splits)
qed

text \<open>Two hexadecimal digits of a number below 256.\<close>

definition hex2 :: "nat \<Rightarrow> string" where
  "hex2 n = [hex_digit (n div 16), hex_digit (n mod 16)]"

lemma hex2_inj:
  assumes "m < 256" "n < 256" "hex2 m = hex2 n" shows "m = n"
proof -
  have lt: "m div 16 < 16" "n div 16 < 16" "m mod 16 < 16" "n mod 16 < 16" using assms by auto
  have "m div 16 = n div 16" "m mod 16 = n mod 16"
    using assms(3) hex_digit_inj [OF lt(1,2)] hex_digit_inj [OF lt(3,4)] by (simp_all add: hex2_def)
  then show ?thesis by (metis div_mult_mod_eq)
qed

subsection \<open>Operations in sequence\<close>

text \<open>Stateful operations run one after the other, with their results.\<close>

fun run_calls :: "('c \<Rightarrow> 's \<Rightarrow> 'r \<times> 's) \<Rightarrow> 'c list \<Rightarrow> 's \<Rightarrow> 'r list \<times> 's" where
  "run_calls f [] s = ([], s)"
| "run_calls f (c # cs) s =
     (let (r, s) = f c s; (rs, s) = run_calls f cs s in (r # rs, s))"

lemma length_run_calls [simp]: "length (fst (run_calls f cs s)) = length cs"
  by (induction cs arbitrary: s) (simp_all add: split_beta Let_def)

text \<open>
  The interface of an operation that can be shut: a shut operation answers with a fixed refusal
  and leaves the state as it is.
\<close>

locale shutter =
  fixes run :: "'c \<Rightarrow> 's \<Rightarrow> 'r \<times> 's" and shut :: "'c \<Rightarrow> 's \<Rightarrow> bool" and refusal :: "'s \<Rightarrow> 'r"
  assumes shut_run: "shut c s \<Longrightarrow> run c s = (refusal s, s)"
begin

lemma all_refused:
  "\<forall>c \<in> set cs. shut c s \<Longrightarrow> run_calls run cs s = (replicate (length cs) (refusal s), s)"
  by (induction cs) (simp_all add: shut_run)

lemma refused_prefix:
  "\<forall>c \<in> set cs. shut c s \<Longrightarrow>
   run_calls run (cs @ ds) s = (replicate (length cs) (refusal s) @ fst (run_calls run ds s), snd (run_calls run ds s))"
  by (induction cs) (simp_all add: shut_run split_beta Let_def)

end

end
