(* ===== verification/JsNumber.thy ===== *)
theory JsNumber
  imports Prelude
begin

text \<open>
  The numbers of the source language. A JavaScript number is an IEEE-754 binary64 value, and
  every arithmetic operator rounds to nearest, ties to even. The values are the datatype
  \<open>number\<close> below; a finite value carries its exact rational, and \<open>fl\<close> is the rounding
  function, given as an executable function on the rationals. The lemmas say that rounding is
  monotone, odd, idempotent, within half a unit in the last place, and the identity on every
  representable rational, in particular on the integers up to \<open>2 ^ 53\<close>.
\<close>

subsection \<open>Powers of two and binary logarithms\<close>

definition pow2 :: "int \<Rightarrow> rat" where
  "pow2 k = (if 0 \<le> k then 2 ^ nat k else 1 / 2 ^ nat (- k))"

function zlog2 :: "int \<Rightarrow> int" where
  "zlog2 n = (if n < 2 then 0 else 1 + zlog2 (n div 2))"
  by pat_completeness auto
termination
  by (relation "measure nat") auto

declare zlog2.simps [simp del]

definition ilog2 :: "rat \<Rightarrow> int" where
  "ilog2 x = (let (p, q) = quotient_of x;
                  k = zlog2 p - zlog2 q
              in if pow2 k \<le> x then k else k - 1)"

lemma pow2_powi: "pow2 k = 2 powi k"
  by (simp add: pow2_def power_int_def power_one_over inverse_eq_divide del: power_inverse)

lemma pow2_pos [simp]: "0 < pow2 k"
  by (simp add: pow2_def)

lemma pow2_nonzero [simp]: "pow2 k \<noteq> 0"
  using pow2_pos [of k] by linarith

lemma pow2_add: "pow2 (a + b) = pow2 a * pow2 b"
  by (simp add: pow2_powi power_int_add)

lemma pow2_diff: "pow2 (a - b) = pow2 a / pow2 b"
  by (simp add: pow2_powi power_int_diff)

lemma pow2_0 [simp]: "pow2 0 = 1" and pow2_1 [simp]: "pow2 1 = 2"
  by (simp_all add: pow2_def)

lemma pow2_Suc: "pow2 (k + 1) = 2 * pow2 k"
  by (simp add: pow2_add)

lemma pow2_strict_mono: "a < b \<Longrightarrow> pow2 a < pow2 b"
proof -
  assume "a < b"
  then have "1 < pow2 (b - a)" by (simp add: pow2_def one_less_power)
  then have "pow2 a * 1 < pow2 a * pow2 (b - a)" by (intro mult_strict_left_mono) simp_all
  then show ?thesis by (simp flip: pow2_add)
qed

lemma pow2_less_iff [simp]: "pow2 a < pow2 b \<longleftrightarrow> a < b"
  using pow2_strict_mono [of a b] pow2_strict_mono [of b a] by (cases a b rule: linorder_cases) auto

lemma pow2_le_iff [simp]: "pow2 a \<le> pow2 b \<longleftrightarrow> a \<le> b"
  by (simp flip: linorder_not_less)

lemma pow2_nat: "pow2 (int n) = 2 ^ n"
  by (simp add: pow2_def)

lemma pow2_of_int: "0 \<le> k \<Longrightarrow> pow2 k = of_int (2 ^ nat k)"
  by (simp add: pow2_def)

lemma zlog2_nonneg [simp]: "0 \<le> zlog2 n"
proof (induction n rule: zlog2.induct)
  case (1 n)
  then show ?case by (cases "n < 2") (simp_all add: zlog2.simps [of n])
qed

lemma zlog2_bounds: "0 < n \<Longrightarrow> pow2 (zlog2 n) \<le> of_int n \<and> of_int n < pow2 (zlog2 n + 1)"
proof (induction n rule: zlog2.induct)
  case (1 n)
  show ?case
  proof (cases "n < 2")
    case True
    with "1.prems" have "n = 1" by simp
    then show ?thesis by (simp add: zlog2.simps)
  next
    case False
    define h where "h = n div 2"
    have "pow2 (zlog2 h) \<le> of_int h \<and> of_int h < pow2 (zlog2 h + 1)"
      using "1.IH" False by (simp add: h_def)
    moreover have "pow2 (zlog2 h + 1) = of_int (2 ^ nat (zlog2 h + 1))"
      by (rule pow2_of_int) (simp add: add_nonneg_nonneg)
    moreover have "h + 1 \<le> 2 ^ nat (zlog2 h + 1)"
      using calculation by (metis of_int_less_iff zless_imp_add1_zle)
    then have "(of_int (h + 1) :: rat) \<le> of_int (2 ^ nat (zlog2 h + 1))"
      by (simp only: of_int_le_iff)
    ultimately have *: "pow2 (zlog2 h) \<le> of_int h" "of_int h + 1 \<le> pow2 (zlog2 h + 1)" by simp_all
    have "2 * h \<le> n" "n < 2 * (h + 1)" by (auto simp: h_def)
    then have "of_int (2 * h) \<le> (of_int n :: rat)" "(of_int n :: rat) < of_int (2 * (h + 1))"
      by (simp_all only: of_int_le_iff of_int_less_iff)
    moreover have "zlog2 n = zlog2 h + 1" using False by (simp add: zlog2.simps [of n] h_def)
    ultimately show ?thesis using * pow2_Suc [of "zlog2 h"] pow2_Suc [of "zlog2 h + 1"]
      by (simp del: One_nat_def add: add.assoc [symmetric])
  qed
qed

lemma ilog2_bounds:
  assumes "0 < x"
  shows "pow2 (ilog2 x) \<le> x \<and> x < pow2 (ilog2 x + 1)"
proof -
  obtain p q where pq: "quotient_of x = (p, q)" by (cases "quotient_of x")
  have x: "x = of_int p / of_int q" and q: "0 < q"
    using quotient_of_div [OF pq] quotient_of_denom_pos [OF pq] by auto
  with assms have p: "0 < p" by (simp add: zero_less_divide_iff)
  define k where "k = zlog2 p - zlog2 q"
  note b = zlog2_bounds [OF p] zlog2_bounds [OF q]
  have lo: "pow2 (k - 1) < x"
  proof -
    have "pow2 (zlog2 p) * of_int q < (of_int p :: rat) * pow2 (zlog2 q + 1)"
      using b p q by (intro le_less_trans [OF mult_right_mono mult_strict_left_mono]) auto
    then show ?thesis using q
      unfolding k_def x pow2_diff pow2_Suc by (simp add: field_simps)
  qed
  have hi: "x < pow2 (k + 1)"
  proof -
    have "of_int p * pow2 (zlog2 q) < pow2 (zlog2 p + 1) * (of_int q :: rat)"
      using b p q by (intro less_le_trans [OF mult_strict_right_mono mult_left_mono]) (auto simp: less_imp_le)
    then show ?thesis using q
      unfolding k_def x pow2_diff pow2_Suc by (simp add: field_simps)
  qed
  have "ilog2 x = (if pow2 k \<le> x then k else k - 1)"
    by (simp add: ilog2_def pq k_def)
  then show ?thesis using lo hi by auto
qed

lemma ilog2_unique:
  assumes "pow2 k \<le> x" "x < pow2 (k + 1)"
  shows "ilog2 x = k"
proof -
  have "0 < x" using assms(1) pow2_pos [of k] by linarith
  note b = ilog2_bounds [OF this]
  have "pow2 k < pow2 (ilog2 x + 1)" "pow2 (ilog2 x) < pow2 (k + 1)"
    using b assms by linarith+
  then show ?thesis by simp
qed

lemma ilog2_mono:
  assumes "0 < x" "x \<le> y"
  shows "ilog2 x \<le> ilog2 y"
proof -
  have "pow2 (ilog2 x) < pow2 (ilog2 y + 1)"
    using ilog2_bounds [of x] ilog2_bounds [of y] assms by linarith
  then show ?thesis by simp
qed

subsection \<open>Rounding to nearest, ties to even\<close>

definition rnd_even :: "rat \<Rightarrow> int" where
  "rnd_even x =
     (let f = \<lfloor>x\<rfloor>; d = x - of_int f
      in if d < 1 / 2 then f
         else if 1 / 2 < d then f + 1
         else if even f then f else f + 1)"

lemma rnd_even_int [simp]: "rnd_even (of_int n) = n"
  by (simp add: rnd_even_def)

lemma rnd_even_err: "\<bar>of_int (rnd_even x) - x\<bar> \<le> 1 / 2"
proof -
  have "of_int \<lfloor>x\<rfloor> \<le> x" "x < of_int \<lfloor>x\<rfloor> + 1" by linarith+
  then show ?thesis by (auto simp: rnd_even_def Let_def abs_le_iff)
qed

lemma rnd_even_mono:
  assumes "x \<le> y"
  shows "rnd_even x \<le> rnd_even y"
proof (cases "\<lfloor>x\<rfloor> = \<lfloor>y\<rfloor>")
  case True
  with assms show ?thesis by (auto simp: rnd_even_def Let_def)
next
  case False
  with assms have "\<lfloor>x\<rfloor> < \<lfloor>y\<rfloor>" using floor_mono [OF assms] by simp
  moreover have "rnd_even x \<le> \<lfloor>x\<rfloor> + 1" "\<lfloor>y\<rfloor> \<le> rnd_even y"
    by (auto simp: rnd_even_def Let_def)
  ultimately show ?thesis by linarith
qed

lemma rnd_even_uminus: "rnd_even (- x) = - rnd_even x"
proof (cases "x = of_int \<lfloor>x\<rfloor>")
  case True
  then have "rnd_even x = \<lfloor>x\<rfloor>" "rnd_even (- x) = - \<lfloor>x\<rfloor>"
    using rnd_even_int [of "- \<lfloor>x\<rfloor>"] rnd_even_int [of "\<lfloor>x\<rfloor>"] by auto
  then show ?thesis by simp
next
  case False
  have *: "of_int \<lfloor>x\<rfloor> \<le> x" "x < of_int \<lfloor>x\<rfloor> + 1" by linarith+
  with False have "of_int \<lfloor>x\<rfloor> < x" by linarith
  with * have "\<lfloor>- x\<rfloor> = - \<lfloor>x\<rfloor> - 1" by (intro floor_unique) auto
  then show ?thesis using * by (auto simp: rnd_even_def Let_def)
qed

definition ulp_exp :: "rat \<Rightarrow> int" where
  "ulp_exp x = max (ilog2 \<bar>x\<bar> - 52) (- 1074)"

definition fl :: "rat \<Rightarrow> rat" where
  "fl x = (if x = 0 then 0
           else let q = pow2 (ulp_exp x) in of_int (rnd_even (x / q)) * q)"

lemma fl_0 [simp]: "fl 0 = 0"
  by (simp add: fl_def)

lemma ulp_exp_uminus [simp]: "ulp_exp (- x) = ulp_exp x"
  by (simp add: ulp_exp_def)

lemma fl_uminus: "fl (- x) = - fl x"
  by (simp add: fl_def Let_def rnd_even_uminus)

lemma fl_err: "\<bar>fl x - x\<bar> \<le> pow2 (ulp_exp x) / 2"
proof (cases "x = 0")
  case True
  then show ?thesis by (simp add: less_imp_le)
next
  case False
  let ?q = "pow2 (ulp_exp x)"
  have "fl x - x = (of_int (rnd_even (x / ?q)) - x / ?q) * ?q"
    using False by (simp add: fl_def Let_def left_diff_distrib)
  then have "\<bar>fl x - x\<bar> = \<bar>of_int (rnd_even (x / ?q)) - x / ?q\<bar> * ?q"
    by (simp add: abs_mult less_imp_le)
  also have "\<dots> \<le> 1 / 2 * ?q"
    by (intro mult_right_mono rnd_even_err) (simp add: less_imp_le)
  finally show ?thesis by simp
qed

text \<open>A power of two that is a multiple of the unit in the last place is never crossed.\<close>

lemma fl_le_pow2:
  assumes "x \<noteq> 0" "x \<le> of_int n * pow2 k" "ulp_exp x \<le> k"
  shows "fl x \<le> of_int n * pow2 k"
proof -
  let ?e = "ulp_exp x"
  define m :: int where "m = n * 2 ^ nat (k - ?e)"
  have m: "of_int n * pow2 k = of_int m * pow2 ?e"
    using assms(3) pow2_add [of "k - ?e" ?e] by (simp add: m_def pow2_def mult.assoc)
  then have "x / pow2 ?e \<le> of_int m" using assms(2) by (simp add: divide_le_eq)
  then have "rnd_even (x / pow2 ?e) \<le> m" using rnd_even_mono [of _ "of_int m"] by fastforce
  then have "of_int (rnd_even (x / pow2 ?e)) * pow2 ?e \<le> of_int m * pow2 ?e"
    by (intro mult_right_mono) (simp_all add: less_imp_le)
  then show ?thesis using assms(1) by (simp add: fl_def Let_def m)
qed

lemma fl_ge_pow2:
  assumes "x \<noteq> 0" "of_int n * pow2 k \<le> x" "ulp_exp x \<le> k"
  shows "of_int n * pow2 k \<le> fl x"
  using fl_le_pow2 [of "- x" "- n" k] assms by (simp add: fl_uminus)

lemma fl_nonneg: "0 \<le> x \<Longrightarrow> 0 \<le> fl x"
  using fl_ge_pow2 [of x 0 "ulp_exp x"] by (cases "x = 0") auto

lemma fl_mono_pos:
  assumes "0 < x" "x \<le> y"
  shows "fl x \<le> fl y"
proof (cases "ulp_exp x = ulp_exp y")
  case True
  have "rnd_even (x / pow2 (ulp_exp x)) \<le> rnd_even (y / pow2 (ulp_exp x))"
    using assms by (intro rnd_even_mono divide_right_mono) (simp_all add: less_imp_le)
  with assms True show ?thesis
    by (simp add: fl_def Let_def mult_right_mono less_imp_le)
next
  case False
  have il: "ilog2 x \<le> ilog2 y" using ilog2_mono assms by simp
  with assms have "ulp_exp x \<le> ulp_exp y" by (simp add: ulp_exp_def)
  with False have lt: "ulp_exp x < ulp_exp y" by simp
  with assms have y: "ulp_exp y = ilog2 y - 52" "ilog2 x < ilog2 y"
    by (auto simp: ulp_exp_def max_def split: if_splits)
  have "x < pow2 (ilog2 x + 1)" using ilog2_bounds [OF assms(1)] by simp
  also have "\<dots> \<le> pow2 (ilog2 y)" using y by simp
  finally have "x \<le> of_int 1 * pow2 (ilog2 y)" by simp
  from fl_le_pow2 [OF _ this] have "fl x \<le> pow2 (ilog2 y)"
    using assms y lt by simp
  moreover have "of_int 1 * pow2 (ilog2 y) \<le> y"
    using ilog2_bounds [of y] assms by simp
  from fl_ge_pow2 [OF _ this] have "pow2 (ilog2 y) \<le> fl y"
    using assms y by simp
  ultimately show ?thesis by linarith
qed

lemma fl_mono:
  assumes "x \<le> y"
  shows "fl x \<le> fl y"
proof -
  consider "0 < x" | "x = 0" | "x < 0" "y < 0" | "x < 0" "0 \<le> y" using assms by linarith
  then show ?thesis
  proof cases
    case 1
    then show ?thesis using fl_mono_pos assms by simp
  next
    case 2
    then show ?thesis using fl_nonneg assms by simp
  next
    case 3
    then show ?thesis using fl_mono_pos [of "- y" "- x"] assms by (simp add: fl_uminus)
  next
    case 4
    then show ?thesis using fl_nonneg [of "- x"] fl_nonneg [of y] by (simp add: fl_uminus)
  qed
qed

text \<open>
  The representable rationals: an integer of at most 53 bits times a power of two that is not
  below the smallest subnormal. Rounding yields one and fixes every one of them.
\<close>

definition representable :: "rat \<Rightarrow> bool" where
  "representable x \<longleftrightarrow> (\<exists>m e. x = of_int m * pow2 e \<and> \<bar>m\<bar> \<le> 2 ^ 53 \<and> - 1074 \<le> e)"

lemma fl_representable_pos:
  assumes "0 < m" "m \<le> 2 ^ 53" "- 1074 \<le> e"
  shows "fl (of_int m * pow2 e) = of_int m * pow2 e"
proof -
  let ?x = "of_int m * pow2 e"
  let ?u = "ulp_exp ?x"
  have x: "0 < ?x" using assms by simp
  note b = ilog2_bounds [OF x]
  have "\<exists>n. ?x = of_int n * pow2 ?u"
  proof (cases "?u \<le> e")
    case True
    then have "?x = of_int (m * 2 ^ nat (e - ?u)) * pow2 ?u"
      using pow2_add [of "e - ?u" ?u] by (simp add: pow2_def mult.assoc)
    then show ?thesis by blast
  next
    case False
    have "\<bar>?x\<bar> = ?x" using x by simp
    with False assms have u: "?u = ilog2 ?x - 52" "e \<le> ilog2 ?x - 53"
      by (simp_all add: ulp_exp_def max_def split: if_splits)
    have "of_int m * pow2 e \<le> of_int (2 ^ 53) * pow2 e"
      using assms by (intro mult_right_mono) (simp_all add: less_imp_le del: of_int_power)
    also have "\<dots> = pow2 (53 + e)" using pow2_nat [of 53] by (simp add: pow2_add)
    finally have top: "?x \<le> pow2 (53 + e)" .
    then have "pow2 (ilog2 ?x) \<le> pow2 (53 + e)" using b by linarith
    then have "ilog2 ?x = 53 + e" using u by simp
    then have "pow2 (53 + e) \<le> ?x" using b by simp
    with top have "?x = pow2 (52 + ?u)"
      using u \<open>ilog2 ?x = 53 + e\<close> by simp
    also have "\<dots> = of_int (2 ^ 52) * pow2 ?u" using pow2_nat [of 52] by (simp add: pow2_add)
    finally show ?thesis by blast
  qed
  then obtain n where n: "?x = of_int n * pow2 ?u" by blast
  then have "?x / pow2 ?u = of_int n" by (simp add: divide_eq_eq)
  then show ?thesis using x n by (simp add: fl_def Let_def)
qed

lemma fl_representable: "representable x \<Longrightarrow> fl x = x"
proof -
  assume "representable x"
  then obtain m e where x: "x = of_int m * pow2 e" "\<bar>m\<bar> \<le> 2 ^ 53" "- 1074 \<le> e"
    by (auto simp: representable_def)
  show ?thesis
  proof (cases m "0 :: int" rule: linorder_cases)
    case less
    then show ?thesis using fl_representable_pos [of "- m" e] x fl_uminus [of x] by simp
  qed (use fl_representable_pos [of m e] x in auto)
qed

lemma representable_fl: "representable (fl x)"
proof (cases "x = 0")
  case True
  then show ?thesis by (force simp: representable_def)
next
  case False
  let ?u = "ulp_exp x"
  have "\<bar>x\<bar> < pow2 (ilog2 \<bar>x\<bar> + 1)" using ilog2_bounds [of "\<bar>x\<bar>"] False by simp
  also have "\<dots> \<le> pow2 (?u + 53)" by (simp add: ulp_exp_def)
  also have "pow2 (?u + 53) = of_int (2 ^ 53) * pow2 ?u"
    using pow2_nat [of 53] by (simp add: pow2_add)
  finally have "\<bar>x\<bar> \<le> of_int (2 ^ 53) * pow2 ?u" by simp
  then have "\<bar>x / pow2 ?u\<bar> \<le> of_int (2 ^ 53)" by (simp add: abs_divide divide_le_eq)
  then have "x / pow2 ?u \<le> of_int (2 ^ 53)" "of_int (- (2 ^ 53)) \<le> x / pow2 ?u"
    unfolding abs_le_iff by simp_all
  then have "\<bar>rnd_even (x / pow2 ?u)\<bar> \<le> 2 ^ 53"
    using rnd_even_mono rnd_even_int by (metis abs_le_iff minus_le_iff)
  moreover have "- 1074 \<le> ?u" by (simp add: ulp_exp_def)
  ultimately show ?thesis
    using False by (auto simp: representable_def fl_def Let_def)
qed

lemma fl_fl [simp]: "fl (fl x) = fl x"
  by (rule fl_representable [OF representable_fl])

lemma representable_int: "\<bar>n\<bar> \<le> 2 ^ 53 \<Longrightarrow> representable (of_int n)"
  unfolding representable_def by (rule exI [of _ n], rule exI [of _ 0]) simp

lemma fl_int: "\<bar>n\<bar> \<le> 2 ^ 53 \<Longrightarrow> fl (of_int n) = of_int n"
  by (intro fl_representable representable_int)

lemma representable_iff: "representable x \<longleftrightarrow> fl x = x"
  using fl_representable representable_fl [of x] by auto

lemma fl_le_representable: "representable y \<Longrightarrow> x \<le> y \<Longrightarrow> fl x \<le> y"
  using fl_mono [of x y] fl_representable [of y] by simp

lemma fl_ge_representable: "representable y \<Longrightarrow> y \<le> x \<Longrightarrow> y \<le> fl x"
  using fl_mono [of y x] fl_representable [of y] by simp

lemma fl_ceiling_le: "x \<le> of_int n \<Longrightarrow> \<bar>n\<bar> \<le> 2 ^ 53 \<Longrightarrow> fl x \<le> of_int n"
  by (intro fl_le_representable representable_int)

lemma fl_floor_ge: "of_int n \<le> x \<Longrightarrow> \<bar>n\<bar> \<le> 2 ^ 53 \<Longrightarrow> of_int n \<le> fl x"
  by (intro fl_ge_representable representable_int)

text \<open>
  The error of one rounding: half a unit in the last place, bounded by a relative error of
  \<open>unit_err\<close> plus half of the smallest subnormal.
\<close>

definition unit_err :: rat where
  "unit_err = pow2 (- 53)"

definition tiny_err :: rat where
  "tiny_err = pow2 (- 1075)"

lemma unit_err_pos [simp]: "0 < unit_err" and tiny_err_pos [simp]: "0 < tiny_err"
  by (simp_all add: unit_err_def tiny_err_def)

lemma unit_err_nonneg [simp]: "0 \<le> unit_err" and tiny_err_nonneg [simp]: "0 \<le> tiny_err"
  by (simp_all add: less_imp_le)

lemma fl_rel_err: "\<bar>fl x - x\<bar> \<le> \<bar>x\<bar> * unit_err + tiny_err"
proof (cases "x = 0")
  case True
  then show ?thesis by (simp add: less_imp_le)
next
  case False
  have "pow2 (ulp_exp x) / 2 = pow2 (ulp_exp x - 1)" by (simp add: pow2_diff)
  also have "\<dots> \<le> \<bar>x\<bar> * unit_err + tiny_err"
  proof (cases "ilog2 \<bar>x\<bar> - 52 \<le> - 1074")
    case True
    then have "pow2 (ulp_exp x - 1) = tiny_err" by (simp add: ulp_exp_def tiny_err_def)
    then show ?thesis using unit_err_pos by (simp add: less_imp_le)
  next
    case False
    then have "pow2 (ulp_exp x - 1) = pow2 (ilog2 \<bar>x\<bar>) * unit_err"
      by (simp add: ulp_exp_def unit_err_def flip: pow2_add)
    also have "\<dots> \<le> \<bar>x\<bar> * unit_err"
      using ilog2_bounds [of "\<bar>x\<bar>"] \<open>x \<noteq> 0\<close>
      by (intro mult_right_mono) (simp_all add: less_imp_le)
    finally show ?thesis using tiny_err_pos by linarith
  qed
  finally show ?thesis using fl_err [of x] by linarith
qed

lemma fl_upper: "0 \<le> x \<Longrightarrow> fl x \<le> x * (1 + unit_err) + tiny_err"
  using fl_rel_err [of x] by (simp add: abs_le_iff distrib_left)

subsection \<open>Number values\<close>

text \<open>
  \<open>Inf True\<close> is minus infinity. \<open>Fin 0\<close> is the positive zero and \<open>NegZero\<close> the negative
  one; no other finite value has two representations.
\<close>

datatype number = NaN | Inf bool | NegZero | Fin rat

fun val :: "number \<Rightarrow> rat option" where
  "val (Fin r) = Some r"
| "val NegZero = Some 0"
| "val (Inf s) = None"
| "val NaN = None"

fun neg :: "number \<Rightarrow> bool" where
  "neg NaN = False"
| "neg (Inf s) = s"
| "neg NegZero = True"
| "neg (Fin r) = (r < 0)"

definition zero_signed :: "bool \<Rightarrow> number" where
  "zero_signed s = (if s then NegZero else Fin 0)"

text \<open>Rounding an exact result; \<open>s\<close> is the sign it has when it is or becomes zero.\<close>

definition round_to :: "bool \<Rightarrow> rat \<Rightarrow> number" where
  "round_to s x =
     (let r = fl x
      in if r = 0 then zero_signed s
         else if pow2 1024 \<le> \<bar>r\<bar> then Inf (r < 0)
         else Fin r)"

abbreviation num_of_int :: "int \<Rightarrow> number" where
  "num_of_int n \<equiv> Fin (of_int n)"

fun num_uminus :: "number \<Rightarrow> number" where
  "num_uminus NaN = NaN"
| "num_uminus (Inf s) = Inf (\<not> s)"
| "num_uminus NegZero = Fin 0"
| "num_uminus (Fin r) = (if r = 0 then NegZero else Fin (- r))"

fun num_add :: "number \<Rightarrow> number \<Rightarrow> number" where
  "num_add NaN y = NaN"
| "num_add x NaN = NaN"
| "num_add (Inf s) (Inf t) = (if s = t then Inf s else NaN)"
| "num_add (Inf s) y = Inf s"
| "num_add x (Inf t) = Inf t"
| "num_add x y = round_to (neg x \<and> neg y) (the (val x) + the (val y))"

definition num_sub :: "number \<Rightarrow> number \<Rightarrow> number" where
  "num_sub x y = num_add x (num_uminus y)"

definition is_zero :: "number \<Rightarrow> bool" where
  "is_zero x \<longleftrightarrow> val x = Some 0"

fun num_mul :: "number \<Rightarrow> number \<Rightarrow> number" where
  "num_mul NaN y = NaN"
| "num_mul x NaN = NaN"
| "num_mul (Inf s) y = (if is_zero y then NaN else Inf (s \<noteq> neg y))"
| "num_mul x (Inf t) = (if is_zero x then NaN else Inf (neg x \<noteq> t))"
| "num_mul x y = round_to (neg x \<noteq> neg y) (the (val x) * the (val y))"

fun num_div :: "number \<Rightarrow> number \<Rightarrow> number" where
  "num_div NaN y = NaN"
| "num_div x NaN = NaN"
| "num_div (Inf s) (Inf t) = NaN"
| "num_div (Inf s) y = Inf (s \<noteq> neg y)"
| "num_div x (Inf t) = zero_signed (neg x \<noteq> t)"
| "num_div x y =
     (if is_zero y then (if is_zero x then NaN else Inf (neg x \<noteq> neg y))
      else round_to (neg x \<noteq> neg y) (the (val x) / the (val y)))"

fun num_less :: "number \<Rightarrow> number \<Rightarrow> bool" where
  "num_less NaN y = False"
| "num_less x NaN = False"
| "num_less (Inf s) (Inf t) = (s \<and> \<not> t)"
| "num_less (Inf s) y = s"
| "num_less x (Inf t) = (\<not> t)"
| "num_less x y = (the (val x) < the (val y))"

fun num_le :: "number \<Rightarrow> number \<Rightarrow> bool" where
  "num_le NaN y = False"
| "num_le x NaN = False"
| "num_le (Inf s) (Inf t) = (s \<or> \<not> t)"
| "num_le (Inf s) y = s"
| "num_le x (Inf t) = (\<not> t)"
| "num_le x y = (the (val x) \<le> the (val y))"

abbreviation num_ge :: "number \<Rightarrow> number \<Rightarrow> bool" where
  "num_ge x y \<equiv> num_le y x"

text \<open>\<open>Math.min\<close>, \<open>Math.max\<close>, \<open>Math.floor\<close> and \<open>Math.ceil\<close>.\<close>

definition num_min :: "number \<Rightarrow> number \<Rightarrow> number" where
  "num_min x y =
     (if x = NaN \<or> y = NaN then NaN
      else if num_less x y then x
      else if num_less y x then y
      else if neg x then x else y)"

definition num_max :: "number \<Rightarrow> number \<Rightarrow> number" where
  "num_max x y =
     (if x = NaN \<or> y = NaN then NaN
      else if num_less x y then y
      else if num_less y x then x
      else if neg x then y else x)"

fun num_floor :: "number \<Rightarrow> number" where
  "num_floor (Fin r) = Fin (of_int \<lfloor>r\<rfloor>)"
| "num_floor x = x"

fun num_ceil :: "number \<Rightarrow> number" where
  "num_ceil (Fin r) = (if -1 < r \<and> r < 0 then NegZero else Fin (of_int \<lceil>r\<rceil>))"
| "num_ceil x = x"

text \<open>\<open>!x\<close> for a number \<open>x\<close>: zero and \<open>NaN\<close> are falsy.\<close>

definition num_falsy :: "number \<Rightarrow> bool" where
  "num_falsy x \<longleftrightarrow> x = NaN \<or> is_zero x"

subsection \<open>The rational value of every operation\<close>

text \<open>
  The lemmas of the collection \<open>num_val\<close> compute with values only, so that proofs need not
  treat the two zeros apart: as long as a result stays below \<open>2 ^ 1023\<close> nothing overflows.
\<close>

definition fin_bound :: rat where
  "fin_bound = pow2 1023"

lemma pow2_1024: "pow2 1024 = 2 * fin_bound"
  using pow2_Suc [of 1023] by (simp add: fin_bound_def)

lemma one_less_huge [simp]: "1 < pow2 1024"
  using pow2_strict_mono [of 0 1024] by simp

lemma fin_bound_pos [simp]: "0 < fin_bound"
  by (simp add: fin_bound_def)

lemma representable_pow2: "- 1074 \<le> k \<Longrightarrow> representable (pow2 k)"
  unfolding representable_def by (rule exI [of _ 1], rule exI [of _ k]) simp

lemma representable_fin_bound: "representable fin_bound"
  unfolding fin_bound_def by (rule representable_pow2) simp

lemma representable_uminus: "representable x \<Longrightarrow> representable (- x)"
  using representable_fl [of "- x"] by (simp add: fl_uminus fl_representable)

lemma abs_fl_le: "representable y \<Longrightarrow> \<bar>x\<bar> \<le> y \<Longrightarrow> \<bar>fl x\<bar> \<le> y"
  using fl_le_representable [of y x] fl_ge_representable [of "- y" x] representable_uminus
  by (simp add: abs_le_iff)

lemma int_le_fin_bound: "\<bar>n\<bar> \<le> 2 ^ 53 \<Longrightarrow> of_int n \<le> fin_bound"
proof -
  assume "\<bar>n\<bar> \<le> 2 ^ 53"
  then have "n \<le> 2 ^ 53" by simp
  then have "(of_int n :: rat) \<le> of_int (2 ^ 53)" by (simp only: of_int_le_iff)
  also have "\<dots> = pow2 53" using pow2_nat [of 53] by simp
  also have "\<dots> \<le> fin_bound" by (simp add: fin_bound_def)
  finally show ?thesis .
qed

lemma abs_int_le_fin_bound: "\<bar>n\<bar> \<le> 2 ^ 53 \<Longrightarrow> \<bar>of_int n\<bar> \<le> fin_bound"
  using int_le_fin_bound [of "\<bar>n\<bar>"] by simp

lemma val_zero_signed [simp]: "val (zero_signed s) = Some 0"
  by (simp add: zero_signed_def)

lemma val_round_to [num_val]:
  assumes "\<bar>x\<bar> \<le> fin_bound"
  shows "val (round_to s x) = Some (fl x)"
proof -
  have "\<bar>fl x\<bar> \<le> fin_bound" by (rule abs_fl_le [OF representable_fin_bound assms])
  then show ?thesis
    using fin_bound_pos by (auto simp: round_to_def Let_def pow2_1024 simp del: fin_bound_pos)
qed

lemma val_uminus [num_val]: "val x = Some a \<Longrightarrow> val (num_uminus x) = Some (- a)"
  by (cases x) auto

lemma val_add [num_val]:
  "val x = Some a \<Longrightarrow> val y = Some b \<Longrightarrow> \<bar>a + b\<bar> \<le> fin_bound \<Longrightarrow>
   val (num_add x y) = Some (fl (a + b))"
  by (cases x; cases y) (auto simp: val_round_to)

lemma val_sub [num_val]:
  "val x = Some a \<Longrightarrow> val y = Some b \<Longrightarrow> \<bar>a - b\<bar> \<le> fin_bound \<Longrightarrow>
   val (num_sub x y) = Some (fl (a - b))"
  using val_add [OF _ val_uminus, of x a y b] by (simp add: num_sub_def)

lemma val_mul [num_val]:
  "val x = Some a \<Longrightarrow> val y = Some b \<Longrightarrow> \<bar>a * b\<bar> \<le> fin_bound \<Longrightarrow>
   val (num_mul x y) = Some (fl (a * b))"
  by (cases x; cases y) (auto simp: val_round_to)

lemma val_div [num_val]:
  "val x = Some a \<Longrightarrow> val y = Some b \<Longrightarrow> b \<noteq> 0 \<Longrightarrow> \<bar>a / b\<bar> \<le> fin_bound \<Longrightarrow>
   val (num_div x y) = Some (fl (a / b))"
  by (cases x; cases y) (auto simp: val_round_to is_zero_def)

lemma le_val [num_val]: "val x = Some a \<Longrightarrow> val y = Some b \<Longrightarrow> num_le x y \<longleftrightarrow> a \<le> b"
  by (cases x; cases y) auto

lemma less_val [num_val]: "val x = Some a \<Longrightarrow> val y = Some b \<Longrightarrow> num_less x y \<longleftrightarrow> a < b"
  by (cases x; cases y) auto

lemma val_min [num_val]:
  "val x = Some a \<Longrightarrow> val y = Some b \<Longrightarrow> val (num_min x y) = Some (min a b)"
  by (cases x; cases y) (auto simp: num_min_def min_def)

lemma val_max [num_val]:
  "val x = Some a \<Longrightarrow> val y = Some b \<Longrightarrow> val (num_max x y) = Some (max a b)"
  by (cases x; cases y) (auto simp: num_max_def max_def)

lemma val_floor [num_val]: "val x = Some a \<Longrightarrow> val (num_floor x) = Some (of_int \<lfloor>a\<rfloor>)"
  by (cases x) auto

lemma val_ceil [num_val]: "val x = Some a \<Longrightarrow> val (num_ceil x) = Some (of_int \<lceil>a\<rceil>)"
  by (cases x) (auto simp: ceiling_eq_iff)

lemma le_NaN [simp]: "\<not> num_le NaN x" "\<not> num_le x NaN" "\<not> num_less NaN x" "\<not> num_less x NaN"
  by (cases x; simp)+

lemma num_not_le: "x \<noteq> NaN \<Longrightarrow> y \<noteq> NaN \<Longrightarrow> \<not> num_le x y \<longleftrightarrow> num_less y x"
  by (cases x; cases y) auto

text \<open>Integers up to \<open>2 ^ 53\<close> are added, subtracted and multiplied exactly.\<close>

lemma round_to_int: "\<bar>n\<bar> \<le> 2 ^ 53 \<Longrightarrow> n \<noteq> 0 \<or> \<not> s \<Longrightarrow> round_to s (of_int n) = num_of_int n"
  using abs_int_le_fin_bound [of n]
  by (auto simp: round_to_def Let_def fl_int zero_signed_def pow2_1024)

lemma num_add_int [num_exact]:
  "\<bar>a + b\<bar> \<le> 2 ^ 53 \<Longrightarrow> num_add (num_of_int a) (num_of_int b) = num_of_int (a + b)"
  using round_to_int [of "a + b"] by auto

lemma num_sub_int [num_exact]:
  "\<bar>a - b\<bar> \<le> 2 ^ 53 \<Longrightarrow> num_sub (num_of_int a) (num_of_int b) = num_of_int (a - b)"
  using round_to_int [of "a - b"] by (auto simp: num_sub_def)

lemma num_mul_int [num_exact]:
  "0 \<le> a \<Longrightarrow> 0 \<le> b \<Longrightarrow> a * b \<le> 2 ^ 53 \<Longrightarrow>
   num_mul (num_of_int a) (num_of_int b) = num_of_int (a * b)"
  using round_to_int [of "a * b"] by auto

lemma num_div_int [num_exact]:
  "0 \<le> q \<Longrightarrow> q \<le> 2 ^ 53 \<Longrightarrow> 0 < b \<Longrightarrow> num_div (num_of_int (b * q)) (num_of_int b) = num_of_int q"
  using round_to_int [of q] by (auto simp: is_zero_def mult_less_0_iff)

lemma num_min_int [num_exact]: "num_min (num_of_int a) (num_of_int b) = num_of_int (min a b)"
  by (auto simp: num_min_def)

lemma num_le_int [num_exact]: "num_le (num_of_int a) (num_of_int b) \<longleftrightarrow> a \<le> b"
  by simp

lemma num_floor_int [num_exact]: "num_floor (num_of_int a) = num_of_int a"
  by simp

text \<open>Rounding a quotient of moderate integers never moves it across an integer.\<close>

lemma ceiling_fl_div:
  assumes "0 \<le> a" "a \<le> 2 ^ 52" "0 < b" "b \<le> 2 ^ 52"
  shows "\<lceil>fl (of_int a / of_int b)\<rceil> = \<lceil>of_int a / (of_int b :: rat)\<rceil>"
proof (rule antisym)
  let ?x = "of_int a / (of_int b :: rat)" and ?k = "\<lceil>of_int a / (of_int b :: rat)\<rceil>"
  have "a \<le> 2 ^ 52 * b" using assms mult_left_mono [of 1 b "2 ^ 52"] by simp
  then have "(of_int a :: rat) \<le> of_int (2 ^ 52 * b)" by (simp only: of_int_le_iff)
  then have le: "?x \<le> of_int (2 ^ 52)" using assms by (simp add: divide_le_eq)
  have nn: "0 \<le> ?x" using assms by simp
  have "0 \<le> ?k" "?k \<le> 2 ^ 52"
    using le nn ceiling_mono [OF nn] ceiling_le [OF le] by simp_all
  then have "fl ?x \<le> of_int ?k" by (intro fl_ceiling_le le_of_int_ceiling) simp
  then show "\<lceil>fl ?x\<rceil> \<le> ?k" by (rule ceiling_le)
  show "?k \<le> \<lceil>fl ?x\<rceil>"
  proof (rule ccontr)
    assume "\<not> ?k \<le> \<lceil>fl ?x\<rceil>"
    then have "\<lceil>fl ?x\<rceil> \<le> ?k - 1" by simp
    then have lo: "fl ?x \<le> of_int (?k - 1)" by (simp only: ceiling_le_iff)
    have "of_int (?k - 1) < ?x" by (simp only: less_ceiling_iff [symmetric])
    then have "of_int ((?k - 1) * b) < (of_int a :: rat)" using assms by (simp add: less_divide_eq)
    then have "(?k - 1) * b + 1 \<le> a" by (simp only: of_int_less_iff)
    then have "of_int ((?k - 1) * b + 1) \<le> (of_int a :: rat)" by (simp only: of_int_le_iff)
    then have "of_int ((?k - 1) * b + 1) / of_int b \<le> ?x"
      using assms(3) by (intro divide_right_mono) simp_all
    moreover have "of_int ((?k - 1) * b + 1) / of_int b = of_int (?k - 1) + 1 / (of_int b :: rat)"
      using assms(3) by (simp only: of_int_add of_int_mult add_divide_distrib) simp
    ultimately have gap: "of_int (?k - 1) + 1 / of_int b \<le> ?x" by simp
    have "of_int a \<le> (of_int (2 ^ 52) :: rat)" using assms(2) by (simp only: of_int_le_iff)
    then have "?x * unit_err \<le> of_int (2 ^ 52) / of_int b * unit_err"
      using assms by (intro mult_right_mono divide_right_mono) auto
    also have "of_int (2 ^ 52) / of_int b * unit_err = of_int (2 ^ 52) * unit_err / of_int b"
      by (rule times_divide_eq_left)
    also have "of_int (2 ^ 52) * unit_err = 1 / 2"
      by (simp add: unit_err_def pow2_def)
    finally have r: "?x * unit_err \<le> 1 / 2 / of_int b" .
    have "of_int b \<le> (of_int (2 ^ 52) :: rat)" using assms(4) by (simp only: of_int_le_iff)
    then have "1 / of_int (2 ^ 52) \<le> 1 / (of_int b :: rat)"
      using assms(3) by (intro divide_left_mono) auto
    moreover have "tiny_err < 1 / 2 / of_int (2 ^ 52)"
    proof -
      have "tiny_err < pow2 (- 53)" by (simp add: tiny_err_def)
      also have "pow2 (- 53) = 1 / 2 / of_int (2 ^ 52)" by (simp add: pow2_def)
      finally show ?thesis .
    qed
    ultimately have t: "tiny_err < 1 / 2 / of_int b" by simp
    have "\<bar>fl ?x - ?x\<bar> \<le> ?x * unit_err + tiny_err"
      using fl_rel_err [of ?x] unfolding abs_of_nonneg [OF nn] .
    moreover have "1 / 2 / of_int b + 1 / 2 / of_int b = 1 / (of_int b :: rat)" by simp
    ultimately have "?x - fl ?x < 1 / of_int b" using r t unfolding abs_le_iff by linarith
    with gap lo show False by linarith
  qed
qed

text \<open>A value of the language is a binary64 value: what every operation returns.\<close>

fun is_double :: "number \<Rightarrow> bool" where
  "is_double (Fin r) \<longleftrightarrow> fl r = r \<and> \<bar>r\<bar> < pow2 1024"
| "is_double x \<longleftrightarrow> True"

lemma is_double_round_to [simp]: "is_double (round_to s x)"
  by (simp add: round_to_def Let_def zero_signed_def)

lemma is_double_add [simp]: "is_double x \<Longrightarrow> is_double y \<Longrightarrow> is_double (num_add x y)"
  by (cases x; cases y) auto

lemma is_double_mul [simp]: "is_double (num_mul x y)"
  by (cases x; cases y) auto

lemma is_double_val: "is_double x \<Longrightarrow> val x = Some r \<Longrightarrow> representable r"
  by (cases x) (auto simp: representable_iff)

text \<open>
  From here on the operations are opaque to the simplifier: proofs use their values, and the
  bundle \<open>num_eval\<close> where a concrete expression is evaluated.
\<close>

lemmas num_eval = num_add.simps num_mul.simps num_div.simps num_sub_def num_min_def num_max_def
  is_zero_def zero_signed_def

declare num_add.simps [simp del] num_mul.simps [simp del] num_div.simps [simp del]

text \<open>The integer a number stands for, if it stands for one.\<close>

fun whole :: "number \<Rightarrow> int option" where
  "whole (Fin r) = (if of_int \<lfloor>r\<rfloor> = r then Some \<lfloor>r\<rfloor> else None)"
| "whole x = None"

lemma whole_Some [simp]: "whole x = Some n \<longleftrightarrow> x = num_of_int n"
  by (cases x) auto

lemma whole_int [simp]: "whole (num_of_int n) = Some n"
  by simp

subsection \<open>Optional properties and dates\<close>

text \<open>
  A property of a partial configuration object is absent, or present with a value, which may
  be \<open>undefined\<close>. Spreading the object over the defaults keeps the default exactly when the
  property is absent. Where a number is expected, \<open>undefined\<close> behaves as \<open>NaN\<close>: every
  comparison with it is false and every arithmetic operation yields \<open>NaN\<close>.
\<close>

datatype 'a partial = Absent | Present "'a option"

fun spread_num :: "number \<Rightarrow> number partial \<Rightarrow> number" where
  "spread_num d Absent = d"
| "spread_num d (Present None) = NaN"
| "spread_num d (Present (Some v)) = v"

text \<open>\<open>new Date(v).getTime()\<close>: the time value is clipped to the range of dates.\<close>

definition max_time :: int where
  "max_time = 8640000000000000"

fun time_clip :: "number \<Rightarrow> number" where
  "time_clip (Fin r) =
     (if of_int max_time < \<bar>r\<bar> then NaN
      else Fin (of_int (if r < 0 then \<lceil>r\<rceil> else \<lfloor>r\<rfloor>)))"
| "time_clip NegZero = Fin 0"
| "time_clip (Inf s) = NaN"
| "time_clip NaN = NaN"

lemma time_clip_int [simp]: "\<bar>t\<bar> \<le> max_time \<Longrightarrow> time_clip (num_of_int t) = num_of_int t"
  by (simp flip: of_int_abs)

end
