(* ===== verification/RateLimiter.thy ===== *)
theory RateLimiter
  imports JsNumber
begin

text \<open>
  The token bucket of \<open>packages/sdk/src/rate-limiter.ts\<close>. The clock reading \<open>now\<close> of a check
  is an argument. A bucket is read by value: the source builds a new bucket object in every
  check (\<open>refill\<close> returns a fresh one), so no other reference to a stored bucket is ever mutated.
  The file also states the ideal bucket over the rationals, the interface \<open>metered_bucket\<close> whose
  laws bound what a window of time can grant, and its interpretations.
\<close>

subsection \<open>Data\<close>

record RateLimitOptions =
  opt_capacity :: number
  opt_refillRate :: number
  opt_keyPrefix :: "string partial"

record RateLimitConfig =
  capacity :: number
  refillRate :: number
  keyPrefix :: "string option"

record RateLimitResult =
  allowed :: bool
  remaining :: number
  resetAt :: number
  retryAfter :: "number option"

record BucketState =
  tokens :: number
  lastRefill :: number

record TokenBucketRateLimiter =
  rl_config :: RateLimitConfig
  buckets :: "string \<rightharpoonup> BucketState"

subsection \<open>Operations\<close>

definition new_limiter :: "RateLimitOptions \<Rightarrow> TokenBucketRateLimiter" where
  "new_limiter opts =
     \<lparr>rl_config = \<lparr>capacity = opt_capacity opts, refillRate = opt_refillRate opts,
                keyPrefix = (case opt_keyPrefix opts of Absent \<Rightarrow> Some ''ratelimit'' | Present v \<Rightarrow> v)\<rparr>,
      buckets = Map.empty\<rparr>"

definition bucket_key :: "RateLimitConfig \<Rightarrow> string \<Rightarrow> string" where
  "bucket_key c key =
     (case keyPrefix c of None \<Rightarrow> ''undefined'' | Some p \<Rightarrow> p) @ '':'' @ key"

definition refill :: "RateLimitConfig \<Rightarrow> BucketState \<Rightarrow> number \<Rightarrow> BucketState" where
  "refill c state now =
     (let elapsedSeconds = num_div (num_sub now (lastRefill state)) (num_of_int 1000);
          tokensToAdd = num_mul elapsedSeconds (refillRate c);
          newTokens = num_min (num_add (tokens state) tokensToAdd) (capacity c)
      in \<lparr>tokens = newTokens, lastRefill = now\<rparr>)"

definition load_bucket :: "TokenBucketRateLimiter \<Rightarrow> number \<Rightarrow> string \<Rightarrow> BucketState" where
  "load_bucket l now key =
     refill (rl_config l)
       (case buckets l (bucket_key (rl_config l) key) of
          None \<Rightarrow> \<lparr>tokens = capacity (rl_config l), lastRefill = now\<rparr>
        | Some state \<Rightarrow> state)
       now"

definition check ::
  "TokenBucketRateLimiter \<Rightarrow> number \<Rightarrow> string \<Rightarrow> number \<Rightarrow> RateLimitResult \<times> TokenBucketRateLimiter" where
  "check l now key n =
     (let c = rl_config l;
          bucketKey = bucket_key c key;
          state = load_bucket l now key
      in if num_ge (tokens state) n then
           (let state = state\<lparr>tokens := num_sub (tokens state) n\<rparr>
            in (\<lparr>allowed = True,
                 remaining = num_floor (tokens state),
                 resetAt = time_clip (num_add now
                   (num_mul (num_div (capacity c) (refillRate c)) (num_of_int 1000))),
                 retryAfter = None\<rparr>,
                l\<lparr>buckets := (buckets l)(bucketKey \<mapsto> state)\<rparr>))
         else
           (let deficit = num_sub n (tokens state);
                retry = num_ceil (num_div deficit (refillRate c))
            in (\<lparr>allowed = False,
                 remaining = num_of_int 0,
                 resetAt = time_clip (num_add now (num_mul retry (num_of_int 1000))),
                 retryAfter = Some retry\<rparr>,
                l)))"

definition reset_key :: "TokenBucketRateLimiter \<Rightarrow> string \<Rightarrow> TokenBucketRateLimiter" where
  "reset_key l key = l\<lparr>buckets := (buckets l)(bucket_key (rl_config l) key := None)\<rparr>"

subsection \<open>Keys are isolated\<close>

lemma bucket_key_inj [simp]: "bucket_key c k = bucket_key c k' \<longleftrightarrow> k = k'"
  by (simp add: bucket_key_def)

lemma check_config [simp]: "rl_config (snd (check l now key n)) = rl_config l"
  by (simp add: check_def Let_def)

lemma reset_config [simp]: "rl_config (reset_key l key) = rl_config l"
  by (simp add: reset_key_def)

lemma check_denied_state: "\<not> allowed (fst (check l now key n)) \<Longrightarrow> snd (check l now key n) = l"
  by (auto simp: check_def Let_def split: if_splits)

lemma check_other_bucket:
  "key' \<noteq> key \<Longrightarrow>
   buckets (snd (check l now key n)) (bucket_key (rl_config l) key') = buckets l (bucket_key (rl_config l) key')"
  by (simp add: check_def Let_def)

lemma load_bucket_other:
  "key' \<noteq> key \<Longrightarrow> load_bucket (snd (check l now key n)) t key' = load_bucket l t key'"
  by (simp add: load_bucket_def check_other_bucket split: option.split)

lemma check_allowed_iff: "allowed (fst (check l now key n)) \<longleftrightarrow> num_ge (tokens (load_bucket l now key)) n"
  by (simp add: check_def Let_def)

lemma check_allowed_bucket:
  "allowed (fst (check l now key n)) \<Longrightarrow>
   buckets (snd (check l now key n)) (bucket_key (rl_config l) key) =
     Some \<lparr>tokens = num_sub (tokens (load_bucket l now key)) n, lastRefill = now\<rparr>"
  by (auto simp: check_def Let_def load_bucket_def refill_def split: if_splits)

subsection \<open>What a refill computes\<close>

text \<open>
  The configurations the numeric theorems speak of: a capacity and a rate that are finite, not
  negative and below \<open>2 ^ 100\<close>, so that no intermediate result overflows. Clock readings are
  whole milliseconds in the range of dates, as \<open>Date.now()\<close> returns them.
\<close>

definition config_ok :: "RateLimitConfig \<Rightarrow> bool" where
  "config_ok c \<longleftrightarrow>
     is_double (capacity c) \<and>
     num_le (Fin 0) (capacity c) \<and> num_le (capacity c) (Fin (pow2 100)) \<and>
     num_le (Fin 0) (refillRate c) \<and> num_le (refillRate c) (Fin (pow2 100))"

definition cap_of :: "RateLimitConfig \<Rightarrow> rat" where
  "cap_of c = the (val (capacity c))"

definition rate_of :: "RateLimitConfig \<Rightarrow> rat" where
  "rate_of c = the (val (refillRate c))"

definition valid_time :: "int \<Rightarrow> bool" where
  "valid_time t \<longleftrightarrow> 0 \<le> t \<and> t \<le> max_time"

definition bucket_ok :: "RateLimitConfig \<Rightarrow> int \<Rightarrow> BucketState \<Rightarrow> bool" where
  "bucket_ok c t b \<longleftrightarrow>
     num_le (Fin 0) (tokens b) \<and> num_le (tokens b) (capacity c) \<and>
     (case whole (lastRefill b) of None \<Rightarrow> False | Some L \<Rightarrow> 0 \<le> L \<and> L \<le> t)"

lemma val_between:
  "num_le (Fin a) x \<Longrightarrow> num_le x (Fin b) \<Longrightarrow> \<exists>r. val x = Some r \<and> a \<le> r \<and> r \<le> b"
  by (cases x) auto

lemma config_okD:
  assumes "config_ok c"
  shows "val (capacity c) = Some (cap_of c)" "0 \<le> cap_of c" "cap_of c \<le> pow2 100"
    "val (refillRate c) = Some (rate_of c)" "0 \<le> rate_of c" "rate_of c \<le> pow2 100"
    "representable (cap_of c)"
  using is_double_val [of "capacity c"] val_between [of 0 "capacity c" "pow2 100"] val_between [of 0 "refillRate c" "pow2 100"] assms
  by (auto simp: config_ok_def cap_of_def rate_of_def)

lemma num_le_capacity: "config_ok c \<Longrightarrow> num_le x (capacity c) \<Longrightarrow> num_le x (Fin (cap_of c))"
  using config_okD [of c] by (cases x; cases "capacity c") auto

lemma bucket_okE:
  assumes "bucket_ok c t b" "config_ok c"
  obtains T L where "val (tokens b) = Some T" "0 \<le> T" "T \<le> cap_of c"
    "lastRefill b = num_of_int L" "0 \<le> L" "L \<le> t"
proof -
  obtain T where T: "val (tokens b) = Some T" "0 \<le> T" "T \<le> cap_of c"
    using val_between [OF _ num_le_capacity, of 0 "tokens b" c] assms by (auto simp: bucket_ok_def)
  obtain L where "lastRefill b = num_of_int L" "0 \<le> L" "L \<le> t"
    using assms by (auto simp: bucket_ok_def simp del: whole.simps split: option.splits)
  with T that show thesis by blast
qed

lemma valid_time_diff:
  "valid_time t \<Longrightarrow> 0 \<le> L \<Longrightarrow> L \<le> t \<Longrightarrow> \<bar>t - L\<bar> \<le> 2 ^ 53"
  by (auto simp: valid_time_def max_time_def)

lemma pow2_le_fin_bound: "k \<le> 1023 \<Longrightarrow> pow2 k \<le> fin_bound"
  by (simp add: fin_bound_def)

lemma elapsed_bounds:
  assumes "valid_time t" "0 \<le> L" "L \<le> t"
  shows "0 \<le> (of_int (t - L) :: rat) / 1000" "(of_int (t - L) :: rat) / 1000 \<le> pow2 53"
proof -
  show "0 \<le> (of_int (t - L) :: rat) / 1000" using assms by simp
  have "(of_int (t - L) :: rat) \<le> of_int (2 ^ 53)"
    using valid_time_diff [OF assms] by (simp only: of_int_le_iff)
  then show "(of_int (t - L) :: rat) / 1000 \<le> pow2 53"
    using pow2_nat [of 53] by simp
qed

lemma refill_rate_bounds:
  assumes c: "config_ok c" and t: "valid_time t" "0 \<le> L" "L \<le> t"
  defines "e \<equiv> fl (of_int (t - L) / 1000)"
  shows "0 \<le> e" "e \<le> pow2 53" "0 \<le> fl (e * rate_of c)" "fl (e * rate_of c) \<le> pow2 153"
    "e * rate_of c \<le> pow2 153"
proof -
  note R = config_okD(5,6) [OF c]
  show e: "0 \<le> e" "e \<le> pow2 53"
    using elapsed_bounds [OF t] by (simp_all add: e_def fl_nonneg fl_le_representable representable_pow2)
  have "e * rate_of c \<le> pow2 53 * pow2 100" using e R by (intro mult_mono) auto
  then show le: "e * rate_of c \<le> pow2 153" by (simp flip: pow2_add)
  then show "fl (e * rate_of c) \<le> pow2 153" by (simp add: fl_le_representable representable_pow2)
  show "0 \<le> fl (e * rate_of c)" using e R by (intro fl_nonneg mult_nonneg_nonneg)
qed

lemma refill_val:
  assumes c: "config_ok c" and t: "valid_time t" "0 \<le> L" "L \<le> t"
    and b: "val (tokens b) = Some T" "0 \<le> T" "T \<le> cap_of c" "lastRefill b = num_of_int L"
  shows "val (tokens (refill c b (num_of_int t))) =
    Some (min (fl (T + fl (fl (of_int (t - L) / 1000) * rate_of c))) (cap_of c))"
proof -
  note C = config_okD [OF c] and R = refill_rate_bounds [OF c t] and E = elapsed_bounds [OF t]
  let ?e = "of_int (t - L) / 1000"
  have sub: "num_sub (num_of_int t) (lastRefill b) = num_of_int (t - L)"
    using b(4) valid_time_diff [OF t] by (simp add: num_sub_int del: of_int_diff)
  have "pow2 53 \<le> fin_bound" "pow2 153 \<le> fin_bound" by (simp_all add: pow2_le_fin_bound)
  then have div: "val (num_div (num_of_int (t - L)) (num_of_int 1000)) = Some (fl ?e)"
    using val_div [of "num_of_int (t - L)" "of_int (t - L)" "num_of_int 1000" 1000] E
    by (simp del: of_int_diff num_div.simps)
  have mul: "val (num_mul (num_div (num_of_int (t - L)) (num_of_int 1000)) (refillRate c)) =
      Some (fl (fl ?e * rate_of c))"
  proof (rule val_mul [OF div C(4)])
    show "\<bar>fl ?e * rate_of c\<bar> \<le> fin_bound"
      using R C \<open>pow2 153 \<le> fin_bound\<close> by (simp del: of_int_diff)
  qed
  have "T + fl (fl ?e * rate_of c) \<le> pow2 100 + pow2 153" using b C R by (simp del: of_int_diff)
  also have "\<dots> \<le> pow2 153 + pow2 153" by simp
  also have "\<dots> = pow2 154" using pow2_Suc [of 153] by simp
  also have "\<dots> \<le> fin_bound" by (simp add: pow2_le_fin_bound)
  finally have "\<bar>T + fl (fl ?e * rate_of c)\<bar> \<le> fin_bound" using b R by (simp del: of_int_diff)
  from val_add [OF b(1) mul this] show ?thesis
    by (simp add: refill_def sub val_min C del: of_int_diff)
qed

text \<open>Every operation keeps the buckets between empty and full, whatever the rounding does.\<close>

definition limiter_ok :: "int \<Rightarrow> TokenBucketRateLimiter \<Rightarrow> bool" where
  "limiter_ok t l \<longleftrightarrow>
     config_ok (rl_config l) \<and> (\<forall>b \<in> ran (buckets l). bucket_ok (rl_config l) t b)"

lemma refill_ok:
  assumes c: "config_ok c" and t: "valid_time t" "valid_time t'" "t \<le> t'" and b: "bucket_ok c t b"
  shows "bucket_ok c t' (refill c b (num_of_int t'))"
proof -
  obtain T L where b': "val (tokens b) = Some T" "0 \<le> T" "T \<le> cap_of c"
    "lastRefill b = num_of_int L" "0 \<le> L" "L \<le> t"
    using bucket_okE [OF b c] by metis
  then have tL: "0 \<le> L" "L \<le> t'" using t by auto
  note v = refill_val [OF c t(2) tL b'(1-4)]
  have "0 \<le> fl (T + fl (fl (of_int (t' - L) / 1000) * rate_of c))"
    by (rule fl_nonneg, rule add_nonneg_nonneg [OF b'(2) refill_rate_bounds(3) [OF c t(2) tL]])
  then show ?thesis
    using v config_okD [OF c] t(2)
    by (simp add: bucket_ok_def refill_def Let_def le_val valid_time_def del: whole.simps)
qed

lemma fresh_ok:
  "config_ok c \<Longrightarrow> valid_time t \<Longrightarrow> bucket_ok c t \<lparr>tokens = capacity c, lastRefill = num_of_int t\<rparr>"
  using config_okD [of c] by (simp add: bucket_ok_def le_val valid_time_def del: whole.simps)

lemma bucket_ok_later: "bucket_ok c t b \<Longrightarrow> t \<le> t' \<Longrightarrow> bucket_ok c t' b"
  by (auto simp: bucket_ok_def simp del: whole.simps split: option.splits)

lemma limiter_ok_later: "limiter_ok t l \<Longrightarrow> t \<le> t' \<Longrightarrow> limiter_ok t' l"
  by (auto simp: limiter_ok_def intro: bucket_ok_later)

lemma load_bucket_ok:
  assumes "limiter_ok t l" "valid_time t" "valid_time t'" "t \<le> t'"
  shows "bucket_ok (rl_config l) t' (load_bucket l (num_of_int t') key)"
proof (cases "buckets l (bucket_key (rl_config l) key)")
  case None
  with assms show ?thesis
    using refill_ok [OF _ assms(3) assms(3) order_refl fresh_ok, of "rl_config l"]
    by (simp add: load_bucket_def limiter_ok_def)
next
  case (Some b)
  with assms have "bucket_ok (rl_config l) t b" by (auto simp: limiter_ok_def intro: ranI)
  with Some assms show ?thesis
    using refill_ok [of "rl_config l" t t' b] by (simp add: load_bucket_def limiter_ok_def)
qed

lemma spend_ok:
  assumes b: "bucket_ok c t b" and c: "config_ok c" and n: "num_le (Fin 0) n" "num_ge (tokens b) n"
  obtains T N where "val (tokens b) = Some T" "val n = Some N" "0 \<le> N" "N \<le> T" "T \<le> cap_of c"
    "val (num_sub (tokens b) n) = Some (fl (T - N))" "0 \<le> fl (T - N)" "fl (T - N) \<le> cap_of c"
proof -
  obtain T L where T: "val (tokens b) = Some T" "0 \<le> T" "T \<le> cap_of c"
    using bucket_okE [OF b c] by metis
  then have "num_le n (Fin T)" using n(2) by (cases n; cases "tokens b") auto
  then obtain N where N: "val n = Some N" "0 \<le> N" "N \<le> T"
    using val_between [OF n(1)] by blast
  note C = config_okD [OF c]
  have "T - N \<le> cap_of c" "0 \<le> T - N" using T N by auto
  moreover have "cap_of c \<le> fin_bound" using C(3) pow2_le_fin_bound [of 100] by linarith
  ultimately have "val (num_sub (tokens b) n) = Some (fl (T - N))"
    using T N by (intro val_sub) auto
  moreover have "fl (T - N) \<le> cap_of c" by (rule fl_le_representable [OF C(7) \<open>T - N \<le> cap_of c\<close>])
  ultimately show thesis using that T N fl_nonneg [OF \<open>0 \<le> T - N\<close>] by blast
qed

lemma spent_bucket_ok:
  assumes "bucket_ok c t b" "config_ok c" "num_le (Fin 0) n" "num_ge (tokens b) n" "valid_time t"
  shows "bucket_ok c t \<lparr>tokens = num_sub (tokens b) n, lastRefill = num_of_int t\<rparr>"
proof -
  obtain T N where "val (num_sub (tokens b) n) = Some (fl (T - N))" "0 \<le> fl (T - N)" "fl (T - N) \<le> cap_of c"
    using spend_ok [OF assms(1-4)] by metis
  then show ?thesis
    using config_okD(1) [OF assms(2)] assms(5)
    by (simp add: bucket_ok_def le_val valid_time_def del: whole.simps)
qed

lemma ran_updD: "b \<in> ran (m(k \<mapsto> v)) \<Longrightarrow> b = v \<or> b \<in> ran m"
  by (auto simp: ran_def split: if_splits)

lemma check_ok:
  assumes "limiter_ok t l" "valid_time t" "valid_time t'" "t \<le> t'" "num_le (Fin 0) n"
  shows "limiter_ok t' (snd (check l (num_of_int t') key n))"
proof (cases "num_ge (tokens (load_bucket l (num_of_int t') key)) n")
  case False
  with assms show ?thesis
    using limiter_ok_later by (simp add: check_def Let_def)
next
  case True
  have c: "config_ok (rl_config l)" using assms by (simp add: limiter_ok_def)
  let ?b = "\<lparr>tokens = num_sub (tokens (load_bucket l (num_of_int t') key)) n, lastRefill = num_of_int t'\<rparr>"
  have "bucket_ok (rl_config l) t' ?b"
    using spent_bucket_ok [OF load_bucket_ok [OF assms(1-4)] c assms(5) True assms(3)] .
  moreover have "lastRefill (load_bucket l (num_of_int t') key) = num_of_int t'"
    by (simp add: load_bucket_def refill_def Let_def)
  then have "(load_bucket l (num_of_int t') key)\<lparr>tokens := num_sub (tokens (load_bucket l (num_of_int t') key)) n\<rparr> = ?b"
    by (cases "load_bucket l (num_of_int t') key") simp
  ultimately show ?thesis
    using True assms(1,4)
    by (auto simp: check_def Let_def limiter_ok_def dest!: ran_updD intro: bucket_ok_later)
qed

lemma reset_key_ok: "limiter_ok t l \<Longrightarrow> limiter_ok t (reset_key l key)"
  by (auto simp: limiter_ok_def reset_key_def ran_def split: if_splits)

lemma new_limiter_ok: "config_ok (rl_config (new_limiter opts)) \<Longrightarrow> limiter_ok t (new_limiter opts)"
  by (simp add: limiter_ok_def new_limiter_def)

subsection \<open>Runs\<close>

text \<open>A run of the limiter: the calls \<open>check(key, n)\<close> and \<open>reset(key)\<close> with the clock reading of each.\<close>

datatype limiter_call = Check int string number | Reset int string

fun call_time :: "limiter_call \<Rightarrow> int" where
  "call_time (Check t key n) = t"
| "call_time (Reset t key) = t"

fun limiter_step :: "TokenBucketRateLimiter \<Rightarrow> limiter_call \<Rightarrow> TokenBucketRateLimiter" where
  "limiter_step l (Check t key n) = snd (check l (num_of_int t) key n)"
| "limiter_step l (Reset t key) = reset_key l key"

fun call_ok :: "limiter_call \<Rightarrow> bool" where
  "call_ok (Check t key n) = (valid_time t \<and> num_le (Fin 0) n)"
| "call_ok (Reset t key) = valid_time t"

fun ordered_from :: "int \<Rightarrow> limiter_call list \<Rightarrow> bool" where
  "ordered_from t [] = True"
| "ordered_from t (e # es) = (t \<le> call_time e \<and> call_ok e \<and> ordered_from (call_time e) es)"

lemma call_ok_time: "call_ok e \<Longrightarrow> valid_time (call_time e)"
  by (cases e) auto

lemma limiter_step_config [simp]: "rl_config (limiter_step l e) = rl_config l"
  by (cases e) auto

lemma limiter_run_config [simp]: "rl_config (foldl limiter_step l es) = rl_config l"
  by (induction es arbitrary: l) auto

lemma limiter_step_ok:
  "limiter_ok t l \<Longrightarrow> valid_time t \<Longrightarrow> t \<le> call_time e \<Longrightarrow> call_ok e \<Longrightarrow>
   limiter_ok (call_time e) (limiter_step l e)"
  by (cases e) (auto intro: check_ok reset_key_ok limiter_ok_later)

lemma limiter_run_ok:
  "limiter_ok t l \<Longrightarrow> valid_time t \<Longrightarrow> ordered_from t es \<Longrightarrow>
   \<exists>t'. limiter_ok t' (foldl limiter_step l es)"
proof (induction es arbitrary: t l)
  case Nil
  then show ?case by auto
next
  case (Cons e es)
  then show ?case
    using limiter_step_ok [of t l e] Cons.IH [of "call_time e" "limiter_step l e"] call_ok_time
    by auto
qed

subsection \<open>What a window of time can grant\<close>

text \<open>
  The contract of a metered resource. \<open>avail s t\<close> bounds what the state \<open>s\<close> can grant at time
  \<open>t\<close>; it never exceeds the capacity, grows at most at the refill rate, and a step that grants an
  amount takes that amount off it, up to the error \<open>eps\<close> of one step.
\<close>

fun total_granted :: "('s \<Rightarrow> 'e \<Rightarrow> 's) \<Rightarrow> ('s \<Rightarrow> 'e \<Rightarrow> rat) \<Rightarrow> 's \<Rightarrow> 'e list \<Rightarrow> rat" where
  "total_granted step granted s [] = 0"
| "total_granted step granted s (e # es) = granted s e + total_granted step granted (step s e) es"

fun in_window :: "('e \<Rightarrow> rat) \<Rightarrow> ('e \<Rightarrow> bool) \<Rightarrow> rat \<Rightarrow> rat \<Rightarrow> 'e list \<Rightarrow> bool" where
  "in_window time ok t0 t1 [] \<longleftrightarrow> t0 \<le> t1"
| "in_window time ok t0 t1 (e # es) \<longleftrightarrow> t0 \<le> time e \<and> ok e \<and> in_window time ok (time e) t1 es"

locale metered_bucket =
  fixes step :: "'s \<Rightarrow> 'e \<Rightarrow> 's"
    and granted :: "'s \<Rightarrow> 'e \<Rightarrow> rat"
    and time :: "'e \<Rightarrow> rat"
    and ok :: "'e \<Rightarrow> bool"
    and avail :: "'s \<Rightarrow> rat \<Rightarrow> rat"
    and valid :: "'s \<Rightarrow> rat \<Rightarrow> bool"
    and cap rate eps :: rat
  assumes valid_step: "valid s t \<Longrightarrow> t \<le> time e \<Longrightarrow> ok e \<Longrightarrow> valid (step s e) (time e)"
    and valid_later: "valid s t \<Longrightarrow> t \<le> t' \<Longrightarrow> valid s t'"
    and avail_nonneg: "valid s t \<Longrightarrow> 0 \<le> avail s t"
    and avail_cap: "valid s t \<Longrightarrow> avail s t \<le> cap"
    and avail_later: "valid s t \<Longrightarrow> t \<le> t' \<Longrightarrow> avail s t' \<le> avail s t + rate * (t' - t)"
    and spend: "valid s (time e) \<Longrightarrow> ok e \<Longrightarrow>
      avail (step s e) (time e) + granted s e \<le> avail s (time e) + eps"
begin

lemma granted_from:
  "valid s t0 \<Longrightarrow> in_window time ok t0 t1 es \<Longrightarrow>
   total_granted step granted s es \<le> avail s t0 + rate * (t1 - t0) + eps * of_nat (length es)"
proof (induction es arbitrary: s t0)
  case Nil
  then have "0 \<le> avail s t1" "avail s t1 \<le> avail s t0 + rate * (t1 - t0)"
    using avail_nonneg valid_later avail_later by auto
  then show ?case by simp
next
  case (Cons e es)
  then have v: "valid s (time e)" "valid (step s e) (time e)"
    using valid_later valid_step by auto
  have "total_granted step granted (step s e) es
      \<le> avail (step s e) (time e) + rate * (t1 - time e) + eps * of_nat (length es)"
    using Cons.IH [OF v(2)] Cons.prems by simp
  moreover have "avail (step s e) (time e) + granted s e \<le> avail s (time e) + eps"
    using spend v Cons.prems by simp
  moreover have "avail s (time e) \<le> avail s t0 + rate * (time e - t0)"
    using avail_later Cons.prems by simp
  ultimately show ?case by (simp add: algebra_simps)
qed

lemma window_bound:
  "valid s t0 \<Longrightarrow> in_window time ok t0 t1 es \<Longrightarrow>
   total_granted step granted s es \<le> cap + rate * (t1 - t0) + eps * of_nat (length es)"
  using granted_from [of s t0 t1 es] avail_cap [of s t0] by simp

end

subsection \<open>The limiter is a metered bucket\<close>

text \<open>
  One check rounds five times. The error it can make in the caller's favour is at most five
  units of relative error of the capacity, plus a subnormal.
\<close>

definition check_err :: "RateLimitConfig \<Rightarrow> rat" where
  "check_err c = 5 * unit_err * cap_of c + (2 * rate_of c + 4) * tiny_err"

lemma unit_err_small: "unit_err \<le> 1 / 8"
proof -
  have "unit_err \<le> pow2 (- 3)" unfolding unit_err_def by simp
  then show ?thesis by (simp add: pow2_def)
qed

lemma cube_err: "(1 + unit_err) * (1 + unit_err) * (1 + unit_err) \<le> 1 + 4 * unit_err"
    and square_err: "(1 + unit_err) * (1 + unit_err) \<le> 2"
proof -
  let ?u = unit_err
  have u: "0 \<le> ?u" "?u \<le> 1 / 8" using unit_err_small less_imp_le [OF unit_err_pos] by auto
  have uu: "?u * ?u \<le> ?u * (1 / 8)" using u by (intro mult_left_mono)
  then show "(1 + ?u) * (1 + ?u) \<le> 2" using u unfolding distrib_left distrib_right by linarith
  have "?u * ?u * ?u \<le> ?u * ?u * (1 / 8)" using u by (intro mult_left_mono) auto
  moreover have "(1 + ?u) * (1 + ?u) * (1 + ?u) = 1 + 3 * ?u + 3 * (?u * ?u) + ?u * ?u * ?u"
    by (simp add: algebra_simps)
  ultimately show "(1 + ?u) * (1 + ?u) * (1 + ?u) \<le> 1 + 4 * ?u" using u uu by linarith
qed

text \<open>Each rounding stretches its operand by at most \<open>1 + unit_err\<close> and adds \<open>tiny_err\<close>.\<close>

lemma refill_rounding:
  assumes "0 \<le> T" "0 \<le> D" "0 \<le> R"
  shows "fl (T + fl (fl D * R)) \<le>
    (T + D * R) * ((1 + unit_err) * (1 + unit_err) * (1 + unit_err)) + (2 * R + 3) * tiny_err"
proof -
  let ?v = "1 + unit_err" and ?n = tiny_err
  have v: "1 \<le> ?v" "?v \<le> 2" using unit_err_small less_imp_le [OF unit_err_pos] by auto
  have n: "0 \<le> ?n" using tiny_err_pos by (rule less_imp_le)
  have d: "0 \<le> fl D" "fl D \<le> D * ?v + ?n" using assms fl_upper fl_nonneg by auto
  then have p: "0 \<le> fl D * R" "fl D * R \<le> (D * ?v + ?n) * R"
    using assms by (auto intro: mult_right_mono)
  have "fl (fl D * R) \<le> fl D * R * ?v + ?n" using p by (intro fl_upper)
  also have "\<dots> \<le> (D * ?v + ?n) * R * ?v + ?n"
    using v by (intro add_right_mono mult_right_mono [OF p(2)]) simp
  finally have m: "fl (fl D * R) \<le> D * R * (?v * ?v) + ?n * R * ?v + ?n"
    by (simp add: algebra_simps)
  have "fl (T + fl (fl D * R)) \<le> (T + fl (fl D * R)) * ?v + ?n"
    using assms p by (intro fl_upper add_nonneg_nonneg fl_nonneg)
  also have "\<dots> \<le> (T + (D * R * (?v * ?v) + ?n * R * ?v + ?n)) * ?v + ?n"
    using m v by (intro add_right_mono mult_right_mono add_left_mono) auto
  also have "\<dots> = T * ?v + D * R * (?v * ?v * ?v) + ?n * R * (?v * ?v) + ?n * ?v + ?n"
    by (simp add: algebra_simps)
  also have "\<dots> \<le> T * (?v * ?v * ?v) + D * R * (?v * ?v * ?v) + ?n * R * 2 + ?n * 2 + ?n"
  proof -
    have "1 \<le> ?v * ?v" using v mult_mono [of 1 ?v 1 ?v] by simp
    then have "T * ?v * 1 \<le> T * ?v * (?v * ?v)" using assms v by (intro mult_left_mono) auto
    then have "T * ?v \<le> T * (?v * ?v * ?v)" by (simp add: mult.assoc)
    moreover have "?n * R * (?v * ?v) \<le> ?n * R * 2"
      using n assms square_err by (intro mult_left_mono) auto
    moreover have "?n * ?v \<le> ?n * 2" using n v by (intro mult_left_mono)
    ultimately show ?thesis by linarith
  qed
  finally show ?thesis by (simp add: algebra_simps)
qed

lemma refill_capped:
  assumes "0 \<le> T" "0 \<le> D" "0 \<le> R" "0 \<le> C"
  shows "min (fl (T + fl (fl D * R))) C \<le>
    min C (T + D * R) + (4 * unit_err * C + (2 * R + 3) * tiny_err)"
proof -
  have e: "0 \<le> 4 * unit_err * C + (2 * R + 3) * tiny_err"
    using assms unit_err_pos tiny_err_pos by (intro add_nonneg_nonneg mult_nonneg_nonneg) auto
  show ?thesis
  proof (cases "C \<le> T + D * R")
    case True
    then show ?thesis using e by simp
  next
    case False
    let ?A = "T + D * R"
    have A: "0 \<le> ?A" using assms by auto
    have "?A * ((1 + unit_err) * (1 + unit_err) * (1 + unit_err)) \<le> ?A * (1 + 4 * unit_err)"
      using A cube_err by (intro mult_left_mono)
    also have "\<dots> = ?A + ?A * (4 * unit_err)" by (simp add: distrib_left)
    also have "\<dots> \<le> ?A + C * (4 * unit_err)"
      using False unit_err_pos by (intro add_left_mono mult_right_mono) auto
    finally have "fl (T + fl (fl D * R)) \<le> ?A + (4 * unit_err * C + (2 * R + 3) * tiny_err)"
      using refill_rounding [OF assms(1-3)] by (simp add: algebra_simps)
    with False show ?thesis by simp
  qed
qed

lemma spend_rounding:
  assumes "0 \<le> x" "x \<le> C"
  shows "fl x \<le> x + (unit_err * C + tiny_err)"
proof -
  have "fl x \<le> x + x * unit_err + tiny_err" using fl_upper [OF assms(1)] by (simp add: distrib_left)
  also have "x * unit_err \<le> C * unit_err" using assms by (intro mult_right_mono) auto
  finally show ?thesis by (simp add: mult.commute)
qed

text \<open>What the bucket of one key can grant at a time, and what a call grants to that key.\<close>

definition key_avail :: "string \<Rightarrow> TokenBucketRateLimiter \<Rightarrow> rat \<Rightarrow> rat" where
  "key_avail key l t =
     (case buckets l (bucket_key (rl_config l) key) of
        None \<Rightarrow> cap_of (rl_config l)
      | Some b \<Rightarrow>
          min (cap_of (rl_config l))
            (the (val (tokens b)) +
             (t - the (val (lastRefill b))) / 1000 * rate_of (rl_config l)))"

fun key_granted :: "string \<Rightarrow> TokenBucketRateLimiter \<Rightarrow> limiter_call \<Rightarrow> rat" where
  "key_granted k l (Check t key n) =
     (if key = k \<and> allowed (fst (check l (num_of_int t) key n)) then the (val n) else 0)"
| "key_granted k l (Reset t key) = 0"

fun key_call_ok :: "string \<Rightarrow> limiter_call \<Rightarrow> bool" where
  "key_call_ok k (Check t key n) = call_ok (Check t key n)"
| "key_call_ok k (Reset t key) = (valid_time t \<and> key \<noteq> k)"

definition limiter_valid :: "RateLimitConfig \<Rightarrow> TokenBucketRateLimiter \<Rightarrow> rat \<Rightarrow> bool" where
  "limiter_valid c l t \<longleftrightarrow> rl_config l = c \<and> limiter_ok \<lfloor>t\<rfloor> l \<and> 0 \<le> t"

lemma key_call_ok_call: "key_call_ok k e \<Longrightarrow> call_ok e"
  by (cases e) auto

lemma key_bucketE:
  assumes "limiter_valid c l t" "buckets l (bucket_key c k) = Some b"
  obtains T L where "val (tokens b) = Some T" "0 \<le> T" "T \<le> cap_of c"
    "lastRefill b = num_of_int L" "0 \<le> L" "of_int L \<le> t"
proof -
  have "bucket_ok c \<lfloor>t\<rfloor> b" "config_ok c"
    using assms by (auto simp: limiter_valid_def limiter_ok_def intro: ranI)
  then obtain T L where "val (tokens b) = Some T" "0 \<le> T" "T \<le> cap_of c"
    "lastRefill b = num_of_int L" "0 \<le> L" "L \<le> \<lfloor>t\<rfloor>"
    by (rule bucket_okE)
  then show thesis using that by (simp add: le_floor_iff)
qed

lemma limiter_valid_config: "limiter_valid c l t \<Longrightarrow> config_ok c \<and> rl_config l = c"
  by (auto simp: limiter_valid_def limiter_ok_def)

lemma key_avail_bounds:
  assumes v: "limiter_valid c l t"
  shows "0 \<le> key_avail k l t" "key_avail k l t \<le> cap_of c"
    "t \<le> t' \<Longrightarrow> key_avail k l t' \<le> key_avail k l t + rate_of c / 1000 * (t' - t)"
proof -
  have c: "config_ok c" "rl_config l = c" using limiter_valid_config [OF v] by auto
  note C = config_okD [OF c(1)]
  show "key_avail k l t \<le> cap_of c" using c by (auto simp: key_avail_def split: option.split)
  show "0 \<le> key_avail k l t"
  proof (cases "buckets l (bucket_key c k)")
    case (Some b)
    from key_bucketE [OF v this] obtain T L where "val (tokens b) = Some T" "0 \<le> T"
      "lastRefill b = num_of_int L" "of_int L \<le> t" by metis
    then show ?thesis using Some c C(2,5) by (simp add: key_avail_def)
  qed (use c C in \<open>simp add: key_avail_def\<close>)
  assume t: "t \<le> t'"
  then have g: "0 \<le> rate_of c / 1000 * (t' - t)" using C by simp
  show "key_avail k l t' \<le> key_avail k l t + rate_of c / 1000 * (t' - t)"
  proof (cases "buckets l (bucket_key c k)")
    case (Some b)
    from key_bucketE [OF v this] obtain T L where b: "val (tokens b) = Some T" "lastRefill b = num_of_int L"
      by metis
    define x where "x = T + (t - of_int L) / 1000 * rate_of c"
    have "T + (t' - of_int L) / 1000 * rate_of c = x + rate_of c / 1000 * (t' - t)"
      by (simp add: x_def field_simps)
    then have "key_avail k l t' = min (cap_of c) (x + rate_of c / 1000 * (t' - t))"
      "key_avail k l t = min (cap_of c) x"
      using Some c b by (simp_all add: key_avail_def x_def del: times_divide_eq_left)
    with g show ?thesis by linarith
  qed (use g c in \<open>simp add: key_avail_def\<close>)
qed

lemma key_avail_other:
  "key \<noteq> k \<Longrightarrow> key_avail k (snd (check l now key n)) t = key_avail k l t"
  "key \<noteq> k \<Longrightarrow> key_avail k (reset_key l key) t = key_avail k l t"
  using check_other_bucket [of k key l now n]
  by (auto simp: key_avail_def reset_key_def split: option.split)

text \<open>The refilled level at the time of a check is at most what is available, up to rounding.\<close>

lemma load_bucket_avail:
  assumes v: "limiter_valid c l (of_int t)" and t: "valid_time t"
    and T: "val (tokens (load_bucket l (num_of_int t) k)) = Some T"
  shows "T \<le> key_avail k l (of_int t) + (4 * unit_err * cap_of c + (2 * rate_of c + 3) * tiny_err)"
proof -
  have c: "config_ok c" "rl_config l = c" using limiter_valid_config [OF v] by auto
  note C = config_okD [OF c(1)]
  show ?thesis
  proof (cases "buckets l (bucket_key c k)")
    case None
    let ?b = "\<lparr>tokens = capacity c, lastRefill = num_of_int t\<rparr>"
    have "0 \<le> t" using t by (simp add: valid_time_def)
    then have "val (tokens (refill c ?b (num_of_int t))) = Some (min (fl (cap_of c + fl (fl 0 * rate_of c))) (cap_of c))"
      using refill_val [OF c(1) t, of t ?b "cap_of c"] C by simp
    then have "T \<le> cap_of c" using T None c by (simp add: load_bucket_def)
    moreover have "0 \<le> 4 * unit_err * cap_of c + (2 * rate_of c + 3) * tiny_err" using C by simp
    ultimately show ?thesis using None c by (simp add: key_avail_def)
  next
    case (Some b)
    from key_bucketE [OF v this] obtain U L where b: "val (tokens b) = Some U" "0 \<le> U" "U \<le> cap_of c"
      "lastRefill b = num_of_int L" "0 \<le> L" "L \<le> t" by (metis of_int_le_iff)
    have "T = min (fl (U + fl (fl (of_int (t - L) / 1000) * rate_of c))) (cap_of c)"
      using refill_val [OF c(1) t b(5,6) b(1-4)] T Some c by (simp add: load_bucket_def)
    also have "\<dots> \<le> min (cap_of c) (U + of_int (t - L) / 1000 * rate_of c)
        + (4 * unit_err * cap_of c + (2 * rate_of c + 3) * tiny_err)"
      using b C by (intro refill_capped) auto
    finally show ?thesis using Some c b by (simp add: key_avail_def)
  qed
qed

lemma key_spend:
  assumes v: "limiter_valid c l (of_int (call_time e))" and e: "key_call_ok k e"
  shows "key_avail k (limiter_step l e) (of_int (call_time e)) + key_granted k l e \<le>
    key_avail k l (of_int (call_time e)) + check_err c"
proof (cases e)
  case (Reset t key)
  have "0 \<le> check_err c"
    using config_okD [of c] limiter_valid_config [OF v] by (simp add: check_err_def)
  with Reset e show ?thesis by (simp add: key_avail_other)
next
  case (Check t key n)
  have c: "config_ok c" "rl_config l = c" using limiter_valid_config [OF v] by auto
  note C = config_okD [OF c(1)]
  have err: "0 \<le> check_err c" using C by (simp add: check_err_def)
  show ?thesis
  proof (cases "key = k \<and> allowed (fst (check l (num_of_int t) key n))")
    case False
    have "key_avail k (limiter_step l e) (of_int t) = key_avail k l (of_int t)"
    proof (cases "key = k")
      case True
      with False have "snd (check l (num_of_int t) key n) = l" using check_denied_state by blast
      then show ?thesis using Check by simp
    qed (use Check in \<open>simp add: key_avail_other\<close>)
    moreover have "key_granted k l e = 0" using False Check by auto
    ultimately show ?thesis using Check err by simp
  next
    case True
    have t: "valid_time t" and n: "num_le (Fin 0) n" using e Check by auto
    let ?b = "load_bucket l (num_of_int t) k"
    have ok: "bucket_ok c t ?b"
      using load_bucket_ok [OF _ t t order_refl, of l k] v Check c by (simp add: limiter_valid_def)
    have ge: "num_ge (tokens ?b) n" using True by (auto simp: check_allowed_iff)
    from spend_ok [OF ok c(1) n ge] obtain T N where s: "val (tokens ?b) = Some T" "val n = Some N"
      "0 \<le> N" "N \<le> T" "T \<le> cap_of c" "val (num_sub (tokens ?b) n) = Some (fl (T - N))"
      "fl (T - N) \<le> cap_of c" by metis
    have key: "key = k" and al: "allowed (fst (check l (num_of_int t) k n))" using True by auto
    have "buckets (snd (check l (num_of_int t) k n)) (bucket_key c k) =
        Some \<lparr>tokens = num_sub (tokens ?b) n, lastRefill = num_of_int t\<rparr>"
      using check_allowed_bucket [OF al] c by simp
    then have "key_avail k (limiter_step l e) (of_int t) = min (cap_of c) (fl (T - N))"
      using Check c s key by (simp add: key_avail_def)
    also have "\<dots> \<le> (T - N) + (unit_err * cap_of c + tiny_err)"
      using s spend_rounding [of "T - N" "cap_of c"] by simp
    also have "T \<le> key_avail k l (of_int t) + (4 * unit_err * cap_of c + (2 * rate_of c + 3) * tiny_err)"
      using load_bucket_avail [OF _ t s(1)] v Check by simp
    finally show ?thesis
      using True Check s by (simp add: check_err_def algebra_simps)
  qed
qed

lemma limiter_valid_step:
  assumes "limiter_valid c l t" "t \<le> of_int (call_time e)" "key_call_ok k e"
  shows "limiter_valid c (limiter_step l e) (of_int (call_time e))"
proof -
  have ok: "call_ok e" by (rule key_call_ok_call [OF assms(3)])
  then have vt: "valid_time (call_time e)" by (rule call_ok_time)
  have "\<lfloor>t\<rfloor> \<le> call_time e" "0 \<le> \<lfloor>t\<rfloor>" using assms by (auto simp: floor_le_iff limiter_valid_def)
  then have "limiter_ok (call_time e) (limiter_step l e)"
    using assms(1) vt ok by (intro limiter_step_ok [of "\<lfloor>t\<rfloor>"]) (auto simp: limiter_valid_def valid_time_def)
  then show ?thesis using assms(1) vt by (simp add: limiter_valid_def valid_time_def)
qed

locale configured_limiter =
  fixes c :: RateLimitConfig and key :: string
  assumes config: "config_ok c"

sublocale configured_limiter \<subseteq> metered_bucket limiter_step "key_granted key"
  "\<lambda>e. of_int (call_time e)" "key_call_ok key" "key_avail key" "limiter_valid c"
  "cap_of c" "rate_of c / 1000" "check_err c"
proof unfold_locales
  fix l t t' e
  show "limiter_valid c l t \<Longrightarrow> t \<le> of_int (call_time e) \<Longrightarrow> key_call_ok key e \<Longrightarrow>
      limiter_valid c (limiter_step l e) (of_int (call_time e))"
    by (rule limiter_valid_step)
  show "limiter_valid c l t \<Longrightarrow> t \<le> t' \<Longrightarrow> limiter_valid c l t'"
    by (auto simp: limiter_valid_def intro: limiter_ok_later floor_mono)
  show "limiter_valid c l t \<Longrightarrow> 0 \<le> key_avail key l t" by (rule key_avail_bounds)
  show "limiter_valid c l t \<Longrightarrow> key_avail key l t \<le> cap_of c" by (rule key_avail_bounds)
  show "limiter_valid c l t \<Longrightarrow> t \<le> t' \<Longrightarrow>
      key_avail key l t' \<le> key_avail key l t + rate_of c / 1000 * (t' - t)"
    by (rule key_avail_bounds)
  show "limiter_valid c l (of_int (call_time e)) \<Longrightarrow> key_call_ok key e \<Longrightarrow>
      key_avail key (limiter_step l e) (of_int (call_time e)) + key_granted key l e
      \<le> key_avail key l (of_int (call_time e)) + check_err c"
    by (rule key_spend)
qed

context configured_limiter
begin

lemma key_window_bound:
  "limiter_valid c l t0 \<Longrightarrow>
   in_window (\<lambda>e. of_int (call_time e)) (key_call_ok key) t0 t1 es \<Longrightarrow>
   total_granted limiter_step (key_granted key) l es \<le>
     cap_of c + rate_of c / 1000 * (t1 - t0) + check_err c * of_nat (length es)"
  by (rule window_bound)

end

subsection \<open>The exact regime\<close>

text \<open>
  With an integral configuration, integral requests and a clock that advances by whole seconds,
  no operation of a check rounds, and the bucket is the ideal one over the integers.
\<close>

definition ideal_refill :: "int \<Rightarrow> int \<Rightarrow> int \<Rightarrow> int \<Rightarrow> int" where
  "ideal_refill C R T d = min (T + d * R) C"

definition exact_limiter :: "TokenBucketRateLimiter \<Rightarrow> string \<Rightarrow> int \<Rightarrow> int \<Rightarrow> int \<Rightarrow> int \<Rightarrow> bool" where
  "exact_limiter l key C R T L \<longleftrightarrow>
     capacity (rl_config l) = num_of_int C \<and> refillRate (rl_config l) = num_of_int R \<and>
     buckets l (bucket_key (rl_config l) key) = Some \<lparr>tokens = num_of_int T, lastRefill = num_of_int L\<rparr> \<and>
     0 \<le> T \<and> T \<le> C \<and> C \<le> 2 ^ 50 \<and> 0 < R \<and> R \<le> 2 ^ 50"

lemma load_exact:
  assumes x: "exact_limiter l key C R T L"
    and d: "0 \<le> d" "d * R \<le> 2 ^ 52" "d \<le> 2 ^ 40"
  shows "load_bucket l (num_of_int (L + 1000 * d)) key =
    \<lparr>tokens = num_of_int (ideal_refill C R T d), lastRefill = num_of_int (L + 1000 * d)\<rparr>"
proof -
  note X = x [unfolded exact_limiter_def]
  have "num_sub (num_of_int (L + 1000 * d)) (num_of_int L) = num_of_int (1000 * d)"
    using d num_sub_int [of "L + 1000 * d" L] by simp
  moreover have "num_div (num_of_int (1000 * d)) (num_of_int 1000) = num_of_int d"
    using d by (intro num_div_int) auto
  moreover have "num_mul (num_of_int d) (num_of_int R) = num_of_int (d * R)"
    using d X by (intro num_mul_int) auto
  moreover have "num_add (num_of_int T) (num_of_int (d * R)) = num_of_int (T + d * R)"
    using d X by (intro num_add_int) (auto simp: abs_le_iff)
  moreover have "num_min (num_of_int (T + d * R)) (num_of_int C) = num_of_int (ideal_refill C R T d)"
    unfolding ideal_refill_def by (rule num_min_int)
  ultimately show ?thesis
    using X by (simp only: load_bucket_def refill_def option.case Let_def BucketState.simps)
qed

lemma check_exact:
  assumes x: "exact_limiter l key C R T L"
    and d: "0 \<le> d" "d * R \<le> 2 ^ 52" "d \<le> 2 ^ 40" and N: "0 \<le> N" "N \<le> 2 ^ 50"
  defines "U \<equiv> ideal_refill C R T d"
  shows "allowed (fst (check l (num_of_int (L + 1000 * d)) key (num_of_int N))) \<longleftrightarrow> N \<le> U"
    and "N \<le> U \<Longrightarrow> exact_limiter (snd (check l (num_of_int (L + 1000 * d)) key (num_of_int N))) key
           C R (U - N) (L + 1000 * d)"
    and "N \<le> U \<Longrightarrow> remaining (fst (check l (num_of_int (L + 1000 * d)) key (num_of_int N))) = num_of_int (U - N)"
    and "U < N \<Longrightarrow> retryAfter (fst (check l (num_of_int (L + 1000 * d)) key (num_of_int N))) =
           Some (num_of_int \<lceil>of_int (N - U) / (of_int R :: rat)\<rceil>)"
proof -
  note X = x [unfolded exact_limiter_def] and ld = load_exact [OF x d, folded U_def]
  have "0 \<le> d * R" using d X by simp
  then have U: "0 \<le> U" "U \<le> C" using X by (auto simp: U_def ideal_refill_def)
  show al: "allowed (fst (check l (num_of_int (L + 1000 * d)) key (num_of_int N))) \<longleftrightarrow> N \<le> U"
    unfolding check_allowed_iff ld by (simp only: BucketState.simps num_le_int)
  have sub: "num_sub (num_of_int U) (num_of_int N) = num_of_int (U - N)" if "N \<le> U"
    using that U N X by (intro num_sub_int) auto
  show "exact_limiter (snd (check l (num_of_int (L + 1000 * d)) key (num_of_int N))) key C R (U - N) (L + 1000 * d)"
    if "N \<le> U"
    using that al check_allowed_bucket [of l "num_of_int (L + 1000 * d)" key "num_of_int N"] X U N
    unfolding exact_limiter_def check_config ld BucketState.simps sub [OF that] by simp
  show "remaining (fst (check l (num_of_int (L + 1000 * d)) key (num_of_int N))) = num_of_int (U - N)"
    if "N \<le> U"
    using that unfolding check_def Let_def ld BucketState.simps num_le_int
    by (simp only: if_True fst_conv RateLimitResult.simps BucketState.simps sub num_floor_int)
  show "retryAfter (fst (check l (num_of_int (L + 1000 * d)) key (num_of_int N))) =
      Some (num_of_int \<lceil>of_int (N - U) / (of_int R :: rat)\<rceil>)" if "U < N"
  proof -
    have "\<bar>N - U\<bar> \<le> 2 ^ 53" using that U N by simp
    then have "num_sub (num_of_int N) (num_of_int U) = num_of_int (N - U)" by (rule num_sub_int)
    moreover have "val (num_div (num_of_int (N - U)) (num_of_int R)) =
        Some (fl (of_int (N - U) / of_int R))"
    proof (rule val_div)
      have "1 \<le> (of_int R :: rat)" using X by simp
      then have "of_int (N - U) / of_int R \<le> (of_int (N - U) / 1 :: rat)"
        using that by (intro divide_left_mono) auto
      also have "\<dots> \<le> fin_bound" using int_le_fin_bound [OF \<open>\<bar>N - U\<bar> \<le> 2 ^ 53\<close>] by simp
      finally show "\<bar>of_int (N - U) / (of_int R :: rat)\<bar> \<le> fin_bound"
        using that X by (simp add: abs_of_nonneg)
    qed (use X in auto)
    ultimately have v: "val (num_div (num_sub (num_of_int N) (num_of_int U)) (num_of_int R)) =
        Some (fl (of_int (N - U) / of_int R))" by simp
    have "0 < \<lceil>of_int (N - U) / (of_int R :: rat)\<rceil>"
      using that X by (simp add: zero_less_divide_iff)
    then have pos: "0 < \<lceil>fl (of_int (N - U) / of_int R)\<rceil>"
      using that X U N by (subst ceiling_fl_div) auto
    then have "0 < fl (of_int (N - U) / of_int R)" by simp
    then have "num_ceil (num_div (num_sub (num_of_int N) (num_of_int U)) (num_of_int R)) =
        num_of_int \<lceil>fl (of_int (N - U) / of_int R)\<rceil>"
      using v by (cases "num_div (num_sub (num_of_int N) (num_of_int U)) (num_of_int R)") auto
    also have "\<lceil>fl (of_int (N - U) / of_int R)\<rceil> = \<lceil>of_int (N - U) / (of_int R :: rat)\<rceil>"
      using that X U N by (intro ceiling_fl_div) auto
    finally show ?thesis
      using that X unfolding check_def Let_def ld BucketState.simps num_le_int by simp
  qed
qed

lemma is_double_int: "\<bar>n\<bar> \<le> 2 ^ 53 \<Longrightarrow> is_double (num_of_int n)"
  using abs_int_le_fin_bound [of n] fin_bound_pos unfolding pow2_1024 is_double.simps
  by (simp add: fl_int del: fin_bound_pos)

lemma int_le_pow2_100: "n \<le> 2 ^ 50 \<Longrightarrow> of_int n \<le> pow2 100"
proof -
  assume "n \<le> 2 ^ 50"
  then have "(of_int n :: rat) \<le> of_int (2 ^ 50)" by (simp only: of_int_le_iff)
  also have "\<dots> = pow2 50" using pow2_nat [of 50] by simp
  also have "\<dots> \<le> pow2 100" by simp
  finally show ?thesis .
qed

lemma config_ok_int:
  "capacity c = num_of_int C \<Longrightarrow> refillRate c = num_of_int R \<Longrightarrow>
   0 \<le> C \<Longrightarrow> C \<le> 2 ^ 50 \<Longrightarrow> 0 \<le> R \<Longrightarrow> R \<le> 2 ^ 50 \<Longrightarrow> config_ok c"
  by (simp add: config_ok_def is_double_int int_le_pow2_100 del: is_double.simps)

text \<open>The limiter the control plane builds when it is given no configuration.\<close>

definition default_rate_limit :: RateLimitOptions where
  "default_rate_limit =
     \<lparr>opt_capacity = num_of_int 100, opt_refillRate = num_of_int 10, opt_keyPrefix = Absent\<rparr>"

lemma default_config_ok: "config_ok (rl_config (new_limiter default_rate_limit))"
  by (rule config_ok_int [of _ 100 10]) (simp_all add: new_limiter_def default_rate_limit_def)

interpretation default_limiter: configured_limiter "rl_config (new_limiter default_rate_limit)" key
  for key
  by unfold_locales (rule default_config_ok)

subsection \<open>Properties\<close>

text \<open>C21: In every run of checks and resets from a fresh limiter, with clock readings that never
  go back and requests that are not negative, every stored bucket holds at least zero and at most
  \<open>capacity\<close> tokens, in spite of the rounding of every operation.\<close>

theorem limiter_invariant:
  assumes "config_ok (rl_config (new_limiter opts))" and "valid_time t" and "ordered_from t es"
    and "b \<in> ran (buckets (foldl limiter_step (new_limiter opts) es))"
  shows "num_le (Fin 0) (tokens b) \<and> num_le (tokens b) (opt_capacity opts)"
proof -
  obtain t' where "limiter_ok t' (foldl limiter_step (new_limiter opts) es)"
    using limiter_run_ok [OF new_limiter_ok [OF assms(1)] assms(2,3)] by blast
  then show ?thesis
    using assms(4) by (auto simp: limiter_ok_def bucket_ok_def new_limiter_def)
qed

theorem limiter_invariant_witness:
  "\<exists>b \<in> ran (buckets (foldl limiter_step (new_limiter default_rate_limit) [Check 0 ''a'' (num_of_int 1)])).
     num_le (Fin 0) (tokens b) \<and> num_le (tokens b) (num_of_int 100)"
proof -
  let ?l = "foldl limiter_step (new_limiter default_rate_limit) [Check 0 ''a'' (num_of_int 1)]"
  have al: "allowed (fst (check (new_limiter default_rate_limit) (num_of_int 0) ''a'' (num_of_int 1)))"
    by (simp add: check_allowed_iff load_bucket_def refill_def new_limiter_def default_rate_limit_def
      num_eval round_to_def fl_int [of 100, simplified])
  then obtain b where b: "b \<in> ran (buckets ?l)"
    using check_allowed_bucket [OF al] by (auto intro: ranI)
  have "num_le (Fin 0) (tokens b) \<and> num_le (tokens b) (opt_capacity default_rate_limit)"
    by (rule limiter_invariant [OF default_config_ok, of 0, OF _ _ b]) (simp_all add: valid_time_def max_time_def)
  with b show ?thesis by (auto simp: default_rate_limit_def)
qed

text \<open>C2: In any window of time, whatever the other keys do, the requests granted to one key sum
  to at most the capacity plus the refill rate times the length of the window, plus an explicit
  rounding allowance per call (a few units in the last place of the capacity).\<close>

theorem window_grants_bounded:
  assumes "limiter_ok \<lfloor>t0\<rfloor> l" and "0 \<le> t0"
    and "in_window (\<lambda>e. of_int (call_time e)) (key_call_ok key) t0 t1 es"
  shows "total_granted limiter_step (key_granted key) l es \<le>
    cap_of (rl_config l) + rate_of (rl_config l) / 1000 * (t1 - t0)
      + check_err (rl_config l) * of_nat (length es)"
proof -
  have "configured_limiter (rl_config l)"
    using assms(1) by (simp add: configured_limiter_def limiter_ok_def)
  then show ?thesis
    using assms configured_limiter.key_window_bound [of "rl_config l" l t0 key t1 es]
    by (simp add: limiter_valid_def)
qed

theorem window_grants_bounded_witness:
  "total_granted limiter_step (key_granted ''a'') (new_limiter default_rate_limit)
     [Check 0 ''a'' (num_of_int 60), Check 500 ''b'' (num_of_int 7), Check 1000 ''a'' (num_of_int 60)]
   \<le> 100 + 10 / 1000 * 1000 + check_err (rl_config (new_limiter default_rate_limit)) * 3"
proof -
  have "limiter_ok \<lfloor>0::rat\<rfloor> (new_limiter default_rate_limit)"
    by (rule new_limiter_ok [OF default_config_ok])
  from window_grants_bounded [OF this, of "''a''" 1000
      "[Check 0 ''a'' (num_of_int 60), Check 500 ''b'' (num_of_int 7), Check 1000 ''a'' (num_of_int 60)]"]
  show ?thesis
    by (simp add: valid_time_def max_time_def cap_of_def rate_of_def default_rate_limit_def
        new_limiter_def del: total_granted.simps)
qed

text \<open>What the checks of one key return in a sequence of calls.\<close>

fun call_key :: "limiter_call \<Rightarrow> string" where
  "call_key (Check t key n) = key"
| "call_key (Reset t key) = key"

fun key_results :: "string \<Rightarrow> TokenBucketRateLimiter \<Rightarrow> limiter_call list \<Rightarrow> RateLimitResult list" where
  "key_results k l [] = []"
| "key_results k l (Check t key n # cs) =
     (let (res, l') = check l (num_of_int t) key n in if key = k then res # key_results k l' cs else key_results k l' cs)"
| "key_results k l (Reset t key # cs) = key_results k (reset_key l key) cs"

definition agree_on :: "string \<Rightarrow> TokenBucketRateLimiter \<Rightarrow> TokenBucketRateLimiter \<Rightarrow> bool" where
  "agree_on k l l' \<longleftrightarrow> rl_config l = rl_config l' \<and> buckets l (bucket_key (rl_config l) k) = buckets l' (bucket_key (rl_config l) k)"

lemma agree_on_check:
  assumes "agree_on k l l'"
  shows "fst (check l t k n) = fst (check l' t k n)" "agree_on k (snd (check l t k n)) (snd (check l' t k n))"
proof -
  have "load_bucket l t k = load_bucket l' t k" using assms by (auto simp: agree_on_def load_bucket_def split: option.split)
  then show "fst (check l t k n) = fst (check l' t k n)" "agree_on k (snd (check l t k n)) (snd (check l' t k n))"
    using assms by (auto simp: agree_on_def check_def Let_def)
qed

lemma agree_on_other: "call_key e \<noteq> k \<Longrightarrow> agree_on k l l' \<Longrightarrow> agree_on k (limiter_step l e) l'"
  by (cases e) (auto simp: agree_on_def reset_key_def check_def Let_def)

lemma agree_on_reset: "agree_on k l l' \<Longrightarrow> agree_on k (reset_key l k) (reset_key l' k)"
  by (simp add: agree_on_def reset_key_def)

lemma agree_on_results:
  "agree_on k l l' \<Longrightarrow> key_results k l cs = key_results k l' (filter (\<lambda>c. call_key c = k) cs) \<and>
   agree_on k (foldl limiter_step l cs) (foldl limiter_step l' (filter (\<lambda>c. call_key c = k) cs))"
proof (induction cs arbitrary: l l')
  case (Cons c cs)
  show ?case
  proof (cases "call_key c = k")
    case False
    then show ?thesis
      using Cons.IH [OF agree_on_other [OF False Cons.prems]] by (cases c) (simp_all add: split_beta)
  next
    case True
    show ?thesis
    proof (cases c)
      case (Check t key n)
      then show ?thesis
        using True agree_on_check [OF Cons.prems, of "num_of_int t" n] Cons.IH
          [of "snd (check l (num_of_int t) k n)" "snd (check l' (num_of_int t) k n)"]
        by (simp add: split_beta)
    next
      case (Reset t key)
      then show ?thesis using True Cons.IH [OF agree_on_reset [OF Cons.prems]] by simp
    qed
  qed
qed simp

text \<open>C40: Keys are isolated: in every sequence of checks and resets over any keys, what the checks of
  one key return, and the bucket that key ends with, are the same as when only the calls for that
  key are made. No caller can spend, refill or reset the tokens of another.\<close>

theorem keys_isolated:
  "key_results k l cs = key_results k l (filter (\<lambda>c. call_key c = k) cs) \<and>
   buckets (foldl limiter_step l cs) (bucket_key (rl_config l) k) =
   buckets (foldl limiter_step l (filter (\<lambda>c. call_key c = k) cs)) (bucket_key (rl_config l) k)"
proof -
  have "agree_on k l l" by (simp add: agree_on_def)
  from agree_on_results [OF this, of cs] show ?thesis
    by (simp add: agree_on_def)
qed

text \<open>C17: With integral settings and a clock that advances by whole seconds the limiter computes
  exactly the ideal token bucket: it admits a request precisely when the refilled integer level
  covers it, reports and stores the difference, and otherwise asks for the exact waiting time.\<close>

theorem check_refines_ideal:
  assumes "exact_limiter l key C R T L"
    and "0 \<le> d" "d * R \<le> 2 ^ 52" "d \<le> 2 ^ 40" and "0 \<le> N" "N \<le> 2 ^ 50"
  shows "let (r, l') = check l (num_of_int (L + 1000 * d)) key (num_of_int N);
             U = ideal_refill C R T d
         in if N \<le> U
            then allowed r \<and> remaining r = num_of_int (U - N) \<and> retryAfter r = None \<and>
                 exact_limiter l' key C R (U - N) (L + 1000 * d)
            else \<not> allowed r \<and> l' = l \<and>
                 retryAfter r = Some (num_of_int \<lceil>of_int (N - U) / (of_int R :: rat)\<rceil>)"
proof -
  note e = check_exact [OF assms]
  let ?r = "check l (num_of_int (L + 1000 * d)) key (num_of_int N)"
  have "allowed (fst ?r) \<Longrightarrow> retryAfter (fst ?r) = None"
    by (auto simp: check_def Let_def split: if_splits)
  with e show ?thesis
    using check_denied_state [of l "num_of_int (L + 1000 * d)" key "num_of_int N"]
    by (cases ?r) (simp add: Let_def del: of_int_add of_int_mult of_int_diff)
qed

definition sample_limiter :: TokenBucketRateLimiter where
  "sample_limiter = \<lparr>rl_config = \<lparr>capacity = num_of_int 10, refillRate = num_of_int 2, keyPrefix = Some ''ratelimit''\<rparr>,
     buckets = [''ratelimit:user1'' \<mapsto> \<lparr>tokens = num_of_int 1, lastRefill = num_of_int 5000\<rparr>]\<rparr>"

lemma sample_exact: "exact_limiter sample_limiter ''user1'' 10 2 1 5000"
  by (simp add: exact_limiter_def sample_limiter_def bucket_key_def)

theorem check_refines_ideal_witness:
  "allowed (fst (check sample_limiter (num_of_int 7000) ''user1'' (num_of_int 3))) \<and>
   remaining (fst (check sample_limiter (num_of_int 7000) ''user1'' (num_of_int 3))) = num_of_int 2"
  using check_refines_ideal [OF sample_exact, of 2 3] by (simp add: Let_def ideal_refill_def split: prod.splits)

text \<open>C27: In the same regime the advice of a denied check is exact: a retry after
  \<open>retryAfter\<close> seconds is admitted when nobody else uses the key meanwhile, and a retry after any
  smaller whole number of seconds is denied.\<close>

theorem retry_after_exact:
  assumes x: "exact_limiter l key C R T L"
    and d: "0 \<le> d" "d * R \<le> 2 ^ 50" "d \<le> 2 ^ 39" and N: "0 \<le> N" "N \<le> C" and C: "C \<le> 2 ^ 39"
    and denied: "\<not> allowed (fst (check l (num_of_int (L + 1000 * d)) key (num_of_int N)))"
  shows "\<exists>k. retryAfter (fst (check l (num_of_int (L + 1000 * d)) key (num_of_int N))) = Some (num_of_int k) \<and>
    0 < k \<and>
    allowed (fst (check l (num_of_int (L + 1000 * (d + k))) key (num_of_int N))) \<and>
    (\<forall>j. 0 \<le> j \<and> j < k \<longrightarrow>
       \<not> allowed (fst (check l (num_of_int (L + 1000 * (d + j))) key (num_of_int N))))"
proof -
  note X = x [unfolded exact_limiter_def]
  define U where "U = ideal_refill C R T d"
  define k where "k = \<lceil>of_int (N - U) / (of_int R :: rat)\<rceil>"
  have lt: "U < N" using check_exact(1) [OF x d(1), of N] d N C denied by (simp add: U_def)
  then have U: "U = T + d * R" using N by (simp add: U_def ideal_refill_def min_def split: if_splits)
  have R: "0 < R" "0 \<le> T" "1 \<le> R" using X by auto
  have k_iff: "k \<le> j \<longleftrightarrow> N - U \<le> j * R" for j
  proof -
    have "k \<le> j \<longleftrightarrow> (of_int (N - U) :: rat) \<le> of_int (j * R)"
      using R by (simp add: k_def ceiling_le_iff divide_le_eq)
    then show ?thesis by (simp only: of_int_le_iff)
  qed
  have k: "0 < k" using k_iff [of 0] lt by auto
  have "N - U \<le> (N - U) * R" using lt R by simp
  then have kN: "k \<le> N - U" using k_iff by blast
  have kR: "k * R < N - U + R" using k_iff [of "k - 1"] by (simp add: algebra_simps)
  have dR: "0 \<le> d * R" using d R by simp
  have later: "allowed (fst (check l (num_of_int (L + 1000 * (d + j))) key (num_of_int N))) \<longleftrightarrow> k \<le> j"
    if j: "0 \<le> j" "j \<le> k" for j
  proof -
    have jR: "j * R \<le> k * R" using j R by simp
    have RC: "R \<le> 2 ^ 50" using X by simp
    have "(d + j) * R \<le> d * R + k * R" using jR by (simp add: distrib_right)
    also have "\<dots> \<le> d * R + (N - U + R)" using kR by simp
    also have "\<dots> \<le> 2 ^ 52" using U R(2) dR d(2) N C RC by simp
    finally have b: "(d + j) * R \<le> 2 ^ 52" .
    have "d + j \<le> 2 ^ 40" using j kN U R(2) dR d(3) N C by simp
    note b = b this
    have "allowed (fst (check l (num_of_int (L + 1000 * (d + j))) key (num_of_int N))) \<longleftrightarrow>
        N \<le> min (T + (d + j) * R) C"
      using check_exact(1) [OF x _ b] d(1) j N C by (simp add: ideal_refill_def)
    also have "\<dots> \<longleftrightarrow> N - U \<le> j * R" using N U by (auto simp: distrib_right)
    finally show ?thesis using k_iff by simp
  qed
  have "retryAfter (fst (check l (num_of_int (L + 1000 * d)) key (num_of_int N))) = Some (num_of_int k)"
    using check_exact(4) [OF x d(1), of N] d N C lt by (simp add: U_def k_def)
  then show ?thesis using k later by (intro exI [of _ k]) auto
qed

theorem retry_after_exact_witness:
  "\<exists>k. retryAfter (fst (check sample_limiter (num_of_int 6000) ''user1'' (num_of_int 8))) = Some (num_of_int k) \<and>
    0 < k \<and> allowed (fst (check sample_limiter (num_of_int (5000 + 1000 * (1 + k))) ''user1'' (num_of_int 8)))"
proof -
  have "\<not> allowed (fst (check sample_limiter (num_of_int (5000 + 1000 * 1)) ''user1'' (num_of_int 8)))"
    using check_exact(1) [OF sample_exact, of 1 8] by (simp add: ideal_refill_def)
  from retry_after_exact [OF sample_exact _ _ _ _ _ _ this] show ?thesis by auto
qed

text \<open>A request for more tokens than the capacity is never admitted, at no time, although the
  denial names a finite number of seconds after which to retry.\<close>

theorem oversize_never_admitted:
  assumes "limiter_ok t l" "valid_time t" "valid_time t'" "t \<le> t'"
    and "num_less (capacity (rl_config l)) n"
  shows "\<not> allowed (fst (check l (num_of_int t') key n))"
proof
  assume "allowed (fst (check l (num_of_int t') key n))"
  then have "num_ge (tokens (load_bucket l (num_of_int t') key)) n" by (simp add: check_allowed_iff)
  moreover have "num_le (tokens (load_bucket l (num_of_int t') key)) (capacity (rl_config l))"
    using load_bucket_ok [OF assms(1-4), of key] by (simp add: bucket_ok_def)
  ultimately show False
    using assms(5)
    by (cases n; cases "capacity (rl_config l)"; cases "tokens (load_bucket l (num_of_int t') key)") auto
qed

theorem oversize_never_admitted_witness:
  "\<not> allowed (fst (check (new_limiter default_rate_limit) (num_of_int 7) ''a'' (num_of_int 101)))"
  by (rule oversize_never_admitted [of 0 _ 7, OF new_limiter_ok [OF default_config_ok]])
     (simp_all add: valid_time_def max_time_def new_limiter_def default_rate_limit_def)

definition drained_limiter :: TokenBucketRateLimiter where
  "drained_limiter = \<lparr>rl_config = \<lparr>capacity = Fin 100, refillRate = Fin (fl (7 / 10)), keyPrefix = Some ''ratelimit''\<rparr>,
     buckets = [''ratelimit:u'' \<mapsto> \<lparr>tokens = Fin 0, lastRefill = Fin 0\<rparr>]\<rparr>"

lemma fl_rate_07:
  "fl (7 / 10) = 3152519739159347 / 4503599627370496"
  "fl (283726776524341248 / 3152519739159347) = 90"
  "fl (141863388262170615 / 2251799813685248) = 8866461766385663 / 140737488355328"
  "fl (8866461766385663 / 140737488355328) = 8866461766385663 / 140737488355328"
  "fl 90000 = 90000" "fl 90 = 90" "fl 63 = 63"
  by code_simp+

lemma below_overflow: "x \<le> 90000 \<Longrightarrow> \<not> pow2 1024 \<le> (x :: rat)"
proof -
  assume "x \<le> 90000"
  moreover have "(90000::rat) < pow2 1024" by (simp add: pow2_def)
  ultimately show ?thesis by simp
qed

lemma drained_levels:
  "tokens (load_bucket drained_limiter (Fin 0) ''u'') = Fin 0"
  "tokens (load_bucket drained_limiter (Fin 90000) ''u'') = Fin (8866461766385663 / 140737488355328)"
  by (simp_all add: load_bucket_def drained_limiter_def bucket_key_def refill_def num_eval
      round_to_def Let_def fl_rate_07 below_overflow
      below_overflow [of "8866461766385663 / 140737488355328", simplified])

text \<open>The waiting time is not always enough: with a capacity of 100 and a refill rate of 0.7
  tokens per second, an empty bucket denies 63 tokens with the advice to retry after 90 seconds,
  and 90 seconds later rounding leaves the level just below 63, so the retry is denied again.\<close>

theorem retry_after_too_short:
  "\<not> allowed (fst (check drained_limiter (Fin 0) ''u'' (Fin 63))) \<and>
   retryAfter (fst (check drained_limiter (Fin 0) ''u'' (Fin 63))) = Some (Fin 90) \<and>
   \<not> allowed (fst (check drained_limiter (Fin 90000) ''u'' (Fin 63)))"
proof -
  have "num_ceil (num_div (num_sub (Fin 63) (Fin 0)) (refillRate (rl_config drained_limiter))) = Fin 90"
    by (simp add: drained_limiter_def num_eval round_to_def Let_def fl_rate_07 below_overflow)
  then show ?thesis
    by (simp add: check_def Let_def drained_levels)
qed

end
