(* ===== verification/NumberText.thy ===== *)
theory NumberText
  imports JsNumber
begin

text \<open>
  \<open>Number::toString\<close> of the language, which \<open>JSON.stringify\<close> applies to a finite number: the shortest
  decimal that rounds to the number, in positional or exponent notation. The lemmas show that
  seventeen digits always suffice and that reading a text back and rounding gives the number,
  so that different numbers have different texts.
\<close>

subsection \<open>Decimal digits\<close>

definition digit_char :: "int \<Rightarrow> char" where
  "digit_char d = char_of (48 + d)"

function dec :: "int \<Rightarrow> string" where
  "dec n = (if n < 10 then [digit_char n] else dec (n div 10) @ [digit_char (n mod 10)])"
  by auto
termination by (relation "measure nat") auto

declare dec.simps [simp del]

definition is_digit :: "char \<Rightarrow> bool" where
  "is_digit c \<longleftrightarrow> 48 \<le> (of_char c :: int) \<and> (of_char c :: int) \<le> 57"

definition digit_val :: "char \<Rightarrow> int" where
  "digit_val c = of_char c - 48"

definition undec :: "string \<Rightarrow> int" where
  "undec cs = foldl (\<lambda>n c. 10 * n + digit_val c) 0 cs"

lemma undec_simps [simp]: "undec [] = 0" "undec [c] = digit_val c"
  by (simp_all add: undec_def)

lemma of_digit_char: "0 \<le> d \<Longrightarrow> d < 10 \<Longrightarrow> of_char (digit_char d) = 48 + d"
  by (simp add: digit_char_def)

lemma digit_char_val [simp]: "0 \<le> d \<Longrightarrow> d < 10 \<Longrightarrow> digit_val (digit_char d) = d"
  by (simp add: digit_val_def of_digit_char)

lemma digit_char_digit [simp]: "0 \<le> d \<Longrightarrow> d < 10 \<Longrightarrow> is_digit (digit_char d)"
  by (simp add: is_digit_def of_digit_char)

lemma dec_digits: "0 \<le> n \<Longrightarrow> c \<in> set (dec n) \<Longrightarrow> is_digit c"
proof (induction n arbitrary: c rule: dec.induct)
  case (1 n)
  then show ?case by (subst (asm) (2) dec.simps) (auto split: if_splits)
qed

lemma undec_append: "undec (xs @ ys) = undec xs * 10 ^ length ys + undec ys"
proof -
  have shift: "foldl (\<lambda>n c. 10 * n + digit_val c) a ys =
      a * 10 ^ length ys + foldl (\<lambda>n c. 10 * n + digit_val c) 0 ys" for a
  proof (induction ys arbitrary: a)
    case (Cons y ys)
    show ?case using Cons.IH [of "10 * a + digit_val y"] Cons.IH [of "digit_val y"] by (simp add: algebra_simps)
  qed simp
  show ?thesis using shift [of "foldl (\<lambda>n c. 10 * n + digit_val c) 0 xs"] by (simp add: undec_def)
qed

lemma undec_dec: "0 \<le> n \<Longrightarrow> undec (dec n) = n"
proof (induction n rule: dec.induct)
  case (1 n)
  show ?case
  proof (cases "n < 10")
    case True
    then show ?thesis using 1(2) by (simp add: dec.simps)
  next
    case False
    then show ?thesis
      using 1 undec_append [of "dec (n div 10)" "[digit_char (n mod 10)]"] by (subst dec.simps) simp
  qed
qed

lemma undec_zeros [simp]: "undec (replicate n CHR ''0'') = 0"
proof (induction n)
  case (Suc n)
  have "undec (CHR ''0'' # replicate n CHR ''0'') = undec [CHR ''0''] * 10 ^ n + undec (replicate n CHR ''0'')"
    using undec_append [of "[CHR ''0'']" "replicate n CHR ''0''"] by simp
  then show ?case using Suc by (simp add: digit_val_def)
qed simp

lemma dec_nonempty [simp]: "dec n \<noteq> []"
  by (subst dec.simps) simp

lemma dec_length: "0 < n \<Longrightarrow> 10 ^ (length (dec n) - 1) \<le> n \<and> n < 10 ^ length (dec n)"
proof (induction n rule: dec.induct)
  case (1 n)
  show ?case
  proof (cases "n < 10")
    case True
    then show ?thesis using 1(2) by (simp add: dec.simps)
  next
    case False
    then have IH: "10 ^ (length (dec (n div 10)) - 1) \<le> n div 10" "n div 10 < 10 ^ length (dec (n div 10))"
      using 1 by auto
    obtain l where l: "length (dec (n div 10)) = Suc l" using dec_nonempty by (metis length_0_conv not0_implies_Suc)
    have "length (dec n) = Suc (Suc l)" using False l by (subst dec.simps) simp
    then show ?thesis using IH l by (simp; linarith)
  qed
qed

subsection \<open>Powers of ten and the decimal exponent\<close>

definition pow10 :: "int \<Rightarrow> rat" where
  "pow10 k = (if 0 \<le> k then of_int (10 ^ nat k) else 1 / of_int (10 ^ nat (- k)))"

lemma pow10_powi: "pow10 k = 10 powi k"
  by (simp add: pow10_def power_int_def inverse_eq_divide power_one_over)

lemma pow10_pos [simp]: "0 < pow10 k"
  by (simp add: pow10_powi)

lemma pow10_nonneg [simp]: "0 \<le> pow10 k"
  by (simp add: less_imp_le)

lemma pow10_add: "pow10 (a + b) = pow10 a * pow10 b"
  by (simp add: pow10_powi power_int_add)

lemma pow10_diff: "pow10 (a - b) = pow10 a / pow10 b"
  by (simp add: pow10_powi power_int_diff)

lemma pow10_minus: "pow10 (- a) = 1 / pow10 a"
  by (simp add: pow10_powi power_int_minus inverse_eq_divide)

lemma pow10_nat: "pow10 (int n) = 10 ^ n"
  by (simp add: pow10_def)

lemma pow10_0 [simp]: "pow10 0 = 1"
  by (simp add: pow10_def)

text \<open>\<open>dexp x\<close> is the number of digits before the decimal point: \<open>10 ^ (n - 1) \<le> x < 10 ^ n\<close>.\<close>

definition dexp :: "rat \<Rightarrow> int" where
  "dexp x =
     (if 1 \<le> x then int (length (dec \<lfloor>x\<rfloor>))
      else 1 - int (length (dec (\<lceil>1 / x\<rceil> - 1))))"

lemma dexp_bounds:
  assumes "0 < x"
  shows "pow10 (dexp x - 1) \<le> x" "x < pow10 (dexp x)"
proof -
  have "pow10 (dexp x - 1) \<le> x \<and> x < pow10 (dexp x)"
  proof (cases "1 \<le> x")
    case True
    define m where "m = \<lfloor>x\<rfloor>"
    have m: "0 < m" "of_int m \<le> x" "x < of_int m + 1"
      using True by (simp_all add: m_def) linarith+
    note b = dec_length [OF m(1)]
    have "(10 :: rat) ^ (length (dec m) - 1) \<le> of_int m"
      using b by (metis of_int_le_iff of_int_numeral of_int_power)
    moreover have "of_int m + 1 \<le> (10 :: rat) ^ length (dec m)"
    proof -
      have "m + 1 \<le> 10 ^ length (dec m)" using b by simp
      then have "of_int (m + 1) \<le> (of_int (10 ^ length (dec m)) :: rat)" by (simp only: of_int_le_iff)
      then show ?thesis by simp
    qed
    moreover have "dexp x - 1 = int (length (dec m) - 1)" "dexp x = int (length (dec m))"
      using True m(1) dec_nonempty [of m] by (simp_all add: dexp_def m_def of_nat_diff Suc_le_eq)
    ultimately show ?thesis using m by (simp only: pow10_nat) linarith
  next
    case False
    define q where "q = \<lceil>1 / x\<rceil> - 1"
    have inv: "1 < 1 / x" using False assms by simp
    then have q: "0 < q" "of_int q < 1 / x" "1 / x \<le> of_int q + 1"
      unfolding q_def by linarith+
    note b = dec_length [OF q(1)]
    define j where "j = length (dec q) - 1"
    have len: "length (dec q) = Suc j" using dec_nonempty [of q] by (simp add: j_def Suc_diff_le Suc_le_eq)
    have "(10 :: rat) ^ j \<le> of_int q"
      using b len by (metis diff_Suc_1 of_int_le_iff of_int_numeral of_int_power)
    then have lo: "10 ^ j < 1 / x" using q by linarith
    have "q + 1 \<le> 10 ^ Suc j" using b len by simp
    then have "of_int (q + 1) \<le> (of_int (10 ^ Suc j) :: rat)" by (simp only: of_int_le_iff)
    then have hi: "1 / x \<le> 10 ^ Suc j" using q by simp
    have d: "dexp x = - int j" using False len by (simp add: dexp_def q_def)
    have "x < 1 / 10 ^ j" using lo assms by (simp add: field_simps)
    moreover have "1 / 10 ^ Suc j \<le> x" using hi assms by (simp add: field_simps)
    moreover have "dexp x = 0 - int j" "dexp x - 1 = 0 - int (Suc j)" by (simp_all add: d)
    then have "pow10 (dexp x) = 1 / 10 ^ j" "pow10 (dexp x - 1) = 1 / 10 ^ Suc j"
      by (simp_all only: pow10_diff pow10_nat pow10_0)
    ultimately show ?thesis by simp
  qed
  then show "pow10 (dexp x - 1) \<le> x" "x < pow10 (dexp x)" by simp_all
qed

subsection \<open>The shortest decimal\<close>

text \<open>
  \<open>candidate k n x\<close> is the integer \<open>s\<close> of \<open>k\<close> digits for which \<open>s * 10 ^ (n - k)\<close> rounds to \<open>x\<close>, the
  closer one to \<open>x\<close> when both neighbours do (the even one in a tie).
\<close>

definition candidate :: "nat \<Rightarrow> int \<Rightarrow> rat \<Rightarrow> int option" where
  "candidate k n x =
     (let u = pow10 (n - int k);
          s = \<lfloor>x / u\<rfloor>;
          down = (fl (of_int s * u) = x);
          up = (fl (of_int (s + 1) * u) = x)
      in if down \<and> up then
           (let d = x - of_int s * u; e = of_int (s + 1) * u - x
            in Some (if d < e \<or> d = e \<and> even s then s else s + 1))
         else if down then Some s
         else if up then Some (s + 1)
         else None)"

fun first_candidate :: "nat list \<Rightarrow> int \<Rightarrow> rat \<Rightarrow> (nat \<times> int) option" where
  "first_candidate [] n x = None"
| "first_candidate (k # ks) n x =
     (case candidate k n x of Some s \<Rightarrow> Some (k, s) | None \<Rightarrow> first_candidate ks n x)"

definition shortest :: "rat \<Rightarrow> (nat \<times> int) option" where
  "shortest x = first_candidate [1..<18] (dexp x) x"

lemma candidate_value:
  "candidate k n x = Some s \<Longrightarrow> fl (of_int s * pow10 (n - int k)) = x"
  by (auto simp: candidate_def Let_def split: if_splits)

lemma candidate_near:
  assumes "candidate k n x = Some s"
  shows "s = \<lfloor>x / pow10 (n - int k)\<rfloor> \<or> s = \<lfloor>x / pow10 (n - int k)\<rfloor> + 1"
  using assms by (auto simp: candidate_def Let_def split: if_splits)

lemma first_candidate_Some:
  "first_candidate ks n x = Some (k, s) \<Longrightarrow> k \<in> set ks \<and> candidate k n x = Some s"
  by (induction ks) (auto split: option.splits)

lemma first_candidate_None: "first_candidate ks n x = None \<Longrightarrow> k \<in> set ks \<Longrightarrow> candidate k n x = None"
  by (induction ks) (auto split: option.splits)

text \<open>
  Rounding absorbs an error of less than \<open>x / (2 * 10 ^ 16)\<close>: it is below half the spacing of the
  doubles around \<open>x\<close>, also below a power of two, where the spacing halves.
\<close>

lemma fl_multiple: "\<exists>n. fl x = of_int n * pow2 (ulp_exp x)"
  by (cases "x = 0") (auto simp: fl_def Let_def intro: exI [of _ 0])

lemma pow2_multiple: "i \<le> j \<Longrightarrow> \<exists>n. pow2 j = of_int n * pow2 i"
proof -
  assume "i \<le> j"
  then have "pow2 j = of_int (2 ^ nat (j - i)) * pow2 i"
    using pow2_add [of "j - i" i] pow2_of_int [of "j - i"] by simp
  then show ?thesis by blast
qed

lemma multiples_eq: "\<bar>of_int i * p - of_int j * p\<bar> < p \<Longrightarrow> i = (j :: int)" for p :: rat
proof -
  assume a: "\<bar>of_int i * p - of_int j * p\<bar> < p"
  then have p: "0 < p" by linarith
  have "\<bar>of_int (i - j) * p\<bar> < 1 * p" using a by (simp add: left_diff_distrib)
  then have "\<bar>of_int (i - j) :: rat\<bar> < 1" using p by (simp add: abs_mult)
  then show ?thesis by (simp del: of_int_diff flip: of_int_abs)
qed

lemma multiples_less: "of_int i * p < of_int j * p \<Longrightarrow> 0 < p \<Longrightarrow> of_int i * p + p \<le> (of_int j * p :: rat)"
proof -
  assume "of_int i * p < of_int j * p" "0 < p"
  then have "i + 1 \<le> j" by simp
  then have "of_int (i + 1) * p \<le> of_int j * p" using \<open>0 < p\<close> by (intro mult_right_mono) (simp_all only: of_int_le_iff less_imp_le)
  then show ?thesis by (simp add: distrib_right)
qed

lemma fl_near:
  assumes x: "0 < x" "fl x = x" and c: "\<bar>c - x\<bar> * (2 * 10 ^ 16) \<le> x"
  shows "fl c = x"
proof -
  define E U q where "E = ilog2 x" and "U = ulp_exp x" and "q = pow2 U"
  have EU: "U = max (E - 52) (- 1074)" using x by (simp add: U_def E_def ulp_exp_def)
  have bx: "pow2 E \<le> x" "x < pow2 (E + 1)" using ilog2_bounds [OF x(1)] by (simp_all add: E_def)
  have q: "0 < q" "pow2 (E - 52) \<le> q" by (simp_all add: q_def EU)
  obtain m where m: "x = of_int m * q" using fl_multiple [of x] x(2) by (auto simp: q_def U_def)
  have "0 < m" using x(1) q(1) by (simp add: m zero_less_mult_iff)
  then have "q \<le> x" using q(1) by (simp add: m)
  then have UE: "U \<le> E" using bx(2) by (simp add: q_def) (metis le_less_trans pow2_less_iff zless_add1_eq order.order_iff_strict)
  obtain M N where M: "pow2 E = of_int M * q" and N: "pow2 (E + 1) = of_int N * q"
    using pow2_multiple [OF UE] pow2_multiple [of U "E + 1"] UE by (auto simp: q_def)
  have E53: "pow2 E = pow2 (E - 53) * 2 ^ 53" "pow2 E = pow2 (E - 54) * 2 ^ 54" "pow2 (E - 52) = 2 * pow2 (E - 53)"
    using pow2_add [of "E - 53" 53] pow2_add [of "E - 54" 54] pow2_Suc [of "E - 53"] pow2_nat [of 53] pow2_nat [of 54]
    by (simp_all add: algebra_simps)
  have E1: "pow2 (E + 1) = 2 * pow2 E" by (rule pow2_Suc)
  have small: "\<bar>c - x\<bar> < pow2 (E - 53)"
  proof -
    have "\<bar>c - x\<bar> * (2 * 10 ^ 16) < 2 * pow2 E" using c bx(2) E1 by linarith
    moreover have "2 * pow2 E \<le> pow2 (E - 53) * (2 * 10 ^ 16)"
      unfolding E53(1) using pow2_pos [of "E - 53"] by (simp add: less_imp_le)
    ultimately have "\<bar>c - x\<bar> * (2 * 10 ^ 16) < pow2 (E - 53) * (2 * 10 ^ 16)" by (rule less_le_trans)
    then show ?thesis by simp
  qed
  then have half: "2 * \<bar>c - x\<bar> < q" using less_le_trans [OF _ q(2), of "2 * \<bar>c - x\<bar>"] by (simp add: E53(3))
  have d: "(c - x) + (c - x) < q" "(x - c) + (x - c) < q"
    using half by (auto simp: abs_if split: if_splits)
  have "x + q \<le> pow2 (E + 1)" using multiples_less [of m q N] m N bx(2) q(1) by simp
  then have up: "c < pow2 (E + 1)" using d(1) q(1) by linarith
  have pos: "0 < c" using d(2) q(1) \<open>q \<le> x\<close> by linarith
  define V where "V = ulp_exp c"
  have V: "V \<le> U \<and> 2 * \<bar>c - x\<bar> < pow2 V"
  proof (cases "pow2 E \<le> c")
    case True
    then have "ilog2 c = E" using up by (rule ilog2_unique)
    then have "V = U" using pos by (simp add: V_def ulp_exp_def EU)
    then show ?thesis using half by (simp add: q_def)
  next
    case False
    have xE: "x = pow2 E"
    proof (rule ccontr)
      assume "x \<noteq> pow2 E"
      then have "pow2 E + q \<le> x" using multiples_less [of M q m] m M bx(1) q(1) by simp
      then show False using d(2) q(1) False by linarith
    qed
    have tiny: "\<bar>c - x\<bar> < pow2 (E - 54)"
    proof -
      have "pow2 E < pow2 (E - 54) * (2 * 10 ^ 16)" unfolding E53(2) by simp
      then have "\<bar>c - x\<bar> * (2 * 10 ^ 16) < pow2 (E - 54) * (2 * 10 ^ 16)" using c xE by (simp only: le_less_trans)
      then show ?thesis by simp
    qed
    have "pow2 E = 2 * pow2 (E - 1)" using pow2_Suc [of "E - 1"] by simp
    then have "pow2 (E - 1) \<le> c" using d(2) \<open>q \<le> x\<close> xE by linarith
    then have "ilog2 c = E - 1" using False by (intro ilog2_unique) auto
    then have "V = max (E - 53) (- 1074)" using pos by (simp add: V_def ulp_exp_def)
    moreover have "2 * \<bar>c - x\<bar> < pow2 (E - 53)" using tiny pow2_Suc [of "E - 54"] by simp
    ultimately show ?thesis using pow2_le_iff [of "E - 53" V] by (auto simp: EU simp del: pow2_le_iff)
  qed
  obtain i where i: "fl c = of_int i * pow2 V" using fl_multiple [of c] by (auto simp: V_def)
  obtain k where k: "q = of_int k * pow2 V" using pow2_multiple [of V U] V by (auto simp: q_def)
  have xk: "x = of_int (m * k) * pow2 V" by (simp add: m k)
  have "\<bar>fl c - c\<bar> \<le> pow2 V / 2" unfolding V_def by (rule fl_err)
  then have "\<bar>fl c - c\<bar> + \<bar>c - x\<bar> < pow2 V" using V by (simp add: field_simps)
  then have "\<bar>fl c - x\<bar> < pow2 V" using abs_triangle_ineq [of "fl c - c" "c - x"] by simp
  then show ?thesis using multiples_eq [of i "pow2 V" "m * k"] unfolding i xk by simp
qed

text \<open>Seventeen digits suffice.\<close>

lemma candidate_17:
  assumes x: "0 < x" "fl x = x"
  shows "candidate 17 (dexp x) x \<noteq> None"
proof -
  define u s where "u = pow10 (dexp x - 17)" and "s = \<lfloor>x / u\<rfloor>"
  have u: "0 < u" by (simp add: u_def)
  have ux: "u * 10 ^ 16 \<le> x"
    using dexp_bounds(1) [OF x(1)] pow10_add [of "dexp x - 17" 16] pow10_nat [of 16] by (simp add: u_def)
  have "of_int s \<le> x / u" "x / u < of_int s + 1" unfolding s_def by linarith+
  then have b: "of_int s * u \<le> x" "x < (of_int s + 1) * u" using u by (simp_all add: field_simps)
  have "fl (of_int s * u) = x \<or> fl (of_int (s + 1) * u) = x"
  proof (cases "x - of_int s * u \<le> u / 2")
    case True
    then show ?thesis using fl_near [OF x, of "of_int s * u"] b ux by simp
  next
    case False
    have "of_int (s + 1) * u - x \<le> u / 2" "0 \<le> of_int (s + 1) * u - x"
      using False b by (simp_all add: algebra_simps)
    then show ?thesis using fl_near [OF x, of "of_int (s + 1) * u"] ux by simp
  qed
  then show ?thesis by (auto simp: candidate_def u_def s_def Let_def)
qed

lemma shortest_Some:
  assumes "0 < x" "fl x = x"
  obtains k s where "shortest x = Some (k, s)" "1 \<le> k" "k \<le> 17" "10 ^ (k - 1) \<le> s" "s \<le> 10 ^ k"
    "fl (of_int s * pow10 (dexp x - int k)) = x"
proof -
  obtain k s where ks: "shortest x = Some (k, s)"
    using first_candidate_None [of "[1..<18]" "dexp x" x 17] candidate_17 [OF assms]
    by (cases "shortest x") (auto simp: shortest_def)
  note c = first_candidate_Some [OF ks [unfolded shortest_def]]
  define u where "u = pow10 (dexp x - int k)"
  have k: "1 \<le> k" "k \<le> 17" using c by auto
  have u: "0 < u" by (simp add: u_def)
  have hi: "x / u < 10 ^ k"
    using dexp_bounds(2) [OF assms(1)] pow10_add [of "dexp x - int k" "int k"] u
    by (simp add: u_def pow10_nat divide_less_eq mult.commute)
  have lo: "10 ^ (k - 1) \<le> x / u"
    using dexp_bounds(1) [OF assms(1)] pow10_add [of "dexp x - int k" "int (k - 1)"] k
      pow10_nat [of "k - 1"] u by (simp add: u_def of_nat_diff le_divide_eq mult.commute)
  have "\<lfloor>x / u\<rfloor> < 10 ^ k" using hi by (simp add: floor_less_iff)
  moreover have "10 ^ (k - 1) \<le> \<lfloor>x / u\<rfloor>" using lo by (simp add: le_floor_iff)
  moreover have "s = \<lfloor>x / u\<rfloor> \<or> s = \<lfloor>x / u\<rfloor> + 1" using candidate_near [of k "dexp x" x s] c by (simp add: u_def)
  ultimately have "10 ^ (k - 1) \<le> s" "s \<le> 10 ^ k" by linarith+
  then show thesis using that [OF ks k] candidate_value [of k "dexp x" x s] c by simp
qed

subsection \<open>Notation\<close>

definition exponent_text :: "int \<Rightarrow> string" where
  "exponent_text e = ''e'' @ (if e < 0 then ''-'' else ''+'') @ dec \<bar>e\<bar>"

text \<open>The digits \<open>ds\<close> with the decimal point after the first \<open>n\<close> of them.\<close>

definition place :: "string \<Rightarrow> int \<Rightarrow> string" where
  "place ds n =
     (let k = int (length ds)
      in if k \<le> n \<and> n \<le> 21 then ds @ replicate (nat (n - k)) CHR ''0''
         else if 0 < n \<and> n \<le> 21 then take (nat n) ds @ ''.'' @ drop (nat n) ds
         else if - 6 < n \<and> n \<le> 0 then ''0.'' @ replicate (nat (- n)) CHR ''0'' @ ds
         else if k = 1 then ds @ exponent_text (n - 1)
         else take 1 ds @ ''.'' @ drop 1 ds @ exponent_text (n - 1))"

text \<open>
  The text of a positive finite number. Rounding up to a power of ten happens only at one digit;
  the power is written as the digit one.
\<close>

definition positive_text :: "rat \<Rightarrow> string" where
  "positive_text x =
     (case shortest x of
        None \<Rightarrow> ''''
      | Some (k, s) \<Rightarrow>
          if s = 10 ^ k then place ''1'' (dexp x + 1) else place (dec s) (dexp x))"

fun num_text :: "number \<Rightarrow> string" where
  "num_text NaN = ''NaN''"
| "num_text (Inf s) = (if s then ''-Infinity'' else ''Infinity'')"
| "num_text NegZero = ''0''"
| "num_text (Fin r) =
     (if r = 0 then ''0'' else if r < 0 then ''-'' @ positive_text (- r) else positive_text r)"

subsection \<open>Reading a text back\<close>

fun exponent_value :: "string \<Rightarrow> int" where
  "exponent_value (c # sign # ds) = (if sign = CHR ''-'' then - undec ds else undec ds)"
| "exponent_value cs = 0"

definition read_decimal :: "string \<Rightarrow> rat" where
  "read_decimal t =
     (let mantissa = takeWhile (\<lambda>c. c \<noteq> CHR ''e'') t;
          whole = takeWhile (\<lambda>c. c \<noteq> CHR ''.'') mantissa;
          fraction = drop 1 (dropWhile (\<lambda>c. c \<noteq> CHR ''.'') mantissa)
      in of_int (undec (whole @ fraction)) *
         pow10 (exponent_value (dropWhile (\<lambda>c. c \<noteq> CHR ''e'') t) - int (length fraction)))"

definition digits :: "string \<Rightarrow> bool" where
  "digits ds \<longleftrightarrow> (\<forall>c \<in> set ds. is_digit c)"

lemma digits_simps [simp]:
  "digits []" "digits (c # ds) \<longleftrightarrow> is_digit c \<and> digits ds" "digits (ds @ es) \<longleftrightarrow> digits ds \<and> digits es"
  "digits (replicate n CHR ''0'')"
  by (auto simp: digits_def is_digit_def)

lemma digits_take_drop [simp]: "digits ds \<Longrightarrow> digits (take n ds)" "digits ds \<Longrightarrow> digits (drop n ds)"
  by (auto simp: digits_def dest: in_set_takeD in_set_dropD)

lemma digits_dec [simp]: "0 \<le> n \<Longrightarrow> digits (dec n)"
  by (simp add: digits_def dec_digits)

lemma digit_not_special: "is_digit c \<Longrightarrow> c \<noteq> CHR ''e'' \<and> c \<noteq> CHR ''.'' \<and> c \<noteq> CHR ''-'' \<and> c \<noteq> CHR ''+''"
  by (auto simp: is_digit_def)

lemma digits_not_special:
  "digits ds \<Longrightarrow> \<forall>c \<in> set ds. c \<noteq> CHR ''e''" "digits ds \<Longrightarrow> \<forall>c \<in> set ds. c \<noteq> CHR ''.''"
  using digit_not_special by (auto simp: digits_def)

lemma undec_zeros_left [simp]: "undec (replicate n CHR ''0'' @ ds) = undec ds"
  using undec_append [of "replicate n CHR ''0''" ds] by simp

lemma read_whole: "digits ds \<Longrightarrow> read_decimal ds = of_int (undec ds)"
  using digits_not_special [of ds] by (simp add: read_decimal_def takeWhile_eq_all_conv [THEN iffD2] dropWhile_eq_Nil_conv [THEN iffD2])

lemma read_point:
  "digits ds \<Longrightarrow> digits es \<Longrightarrow> read_decimal (ds @ ''.'' @ es) = of_int (undec (ds @ es)) * pow10 (- int (length es))"
  using digits_not_special [of ds] digits_not_special [of es]
  by (simp add: read_decimal_def takeWhile_append dropWhile_append takeWhile_eq_all_conv [THEN iffD2]
      dropWhile_eq_Nil_conv [THEN iffD2] takeWhile_append2 dropWhile_append2)

lemma exponent_value_text: "exponent_value (exponent_text e) = e"
  by (simp add: exponent_text_def undec_dec)

lemma exponent_text_eq: "exponent_text e = CHR ''e'' # tl (exponent_text e)"
  by (simp add: exponent_text_def)

lemma split_exponent:
  assumes "\<forall>c \<in> set m. c \<noteq> CHR ''e''"
  shows "takeWhile (\<lambda>c. c \<noteq> CHR ''e'') (m @ exponent_text e) = m"
    "dropWhile (\<lambda>c. c \<noteq> CHR ''e'') (m @ exponent_text e) = exponent_text e"
    "takeWhile (\<lambda>c. c \<noteq> CHR ''e'') m = m" "dropWhile (\<lambda>c. c \<noteq> CHR ''e'') m = []"
  using assms by (simp_all add: exponent_text_def takeWhile_append2 dropWhile_append2 takeWhile_eq_all_conv)

lemma read_exponent:
  assumes "\<forall>c \<in> set m. c \<noteq> CHR ''e''"
  shows "read_decimal (m @ exponent_text e) = read_decimal m * pow10 e"
  unfolding read_decimal_def Let_def split_exponent [OF assms] exponent_value_text
  by (simp add: pow10_diff pow10_minus)

lemma place_value:
  assumes "digits ds" "ds \<noteq> []"
  shows "read_decimal (place ds n) = of_int (undec ds) * pow10 (n - int (length ds))"
proof -
  let ?k = "int (length ds)"
  have e: "\<forall>c \<in> set ds. c \<noteq> CHR ''e''" using digits_not_special(1) [OF assms(1)] .
  consider (whole) "?k \<le> n" "n \<le> 21" | (point) "0 < n" "n \<le> 21" "n < ?k" | (small) "- 6 < n" "n \<le> 0"
    | (one) "?k = 1" "n \<le> - 6 \<or> 21 < n" | (sci) "?k \<noteq> 1" "n \<le> - 6 \<or> 21 < n"
    by linarith
  then show ?thesis
  proof cases
    case whole
    then have "place ds n = ds @ replicate (nat (n - ?k)) CHR ''0''" by (simp add: place_def)
    then show ?thesis
      using assms whole pow10_nat [of "nat (n - ?k)"] by (simp add: read_whole undec_append)
  next
    case point
    then have "place ds n = take (nat n) ds @ ''.'' @ drop (nat n) ds" by (simp add: place_def)
    then show ?thesis
      using read_point [of "take (nat n) ds" "drop (nat n) ds"] assms(1) point by (simp add: of_nat_diff)
  next
    case small
    then have "place ds n = ''0'' @ ''.'' @ replicate (nat (- n)) CHR ''0'' @ ds"
      using assms(2) by (cases ds) (simp_all add: place_def)
    then show ?thesis
      using read_point [of "''0''" "replicate (nat (- n)) CHR ''0'' @ ds"] assms small
        undec_append [of "''0''" "replicate (nat (- n)) CHR ''0'' @ ds"]
      by (simp add: is_digit_def digit_val_def)
  next
    case one
    then have "place ds n = ds @ exponent_text (n - 1)" by (auto simp: place_def)
    then show ?thesis using read_exponent [OF e] one assms by (simp add: read_whole)
  next
    case sci
    have l: "length ds = Suc (length (drop 1 ds))" using assms(2) by (cases ds) auto
    have "place ds n = (take 1 ds @ ''.'' @ drop 1 ds) @ exponent_text (n - 1)"
      using sci by (auto simp: place_def Let_def)
    moreover have "\<forall>c \<in> set (take 1 ds @ ''.'' @ drop 1 ds). c \<noteq> CHR ''e''"
      using e by (auto dest: in_set_takeD in_set_dropD)
    ultimately have "read_decimal (place ds n) = read_decimal (take 1 ds @ ''.'' @ drop 1 ds) * pow10 (n - 1)"
      by (simp only: read_exponent)
    also have "\<dots> = of_int (undec ds) * pow10 (- int (length (drop 1 ds)) + (n - 1))"
      using read_point [of "take 1 ds" "drop 1 ds"] assms(1) unfolding pow10_add by (simp)
    also have "- int (length (drop 1 ds)) + (n - 1) = n - ?k" using l by simp
    finally show ?thesis .
  qed
qed

lemma positive_text_value:
  assumes "0 < x" "fl x = x"
  shows "fl (read_decimal (positive_text x)) = x"
proof -
  obtain k s where ks: "shortest x = Some (k, s)" "1 \<le> k" "k \<le> 17" "10 ^ (k - 1) \<le> s" "s \<le> 10 ^ k"
    "fl (of_int s * pow10 (dexp x - int k)) = x"
    using shortest_Some [OF assms] by metis
  have r: "read_decimal (positive_text x) = of_int s * pow10 (dexp x - int k)"
  proof (cases "s = 10 ^ k")
    case True
    have "of_int s * pow10 (dexp x - int k) = pow10 (dexp x)"
      using pow10_add [of "int k" "dexp x - int k"] by (simp add: True pow10_nat)
    then show ?thesis
      using place_value [of "''1''" "dexp x + 1"] by (simp add: positive_text_def ks True is_digit_def digit_val_def)
  next
    case False
    have s: "0 < s" using ks(4) by (rule less_le_trans [rotated]) simp
    have "length (dec s) = k"
    proof (rule ccontr)
      assume ne: "length (dec s) \<noteq> k"
      have "10 ^ (length (dec s) - 1) < (10 :: int) ^ k"
        by (rule le_less_trans [of _ s]) (use dec_length [OF s] False ks(5) in simp_all)
      moreover have "10 ^ (k - 1) < (10 :: int) ^ length (dec s)"
        by (rule le_less_trans [OF ks(4)]) (use dec_length [OF s] in simp)
      ultimately have "length (dec s) - 1 < k" "k - 1 < length (dec s)" by simp_all
      with ne ks(2) show False by simp
    qed
    then show ?thesis
      using place_value [of "dec s" "dexp x"] s False by (simp add: positive_text_def ks undec_dec)
  qed
  then show ?thesis using ks(6) by simp
qed


subsection \<open>Different numbers have different texts\<close>

definition number_char :: "char \<Rightarrow> bool" where
  "number_char c \<longleftrightarrow> is_digit c \<or> c \<in> {CHR ''.'', CHR ''e'', CHR ''+'', CHR ''-''}"

lemma number_char_digits: "digits ds \<Longrightarrow> \<forall>c \<in> set ds. number_char c"
  by (simp add: digits_def number_char_def)

lemma number_char_place: "digits ds \<Longrightarrow> \<forall>c \<in> set (place ds n). number_char c"
  using number_char_digits [of "dec \<bar>n - 1\<bar>"] number_char_digits [of ds]
  by (auto simp: place_def Let_def exponent_text_def number_char_def is_digit_def
      dest: in_set_takeD in_set_dropD)

lemma place_first: "digits ds \<Longrightarrow> ds \<noteq> [] \<Longrightarrow> is_digit (hd (place ds n)) \<and> place ds n \<noteq> []"
  by (cases ds) (auto simp: place_def Let_def is_digit_def take_Cons')

lemma positive_text_chars:
  assumes "0 < x" "fl x = x"
  shows "\<forall>c \<in> set (positive_text x). number_char c" "is_digit (hd (positive_text x))" "positive_text x \<noteq> []"
proof -
  obtain k s where ks: "shortest x = Some (k, s)" "10 ^ (k - 1) \<le> s"
    using shortest_Some [OF assms] by metis
  have "0 < s" using ks(2) by (rule less_le_trans [rotated]) simp
  then have "digits (dec s)" "digits ''1''" by (simp_all add: is_digit_def)
  then show "\<forall>c \<in> set (positive_text x). number_char c" "is_digit (hd (positive_text x))" "positive_text x \<noteq> []"
    using number_char_place [of "dec s"] number_char_place [of "''1''"] place_first [of "dec s"] place_first [of "''1''"]
    by (auto simp: positive_text_def ks(1))
qed

definition read_number :: "string \<Rightarrow> rat" where
  "read_number t = (if hd t = CHR ''-'' then - fl (read_decimal (tl t)) else fl (read_decimal t))"

lemma num_text_finite:
  assumes "fl r = r"
  shows "read_number (num_text (Fin r)) = r" "\<forall>c \<in> set (num_text (Fin r)). number_char c"
    "num_text (Fin r) \<noteq> []" "is_digit (hd (num_text (Fin r))) \<or> hd (num_text (Fin r)) = CHR ''-''"
proof -
  have zero: "read_decimal ''0'' = 0"
    using read_whole [of "''0''"] by (simp add: is_digit_def digit_val_def)
  have nd: "is_digit c \<Longrightarrow> c \<noteq> CHR ''-''" for c using digit_not_special by blast
  have z: "is_digit CHR ''0''" by (simp add: is_digit_def)
  have "read_number (num_text (Fin r)) = r \<and> (\<forall>c \<in> set (num_text (Fin r)). number_char c) \<and>
      num_text (Fin r) \<noteq> [] \<and> (is_digit (hd (num_text (Fin r))) \<or> hd (num_text (Fin r)) = CHR ''-'')"
  proof (cases r "0 :: rat" rule: linorder_cases)
    case less
    have "fl (- r) = - r" using assms by (simp add: fl_uminus)
    then show ?thesis
      using less positive_text_value [of "- r"] positive_text_chars [of "- r"]
      by (simp add: read_number_def number_char_def)
  next
    case equal
    then show ?thesis using zero z by (simp add: read_number_def number_char_def)
  next
    case greater
    then show ?thesis
      using assms positive_text_value [of r] positive_text_chars [of r] nd
      by (auto simp: read_number_def)
  qed
  then show "read_number (num_text (Fin r)) = r" "\<forall>c \<in> set (num_text (Fin r)). number_char c"
    "num_text (Fin r) \<noteq> []" "is_digit (hd (num_text (Fin r))) \<or> hd (num_text (Fin r)) = CHR ''-''"
    by blast+
qed

lemma num_text_inj: "fl r = r \<Longrightarrow> fl s = s \<Longrightarrow> num_text (Fin r) = num_text (Fin s) \<Longrightarrow> r = s"
  using num_text_finite(1) by metis

end
