(* ===== verification/DateText.thy ===== *)
theory DateText
  imports NumberText
begin

text \<open>
  \<open>Date.prototype.toISOString\<close> of the language, which the message of a \<open>CircuitOpenError\<close> and the
  text of a trace contain. A time value is the number of milliseconds since the epoch; the fields
  of the date are those of the proleptic Gregorian calendar. The calendar is computed by years that
  begin on the first of March, and \<open>day_number\<close> is the definition of the language's
  specification; the results are that the one inverts the other, and that the text of a time value
  determines it over the whole range of dates.
\<close>

subsection \<open>The calendar\<close>

text \<open>The number of the first day of a year and of a day, as the specification gives them.\<close>

definition day_from_year :: "int \<Rightarrow> int" where
  "day_from_year y = 365 * (y - 1970) + (y - 1969) div 4 - (y - 1901) div 100 + (y - 1601) div 400"

definition leap_year :: "int \<Rightarrow> bool" where
  "leap_year y \<longleftrightarrow> 4 dvd y \<and> (\<not> 100 dvd y \<or> 400 dvd y)"

definition month_start :: "int list" where
  "month_start = [0, 31, 59, 90, 120, 151, 181, 212, 243, 273, 304, 334]"

text \<open>Months and days of the month count from one.\<close>

definition day_number :: "int \<times> int \<times> int \<Rightarrow> int" where
  "day_number ymd = (case ymd of (y, m, d) \<Rightarrow>
     day_from_year y + month_start ! nat (m - 1) + (if leap_year y \<and> 2 < m then 1 else 0) + d - 1)"

text \<open>
  The days since the first of March of the year 0 fall into cycles of 400, 100, 4 and 1 years, the
  last of each being a day longer or shorter than the others.
\<close>

definition march_year :: "int \<Rightarrow> int \<times> int" where
  "march_year n =
     (let r = n mod 146097;
          c = min 3 (r div 36524);
          r = r - 36524 * c;
          q = r div 1461;
          r = r mod 1461;
          a = min 3 (r div 365)
      in (400 * (n div 146097) + 100 * c + 4 * q + a, r - 365 * a))"

definition civil :: "int \<Rightarrow> int \<times> int \<times> int" where
  "civil n =
     (let (y, doy) = march_year (n + 719468);
          mp = (5 * doy + 2) div 153;
          d = doy - (153 * mp + 2) div 5 + 1
      in if mp < 10 then (y, mp + 3, d) else (y + 1, mp - 9, d))"

lemma march_year_correct:
  assumes "march_year n = (y, doy)"
  shows "n = 365 * y + y div 4 - y div 100 + y div 400 + doy" "0 \<le> doy" "doy \<le> 365"
    "doy = 365 \<Longrightarrow> leap_year (y + 1)" "400 * (n div 146097) \<le> y" "y < 400 * (n div 146097) + 400"
proof -
  define k r1 where "k = n div 146097" and "r1 = n mod 146097"
  define c where "c = min 3 (r1 div 36524)"
  define r2 where "r2 = r1 - 36524 * c"
  define q r3 where "q = r2 div 1461" and "r3 = r2 mod 1461"
  define a where "a = min 3 (r3 div 365)"
  have y: "y = 400 * k + 100 * c + 4 * q + a" and doy: "doy = r3 - 365 * a"
    using assms by (simp_all add: march_year_def Let_def k_def r1_def c_def r2_def q_def r3_def a_def)
  have n: "n = 146097 * k + r1" "0 \<le> r1" "r1 < 146097" by (simp_all add: k_def r1_def)
  have "0 \<le> r1 div 36524" "36524 * (r1 div 36524) + r1 mod 36524 = r1" "0 \<le> r1 mod 36524" "r1 mod 36524 < 36524"
    "r1 div 36524 \<ge> 3 \<and> c = 3 \<or> c = r1 div 36524 \<and> c < 3"
    using n(2) by (auto simp: pos_imp_zdiv_nonneg_iff c_def)
  then have c: "0 \<le> c" "c \<le> 3" "0 \<le> r2" "r2 \<le> 36524" "r2 = 36524 \<Longrightarrow> c = 3"
    using n(3) r2_def by linarith+
  have q: "r2 = 1461 * q + r3" "0 \<le> r3" "r3 < 1461" by (simp_all add: q_def r3_def)
  then have q': "0 \<le> q" "q \<le> 24" "q = 24 \<Longrightarrow> r3 = 1460 \<Longrightarrow> c = 3" using c by linarith+
  have "0 \<le> r3 div 365" "365 * (r3 div 365) + r3 mod 365 = r3" "0 \<le> r3 mod 365" "r3 mod 365 < 365"
    "r3 div 365 \<ge> 3 \<and> a = 3 \<or> a = r3 div 365 \<and> a < 3"
    using q(2) by (auto simp: pos_imp_zdiv_nonneg_iff a_def)
  then have a: "0 \<le> a" "a \<le> 3" "0 \<le> doy" "doy \<le> 365" "doy = 365 \<Longrightarrow> a = 3 \<and> r3 = 1460"
    using q(3) doy by linarith+
  have y4: "y div 4 = 100 * k + 25 * c + q" and y100: "y div 100 = 4 * k + c" and y400: "y div 400 = k"
    using c(1,2) q'(1,2) a(1,2) by (auto simp: y intro!: int_div_pos_eq)
  show "n = 365 * y + y div 4 - y div 100 + y div 400 + doy"
    unfolding y4 y100 y400 using n(1) q(1) y doy r2_def by linarith
  show "0 \<le> doy" "doy \<le> 365" by (fact a)+
  show "400 * (n div 146097) \<le> y" "y < 400 * (n div 146097) + 400"
    using c(1,2) q'(1,2) a(1,2) y unfolding k_def by linarith+
  show "leap_year (y + 1)" if long: "doy = 365"
  proof -
    have y1: "y + 1 = 4 * (100 * k + 25 * c + q + 1)" using a(5) [OF long] y by simp
    then have "4 dvd y + 1" by (rule dvdI)
    moreover have "400 dvd y + 1" if "100 dvd y + 1"
    proof -
      have "y + 1 = 100 * (4 * k + c) + (4 * q + 4)" using y1 by simp
      then have "100 dvd 4 * q + 4" using that by (metis dvd_add_right_iff dvd_triv_left)
      then have "q = 24" using q'(1,2) zdvd_imp_le [of 100 "4 * q + 4"] by simp
      then have "c = 3" using q'(3) a(5) [OF long] by simp
      then have "y + 1 = 400 * (k + 1)" using y1 \<open>q = 24\<close> by simp
      then show ?thesis by (rule dvdI)
    qed
    ultimately show ?thesis by (simp add: leap_year_def)
  qed
qed

lemma div_pred: "(y - 1) div b = (if b dvd y then y div b - 1 else y div b)" if "0 < b" for b y :: int
proof (cases "b dvd y")
  case True
  then obtain k where "y = b * k" by (rule dvdE)
  then show ?thesis using that by (auto intro!: int_div_pos_eq [where r = "b - 1"] simp: right_diff_distrib)
next
  case False
  then have "0 < y mod b" "y mod b < b" 
    using that False pos_mod_sign [of b y] pos_mod_bound [of b y] unfolding dvd_eq_mod_eq_0 by linarith+
  moreover have "b * (y div b) + y mod b = y" by simp
  ultimately show ?thesis using False by (auto intro!: int_div_pos_eq [where r = "y mod b - 1"])
qed

lemma day_from_year_eq:
  "day_from_year y = 365 * y + (y - 1) div 4 - (y - 1) div 100 + (y - 1) div 400 - 719527"
proof -
  have "(y - 1969) div 4 = (y - 1) div 4 - 492" "(y - 1901) div 100 = (y - 1) div 100 - 19"
    "(y - 1601) div 400 = (y - 1) div 400 - 4"
    using div_mult_self2 [of 4 "y - 1" "- 492"] div_mult_self2 [of 100 "y - 1" "- 19"] div_mult_self2 [of 400 "y - 1" "- 4"]
    by simp_all
  then show ?thesis by (simp add: day_from_year_def)
qed

lemma leap_step:
  "y div 4 - y div 100 + y div 400 =
   (y - 1) div 4 - (y - 1) div 100 + (y - 1) div 400 + (if leap_year y then 1 else 0)"
proof -
  have sum: "q4 - q100 + q400 = r4 - r100 + r400 + (if P4 \<and> (\<not> P100 \<or> P400) then 1 else 0)"
    if "r4 = (if P4 then q4 - 1 else q4)" "r100 = (if P100 then q100 - 1 else q100)"
      "r400 = (if P400 then q400 - 1 else q400)" "P400 \<Longrightarrow> P100" "P100 \<Longrightarrow> P4"
    for q4 q100 q400 r4 r100 r400 :: int and P4 P100 P400
    using that by auto
  show ?thesis
    unfolding leap_year_def
    by (rule sum; (rule div_pred)?) (auto intro: dvd_trans [of 100 400 y] dvd_trans [of 4 100 y])
qed

text \<open>The length of a month is 31 days, or 30 or less; five months from March on have 153 days.\<close>

definition month_offset :: "int \<Rightarrow> int" where
  "month_offset mp = (153 * mp + 2) div 5"

lemma month_of_day:
  assumes "0 \<le> doy" "doy \<le> 365" "mp = (5 * doy + 2) div 153"
  shows "mp \<in> {0, 1, 2, 3, 4, 5, 6, 7, 8, 9, 10, 11}" "month_offset mp \<le> doy" "doy - month_offset mp \<le> 30"
proof -
  have mp: "153 * mp \<le> 5 * doy + 2" "5 * doy + 2 < 153 * mp + 153"
    using assms(3) pos_mod_sign [of 153 "5 * doy + 2"] pos_mod_bound [of 153 "5 * doy + 2"]
      mult_div_mod_eq [of 153 "5 * doy + 2"] by linarith+
  then have "0 \<le> mp" "mp \<le> 11" using assms(1,2) by linarith+
  then show "mp \<in> {0, 1, 2, 3, 4, 5, 6, 7, 8, 9, 10, 11}" by simp arith
  have "5 * month_offset mp \<le> 153 * mp + 2" "153 * mp + 2 < 5 * month_offset mp + 5"
    using pos_mod_sign [of 5 "153 * mp + 2"] pos_mod_bound [of 5 "153 * mp + 2"]
      mult_div_mod_eq [of 5 "153 * mp + 2"] unfolding month_offset_def by linarith+
  then show "month_offset mp \<le> doy" "doy - month_offset mp \<le> 30" using mp by linarith+
qed

theorem civil_inverts: "day_number (civil n) = n"
proof -
  obtain y doy where y: "march_year (n + 719468) = (y, doy)" by fastforce
  note c = march_year_correct [OF y]
  define mp where "mp = (5 * doy + 2) div 153"
  note m = month_of_day [OF c(2,3) mp_def]
  have civil: "civil n = (if mp < 10 then (y, mp + 3, doy - month_offset mp + 1)
      else (y + 1, mp - 9, doy - month_offset mp + 1))"
    by (simp add: civil_def y Let_def mp_def month_offset_def)
  have month: "month_start ! nat (2 + mp) = 59 + month_offset mp \<and> 2 < mp + 3" if "mp < 10"
    using m(1) that by (auto simp: month_start_def month_offset_def)
  have wrapped: "month_start ! nat (mp - 10) = month_offset mp - 306 \<and> \<not> 2 < mp - 9" if "\<not> mp < 10"
    using m(1) that by (auto simp: month_start_def month_offset_def)
  show ?thesis
  proof (cases "mp < 10")
    case True
    then show ?thesis
      using month c(1) leap_step [of y] by (simp add: civil day_number_def day_from_year_eq)
  next
    case False
    then show ?thesis
      using wrapped c(1) by (simp add: civil day_number_def day_from_year_eq)
  qed
qed

lemma civil_ranges:
  assumes "civil n = (y, m, d)"
  shows "1 \<le> m" "m \<le> 12" "1 \<le> d" "d \<le> 31"
proof -
  obtain Y doy where Y: "march_year (n + 719468) = (Y, doy)" by fastforce
  note c = march_year_correct [OF Y]
  note mp = month_of_day [OF c(2,3) refl]
  show "1 \<le> m" "m \<le> 12" "1 \<le> d" "d \<le> 31"
    using mp assms by (auto simp: civil_def Y Let_def month_offset_def split: if_splits)
qed

subsection \<open>The text\<close>

definition pad_dec :: "nat \<Rightarrow> int \<Rightarrow> string" where
  "pad_dec k n = replicate (k - length (dec n)) CHR ''0'' @ dec n"

definition year_text :: "int \<Rightarrow> string" where
  "year_text y =
     (if 0 \<le> y \<and> y \<le> 9999 then pad_dec 4 y
      else (if y < 0 then ''-'' else ''+'') @ pad_dec 6 \<bar>y\<bar>)"

definition iso_text :: "int \<Rightarrow> string" where
  "iso_text t =
     (let (y, m, d) = civil (t div 86400000);
          ms = t mod 86400000
      in year_text y @ ''-'' @ pad_dec 2 m @ ''-'' @ pad_dec 2 d @
         ''T'' @ pad_dec 2 (ms div 3600000) @ '':'' @ pad_dec 2 (ms div 60000 mod 60) @ '':'' @
         pad_dec 2 (ms div 1000 mod 60) @ ''.'' @ pad_dec 3 (ms mod 1000) @ ''Z'')"

text \<open>\<open>toISOString\<close> of a date: \<open>None\<close> for the \<open>RangeError\<close> that an invalid date raises.\<close>

fun toISOString :: "number \<Rightarrow> string option" where
  "toISOString (Fin r) = Some (iso_text \<lfloor>r\<rfloor>)"
| "toISOString x = None"

lemma iso_text_example: "iso_text 1735689599999 = ''2024-12-31T23:59:59.999Z''"
  by code_simp

subsection \<open>Reading a text back\<close>

definition read_year :: "string \<Rightarrow> int \<times> string" where
  "read_year s =
     (if hd s = CHR ''-'' then (- undec (take 6 (tl s)), drop 6 (tl s))
      else if hd s = CHR ''+'' then (undec (take 6 (tl s)), drop 6 (tl s))
      else (undec (take 4 s), drop 4 s))"

text \<open>A separator and the digits after it.\<close>

definition read_field :: "nat \<Rightarrow> string \<Rightarrow> int \<times> string" where
  "read_field k s = (undec (take k (tl s)), drop k (tl s))"

definition read_iso :: "string \<Rightarrow> int" where
  "read_iso s =
     (let (y, s) = read_year s;
          (m, s) = read_field 2 s;
          (d, s) = read_field 2 s;
          (hour, s) = read_field 2 s;
          (minute, s) = read_field 2 s;
          (second, s) = read_field 2 s;
          (ms, s) = read_field 3 s
      in ((day_number (y, m, d) * 24 + hour) * 60 + minute) * 60000 + second * 1000 + ms)"

lemma length_dec_le: "0 \<le> n \<Longrightarrow> n < 10 ^ k \<Longrightarrow> 0 < k \<Longrightarrow> length (dec n) \<le> k"
proof (cases "n = 0")
  case False
  assume n: "0 \<le> n" "n < 10 ^ k" "0 < k"
  then have "10 ^ (length (dec n) - 1) \<le> n" using False dec_length [of n] by simp
  then have "(10 :: int) ^ (length (dec n) - 1) < 10 ^ k" using n(2) by (rule le_less_trans)
  then show ?thesis by simp
qed (simp add: dec.simps)

lemma pad_dec_digits:
  assumes "0 \<le> n" "n < 10 ^ k" "0 < k"
  shows "length (pad_dec k n) = k" "undec (pad_dec k n) = n" "digits (pad_dec k n)"
proof -
  have "is_digit CHR ''0''" by (simp add: is_digit_def)
  then show "length (pad_dec k n) = k" "undec (pad_dec k n) = n" "digits (pad_dec k n)"
    using length_dec_le [OF assms] assms(1) dec_digits [OF assms(1)]
    by (auto simp: pad_dec_def undec_dec digits_def undec_append)
qed

lemma read_field_pad:
  assumes "0 \<le> n" "n < 10 ^ k" "0 < k"
  shows "read_field k (c # pad_dec k n @ s) = (n, s)"
  using pad_dec_digits [OF assms] by (simp add: read_field_def)

lemma read_year_text:
  assumes "\<bar>y\<bar> < 1000000"
  shows "read_year (year_text y @ s) = (y, s)"
proof (cases "0 \<le> y \<and> y \<le> 9999")
  case True
  then have p: "length (pad_dec 4 y) = 4" "undec (pad_dec 4 y) = y" "digits (pad_dec 4 y)"
    using pad_dec_digits [of y 4] by simp_all
  then obtain c cs where c: "pad_dec 4 y = c # cs" "is_digit c" by (cases "pad_dec 4 y") auto
  then have "hd (pad_dec 4 y @ s) \<noteq> CHR ''-''" "hd (pad_dec 4 y @ s) \<noteq> CHR ''+''"
    using digit_not_special [OF c(2)] by simp_all
  then show ?thesis using True p by (simp add: year_text_def read_year_def)
next
  case False
  have "length (pad_dec 6 \<bar>y\<bar>) = 6" "undec (pad_dec 6 \<bar>y\<bar>) = \<bar>y\<bar>" using pad_dec_digits [of "\<bar>y\<bar>" 6] assms by simp_all
  with False show ?thesis by (cases "y < 0") (simp_all add: year_text_def read_year_def)
qed

lemma clock_fields:
  fixes ms :: int
  assumes "0 \<le> ms" "ms < 86400000"
  shows "ms div 3600000 < 10 ^ 2" "ms div 60000 mod 60 < 10 ^ 2" "ms div 1000 mod 60 < 10 ^ 2" "ms mod 1000 < 10 ^ 3"
    "0 \<le> ms div 3600000" "0 \<le> ms div 60000 mod 60" "0 \<le> ms div 1000 mod 60" "0 \<le> ms mod 1000"
    "(ms div 3600000 * 60 + ms div 60000 mod 60) * 60000 + ms div 1000 mod 60 * 1000 + ms mod 1000 = ms"
proof -
  define u a where "u = ms mod 1000" and "a = ms div 1000"
  define sec b where "sec = a mod 60" and "b = a div 60"
  define m h where "m = b mod 60" and "h = b div 60"
  have parts: "ms = 1000 * a + u" "a = 60 * b + sec" "b = 60 * h + m"
    by (simp_all add: u_def a_def sec_def b_def m_def h_def)
  have ranges: "0 \<le> u" "u < 1000" "0 \<le> sec" "sec < 60" "0 \<le> m" "m < 60"
    by (simp_all add: u_def sec_def m_def)
  have "h < 100" "0 \<le> h" using assms parts ranges by linarith+
  moreover have "ms div 60000 = b" "ms div 3600000 = h"
    using parts ranges by (auto intro!: int_div_pos_eq [where r = "1000 * sec + u"]
      int_div_pos_eq [where r = "60000 * m + 1000 * sec + u"])
  ultimately show "ms div 3600000 < 10 ^ 2" "ms div 60000 mod 60 < 10 ^ 2" "ms div 1000 mod 60 < 10 ^ 2" "ms mod 1000 < 10 ^ 3"
    "0 \<le> ms div 3600000" "0 \<le> ms div 60000 mod 60" "0 \<le> ms div 1000 mod 60" "0 \<le> ms mod 1000"
    "(ms div 3600000 * 60 + ms div 60000 mod 60) * 60000 + ms div 1000 mod 60 * 1000 + ms mod 1000 = ms"
    using parts ranges unfolding u_def [symmetric] a_def [symmetric] sec_def [symmetric] by (simp_all flip: m_def)
qed

lemma civil_year_bound:
  assumes "civil n = (y, m, d)" "\<bar>n\<bar> \<le> 100000000"
  shows "\<bar>y\<bar> < 1000000"
proof -
  obtain Y doy where Y: "march_year (n + 719468) = (Y, doy)" by fastforce
  define k where "k = (n + 719468) div 146097"
  have "146097 * k + (n + 719468) mod 146097 = n + 719468" "0 \<le> (n + 719468) mod 146097"
    "(n + 719468) mod 146097 < 146097" by (simp_all add: k_def)
  then have "- 700 < k" "k < 700" using assms(2) by linarith+
  moreover have "400 * k \<le> Y" "Y < 400 * k + 400" using march_year_correct(5,6) [OF Y] by (simp_all add: k_def)
  moreover have "y = Y \<or> y = Y + 1" using assms(1) by (auto simp: civil_def Y Let_def split: if_splits)
  ultimately show ?thesis by linarith
qed

text \<open>Over the range of dates the text determines the time value.\<close>

theorem iso_roundtrip:
  assumes "\<bar>t\<bar> \<le> max_time"
  shows "read_iso (iso_text t) = t"
proof -
  define n ms where "n = t div 86400000" and "ms = t mod 86400000"
  have t: "t = 86400000 * n + ms" "0 \<le> ms" "ms < 86400000" by (simp_all add: n_def ms_def)
  obtain y m d where c: "civil n = (y, m, d)" by (cases "civil n") auto
  have "\<bar>n\<bar> \<le> 100000000" using assms t unfolding max_time_def by linarith
  note year = civil_year_bound [OF c this]
  have md: "0 \<le> m" "m < 10 ^ 2" "0 \<le> d" "d < 10 ^ 2" using civil_ranges [OF c] by simp_all
  define h mi sec u where "h = ms div 3600000" and "mi = ms div 60000 mod 60"
    and "sec = ms div 1000 mod 60" and "u = ms mod 1000"
  have f: "h < 10 ^ 2" "mi < 10 ^ 2" "sec < 10 ^ 2" "u < 10 ^ 3" "0 \<le> h" "0 \<le> mi" "0 \<le> sec" "0 \<le> u"
    and sum: "(h * 60 + mi) * 60000 + sec * 1000 + u = ms"
    unfolding h_def mi_def sec_def u_def by (rule clock_fields [OF t(2,3)])+
  have day: "day_number (y, m, d) = n" using civil_inverts [of n] c by simp
  have iso: "iso_text t = year_text y @ ''-'' @ pad_dec 2 m @ ''-'' @ pad_dec 2 d @ ''T'' @ pad_dec 2 h @ '':'' @
      pad_dec 2 mi @ '':'' @ pad_dec 2 sec @ ''.'' @ pad_dec 3 u @ ''Z''"
    unfolding iso_text_def n_def [symmetric] ms_def [symmetric] c Let_def prod.case h_def mi_def sec_def u_def ..
  have "read_iso (iso_text t) = ((n * 24 + h) * 60 + mi) * 60000 + sec * 1000 + u"
    unfolding iso using md f
    by (simp add: read_iso_def read_year_text [OF year] read_field_pad day)
  also have "\<dots> = t" using sum t(1) by (simp add: distrib_right)
  finally show ?thesis .
qed

end
