(* ===== verification/CircuitBreaker.thy ===== *)
theory CircuitBreaker
  imports DateText
begin

text \<open>
  \<open>ProviderCircuitBreaker\<close> of \<open>packages/sdk/src/circuit-breaker.ts\<close>. Every reading of the clock is
  an argument, one per call of \<open>Date.now()\<close> in the order the code makes them. An \<open>execute\<close> is cut
  at its \<open>await\<close>: \<open>execute_begin\<close> runs up to the call of the provider, \<open>execute_end\<close> from its
  settlement to the end of the \<open>finally\<close> block, and the machine of the last part interleaves the
  calls in flight in every order. The counters are integers (JavaScript counts exactly below
  \<open>2 ^ 53\<close>). Constructing a \<open>CircuitOpenError\<close> formats its message, which throws when the retry date
  is invalid.
\<close>

subsection \<open>Data\<close>

datatype CircuitState = CLOSED | OPEN | HALF_OPEN

record PartialBreakerConfig =
  p_failureThreshold :: "number partial"
  p_failureWindowMs :: "number partial"
  p_recoveryTimeoutMs :: "number partial"
  p_successThreshold :: "number partial"
  p_halfOpenMaxRequests :: "number partial"

record CircuitBreakerConfig =
  failureThreshold :: number
  failureWindowMs :: number
  recoveryTimeoutMs :: number
  successThreshold :: number
  halfOpenMaxRequests :: number

record CircuitStatus =
  st_state :: CircuitState
  st_failureCount :: nat
  st_lastFailureAt :: "number option"
  st_openedAt :: "number option"
  st_halfOpenSuccessCount :: "int option"

record FailureWindow =
  timestamp :: number
  fw_error :: "string option"

text \<open>
  What a provider call can throw: an \<open>Error\<close> object with a name and a message, a value without a
  \<open>message\<close> property, or \<open>null\<close> or \<open>undefined\<close>, on which reading \<open>message\<close> throws a
  \<open>TypeError\<close> itself.
\<close>

datatype thrown = ErrorObject string string | OtherValue | Nullish

datatype breaker_error =
    CircuitOpenError string number
  | RangeError
  | TypeError
  | ProviderError thrown

record ProviderCircuitBreaker =
  state :: CircuitState
  failures :: "FailureWindow list"
  halfOpenCount :: int
  openedAt :: "number option"
  halfOpenSuccessCount :: int
  cb_config :: CircuitBreakerConfig
  providerName :: string

subsection \<open>Operations\<close>

definition new_config :: "PartialBreakerConfig \<Rightarrow> CircuitBreakerConfig" where
  "new_config p =
     \<lparr>failureThreshold = spread_num (num_of_int 5) (p_failureThreshold p),
      failureWindowMs = spread_num (num_of_int 60000) (p_failureWindowMs p),
      recoveryTimeoutMs = spread_num (num_of_int 30000) (p_recoveryTimeoutMs p),
      successThreshold = spread_num (num_of_int 2) (p_successThreshold p),
      halfOpenMaxRequests = spread_num (num_of_int 3) (p_halfOpenMaxRequests p)\<rparr>"

definition no_config :: PartialBreakerConfig where
  "no_config = \<lparr>p_failureThreshold = Absent, p_failureWindowMs = Absent, p_recoveryTimeoutMs = Absent,
     p_successThreshold = Absent, p_halfOpenMaxRequests = Absent\<rparr>"

definition new_breaker :: "string \<Rightarrow> PartialBreakerConfig \<Rightarrow> ProviderCircuitBreaker" where
  "new_breaker name p =
     \<lparr>state = CLOSED, failures = [], halfOpenCount = 0, openedAt = None, halfOpenSuccessCount = 0,
      cb_config = new_config p, providerName = name\<rparr>"

definition transition :: "CircuitState \<Rightarrow> number \<Rightarrow> ProviderCircuitBreaker \<Rightarrow> ProviderCircuitBreaker" where
  "transition newState now b =
     (let b = b\<lparr>state := newState\<rparr>
      in case newState of
           OPEN \<Rightarrow> b\<lparr>openedAt := Some now, halfOpenSuccessCount := 0\<rparr>
         | HALF_OPEN \<Rightarrow> b\<lparr>halfOpenSuccessCount := 0, halfOpenCount := 0\<rparr>
         | CLOSED \<Rightarrow> b\<lparr>failures := [], openedAt := None, halfOpenSuccessCount := 0\<rparr>)"

definition canAttemptHalfOpen :: "number \<Rightarrow> ProviderCircuitBreaker \<Rightarrow> bool" where
  "canAttemptHalfOpen now b =
     (case openedAt b of
        None \<Rightarrow> False
      | Some t \<Rightarrow> if num_falsy t then False
                  else num_ge now (num_add t (recoveryTimeoutMs (cb_config b))))"

definition getState :: "number \<Rightarrow> ProviderCircuitBreaker \<Rightarrow> CircuitState \<times> ProviderCircuitBreaker" where
  "getState now b =
     (let b = (if state b = OPEN \<and> canAttemptHalfOpen now b then transition HALF_OPEN now b else b)
      in (state b, b))"

definition getRecentFailures ::
  "number \<Rightarrow> ProviderCircuitBreaker \<Rightarrow> FailureWindow list \<times> ProviderCircuitBreaker" where
  "getRecentFailures now b =
     (let windowStart = num_sub now (failureWindowMs (cb_config b));
          recent = filter (\<lambda>f. num_ge (timestamp f) windowStart) (failures b)
      in (recent, b\<lparr>failures := recent\<rparr>))"

definition shouldOpen :: "number \<Rightarrow> ProviderCircuitBreaker \<Rightarrow> bool \<times> ProviderCircuitBreaker" where
  "shouldOpen now b =
     (let (recent, b') = getRecentFailures now b
      in (num_ge (num_of_int (int (length recent))) (failureThreshold (cb_config b)), b'))"

definition recordSuccess :: "number \<Rightarrow> ProviderCircuitBreaker \<Rightarrow> ProviderCircuitBreaker" where
  "recordSuccess now b =
     (if state b = HALF_OPEN then
        (let b = b\<lparr>halfOpenSuccessCount := halfOpenSuccessCount b + 1\<rparr>
         in if num_ge (num_of_int (halfOpenSuccessCount b)) (successThreshold (cb_config b))
            then transition CLOSED now b else b)
      else b)"

text \<open>\<open>t1\<close> stamps the failure, \<open>t2\<close> is read by \<open>getRecentFailures\<close>, \<open>t3\<close> by \<open>transition\<close>.\<close>

definition recordFailure ::
  "number \<Rightarrow> number \<Rightarrow> number \<Rightarrow> string option \<Rightarrow> ProviderCircuitBreaker \<Rightarrow> ProviderCircuitBreaker" where
  "recordFailure t1 t2 t3 msg b =
     (let b = b\<lparr>failures := failures b @ [\<lparr>timestamp = t1, fw_error = msg\<rparr>]\<rparr>
      in if state b = HALF_OPEN then transition OPEN t3 b
         else if state b = CLOSED then
           (let (open_now, b) = shouldOpen t2 b
            in if open_now then transition OPEN t3 b else b)
         else b)"

text \<open>The message of a \<open>CircuitOpenError\<close>; \<open>None\<close> for the \<open>RangeError\<close> of \<open>toISOString\<close>.\<close>

definition circuit_open_message :: "string \<Rightarrow> number \<Rightarrow> string option" where
  "circuit_open_message name willRetryAt =
     map_option (\<lambda>date. ''Circuit breaker OPEN for provider \"'' @ name @ ''\". '' @
       ''Will attempt recovery at '' @ date) (toISOString willRetryAt)"

definition reject :: "ProviderCircuitBreaker \<Rightarrow> breaker_error" where
  "reject b =
     (let willRetryAt = time_clip (num_add (case openedAt b of None \<Rightarrow> NaN | Some t \<Rightarrow> t)
                                     (recoveryTimeoutMs (cb_config b)))
      in case circuit_open_message (providerName b) willRetryAt of
           None \<Rightarrow> RangeError
         | Some message \<Rightarrow> CircuitOpenError (providerName b) willRetryAt)"

lemma reject_eq:
  "reject b =
     (let willRetryAt = time_clip (num_add (case openedAt b of None \<Rightarrow> NaN | Some t \<Rightarrow> t)
                                     (recoveryTimeoutMs (cb_config b)))
      in if willRetryAt = NaN then RangeError else CircuitOpenError (providerName b) willRetryAt)"
proof -
  have "(case circuit_open_message n (time_clip x) of None \<Rightarrow> RangeError | Some m \<Rightarrow> CircuitOpenError n (time_clip x)) =
      (if time_clip x = NaN then RangeError else CircuitOpenError n (time_clip x))" for n x
    by (cases x) (simp_all add: circuit_open_message_def)
  then show ?thesis by (simp add: reject_def Let_def)
qed

text \<open>
  \<open>execute\<close> up to the call of \<open>fn\<close>: an error, or the state the call was admitted in, which the
  \<open>finally\<close> block reads again.
\<close>

definition execute_begin ::
  "number \<Rightarrow> ProviderCircuitBreaker \<Rightarrow> (breaker_error + CircuitState) \<times> ProviderCircuitBreaker" where
  "execute_begin now b =
     (let (currentState, b) = getState now b
      in if currentState = OPEN then (Inl (reject b), b)
         else if currentState = HALF_OPEN then
           (if num_ge (num_of_int (halfOpenCount b)) (halfOpenMaxRequests (cb_config b))
            then (Inl (reject b), b)
            else (Inr currentState, b\<lparr>halfOpenCount := halfOpenCount b + 1\<rparr>))
         else (Inr currentState, b))"

definition execute_finally :: "CircuitState \<Rightarrow> ProviderCircuitBreaker \<Rightarrow> ProviderCircuitBreaker" where
  "execute_finally currentState b =
     (if currentState = HALF_OPEN then b\<lparr>halfOpenCount := halfOpenCount b - 1\<rparr> else b)"

fun execute_end ::
  "number \<Rightarrow> number \<Rightarrow> number \<Rightarrow> CircuitState \<Rightarrow> thrown + 'r \<Rightarrow> ProviderCircuitBreaker \<Rightarrow>
   (breaker_error + 'r) \<times> ProviderCircuitBreaker" where
  "execute_end t1 t2 t3 currentState (Inr result) b =
     (Inr result, execute_finally currentState (recordSuccess t1 b))"
| "execute_end t1 t2 t3 currentState (Inl Nullish) b =
     (Inl TypeError, execute_finally currentState b)"
| "execute_end t1 t2 t3 currentState (Inl (ErrorObject name msg)) b =
     (Inl (ProviderError (ErrorObject name msg)),
      execute_finally currentState (recordFailure t1 t2 t3 (Some msg) b))"
| "execute_end t1 t2 t3 currentState (Inl OtherValue) b =
     (Inl (ProviderError OtherValue),
      execute_finally currentState (recordFailure t1 t2 t3 None b))"

text \<open>A call that nothing interleaves with: \<open>fn\<close> settles with \<open>outcome\<close>.\<close>

definition execute ::
  "number \<Rightarrow> number \<Rightarrow> number \<Rightarrow> number \<Rightarrow> thrown + 'r \<Rightarrow> ProviderCircuitBreaker \<Rightarrow>
   (breaker_error + 'r) \<times> ProviderCircuitBreaker" where
  "execute t0 t1 t2 t3 outcome b =
     (case execute_begin t0 b of
        (Inl e, b) \<Rightarrow> (Inl e, b)
      | (Inr currentState, b) \<Rightarrow> execute_end t1 t2 t3 currentState outcome b)"

definition getStatus :: "number \<Rightarrow> number \<Rightarrow> ProviderCircuitBreaker \<Rightarrow> CircuitStatus \<times> ProviderCircuitBreaker" where
  "getStatus t1 t2 b =
     (let b = snd (getState t1 b);
          (recent, b) = getRecentFailures t2 b
      in (\<lparr>st_state = state b,
           st_failureCount = length recent,
           st_lastFailureAt = (if 0 < length recent
             then Some (time_clip (timestamp (recent ! (length recent - 1)))) else None),
           st_openedAt = (case openedAt b of
               None \<Rightarrow> None
             | Some t \<Rightarrow> if num_falsy t then None else Some (time_clip t)),
           st_halfOpenSuccessCount =
             (if state b = HALF_OPEN then Some (halfOpenSuccessCount b) else None)\<rparr>,
          b))"

definition reset_breaker :: "ProviderCircuitBreaker \<Rightarrow> ProviderCircuitBreaker" where
  "reset_breaker b =
     b\<lparr>state := CLOSED, failures := [], halfOpenCount := 0, openedAt := None, halfOpenSuccessCount := 0\<rparr>"

subsection \<open>What each operation leaves alone\<close>

lemma transition_fields [simp]:
  "state (transition s now b) = s"
  "cb_config (transition s now b) = cb_config b"
  "providerName (transition s now b) = providerName b"
  "halfOpenCount (transition s now b) = (if s = HALF_OPEN then 0 else halfOpenCount b)"
  "openedAt (transition s now b) = (case s of OPEN \<Rightarrow> Some now | HALF_OPEN \<Rightarrow> openedAt b | CLOSED \<Rightarrow> None)"
  "failures (transition s now b) = (if s = CLOSED then [] else failures b)"
  "halfOpenSuccessCount (transition s now b) = 0"
  by (cases s; simp add: transition_def)+

lemma getState_fst: "fst (getState now b) = state (snd (getState now b))"
  by (simp add: getState_def Let_def)

lemma recordSuccess_fields [simp]:
  "cb_config (recordSuccess now b) = cb_config b"
  "halfOpenCount (recordSuccess now b) = halfOpenCount b"
  by (auto simp: recordSuccess_def Let_def)

lemma recordFailure_fields [simp]:
  "cb_config (recordFailure t1 t2 t3 msg b) = cb_config b"
  "halfOpenCount (recordFailure t1 t2 t3 msg b) = halfOpenCount b"
  by (auto simp: recordFailure_def shouldOpen_def getRecentFailures_def Let_def)

lemma getState_config [simp]: "cb_config (snd (getState now b)) = cb_config b"
  by (simp add: getState_def Let_def)

lemma getRecentFailures_fields [simp]:
  "state (snd (getRecentFailures now b)) = state b"
  "openedAt (snd (getRecentFailures now b)) = openedAt b"
  "halfOpenCount (snd (getRecentFailures now b)) = halfOpenCount b"
  "halfOpenSuccessCount (snd (getRecentFailures now b)) = halfOpenSuccessCount b"
  "cb_config (snd (getRecentFailures now b)) = cb_config b"
  by (simp_all add: getRecentFailures_def Let_def)

lemma execute_finally_fields [simp]:
  "state (execute_finally s b) = state b" "openedAt (execute_finally s b) = openedAt b"
  "failures (execute_finally s b) = failures b" "cb_config (execute_finally s b) = cb_config b"
  "halfOpenSuccessCount (execute_finally s b) = halfOpenSuccessCount b"
  "providerName (execute_finally s b) = providerName b"
  "halfOpenCount (execute_finally s b) = halfOpenCount b - (if s = HALF_OPEN then 1 else 0)"
  by (simp_all add: execute_finally_def)

text \<open>What the settlement of a call does to the breaker, whatever it returns.\<close>

lemma execute_end_cases:
  "snd (execute_end t1 t2 t3 s r b) = execute_finally s (recordSuccess t1 b) \<or>
   snd (execute_end t1 t2 t3 s r b) = execute_finally s b \<or>
   (\<exists>msg. snd (execute_end t1 t2 t3 s r b) = execute_finally s (recordFailure t1 t2 t3 msg b))"
proof (cases r)
  case (Inl e)
  then show ?thesis by (cases e) auto
qed simp

lemma execute_begin_state:
  "execute_begin now b = (r, b') \<Longrightarrow>
   b' = (let b1 = snd (getState now b)
         in case r of Inr s \<Rightarrow> (if s = HALF_OPEN then b1\<lparr>halfOpenCount := halfOpenCount b1 + 1\<rparr> else b1)
            | Inl e \<Rightarrow> b1) \<and>
   (\<forall>s. r = Inr s \<longrightarrow> s = state b' \<and> s \<noteq> OPEN)"
  by (auto simp: execute_begin_def getState_def Let_def split: if_splits)

subsection \<open>Calls in flight\<close>

text \<open>
  The breaker together with the admitted calls whose provider has not settled, each with the state
  it was admitted in. A step is one uninterrupted piece of code: the beginning of a call, the
  settlement of any call in flight, or one of the public methods.
\<close>

record machine =
  breaker :: ProviderCircuitBreaker
  inflight :: "CircuitState list"

inductive breaker_step :: "machine \<Rightarrow> machine \<Rightarrow> bool" where
  admit: "execute_begin now (breaker m) = (Inr s, b) \<Longrightarrow>
    breaker_step m \<lparr>breaker = b, inflight = inflight m @ [s]\<rparr>"
| refuse: "execute_begin now (breaker m) = (Inl e, b) \<Longrightarrow> breaker_step m (m\<lparr>breaker := b\<rparr>)"
| settle: "i < length (inflight m) \<Longrightarrow>
    b = snd (execute_end t1 t2 t3 (inflight m ! i) (outcome :: thrown + unit) (breaker m)) \<Longrightarrow>
    breaker_step m \<lparr>breaker = b, inflight = take i (inflight m) @ drop (Suc i) (inflight m)\<rparr>"
| poll: "breaker_step m (m\<lparr>breaker := snd (getState now (breaker m))\<rparr>)"
| status: "breaker_step m (m\<lparr>breaker := snd (getStatus t1 t2 (breaker m))\<rparr>)"
| success: "breaker_step m (m\<lparr>breaker := recordSuccess now (breaker m)\<rparr>)"
| failure: "breaker_step m (m\<lparr>breaker := recordFailure t1 t2 t3 msg (breaker m)\<rparr>)"
| reset: "breaker_step m (m\<lparr>breaker := reset_breaker (breaker m)\<rparr>)"

inductive breaker_reachable :: "string \<Rightarrow> PartialBreakerConfig \<Rightarrow> machine \<Rightarrow> bool" for name p where
  start: "breaker_reachable name p \<lparr>breaker = new_breaker name p, inflight = []\<rparr>"
| step: "breaker_reachable name p m \<Longrightarrow> breaker_step m m' \<Longrightarrow> breaker_reachable name p m'"

text \<open>Which pieces of code can have changed the breaker in one step.\<close>

lemma breaker_step_effect:
  assumes "breaker_step m m'"
  obtains (get) now k where "breaker m' = (snd (getState now (breaker m)))\<lparr>halfOpenCount := k\<rparr>"
    | (stat) t1 t2 where "breaker m' = snd (getStatus t1 t2 (breaker m))"
    | (ok) now k where "breaker m' = (recordSuccess now (breaker m))\<lparr>halfOpenCount := k\<rparr>"
    | (nothing) k where "breaker m' = (breaker m)\<lparr>halfOpenCount := k\<rparr>"
    | (fail) t1 t2 t3 msg k where "breaker m' = (recordFailure t1 t2 t3 msg (breaker m))\<lparr>halfOpenCount := k\<rparr>"
    | (zero) "breaker m' = reset_breaker (breaker m)"
proof -
  have self: "\<exists>k. b = b\<lparr>halfOpenCount := k\<rparr>" for b :: ProviderCircuitBreaker
    by (rule exI [of _ "halfOpenCount b"]) simp
  have fin: "\<exists>k. execute_finally s b = b\<lparr>halfOpenCount := k\<rparr>" for s b
    using self [of b] by (cases "s = HALF_OPEN") (auto simp: execute_finally_def)
  have begun: "\<exists>k. b = (snd (getState now (breaker m)))\<lparr>halfOpenCount := k\<rparr>"
    if "execute_begin now (breaker m) = (r, b)" for now r b
  proof (cases r)
    case (Inl e)
    then have "b = snd (getState now (breaker m))" using execute_begin_state [OF that] by simp
    then show ?thesis using self [of b] by simp
  next
    case (Inr s)
    then show ?thesis
      using execute_begin_state [OF that] self [of "snd (getState now (breaker m))"]
      by (cases "s = HALF_OPEN") (auto simp: Let_def)
  qed
  show thesis
    using assms
  proof cases
    case (admit now s b)
    then show ?thesis using begun [OF admit(2)] that(1) by auto
  next
    case (refuse now e b)
    then show ?thesis using begun [OF refuse(2)] that(1) by auto
  next
    case (settle i b t1 t2 t3 outcome)
    have "b = snd (execute_end t1 t2 t3 (inflight m ! i) outcome (breaker m))" by (rule settle(3))
    then consider "b = execute_finally (inflight m ! i) (recordSuccess t1 (breaker m))"
      | "b = execute_finally (inflight m ! i) (breaker m)"
      | msg where "b = execute_finally (inflight m ! i) (recordFailure t1 t2 t3 msg (breaker m))"
      using execute_end_cases [of t1 t2 t3 "inflight m ! i" outcome "breaker m"] by auto
    then show ?thesis
    proof cases
      case 1
      then show ?thesis using fin that(3) settle(1) by (metis machine.select_convs(1))
    next
      case 2
      then show ?thesis using fin that(4) settle(1) by (metis machine.select_convs(1))
    next
      case (3 msg)
      then show ?thesis using fin that(5) settle(1) by (metis machine.select_convs(1))
    qed
  next
    case (poll now)
    then show ?thesis using self [of "snd (getState now (breaker m))"] that(1) by auto
  next
    case (status t1 t2)
    then show ?thesis using that(2) by simp
  next
    case (success now)
    then show ?thesis using self [of "recordSuccess now (breaker m)"] that(3) by auto
  next
    case (failure t1 t2 t3 msg)
    then show ?thesis using self [of "recordFailure t1 t2 t3 msg (breaker m)"] that(5) by auto
  next
    case reset
    then show ?thesis using that(6) by simp
  qed
qed

subsection \<open>The invariant of the state machine\<close>

definition breaker_inv :: "ProviderCircuitBreaker \<Rightarrow> bool" where
  "breaker_inv b \<longleftrightarrow>
     (openedAt b = None \<longleftrightarrow> state b = CLOSED) \<and>
     0 \<le> halfOpenSuccessCount b \<and>
     (0 < halfOpenSuccessCount b \<longrightarrow>
        state b = HALF_OPEN \<and>
        \<not> num_ge (num_of_int (halfOpenSuccessCount b)) (successThreshold (cb_config b)))"

lemma breaker_inv_count [simp]: "breaker_inv (b\<lparr>halfOpenCount := k\<rparr>) = breaker_inv b"
  by (simp add: breaker_inv_def)

lemma breaker_inv_failures [simp]: "breaker_inv (b\<lparr>failures := fs\<rparr>) = breaker_inv b"
  by (simp add: breaker_inv_def)

lemma transition_inv:
  "s \<noteq> HALF_OPEN \<Longrightarrow> breaker_inv (transition s now b)"
  "openedAt b \<noteq> None \<Longrightarrow> breaker_inv (transition HALF_OPEN now b)"
  by (cases s; simp add: breaker_inv_def)+

lemma new_breaker_inv: "breaker_inv (new_breaker name p)"
  by (simp add: breaker_inv_def new_breaker_def)

lemma getState_inv: "breaker_inv b \<Longrightarrow> breaker_inv (snd (getState now b))"
  using transition_inv(2) [of b] by (auto simp: getState_def Let_def breaker_inv_def)

lemma getRecentFailures_inv: "breaker_inv b \<Longrightarrow> breaker_inv (snd (getRecentFailures now b))"
  by (simp add: getRecentFailures_def Let_def)

lemma getStatus_state: "snd (getStatus t1 t2 b) = snd (getRecentFailures t2 (snd (getState t1 b)))"
  by (simp add: getStatus_def Let_def split_def)

lemma recordSuccess_inv: "breaker_inv b \<Longrightarrow> breaker_inv (recordSuccess now b)"
  using transition_inv(1) [of CLOSED] by (auto simp: recordSuccess_def Let_def breaker_inv_def)

lemma recordFailure_inv: "breaker_inv b \<Longrightarrow> breaker_inv (recordFailure t1 t2 t3 msg b)"
  using transition_inv(1) [of OPEN]
  by (auto simp: recordFailure_def shouldOpen_def getRecentFailures_def Let_def)

lemma reset_breaker_inv: "breaker_inv (reset_breaker b)"
  by (simp add: breaker_inv_def reset_breaker_def)

lemmas breaker_inv_ops = getState_inv getRecentFailures_inv recordSuccess_inv recordFailure_inv
  reset_breaker_inv

lemma breaker_step_inv: "breaker_step m m' \<Longrightarrow> breaker_inv (breaker m) \<Longrightarrow> breaker_inv (breaker m')"
  by (erule breaker_step_effect) (simp_all add: breaker_inv_ops getStatus_state)

lemma reachable_inv: "breaker_reachable name p m \<Longrightarrow> breaker_inv (breaker m)"
  by (induction rule: breaker_reachable.induct) (auto simp: new_breaker_inv intro: breaker_step_inv)

lemma breaker_step_config: "breaker_step m m' \<Longrightarrow> cb_config (breaker m') = cb_config (breaker m)"
  by (erule breaker_step_effect) (simp_all add: getStatus_state reset_breaker_def)

lemma reachable_config: "breaker_reachable name p m \<Longrightarrow> cb_config (breaker m) = new_config p"
  by (induction rule: breaker_reachable.induct) (auto simp: new_breaker_def breaker_step_config)

subsection \<open>Labelled steps\<close>

text \<open>
  The same steps, each labelled with the piece of code that runs and with the clock readings that
  piece makes, in the order it makes them. \<open>breaker_fire\<close> runs a label; the settlement of a call
  is possible only for a call in flight.
\<close>

datatype 't breaker_event =
    BeginCall 't
  | SettleCall nat 't 't 't "thrown + unit"
  | PollState 't
  | ReadStatus 't 't
  | NoteSuccess 't
  | NoteFailure 't 't 't "string option"
  | ResetCall

fun event_possible :: "machine \<Rightarrow> 't breaker_event \<Rightarrow> bool" where
  "event_possible m (SettleCall i t1 t2 t3 outcome) = (i < length (inflight m))"
| "event_possible m e = True"

fun breaker_fire :: "machine \<Rightarrow> number breaker_event \<Rightarrow> machine" where
  "breaker_fire m (BeginCall t) =
     (case execute_begin t (breaker m) of
        (Inl e, b) \<Rightarrow> m\<lparr>breaker := b\<rparr>
      | (Inr s, b) \<Rightarrow> \<lparr>breaker = b, inflight = inflight m @ [s]\<rparr>)"
| "breaker_fire m (SettleCall i t1 t2 t3 outcome) =
     \<lparr>breaker = snd (execute_end t1 t2 t3 (inflight m ! i) outcome (breaker m)),
      inflight = take i (inflight m) @ drop (Suc i) (inflight m)\<rparr>"
| "breaker_fire m (PollState t) = m\<lparr>breaker := snd (getState t (breaker m))\<rparr>"
| "breaker_fire m (ReadStatus t1 t2) = m\<lparr>breaker := snd (getStatus t1 t2 (breaker m))\<rparr>"
| "breaker_fire m (NoteSuccess t) = m\<lparr>breaker := recordSuccess t (breaker m)\<rparr>"
| "breaker_fire m (NoteFailure t1 t2 t3 msg) = m\<lparr>breaker := recordFailure t1 t2 t3 msg (breaker m)\<rparr>"
| "breaker_fire m ResetCall = m\<lparr>breaker := reset_breaker (breaker m)\<rparr>"

lemma breaker_fire_step: "event_possible m e \<Longrightarrow> breaker_step m (breaker_fire m e)"
  by (cases e) (auto split: prod.split sum.split intro: breaker_step.intros)

lemma breaker_step_fired:
  assumes "breaker_step m m'"
  obtains e where "event_possible m e" "m' = breaker_fire m e"
  using assms
proof cases
  case (admit now s b)
  then show thesis using that [of "BeginCall now"] by simp
next
  case (refuse now e b)
  then show thesis using that [of "BeginCall now"] by simp
next
  case (settle i b t1 t2 t3 outcome)
  then show thesis using that [of "SettleCall i t1 t2 t3 outcome"] by simp
next
  case (poll now)
  then show thesis using that [of "PollState now"] by simp
next
  case (status t1 t2)
  then show thesis using that [of "ReadStatus t1 t2"] by simp
next
  case (success now)
  then show thesis using that [of "NoteSuccess now"] by simp
next
  case (failure t1 t2 t3 msg)
  then show thesis using that [of "NoteFailure t1 t2 t3 msg"] by simp
next
  case reset
  then show thesis using that [of ResetCall] by simp
qed

text \<open>The runs of one breaker, with the sequence of their labels.\<close>

inductive breaker_run :: "string \<Rightarrow> PartialBreakerConfig \<Rightarrow> number breaker_event list \<Rightarrow> machine \<Rightarrow> bool"
  for name p where
  run_start: "breaker_run name p [] \<lparr>breaker = new_breaker name p, inflight = []\<rparr>"
| run_next: "breaker_run name p es m \<Longrightarrow> event_possible m e \<Longrightarrow> breaker_run name p (es @ [e]) (breaker_fire m e)"

lemma run_reachable: "breaker_run name p es m \<Longrightarrow> breaker_reachable name p m"
  by (induction rule: breaker_run.induct) (auto intro: breaker_reachable.intros breaker_fire_step)

lemma reachable_run: "breaker_reachable name p m \<Longrightarrow> \<exists>es. breaker_run name p es m"
proof (induction rule: breaker_reachable.induct)
  case start
  show ?case using breaker_run.run_start by blast
next
  case (step m m')
  then obtain es where "breaker_run name p es m" by blast
  then show ?case using breaker_step_fired [OF step.hyps(2)] breaker_run.run_next by metis
qed

text \<open>The run of a list of labels, \<open>None\<close> where a label is not possible.\<close>

fun fire_all :: "machine \<Rightarrow> number breaker_event list \<Rightarrow> machine option" where
  "fire_all m [] = Some m"
| "fire_all m (e # es) = (if event_possible m e then fire_all (breaker_fire m e) es else None)"

lemma fire_all_run:
  "breaker_run name p ds m \<Longrightarrow> fire_all m es = Some m' \<Longrightarrow> breaker_run name p (ds @ es) m'"
proof (induction es arbitrary: ds m)
  case (Cons e es)
  then show ?case using breaker_run.run_next [OF Cons.prems(1), of e] by (fastforce split: if_splits)
qed simp

lemmas start_fire_all = fire_all_run [OF breaker_run.run_start, simplified]

subsection \<open>Probes in flight\<close>

text \<open>
  \<open>halfOpenCount\<close> counts the calls in flight that were admitted as probes, as long as no such call
  is in flight when the count is set to zero: on entering \<open>HALF_OPEN\<close> and on a reset.
\<close>

definition probes :: "machine \<Rightarrow> nat" where
  "probes m = count_list (inflight m) HALF_OPEN"

text \<open>
  A label is quiet when it neither resets the breaker nor begins a half-open period while a probe
  is in flight. Everything else is allowed, the closing success of a probe included.
\<close>

definition quiet_event :: "machine \<Rightarrow> number breaker_event \<Rightarrow> bool" where
  "quiet_event m e \<longleftrightarrow> 0 < probes m \<longrightarrow>
     e \<noteq> ResetCall \<and> \<not> (state (breaker m) = OPEN \<and> state (breaker (breaker_fire m e)) = HALF_OPEN)"

definition probe_inv :: "machine \<Rightarrow> bool" where
  "probe_inv m \<longleftrightarrow> halfOpenCount (breaker m) = int (probes m)"

lemma count_list_remove:
  "i < length xs \<Longrightarrow>
   int (count_list (take i xs @ drop (Suc i) xs) x) = int (count_list xs x) - (if xs ! i = x then 1 else 0)"
proof -
  assume i: "i < length xs"
  have "count_list xs x = count_list (take i xs @ xs ! i # drop (Suc i) xs) x"
    using id_take_nth_drop [OF i] by simp
  then show ?thesis by simp
qed

lemma getState_count:
  "halfOpenCount (snd (getState now b)) =
     (if state b = OPEN \<and> state (snd (getState now b)) = HALF_OPEN then 0 else halfOpenCount b)"
  by (auto simp: getState_def Let_def)

lemma execute_begin_count:
  assumes "execute_begin now b = (r, b')"
  shows "halfOpenCount b' =
      (if state b = OPEN \<and> state b' = HALF_OPEN then 0 else halfOpenCount b) +
      (if r = Inr HALF_OPEN then 1 else 0)"
    and "r = Inr HALF_OPEN \<Longrightarrow> \<not> num_ge (num_of_int (halfOpenCount b' - 1)) (halfOpenMaxRequests (cb_config b))"
  using assms by (auto simp: execute_begin_def getState_def Let_def split: if_splits)

lemma execute_end_count [simp]:
  "halfOpenCount (snd (execute_end t1 t2 t3 s r b)) = halfOpenCount b - (if s = HALF_OPEN then 1 else 0)"
  using execute_end_cases [of t1 t2 t3 s r b] by auto

lemma quiet_event_probe_inv:
  assumes "event_possible m e" "quiet_event m e" "probe_inv m"
  shows "probe_inv (breaker_fire m e)"
proof (cases e)
  case (BeginCall t)
  obtain r b where x: "execute_begin t (breaker m) = (r, b)" by (cases "execute_begin t (breaker m)")
  then show ?thesis
    using execute_begin_count(1) [OF x] assms
    by (cases r) (auto simp: BeginCall quiet_event_def probe_inv_def probes_def split: if_splits)
next
  case (SettleCall i t1 t2 t3 outcome)
  then show ?thesis
    using assms count_list_remove [of i "inflight m" HALF_OPEN] by (simp add: probe_inv_def probes_def)
qed (use assms in \<open>auto simp: quiet_event_def probe_inv_def probes_def getState_count getStatus_state
       reset_breaker_def\<close>)

inductive quiet_reachable :: "string \<Rightarrow> PartialBreakerConfig \<Rightarrow> machine \<Rightarrow> bool" for name p where
  quiet_start: "quiet_reachable name p \<lparr>breaker = new_breaker name p, inflight = []\<rparr>"
| quiet_next: "quiet_reachable name p m \<Longrightarrow> event_possible m e \<Longrightarrow> quiet_event m e \<Longrightarrow>
    quiet_reachable name p (breaker_fire m e)"

lemma quiet_reachable_inv: "quiet_reachable name p m \<Longrightarrow> probe_inv m \<and> breaker_reachable name p m"
proof (induction rule: quiet_reachable.induct)
  case quiet_start
  show ?case by (auto simp: probe_inv_def probes_def new_breaker_def intro: breaker_reachable.start [unfolded new_breaker_def])
next
  case (quiet_next m e)
  then show ?case by (auto intro: quiet_event_probe_inv breaker_reachable.step breaker_fire_step)
qed

text \<open>No step makes the number of probes exceed the configured maximum while the count is right.\<close>

lemma probe_limit_step:
  assumes step: "breaker_step m m'" and inv: "probe_inv m'"
    and limit: "halfOpenMaxRequests (cb_config (breaker m)) = num_of_int M" "0 \<le> M" "int (probes m) \<le> M"
  shows "int (probes m') \<le> M"
  using step
proof cases
  case (admit now s b)
  show ?thesis
  proof (cases "s = HALF_OPEN")
    case True
    then show ?thesis
      using execute_begin_count(2) [OF admit(2)] inv limit admit(1) by (simp add: probe_inv_def num_le_int)
  next
    case False
    then show ?thesis using admit(1) limit(3) by (simp add: probes_def)
  qed
next
  case (settle i b t1 t2 t3 outcome)
  then show ?thesis using count_list_remove [OF settle(2), of HALF_OPEN] limit(3) by (simp add: probes_def)
qed (use limit(3) in \<open>simp_all add: probes_def\<close>)

subsection \<open>Integral clocks\<close>

text \<open>
  The timed theorems read the clock as whole milliseconds. \<open>0 < t\<close> because the code takes an
  \<open>openedAt\<close> of zero for a missing one.
\<close>

definition clock_ok :: "int \<Rightarrow> bool" where
  "clock_ok t \<longleftrightarrow> 0 < t \<and> t \<le> max_time"

definition duration_ok :: "int \<Rightarrow> bool" where
  "duration_ok d \<longleftrightarrow> 0 \<le> d \<and> d \<le> 10 ^ 14"

lemma clock_sum: "clock_ok t \<Longrightarrow> duration_ok r \<Longrightarrow> num_add (num_of_int t) (num_of_int r) = num_of_int (t + r)"
  by (rule num_add_int) (auto simp: clock_ok_def duration_ok_def max_time_def)

lemma clock_diff: "clock_ok t \<Longrightarrow> duration_ok w \<Longrightarrow> num_sub (num_of_int t) (num_of_int w) = num_of_int (t - w)"
  by (rule num_sub_int) (auto simp: clock_ok_def duration_ok_def max_time_def)

lemma clock_truthy: "clock_ok t \<Longrightarrow> \<not> num_falsy (num_of_int t)"
  by (simp add: clock_ok_def num_falsy_def is_zero_def)

lemma canAttempt_int:
  assumes "openedAt b = Some (num_of_int o1)" "recoveryTimeoutMs (cb_config b) = num_of_int r"
    "clock_ok o1" "duration_ok r"
  shows "canAttemptHalfOpen (num_of_int t) b \<longleftrightarrow> o1 + r \<le> t"
  using assms by (simp add: canAttemptHalfOpen_def clock_sum clock_truthy num_le_int del: of_int_add)

subsection \<open>Opening\<close>

text \<open>A failing call, all of whose clock readings are given.\<close>

fun failing_call :: "ProviderCircuitBreaker \<Rightarrow> int \<times> int \<times> int \<times> int \<times> thrown \<Rightarrow> ProviderCircuitBreaker" where
  "failing_call b (t0, t1, t2, t3, e) =
     snd (execute (num_of_int t0) (num_of_int t1) (num_of_int t2) (num_of_int t3) (Inl e :: thrown + unit) b)"

fun thrown_message :: "thrown \<Rightarrow> string option" where
  "thrown_message (ErrorObject name msg) = Some msg"
| "thrown_message e = None"

lemma execute_begin_closed: "state b = CLOSED \<Longrightarrow> execute_begin now b = (Inr CLOSED, b)"
  by (simp add: execute_begin_def getState_def Let_def)

lemma failing_closed:
  "state b = CLOSED \<Longrightarrow> e \<noteq> Nullish \<Longrightarrow>
   failing_call b (t0, t1, t2, t3, e) =
     recordFailure (num_of_int t1) (num_of_int t2) (num_of_int t3) (thrown_message e) b"
  by (cases e) (simp_all add: execute_def execute_begin_closed execute_finally_def)

lemma recordFailure_closed:
  assumes "state b = CLOSED" "failureThreshold (cb_config b) = num_of_int n"
    "failureWindowMs (cb_config b) = num_of_int w" "clock_ok t2" "duration_ok w"
    and recent: "recent = filter (\<lambda>f. num_ge (timestamp f) (num_of_int (t2 - w)))
                       (failures b @ [\<lparr>timestamp = t1, fw_error = msg\<rparr>])"
  shows "recordFailure t1 (num_of_int t2) t3 msg b =
    (if n \<le> int (length recent) then transition OPEN t3 (b\<lparr>failures := recent\<rparr>)
     else b\<lparr>failures := recent\<rparr>)"
  unfolding recent using assms(1-6)
  by (simp add: recordFailure_def shouldOpen_def getRecentFailures_def Let_def clock_diff num_le_int
      del: of_int_diff filter_append of_int_of_nat_eq)

text \<open>A breaker that has left \<open>CLOSED\<close> does not return to it while every call fails.\<close>

lemma recordFailure_state:
  "state (recordFailure t1 t2 t3 msg b) =
     (if state b = CLOSED \<and> \<not> fst (shouldOpen t2 (b\<lparr>failures := failures b @ [\<lparr>timestamp = t1, fw_error = msg\<rparr>]\<rparr>))
      then CLOSED else OPEN)"
  by (cases "state b"; auto simp: recordFailure_def shouldOpen_def getRecentFailures_def Let_def)

lemma failing_not_closed:
  assumes "state b \<noteq> CLOSED"
  shows "state (failing_call b c) \<noteq> CLOSED"
proof -
  obtain t0 t1 t2 t3 e where c: "c = (t0, t1, t2, t3, e)" by (cases c)
  obtain r b' where started: "execute_begin (num_of_int t0) b = (r, b')" by (cases "execute_begin (num_of_int t0) b")
  have "state b' \<noteq> CLOSED"
    using started assms by (auto simp: execute_begin_def getState_def Let_def split: if_splits)
  then show ?thesis
    by (cases r; cases e) (simp_all add: c execute_def started recordFailure_state)
qed

lemma failing_run_not_closed: "state b \<noteq> CLOSED \<Longrightarrow> state (foldl failing_call b cs) \<noteq> CLOSED"
  by (induction cs arbitrary: b) (simp_all add: failing_not_closed)

text \<open>
  The reference for the rolling window: the whole history of failures, with the time each was
  stamped and the time the window was read. \<open>over_threshold n w hs\<close> says that the last entry finds
  \<open>n\<close> failures of the history in its window.
\<close>

type_synonym call = "int \<times> int \<times> int \<times> int \<times> thrown"

fun call_stamp :: "call \<Rightarrow> int" where "call_stamp (t0, t1, t2, t3, e) = t1"
fun call_read :: "call \<Rightarrow> int" where "call_read (t0, t1, t2, t3, e) = t2"
fun call_error :: "call \<Rightarrow> thrown" where "call_error (t0, t1, t2, t3, e) = e"

definition stamp :: "call \<Rightarrow> FailureWindow" where
  "stamp c = \<lparr>timestamp = num_of_int (call_stamp c), fw_error = thrown_message (call_error c)\<rparr>"

definition recent_calls :: "int \<Rightarrow> call list \<Rightarrow> call \<Rightarrow> call list" where
  "recent_calls w hs c = filter (\<lambda>d. call_read c - w \<le> call_stamp d) hs"

definition failing_call_ok :: "call \<Rightarrow> bool" where
  "failing_call_ok c \<longleftrightarrow> clock_ok (call_read c) \<and> call_error c \<noteq> Nullish"

lemma filter_stamps:
  "filter (\<lambda>f. num_ge (timestamp f) (num_of_int a)) (map stamp hs) = map stamp (filter (\<lambda>d. a \<le> call_stamp d) hs)"
  by (induction hs) (simp_all add: stamp_def)

lemma failing_call_window:
  assumes b: "state b = CLOSED" "failureThreshold (cb_config b) = num_of_int n"
    "failureWindowMs (cb_config b) = num_of_int w" "duration_ok w"
    and c: "failing_call_ok c" and f: "failures b = map stamp hs"
  shows "cb_config (failing_call b c) = cb_config b \<and>
    (if n \<le> int (length (recent_calls w (hs @ [c]) c)) then state (failing_call b c) = OPEN
     else state (failing_call b c) = CLOSED \<and> failures (failing_call b c) = map stamp (recent_calls w (hs @ [c]) c))"
proof -
  obtain t0 t1 t2 t3 e where eq: "c = (t0, t1, t2, t3, e)" by (cases c)
  have fs: "failures b @ [\<lparr>timestamp = num_of_int t1, fw_error = thrown_message e\<rparr>] = map stamp (hs @ [c])"
    using f by (simp add: stamp_def eq)
  have "failing_call b c = recordFailure (num_of_int t1) (num_of_int t2) (num_of_int t3) (thrown_message e) b"
    using failing_closed [OF b(1), of e t0 t1 t2 t3] c by (simp add: eq failing_call_ok_def)
  then show ?thesis
    using recordFailure_closed [OF b(1-3) _ b(4) refl, of t2 "num_of_int t1" "num_of_int t3" "thrown_message e"] c b(1)
    by (simp only: fs filter_stamps) (simp add: recent_calls_def failing_call_ok_def eq)
qed

lemma recent_calls_prune:
  "call_read c \<le> call_read d \<Longrightarrow> recent_calls w (recent_calls w hs c @ [d]) d = recent_calls w (hs @ [d]) d"
  by (simp add: recent_calls_def, rule filter_cong) auto

lemma rolling_window_run:
  assumes "state b = CLOSED" "failures b = []" "failureThreshold (cb_config b) = num_of_int n"
    "failureWindowMs (cb_config b) = num_of_int w" "duration_ok w"
    and "\<forall>c \<in> set cs. failing_call_ok c" "sorted (map call_read cs)"
  defines "r \<equiv> foldl failing_call b"
  shows "(state (r cs) = CLOSED \<longleftrightarrow>
      (\<forall>i < length cs. int (length (recent_calls w (take (Suc i) cs) (cs ! i))) < n)) \<and>
    (state (r cs) = CLOSED \<longrightarrow> cb_config (r cs) = cb_config b \<and>
       failures (r cs) = map stamp (if cs = [] then [] else recent_calls w cs (last cs)))"
  using assms(6,7)
proof (induction cs rule: rev_induct)
  case Nil
  then show ?case using assms by (simp add: r_def)
next
  case (snoc c cs)
  have split: "(\<forall>i < length (cs @ [c]). int (length (recent_calls w (take (Suc i) (cs @ [c])) ((cs @ [c]) ! i))) < n)
      \<longleftrightarrow> (\<forall>i < length cs. int (length (recent_calls w (take (Suc i) cs) (cs ! i))) < n) \<and>
          int (length (recent_calls w (cs @ [c]) c)) < n"
    by (auto simp: less_Suc_eq nth_append)
  have run: "r (cs @ [c]) = failing_call (r cs) c" by (simp add: r_def)
  show ?case
  proof (cases "state (r cs) = CLOSED")
    case False
    then show ?thesis
      unfolding split run using snoc failing_not_closed [of "r cs" c] by (auto simp: sorted_append)
  next
    case True
    define hs where "hs = (if cs = [] then [] else recent_calls w cs (last cs))"
    from True snoc have IH: "\<forall>i < length cs. int (length (recent_calls w (take (Suc i) cs) (cs ! i))) < n"
      "cb_config (r cs) = cb_config b" "failures (r cs) = map stamp hs"
      by (simp_all add: sorted_append hs_def)
    have "call_read (last cs) \<le> call_read c" if "cs \<noteq> []"
      using snoc.prems(2) last_in_set [OF that] by (simp add: sorted_append)
    then have "recent_calls w (hs @ [c]) c = recent_calls w (cs @ [c]) c"
      using recent_calls_prune by (simp add: hs_def)
    with failing_call_window [OF True _ _ assms(5) _ IH(3), of n c] show ?thesis
      using IH(1,2) assms(3,4) snoc.prems(1) unfolding split run by (auto split: if_splits)
  qed
qed

text \<open>C3: Over any sequence of failing calls with a clock that does not run backwards, the breaker is
  still closed exactly as long as no failure found \<open>failureThreshold\<close> failures of the whole history
  in the window that ends with it: pruning the list at every failure loses nothing, the breaker
  opens at the call that reaches the threshold and never before.\<close>

theorem rolling_window:
  assumes "state b = CLOSED" "failures b = []" "failureThreshold (cb_config b) = num_of_int n"
    "failureWindowMs (cb_config b) = num_of_int w" "duration_ok w"
    and "\<forall>c \<in> set cs. failing_call_ok c" "sorted (map call_read cs)"
  shows "state (foldl failing_call b cs) = CLOSED \<longleftrightarrow>
      (\<forall>i < length cs. int (length (recent_calls w (take (Suc i) cs) (cs ! i))) < n)"
  using rolling_window_run [OF assms] by simp

definition failing_at :: "int \<Rightarrow> call" where
  "failing_at t = (t, t, t, t, ErrorObject ''Error'' ''boom'')"

theorem rolling_window_witness:
  "state (foldl failing_call (new_breaker ''openai'' no_config)
     (map failing_at [1000, 2000, 3000, 4000, 61001, 62001])) = CLOSED"
proof -
  have "\<forall>c \<in> set (map failing_at [1000, 2000, 3000, 4000, 61001, 62001]). failing_call_ok c"
    by (simp add: failing_at_def failing_call_ok_def clock_ok_def max_time_def)
  from rolling_window [OF _ _ _ _ _ this, of "new_breaker ''openai'' no_config" 5 60000] show ?thesis
    by (simp add: new_breaker_def new_config_def no_config_def duration_ok_def failing_at_def
        recent_calls_def less_Suc_eq nth_append del: failing_call.simps)
qed


subsection \<open>Failing fast and probing\<close>

definition opened_at :: "int \<Rightarrow> int \<Rightarrow> ProviderCircuitBreaker \<Rightarrow> bool" where
  "opened_at o1 r b \<longleftrightarrow>
     state b = OPEN \<and> openedAt b = Some (num_of_int o1) \<and> recoveryTimeoutMs (cb_config b) = num_of_int r \<and>
     clock_ok o1 \<and> duration_ok r \<and> o1 + r \<le> max_time"

lemma opened_at_attempt: "opened_at o1 r b \<Longrightarrow> canAttemptHalfOpen (num_of_int t) b \<longleftrightarrow> o1 + r \<le> t"
  by (simp add: opened_at_def canAttempt_int)

lemma opened_at_reject: "opened_at o1 r b \<Longrightarrow> reject b = CircuitOpenError (providerName b) (num_of_int (o1 + r))"
  by (simp add: reject_eq opened_at_def clock_sum clock_ok_def duration_ok_def del: of_int_add)

text \<open>The date in the message of a rejected call is the end of the timeout.\<close>

theorem opened_at_message:
  assumes "opened_at o1 r b"
  obtains date where "circuit_open_message (providerName b) (num_of_int (o1 + r)) =
      Some (''Circuit breaker OPEN for provider \"'' @ providerName b @ ''\". '' @ ''Will attempt recovery at '' @ date)"
    "read_iso date = o1 + r"
proof
  show "circuit_open_message (providerName b) (num_of_int (o1 + r)) =
      Some (''Circuit breaker OPEN for provider \"'' @ providerName b @ ''\". '' @ ''Will attempt recovery at '' @ iso_text (o1 + r))"
    by (simp only: circuit_open_message_def toISOString.simps floor_of_int option.map)
  have "0 \<le> o1 + r" "o1 + r \<le> max_time" using assms by (auto simp: opened_at_def clock_ok_def duration_ok_def)
  then show "read_iso (iso_text (o1 + r)) = o1 + r" by (intro iso_roundtrip) simp
qed

lemma opened_at_early: "opened_at o1 r b \<Longrightarrow> t < o1 + r \<Longrightarrow> getState (num_of_int t) b = (OPEN, b)"
  by (simp add: getState_def opened_at_attempt) (simp add: opened_at_def)

lemma open_fast:
  "opened_at o1 r b \<Longrightarrow> t < o1 + r \<Longrightarrow>
   execute (num_of_int t) t1 t2 t3 outcome b = (Inl (CircuitOpenError (providerName b) (num_of_int (o1 + r))), b)"
  by (simp add: execute_def execute_begin_def opened_at_early opened_at_reject)

type_synonym 'r timed_call = "int \<times> number \<times> number \<times> number \<times> (thrown + 'r)"

fun execute_call :: "'r timed_call \<Rightarrow> ProviderCircuitBreaker \<Rightarrow> (breaker_error + 'r) \<times> ProviderCircuitBreaker" where
  "execute_call (t0, t1, t2, t3, outcome) b = execute (num_of_int t0) t1 t2 t3 outcome b"

definition shut_until :: "int \<Rightarrow> int \<Rightarrow> 'r timed_call \<Rightarrow> ProviderCircuitBreaker \<Rightarrow> bool" where
  "shut_until o1 r c b \<longleftrightarrow> opened_at o1 r b \<and> fst c < o1 + r"

interpretation open_circuit: shutter execute_call "shut_until o1 r"
    "\<lambda>b. Inl (CircuitOpenError (providerName b) (num_of_int (o1 + r)))" for o1 r
proof
  fix c :: "'r timed_call" and b
  assume "shut_until o1 r c b"
  then show "execute_call c b = (Inl (CircuitOpenError (providerName b) (num_of_int (o1 + r))), b)"
    by (cases c) (auto simp: shut_until_def open_fast)
qed

text \<open>C19: While a breaker is open and its recovery timeout has not elapsed, no sequence of calls reaches
  the provider: whatever it would answer, every caller gets a \<open>CircuitOpenError\<close> that names the
  provider and the end of the timeout, and the breaker does not change.\<close>

theorem open_fails_fast:
  assumes "opened_at o1 r b" "\<forall>c \<in> set cs. fst c < o1 + r"
  shows "run_calls execute_call cs b =
    (replicate (length cs) (Inl (CircuitOpenError (providerName b) (num_of_int (o1 + r)))), b)"
  by (rule open_circuit.all_refused) (use assms in \<open>simp add: shut_until_def\<close>)

definition tripped :: ProviderCircuitBreaker where
  "tripped = transition OPEN (num_of_int 5000) (new_breaker ''openai'' no_config)"

lemma tripped_opened: "opened_at 5000 30000 tripped"
  by (simp add: tripped_def opened_at_def new_breaker_def new_config_def no_config_def clock_ok_def
      duration_ok_def max_time_def)

theorem open_fails_fast_witness:
  "run_calls execute_call [(5001, NaN, NaN, NaN, Inr ()), (34999, NaN, NaN, NaN, Inl OtherValue)] tripped =
   (replicate 2 (Inl (CircuitOpenError ''openai'' (num_of_int 35000))), tripped)"
  using open_fails_fast [OF tripped_opened, of "[(5001, NaN, NaN, NaN, Inr ()), (34999, NaN, NaN, NaN, Inl OtherValue)]"]
  by (simp add: tripped_def new_breaker_def numeral_2_eq_2)

text \<open>A probe: a call that finds the timeout elapsed, or the breaker half open with a free place.\<close>

lemma execute_begin_half_open:
  assumes "state b = HALF_OPEN" "\<not> num_ge (num_of_int (halfOpenCount b)) (halfOpenMaxRequests (cb_config b))"
  shows "execute_begin t b = (Inr HALF_OPEN, b\<lparr>halfOpenCount := halfOpenCount b + 1\<rparr>)"
  using assms by (simp add: execute_begin_def getState_def Let_def)

lemma execute_begin_due:
  assumes "opened_at o1 r b" "o1 + r \<le> t" "halfOpenMaxRequests (cb_config b) = num_of_int M" "1 \<le> M"
  shows "execute_begin (num_of_int t) b =
    (Inr HALF_OPEN, (transition HALF_OPEN (num_of_int t) b)\<lparr>halfOpenCount := 1\<rparr>)"
proof -
  have "state b = OPEN" using assms(1) by (simp add: opened_at_def)
  then show ?thesis
    using assms(2-4) by (simp add: execute_begin_def getState_def Let_def opened_at_attempt [OF assms(1)]
        num_le_int [of M 0, simplified])
qed

text \<open>\<open>probing k b'\<close>: half open, no probe in flight, \<open>k\<close> probes succeeded.\<close>

definition probing :: "int \<Rightarrow> ProviderCircuitBreaker \<Rightarrow> bool" where
  "probing k b \<longleftrightarrow> state b = HALF_OPEN \<and> halfOpenCount b = 0 \<and> halfOpenSuccessCount b = k"

definition closed_clean :: "ProviderCircuitBreaker \<Rightarrow> bool" where
  "closed_clean b \<longleftrightarrow> state b = CLOSED \<and> failures b = [] \<and> openedAt b = None \<and> halfOpenSuccessCount b = 0"

definition succeed :: "ProviderCircuitBreaker \<Rightarrow> int \<times> number \<Rightarrow> ProviderCircuitBreaker" where
  "succeed b c = snd (execute (num_of_int (fst c)) (snd c) NaN NaN (Inr () :: thrown + unit) b)"

lemma recordSuccess_int:
  assumes "state b = HALF_OPEN" "successThreshold (cb_config b) = num_of_int s"
  shows "recordSuccess t b =
    (if s \<le> halfOpenSuccessCount b + 1
     then transition CLOSED t (b\<lparr>halfOpenSuccessCount := halfOpenSuccessCount b + 1\<rparr>)
     else b\<lparr>halfOpenSuccessCount := halfOpenSuccessCount b + 1\<rparr>)"
  using assms by (simp add: recordSuccess_def Let_def num_le_int del: of_int_add)

lemma probe_succeeds:
  assumes "probing k b" "successThreshold (cb_config b) = num_of_int s"
    "halfOpenMaxRequests (cb_config b) = num_of_int M" "1 \<le> M"
  shows "cb_config (succeed b c) = cb_config b \<and>
    (if k + 1 < s then probing (k + 1) (succeed b c) else closed_clean (succeed b c))"
proof -
  have "execute_begin (num_of_int (fst c)) b = (Inr HALF_OPEN, b\<lparr>halfOpenCount := 1\<rparr>)"
    using execute_begin_half_open [of b] assms by (simp add: probing_def num_le_int [of M 0, simplified])
  then show ?thesis
    using assms by (auto simp: succeed_def execute_def recordSuccess_int probing_def closed_clean_def)
qed

lemma probe_run:
  assumes "probing k b" "successThreshold (cb_config b) = num_of_int s"
    "halfOpenMaxRequests (cb_config b) = num_of_int M" "1 \<le> M" "k + int (length cs) \<le> s" "k < s"
  shows "if k + int (length cs) < s then probing (k + int (length cs)) (foldl succeed b cs)
    else closed_clean (foldl succeed b cs)"
  using assms
proof (induction cs arbitrary: k b)
  case (Cons c cs)
  note p = probe_succeeds [OF Cons.prems(1-4), of c]
  show ?case
  proof (cases "k + 1 < s")
    case True
    have n: "k + int (length (c # cs)) = k + 1 + int (length cs)" by simp
    show ?thesis unfolding n using True p Cons.prems Cons.IH [of "k + 1" "succeed b c"] by (simp add: n)
  next
    case False
    then show ?thesis using p Cons.prems by (cases cs) auto
  qed
qed simp

lemma first_probe:
  assumes "opened_at o1 r b" "o1 + r \<le> t" "halfOpenMaxRequests (cb_config b) = num_of_int M" "1 \<le> M"
    "successThreshold (cb_config b) = num_of_int s"
  shows "cb_config (succeed b (t, x)) = cb_config b \<and>
    (if 1 < s then probing 1 (succeed b (t, x)) else closed_clean (succeed b (t, x)))"
  using assms by (auto simp: succeed_def execute_def execute_begin_due recordSuccess_int probing_def closed_clean_def)

text \<open>C18: Recovery: from the end of the recovery timeout on, sequential successful calls reach the
  provider; the breaker stays half open until \<open>successThreshold\<close> of them have succeeded, and the
  last of them closes it with an empty failure history.\<close>

theorem recovers:
  assumes "opened_at o1 r b" "o1 + r \<le> t" "halfOpenMaxRequests (cb_config b) = num_of_int M" "1 \<le> M"
    and "successThreshold (cb_config b) = num_of_int s" "1 \<le> s" "int (length cs) + 1 \<le> s"
  shows "if int (length cs) + 1 < s then probing (int (length cs) + 1) (foldl succeed b ((t, x) # cs))
    else closed_clean (foldl succeed b ((t, x) # cs))"
proof (cases "1 < s")
  case True
  then show ?thesis
    using first_probe [OF assms(1-5), of x] probe_run [of 1 "succeed b (t, x)" s M cs] assms
    by (simp add: add.commute)
next
  case False
  then show ?thesis using first_probe [OF assms(1-5), of x] assms by simp
qed

theorem recovers_witness: "closed_clean (foldl succeed tripped [(35000, num_of_int 35010), (35020, num_of_int 35030)])"
  using recovers [OF tripped_opened, of 35000 3 2 "[(35020, num_of_int 35030)]" "num_of_int 35010"]
  by (simp add: tripped_def new_breaker_def new_config_def no_config_def del: foldl.simps)

text \<open>C24: One failing probe reopens the circuit, whatever succeeded before it in the same half-open
  period: the timeout starts again at the moment of the failure, and until it has elapsed every
  call is rejected without reaching the provider.\<close>

theorem failed_probe_reopens:
  fixes outcome :: "thrown + 'r"
  assumes "state b = HALF_OPEN" "\<not> num_ge (num_of_int (halfOpenCount b)) (halfOpenMaxRequests (cb_config b))"
    and "recoveryTimeoutMs (cb_config b) = num_of_int r" "duration_ok r" "clock_ok t3" "t3 + r \<le> max_time"
    and "e \<noteq> Nullish" "t < t3 + r"
  shows "\<exists>b'. execute t0 t1 t2 (num_of_int t3) (Inl e :: thrown + 'r) b = (Inl (ProviderError e), b') \<and>
    opened_at t3 r b' \<and> halfOpenCount b' = halfOpenCount b \<and>
    execute (num_of_int t) t1' t2' t3' outcome b' = (Inl (CircuitOpenError (providerName b) (num_of_int (t3 + r))), b')"
proof -
  define b' where "b' = snd (execute t0 t1 t2 (num_of_int t3) (Inl e :: thrown + 'r) b)"
  have eq: "execute t0 t1 t2 (num_of_int t3) (Inl e :: thrown + 'r) b = (Inl (ProviderError e), b')"
    and fields: "state b' = OPEN" "openedAt b' = Some (num_of_int t3)" "cb_config b' = cb_config b"
      "providerName b' = providerName b" "halfOpenCount b' = halfOpenCount b"
    using assms(1,7) unfolding b'_def
    by (cases e; simp add: execute_def execute_begin_half_open [OF assms(1,2)] recordFailure_def)+
  have opened: "opened_at t3 r b'" using assms(3-6) fields by (simp add: opened_at_def)
  show ?thesis
    using open_fast [OF opened assms(8)] eq opened fields by (intro exI [of _ b']) simp
qed


theorem failed_probe_reopens_witness:
  "\<exists>b'. execute (num_of_int 35000) (num_of_int 35001) (num_of_int 35001) (num_of_int 35001)
      (Inl (ErrorObject ''Error'' ''boom'') :: thrown + unit)
      (snd (getState (num_of_int 35000) tripped)) = (Inl (ProviderError (ErrorObject ''Error'' ''boom'')), b') \<and>
    opened_at 35001 30000 b'"
proof -
  define b where "b = snd (getState (num_of_int 35000) tripped)"
  have b: "b = transition HALF_OPEN (num_of_int 35000) tripped"
    using opened_at_attempt [OF tripped_opened, of 35000] by (simp add: b_def getState_def tripped_def)
  have "state b = HALF_OPEN" "\<not> num_ge (num_of_int (halfOpenCount b)) (halfOpenMaxRequests (cb_config b))"
    "recoveryTimeoutMs (cb_config b) = num_of_int 30000"
    by (simp_all add: b tripped_def new_breaker_def new_config_def no_config_def)
  from failed_probe_reopens [OF this, of 35001 "ErrorObject ''Error'' ''boom''" 0
      "num_of_int 35000" "num_of_int 35001" "num_of_int 35001" NaN NaN NaN "Inr ()"]
  show ?thesis
    unfolding b_def [symmetric] by (auto simp: duration_ok_def clock_ok_def max_time_def)
qed

subsection \<open>Every interleaving\<close>

text \<open>
  The documented state machine, over the whole history and independent of the code: closed with
  every failure since it closed, open since a moment, or probing with a number of successes. Its
  guards compare the readings of the step itself.
\<close>

datatype circuit = ClosedSince "int list" | OpenedAt int | ProbingSince int nat

record thresholds =
  max_failures :: int
  window_ms :: int
  recovery_ms :: int
  needed_successes :: int








definition configured :: "thresholds \<Rightarrow> CircuitBreakerConfig \<Rightarrow> bool" where
  "configured k c \<longleftrightarrow> failureThreshold c = num_of_int (max_failures k) \<and>
     failureWindowMs c = num_of_int (window_ms k) \<and> duration_ok (window_ms k) \<and>
     recoveryTimeoutMs c = num_of_int (recovery_ms k) \<and> duration_ok (recovery_ms k) \<and>
     successThreshold c = num_of_int (needed_successes k)"

text \<open>
  What a breaker in each documented state looks like, after the readings up to \<open>now\<close>. The failures
  kept are those of the history from some moment on which no later window reaches behind.
\<close>

definition kept :: "thresholds \<Rightarrow> int \<Rightarrow> int list \<Rightarrow> FailureWindow list \<Rightarrow> bool" where
  "kept k now hs fs \<longleftrightarrow>
     (\<exists>lo \<le> now - window_ms k. map timestamp fs = map num_of_int (filter (\<lambda>h. lo \<le> h) hs))"

definition simulates :: "thresholds \<Rightarrow> int \<Rightarrow> circuit \<Rightarrow> ProviderCircuitBreaker \<Rightarrow> bool" where
  "simulates k now c b \<longleftrightarrow> configured k (cb_config b) \<and> (case c of
       ClosedSince hs \<Rightarrow> state b = CLOSED \<and> openedAt b = None \<and> halfOpenSuccessCount b = 0 \<and>
         kept k now hs (failures b)
     | OpenedAt o1 \<Rightarrow> state b = OPEN \<and> openedAt b = Some (num_of_int o1) \<and> halfOpenSuccessCount b = 0 \<and>
         clock_ok o1
     | ProbingSince o1 j \<Rightarrow> state b = HALF_OPEN \<and> openedAt b = Some (num_of_int o1) \<and>
         halfOpenSuccessCount b = int j \<and> clock_ok o1)"

lemma simulates_count [simp]: "simulates k now c (b\<lparr>halfOpenCount := x\<rparr>) = simulates k now c b"
  by (simp add: simulates_def split: circuit.split)

lemma simulates_finally [simp]: "simulates k now c (execute_finally s b) = simulates k now c b"
  by (simp add: execute_finally_def)


















text \<open>The configuration of the concrete runs below: it opens at the first failure and retries after a second.\<close>

definition one_shot :: PartialBreakerConfig where
  "one_shot = no_config\<lparr>p_failureThreshold := Present (Some (num_of_int 1)),
     p_recoveryTimeoutMs := Present (Some (num_of_int 1000)),
     p_halfOpenMaxRequests := Present (Some (num_of_int 1))\<rparr>"

definition boom :: "thrown + unit" where
  "boom = Inl (ErrorObject ''Error'' ''boom'')"



definition recovery_run :: "int breaker_event list" where
  "recovery_run = [BeginCall 1, SettleCall 0 10 10 10 boom, PollState 1009, BeginCall 1010, SettleCall 0 1020 1020 1020 (Inr ())]"

definition closing_run :: "int breaker_event list" where
  "closing_run = recovery_run @ [BeginCall 1030, SettleCall 0 1040 1040 1040 (Inr ())]"

definition breaker_start :: "string \<Rightarrow> PartialBreakerConfig \<Rightarrow> machine" where
  "breaker_start name p = \<lparr>breaker = new_breaker name p, inflight = []\<rparr>"

definition fired :: "int breaker_event list \<Rightarrow> machine option" where
  "fired es = fire_all (breaker_start ''openai'' one_shot) (map (map_breaker_event num_of_int) es)"

lemma fired_run: "fired es = Some m \<Longrightarrow> breaker_run ''openai'' one_shot (map (map_breaker_event num_of_int) es) m"
  unfolding fired_def breaker_start_def by (rule start_fire_all)

lemma run_sums:
  "num_add (Fin 10) (Fin 1000) = Fin 1010" "num_add (Fin 1020) (Fin 1000) = Fin 2020"
  "num_sub (Fin 10) (Fin 60000) = Fin (- 59990)"
  using num_add_int [of 10 1000] num_add_int [of 1020 1000] num_sub_int [of 10 60000] by simp_all

lemmas run_simps = fired_def breaker_start_def boom_def one_shot_def no_config_def new_breaker_def
  new_config_def execute_begin_def getState_def canAttemptHalfOpen_def transition_def num_falsy_def
  is_zero_def recordFailure_def recordSuccess_def shouldOpen_def getRecentFailures_def
  execute_finally_def Let_def probes_def run_sums




text \<open>C20: As long as no probe of an earlier half-open period is still in flight when a new period
  begins, and none is in flight when \<open>reset\<close> is called, at most \<open>halfOpenMaxRequests\<close> probes run at
  the same time, and \<open>halfOpenCount\<close> is their exact number. Only these two kinds of step are
  excluded: a probe whose success closes the circuit, or whose failure reopens it, is not.\<close>

theorem probes_bounded:
  assumes "quiet_reachable name p m" "halfOpenMaxRequests (new_config p) = num_of_int M" "0 \<le> M"
  shows "int (probes m) \<le> M \<and> halfOpenCount (breaker m) = int (probes m)"
  using assms(1)
proof (induction rule: quiet_reachable.induct)
  case quiet_start
  then show ?case using assms(3) by (simp add: probes_def new_breaker_def)
next
  case (quiet_next m e)
  have step: "breaker_step m (breaker_fire m e)" by (rule breaker_fire_step [OF quiet_next.hyps(2)])
  have inv: "probe_inv (breaker_fire m e)"
    using quiet_reachable_inv [OF quiet_reachable.quiet_next [OF quiet_next.hyps]] by simp
  have "cb_config (breaker m) = new_config p"
    using reachable_config quiet_reachable_inv [OF quiet_next.hyps(1)] by blast
  then show ?case
    using probe_limit_step [OF step inv _ assms(3)] quiet_next.IH inv assms(2) by (simp add: probe_inv_def)
qed

fun quiet_run :: "machine \<Rightarrow> number breaker_event list \<Rightarrow> bool" where
  "quiet_run m [] = True"
| "quiet_run m (e # es) = (event_possible m e \<and> quiet_event m e \<and> quiet_run (breaker_fire m e) es)"

lemma quiet_run_reachable:
  "quiet_reachable name p m \<Longrightarrow> quiet_run m es \<Longrightarrow> fire_all m es = Some m' \<Longrightarrow> quiet_reachable name p m'"
  by (induction es arbitrary: m) (auto intro: quiet_reachable.quiet_next)

lemma closing_quiet:
  "quiet_run (breaker_start ''openai'' one_shot) (map (map_breaker_event num_of_int) closing_run)"
  by (simp add: closing_run_def recovery_run_def quiet_event_def run_simps del: num_add.simps)

lemma quiet_run_append: "quiet_run m (xs @ ys) \<Longrightarrow> quiet_run m xs"
  by (induction xs arbitrary: m) simp_all

lemma fired_quiet:
  assumes "closing_run = es @ ds" "fired es = Some m"
  shows "quiet_reachable ''openai'' one_shot m"
proof (rule quiet_run_reachable)
  show "quiet_reachable ''openai'' one_shot (breaker_start ''openai'' one_shot)"
    unfolding breaker_start_def by (rule quiet_reachable.quiet_start)
  show "quiet_run (breaker_start ''openai'' one_shot) (map (map_breaker_event num_of_int) es)"
    using closing_quiet unfolding assms(1) map_append by (rule quiet_run_append)
  show "fire_all (breaker_start ''openai'' one_shot) (map (map_breaker_event num_of_int) es) = Some m"
    using assms(2) by (simp add: fired_def)
qed

lemma closing_fired:
  "\<exists>m m'. fired (butlast closing_run) = Some m \<and> fired closing_run = Some m' \<and>
     probes m = 1 \<and> state (breaker m) = HALF_OPEN \<and> state (breaker m') = CLOSED"
  by (simp add: closing_run_def recovery_run_def run_simps del: num_add.simps)

theorem probes_bounded_witness:
  "\<exists>m m'. fired (butlast closing_run) = Some m \<and> fired closing_run = Some m' \<and>
     probes m = 1 \<and> state (breaker m) = HALF_OPEN \<and> state (breaker m') = CLOSED \<and>
     halfOpenCount (breaker m) = int (probes m) \<and> int (probes m') \<le> 1 \<and>
     halfOpenCount (breaker m') = int (probes m')"
proof -
  obtain m m' where m: "fired (butlast closing_run) = Some m" "fired closing_run = Some m'"
    "probes m = 1" "state (breaker m) = HALF_OPEN" "state (breaker m') = CLOSED"
    using closing_fired by blast
  have "closing_run = butlast closing_run @ [last closing_run]"
    by (rule append_butlast_last_id [symmetric]) (simp add: closing_run_def)
  then have "quiet_reachable ''openai'' one_shot m" using m(1) by (rule fired_quiet)
  moreover have "quiet_reachable ''openai'' one_shot m'" using m(2) by (rule fired_quiet [of _ "[]", simplified, OF refl])
  moreover have "halfOpenMaxRequests (new_config one_shot) = num_of_int 1"
    by (simp add: one_shot_def no_config_def new_config_def)
  ultimately show ?thesis
    using probes_bounded [of "''openai''" one_shot _ 1] m by simp
qed

text \<open>
  Outside quiet runs the count drifts: the run below lets a probe of the first half-open period
  outlive it.
\<close>

definition overlap_run :: "int breaker_event list" where
  "overlap_run = [BeginCall 1, BeginCall 2, SettleCall 0 10 10 10 boom, BeginCall 1010,
     SettleCall 0 1020 1020 1020 boom, BeginCall 2020]"

lemma overlap_counts:
  "\<exists>m. fired overlap_run = Some m \<and> probes m = 2"
  "\<exists>m. fired (overlap_run @ [SettleCall 0 2030 2030 2030 (Inr ()), SettleCall 0 2040 2040 2040 (Inr ())]) = Some m \<and>
     halfOpenCount (breaker m) = - 1"
  by (simp_all add: overlap_run_def run_simps del: num_add.simps)

lemma fired_reachable: "fired es = Some m \<Longrightarrow> breaker_reachable ''openai'' one_shot m"
  by (rule run_reachable, rule fired_run)

text \<open>C31: Without that proviso the limit fails: with \<open>halfOpenMaxRequests\<close> 1, a call that was admitted
  before the circuit opened and fails during the probe reopens it, the next period resets the count
  while the first probe is still in flight, and two probes run at once; when both have settled the
  count is -1.\<close>

theorem probe_limit_exceeded:
  "halfOpenMaxRequests (new_config one_shot) = num_of_int 1 \<and>
   (\<exists>m. breaker_reachable ''openai'' one_shot m \<and> probes m = 2) \<and>
   (\<exists>m. breaker_reachable ''openai'' one_shot m \<and> halfOpenCount (breaker m) = - 1)"
  using overlap_counts fired_reachable by (auto simp: one_shot_def new_config_def no_config_def)

text \<open>A recovery timeout of \<open>Infinity\<close> (an open circuit that never recovers) is not rejected with
  a \<open>CircuitOpenError\<close>: the retry date is invalid, and formatting the message throws a
  \<open>RangeError\<close> at every call.\<close>

theorem infinite_timeout_range_error:
  assumes "state b = OPEN" "openedAt b = Some (num_of_int t1)" "clock_ok t1"
    and "recoveryTimeoutMs (cb_config b) = Inf False"
  shows "execute (num_of_int t) x y z outcome b = (Inl RangeError, b)"
proof -
  have "\<not> canAttemptHalfOpen (num_of_int t) b" using assms by (simp add: canAttemptHalfOpen_def clock_truthy num_eval)
  then show ?thesis
    using assms by (simp add: execute_def execute_begin_def getState_def reject_eq num_eval)
qed

theorem infinite_timeout_range_error_witness:
  "fst (execute (num_of_int 9) NaN NaN NaN (Inr ())
     (transition OPEN (num_of_int 8) (new_breaker ''a'' (no_config\<lparr>p_recoveryTimeoutMs := Present (Some (Inf False))\<rparr>)))) =
   Inl RangeError"
  using infinite_timeout_range_error [of _ 8 9 NaN NaN NaN "Inr ()"]
  by (simp add: new_breaker_def new_config_def no_config_def clock_ok_def max_time_def)

end
