(* ===== verification/AdapterScorer.thy ===== *)
theory AdapterScorer
  imports CircuitBreaker
begin

text \<open>
  \<open>AdapterScorer\<close> of \<open>packages/sdk/src/circuit-breaker.ts\<close>: moving averages of error rate and latency
  and the composite score, in the double arithmetic the code computes with. The lemmas bound every
  signal, show the score monotone in each of them and clamped, whatever is rounded on the way.
\<close>

subsection \<open>Data and operations\<close>

record HealthSignals =
  availability :: number
  ewmaErrorRate :: number
  ewmaLatencyMs :: number

record AdapterScorer =
  healthMetrics :: "string \<rightharpoonup> HealthSignals"
  alpha :: number

record ScoreWeights =
  w_availability :: "number partial"
  w_errorRate :: "number partial"
  w_latency :: "number partial"

definition cold_start :: HealthSignals where
  "cold_start = \<lparr>availability = num_of_int 1, ewmaErrorRate = num_of_int 0, ewmaLatencyMs = num_of_int 1000\<rparr>"

definition new_scorer :: "number \<Rightarrow> AdapterScorer" where
  "new_scorer a = \<lparr>healthMetrics = Map.empty, alpha = a\<rparr>"

definition default_alpha :: number where
  "default_alpha = Fin (fl (3 / 10))"

definition getHealth :: "AdapterScorer \<Rightarrow> string \<Rightarrow> HealthSignals" where
  "getHealth s provider = (case healthMetrics s provider of None \<Rightarrow> cold_start | Some h \<Rightarrow> h)"

definition ewma :: "number \<Rightarrow> number \<Rightarrow> number \<Rightarrow> number" where
  "ewma a sample current = num_add (num_mul a sample) (num_mul (num_sub (num_of_int 1) a) current)"

definition record_sample :: "AdapterScorer \<Rightarrow> string \<Rightarrow> number \<Rightarrow> bool \<Rightarrow> AdapterScorer" where
  "record_sample s provider latencyMs isError =
     (let current = (case healthMetrics s provider of None \<Rightarrow> cold_start | Some h \<Rightarrow> h);
          newErrorRate = ewma (alpha s) (num_of_int (if isError then 1 else 0)) (ewmaErrorRate current);
          newLatency = ewma (alpha s) latencyMs (ewmaLatencyMs current)
      in s\<lparr>healthMetrics := (healthMetrics s)(provider \<mapsto>
             \<lparr>availability = availability current, ewmaErrorRate = newErrorRate, ewmaLatencyMs = newLatency\<rparr>)\<rparr>)"

fun state_availability :: "CircuitState \<Rightarrow> number" where
  "state_availability CLOSED = num_of_int 1"
| "state_availability HALF_OPEN = Fin (1 / 2)"
| "state_availability OPEN = num_of_int 0"

definition updateAvailability :: "AdapterScorer \<Rightarrow> string \<Rightarrow> CircuitState \<Rightarrow> AdapterScorer" where
  "updateAvailability s provider st =
     (let current = getHealth s provider
      in s\<lparr>healthMetrics := (healthMetrics s)(provider \<mapsto> current\<lparr>availability := state_availability st\<rparr>)\<rparr>)"

definition no_weights :: ScoreWeights where
  "no_weights = \<lparr>w_availability = Absent, w_errorRate = Absent, w_latency = Absent\<rparr>"

definition calculateScore :: "AdapterScorer \<Rightarrow> string \<Rightarrow> ScoreWeights \<Rightarrow> number" where
  "calculateScore s provider weights =
     (let wa = spread_num (Fin (fl (2 / 5))) (w_availability weights);
          we = spread_num (Fin (fl (2 / 5))) (w_errorRate weights);
          wl = spread_num (Fin (fl (1 / 5))) (w_latency weights);
          health = getHealth s provider;
          latencyScore = num_sub (num_of_int 1)
            (num_min (num_div (ewmaLatencyMs health) (num_of_int 5000)) (num_of_int 1));
          score = num_add (num_add (num_mul wa (availability health))
                                   (num_mul we (num_sub (num_of_int 1) (ewmaErrorRate health))))
                          (num_mul wl latencyScore)
      in num_max (num_of_int 0) (num_min (num_of_int 1) score))"

subsection \<open>Providers are independent\<close>

lemma getHealth_record:
  "getHealth (record_sample s p lat e) q =
     (if q = p then \<lparr>availability = availability (getHealth s p),
        ewmaErrorRate = ewma (alpha s) (num_of_int (if e then 1 else 0)) (ewmaErrorRate (getHealth s p)),
        ewmaLatencyMs = ewma (alpha s) lat (ewmaLatencyMs (getHealth s p))\<rparr>
      else getHealth s q)"
  by (simp add: record_sample_def getHealth_def Let_def)

lemma getHealth_update:
  "getHealth (updateAvailability s p st) q =
     (if q = p then (getHealth s p)\<lparr>availability := state_availability st\<rparr> else getHealth s q)"
  by (simp add: updateAvailability_def getHealth_def Let_def)

lemma scorer_alpha [simp]:
  "alpha (record_sample s p lat e) = alpha s" "alpha (updateAvailability s p st) = alpha s"
  by (simp_all add: record_sample_def updateAvailability_def Let_def)

lemmas scorer_health = getHealth_record getHealth_update

subsection \<open>Every signal stays in range\<close>

definition unit_num :: "number \<Rightarrow> bool" where
  "unit_num x \<longleftrightarrow> is_double x \<and> num_le (num_of_int 0) x \<and> num_le x (num_of_int 1)"

definition latency_num :: "number \<Rightarrow> bool" where
  "latency_num x \<longleftrightarrow> is_double x \<and> num_le (num_of_int 0) x \<and> num_le x (Fin (pow2 100))"

definition signals_ok :: "HealthSignals \<Rightarrow> bool" where
  "signals_ok h \<longleftrightarrow> unit_num (availability h) \<and> unit_num (ewmaErrorRate h) \<and> latency_num (ewmaLatencyMs h)"

definition scorer_ok :: "AdapterScorer \<Rightarrow> bool" where
  "scorer_ok s \<longleftrightarrow> unit_num (alpha s) \<and> (\<forall>p. signals_ok (getHealth s p))"

lemma unit_numE:
  assumes "unit_num x" obtains r where "val x = Some r" "0 \<le> r" "r \<le> 1" "representable r"
  using assms is_double_val [of x] by (cases x) (auto simp: unit_num_def)

lemma latency_numE:
  assumes "latency_num x" obtains r where "val x = Some r" "0 \<le> r" "r \<le> pow2 100" "representable r"
  using assms is_double_val [of x] by (cases x) (auto simp: latency_num_def)

lemma unit_numI: "val x = Some r \<Longrightarrow> is_double x \<Longrightarrow> 0 \<le> r \<Longrightarrow> r \<le> 1 \<Longrightarrow> unit_num x"
  by (cases x) (auto simp: unit_num_def)

lemma latency_numI: "val x = Some r \<Longrightarrow> is_double x \<Longrightarrow> 0 \<le> r \<Longrightarrow> r \<le> pow2 100 \<Longrightarrow> latency_num x"
  by (cases x) (auto simp: latency_num_def)

lemma is_double_uminus [simp]: "is_double x \<Longrightarrow> is_double (num_uminus x)"
  by (cases x) (simp_all add: fl_uminus)

lemma is_double_sub [simp]: "is_double x \<Longrightarrow> is_double y \<Longrightarrow> is_double (num_sub x y)"
  by (simp add: num_sub_def)

text \<open>
  Rounding does not push a convex combination above the larger end: the error of \<open>1 - a\<close> is at
  most half a unit in the last place of one, and a sum that exceeds one by no more rounds to one.
\<close>

lemma fl_just_above_one: "x \<le> 1 + pow2 (- 53) \<Longrightarrow> fl x \<le> 1"
proof -
  assume x: "x \<le> 1 + pow2 (- 53)"
  have "fl (1 + pow2 (- 53)) = 1" by code_simp
  then show ?thesis using fl_mono [OF x] by simp
qed

lemma fl_complement:
  assumes "0 \<le> a" "a \<le> 1"
  shows "0 \<le> fl (1 - a)" "fl (1 - a) \<le> 1" "a + fl (1 - a) \<le> 1 + pow2 (- 53)"
proof -
  have one: "representable 1" using representable_pow2 [of 0] by simp
  show "0 \<le> fl (1 - a)" using assms by (simp add: fl_nonneg)
  show "fl (1 - a) \<le> 1" using assms by (intro fl_le_representable [OF one]) simp
  show "a + fl (1 - a) \<le> 1 + pow2 (- 53)"
  proof (cases "a = 0 \<or> a = 1")
    case True
    then show ?thesis using fl_representable [OF one] by (auto simp: less_imp_le)
  next
    case False
    have "ilog2 (1 - a) \<le> ilog2 1" using False assms by (intro ilog2_mono) auto
    also have "ilog2 1 = 0" by (rule ilog2_unique) auto
    finally have "ulp_exp (1 - a) \<le> - 52" using assms by (simp add: ulp_exp_def)
    have "\<bar>fl (1 - a) - (1 - a)\<bar> \<le> pow2 (ulp_exp (1 - a)) / 2" by (rule fl_err)
    also have "\<dots> \<le> pow2 (- 52) / 2" using \<open>ulp_exp (1 - a) \<le> - 52\<close> by simp
    also have "\<dots> = pow2 (- 53)" using pow2_Suc [of "- 53"] by simp
    finally show ?thesis by linarith
  qed
qed

lemma one_representable: "representable 1"
  using representable_pow2 [of 0] by simp

lemma small_le_fin_bound: "\<bar>x\<bar> \<le> pow2 110 \<Longrightarrow> \<bar>x\<bar> \<le> fin_bound"
  by (simp add: fin_bound_def order_trans [of "\<bar>x\<bar>" "pow2 110"])

lemma pow2_110_bounds: "2 \<le> pow2 110" "3 \<le> pow2 110"
  by (simp_all add: pow2_def)

text \<open>The value a moving average takes, and its bounds.\<close>

definition ewma_val :: "rat \<Rightarrow> rat \<Rightarrow> rat \<Rightarrow> rat" where
  "ewma_val a x c = fl (fl (a * x) + fl (fl (1 - a) * c))"

lemma val_complement: "val x = Some a \<Longrightarrow> 0 \<le> a \<Longrightarrow> a \<le> 1 \<Longrightarrow> val (num_sub (num_of_int 1) x) = Some (fl (1 - a))"
  using val_sub [of "num_of_int 1" 1 x a] small_le_fin_bound [of "1 - a"] pow2_110_bounds by simp

lemma mult_le_bound: "0 \<le> a \<Longrightarrow> a \<le> 1 \<Longrightarrow> 0 \<le> x \<Longrightarrow> x \<le> b \<Longrightarrow> a * x \<le> (b :: rat)"
  using mult_mono [of a 1 x b] by simp

lemma fl_mult_bounds:
  assumes "0 \<le> a" "a \<le> 1" "0 \<le> x" "x \<le> b" "representable b"
  shows "0 \<le> fl (a * x)" "fl (a * x) \<le> b"
  using assms by (simp_all add: fl_nonneg fl_le_representable mult_le_bound)

lemma ewma_value:
  assumes "val a = Some r" "0 \<le> r" "r \<le> 1" "val x = Some v" "0 \<le> v" "v \<le> pow2 100"
    "val c = Some w" "0 \<le> w" "w \<le> pow2 100"
  shows "val (ewma a x c) = Some (ewma_val r v w)" "0 \<le> ewma_val r v w"
proof -
  have big: "representable (pow2 100)" by (simp add: representable_pow2)
  note b1 = fl_mult_bounds [OF assms(2,3,5,6) big]
  note b2 = fl_mult_bounds [OF fl_complement(1,2) [OF assms(2,3)] assms(8,9) big]
  have fin: "\<bar>y\<bar> \<le> fin_bound" if "0 \<le> y" "y \<le> pow2 100" for y
    using that small_le_fin_bound [of y] by (simp add: order_trans [of y "pow2 100"])
  have "val (num_mul a x) = Some (fl (r * v))"
    using assms by (intro val_mul fin) (auto simp: mult_le_bound)
  moreover have "val (num_mul (num_sub (num_of_int 1) a) c) = Some (fl (fl (1 - r) * w))"
    using assms fl_complement [OF assms(2,3)] by (intro val_mul val_complement fin) (auto simp: mult_le_bound)
  moreover have "\<bar>fl (r * v) + fl (fl (1 - r) * w)\<bar> \<le> fin_bound"
  proof (rule small_le_fin_bound)
    have "fl (r * v) + fl (fl (1 - r) * w) \<le> pow2 100 + pow2 100" using b1 b2 by simp
    also have "\<dots> = pow2 101" using pow2_Suc [of 100] by simp
    finally have "fl (r * v) + fl (fl (1 - r) * w) \<le> pow2 110" by (rule order_trans) simp
    then show "\<bar>fl (r * v) + fl (fl (1 - r) * w)\<bar> \<le> pow2 110" using b1 b2 by simp
  qed
  ultimately show "val (ewma a x c) = Some (ewma_val r v w)"
    by (simp add: ewma_def ewma_val_def val_add)
  show "0 \<le> ewma_val r v w" using b1 b2 by (simp add: ewma_val_def fl_nonneg)
qed

lemma representable_scale: "representable a \<Longrightarrow> 0 \<le> k \<Longrightarrow> representable (a * pow2 k)"
proof -
  assume "representable a" "0 \<le> k"
  then obtain m e where "a = of_int m * pow2 e" "\<bar>m\<bar> \<le> 2 ^ 53" "- 1074 \<le> e"
    by (auto simp: representable_def)
  then have "a * pow2 k = of_int m * pow2 (e + k)" "- 1074 \<le> e + k" using \<open>0 \<le> k\<close> by (simp_all add: pow2_add)
  then show ?thesis using \<open>\<bar>m\<bar> \<le> 2 ^ 53\<close> by (auto simp: representable_def)
qed

text \<open>The two powers of two the signals are bounded by.\<close>

lemma fl_just_above: "k \<in> {0, 100} \<Longrightarrow> x \<le> (1 + pow2 (- 53)) * pow2 k \<Longrightarrow> fl x \<le> pow2 k"
proof -
  assume k: "k \<in> {0, 100}" and x: "x \<le> (1 + pow2 (- 53)) * pow2 k"
  have "fl ((1 + pow2 (- 53)) * pow2 0) = pow2 0" "fl ((1 + pow2 (- 53)) * pow2 100) = pow2 100"
    by code_simp+
  then show ?thesis using fl_mono [OF x] k by auto
qed

lemma ewma_val_le:
  assumes "0 \<le> a" "a \<le> 1" "representable a" "0 \<le> x" "x \<le> pow2 k" "0 \<le> c" "c \<le> pow2 k" "k \<in> {0, 100}"
  shows "ewma_val a x c \<le> pow2 k"
proof -
  have k: "0 \<le> k" using assms(8) by auto
  have "fl (a * x) \<le> a * pow2 k"
    using representable_scale [OF assms(3) k] assms(1,5) by (intro fl_le_representable mult_left_mono)
  moreover have "fl (fl (1 - a) * c) \<le> fl (1 - a) * pow2 k"
    using representable_scale [OF representable_fl k] assms(7) fl_complement(1) [OF assms(1,2)]
    by (intro fl_le_representable mult_left_mono)
  ultimately have "fl (a * x) + fl (fl (1 - a) * c) \<le> (a + fl (1 - a)) * pow2 k" by (simp add: distrib_right)
  also have "\<dots> \<le> (1 + pow2 (- 53)) * pow2 k"
    using fl_complement(3) [OF assms(1,2)] by (intro mult_right_mono) (auto simp: less_imp_le)
  finally show ?thesis unfolding ewma_val_def by (rule fl_just_above [OF assms(8)])
qed

lemma is_double_ewma [simp]: "is_double (ewma a x c)"
  by (simp add: ewma_def)

lemma ewma_unit:
  assumes "unit_num a" "unit_num x" "unit_num c"
  shows "unit_num (ewma a x c)"
proof -
  obtain r v w where x: "val a = Some r" "0 \<le> r" "r \<le> 1" "representable r" "val x = Some v" "0 \<le> v" "v \<le> 1"
    "val c = Some w" "0 \<le> w" "w \<le> 1"
    using assms by (metis unit_numE)
  have "1 \<le> pow2 100" using pow2_le_iff [of 0 100] by simp
  then have le: "v \<le> pow2 100" "w \<le> pow2 100" using x by linarith+
  show ?thesis
    using ewma_value [OF x(1-3,5,6) le(1) x(8,9) le(2)] ewma_val_le [OF x(2-4,6) _ x(9), of 0] x(7,10)
    by (intro unit_numI) auto
qed

lemma ewma_latency:
  assumes "unit_num a" "latency_num x" "latency_num c"
  shows "latency_num (ewma a x c)"
proof -
  obtain r v w where x: "val a = Some r" "0 \<le> r" "r \<le> 1" "representable r" "val x = Some v" "0 \<le> v" "v \<le> pow2 100"
    "val c = Some w" "0 \<le> w" "w \<le> pow2 100"
    using assms by (metis unit_numE latency_numE)
  show ?thesis
    using ewma_value [OF x(1-3,5-10)] ewma_val_le [OF x(2-4,6,7,9,10)] by (intro latency_numI) auto
qed

lemma unit_num_Fin: "0 \<le> r \<Longrightarrow> r \<le> 1 \<Longrightarrow> fl r = r \<Longrightarrow> unit_num (Fin r)"
  using one_less_huge by (simp add: unit_num_def del: one_less_huge)

lemma unit_num_fl: "0 \<le> fl r \<and> fl r \<le> 1 \<Longrightarrow> unit_num (Fin (fl r))"
  by (intro unit_num_Fin) simp_all

lemma unit_consts [simp]: "unit_num (num_of_int 0)" "unit_num (num_of_int 1)" "unit_num (Fin (1 / 2))"
proof -
  have "fl (1 / 2) = 1 / 2" "fl 1 = 1" by code_simp+
  then show "unit_num (num_of_int 0)" "unit_num (num_of_int 1)" "unit_num (Fin (1 / 2))"
    using unit_num_Fin [of 0] unit_num_Fin [of 1] unit_num_Fin [of "1 / 2"] by simp_all
qed

lemma unit_state [simp]: "unit_num (state_availability st)"
  using unit_consts by (cases st) (simp_all del: unit_consts)

lemma cold_start_ok: "signals_ok cold_start"
proof -
  have "1000 \<le> pow2 100" using order_trans [OF _ pow2_le_iff [THEN iffD2, of 10 100], of 1000] by (simp add: pow2_def)
  moreover have "1000 < pow2 1024" by (simp add: pow2_def)
  ultimately have "latency_num (num_of_int 1000)" using fl_int [of 1000] by (simp add: latency_num_def)
  then show ?thesis using unit_consts by (simp add: signals_ok_def cold_start_def)
qed

type_synonym scorer_input = "(string \<times> number \<times> bool) + (string \<times> CircuitState)"

fun scorer_event :: "AdapterScorer \<Rightarrow> scorer_input \<Rightarrow> AdapterScorer" where
  "scorer_event s (Inl (p, lat, err)) = record_sample s p lat err"
| "scorer_event s (Inr (p, st)) = updateAvailability s p st"

fun event_ok :: "scorer_input \<Rightarrow> bool" where
  "event_ok (Inl (p, lat, err)) = latency_num lat"
| "event_ok (Inr (p, st)) = True"

lemma scorer_event_ok: "scorer_ok s \<Longrightarrow> event_ok e \<Longrightarrow> scorer_ok (scorer_event s e)"
  by (cases "(s, e)" rule: scorer_event.cases)
    (auto simp: scorer_ok_def scorer_health signals_ok_def ewma_unit ewma_latency simp del: of_int_0 of_int_1)

lemma scorer_run_ok: "scorer_ok s \<Longrightarrow> \<forall>e \<in> set es. event_ok e \<Longrightarrow> scorer_ok (foldl scorer_event s es)"
  by (induction es arbitrary: s) (simp_all add: scorer_event_ok)

lemma new_scorer_ok: "unit_num a \<Longrightarrow> scorer_ok (new_scorer a)"
  by (simp add: scorer_ok_def new_scorer_def getHealth_def cold_start_ok)

lemma unit_default_alpha: "unit_num default_alpha"
  unfolding default_alpha_def by (rule unit_num_fl) code_simp

text \<open>C22: Whatever sequence of samples with latencies that are not negative and of circuit states a
  scorer with a smoothing factor between 0 and 1 has recorded, the availability and the error
  rate of every provider are between 0 and 1 and its latency is finite and not negative: rounding
  never carries a moving average out of its range.\<close>

theorem signals_bounded:
  assumes "unit_num a" "\<forall>e \<in> set es. event_ok e"
  shows "signals_ok (getHealth (foldl scorer_event (new_scorer a) es) p)"
  using scorer_run_ok [OF new_scorer_ok [OF assms(1)] assms(2)] by (simp add: scorer_ok_def)

theorem signals_bounded_witness:
  "signals_ok (getHealth (foldl scorer_event (new_scorer default_alpha)
     [Inl (''groq'', num_of_int 0, True), Inr (''groq'', OPEN)]) ''groq'')"
  by (rule signals_bounded [OF unit_default_alpha]) (simp add: latency_num_def less_imp_le)

subsection \<open>The composite score\<close>

definition latency_score :: "rat \<Rightarrow> rat" where
  "latency_score lat = fl (1 - min (fl (lat / 5000)) 1)"

definition score_val :: "rat \<Rightarrow> rat \<Rightarrow> rat \<Rightarrow> rat \<Rightarrow> rat \<Rightarrow> rat \<Rightarrow> rat" where
  "score_val wa we wl av er lat =
     max 0 (min 1 (fl (fl (fl (wa * av) + fl (we * fl (1 - er))) + fl (wl * latency_score lat))))"

lemma fl_antimono_complement: "x \<le> y \<Longrightarrow> fl (1 - y) \<le> fl (1 - x)"
  by (rule fl_mono) simp

lemma latency_score_antimono: "x \<le> y \<Longrightarrow> latency_score y \<le> latency_score x"
  unfolding latency_score_def
  by (intro fl_antimono_complement min.mono fl_mono divide_right_mono) simp_all

lemma score_val_mono:
  assumes "0 \<le> wa" "0 \<le> we" "0 \<le> wl" "av \<le> av'" "er' \<le> er" "lat' \<le> lat"
  shows "score_val wa we wl av er lat \<le> score_val wa we wl av' er' lat'"
  unfolding score_val_def
  by (intro max.mono min.mono fl_mono add_mono mult_left_mono fl_antimono_complement
      latency_score_antimono assms order_refl)

lemma latency_score_bounds: "0 \<le> lat \<Longrightarrow> 0 \<le> latency_score lat \<and> latency_score lat \<le> 1"
  unfolding latency_score_def
  by (intro conjI fl_complement(1,2) min.boundedI) (simp_all add: fl_nonneg)

text \<open>Weights between 0 and 1, as the defaults are.\<close>

definition weights_ok :: "ScoreWeights \<Rightarrow> bool" where
  "weights_ok w \<longleftrightarrow> unit_num (spread_num (Fin (fl (2 / 5))) (w_availability w)) \<and>
     unit_num (spread_num (Fin (fl (2 / 5))) (w_errorRate w)) \<and>
     unit_num (spread_num (Fin (fl (1 / 5))) (w_latency w))"

lemma no_weights_ok: "weights_ok no_weights"
proof -
  have "unit_num (Fin (fl (2 / 5)))" "unit_num (Fin (fl (1 / 5)))"
    by (rule unit_num_fl, code_simp)+
  then show ?thesis by (simp add: weights_ok_def no_weights_def)
qed

lemma val_latency_score:
  assumes "val x = Some lat" "0 \<le> lat" "lat \<le> pow2 100"
  shows "val (num_sub (num_of_int 1) (num_min (num_div x (num_of_int 5000)) (num_of_int 1))) = Some (latency_score lat)"
proof -
  have "pow2 100 \<le> pow2 110 * 5000" using mult_mono [of "pow2 100" "pow2 110" 1 5000] pow2_pos [of 110] by (simp add: less_imp_le)
  then have "val (num_div x (num_of_int 5000)) = Some (fl (lat / 5000))"
    using val_div [OF assms(1), of "num_of_int 5000" 5000] assms small_le_fin_bound [of "lat / 5000"] by simp
  then have "val (num_min (num_div x (num_of_int 5000)) (num_of_int 1)) = Some (min (fl (lat / 5000)) 1)"
    by (intro val_min) simp_all
  moreover have "0 \<le> min (fl (lat / 5000)) 1" "min (fl (lat / 5000)) 1 \<le> 1" using assms(2) by (simp_all add: fl_nonneg)
  ultimately show ?thesis using val_complement by (simp add: latency_score_def)
qed

lemma val_product:
  "val x = Some a \<Longrightarrow> 0 \<le> a \<Longrightarrow> a \<le> 1 \<Longrightarrow> val y = Some b \<Longrightarrow> 0 \<le> b \<Longrightarrow> b \<le> 1 \<Longrightarrow>
   val (num_mul x y) = Some (fl (a * b)) \<and> 0 \<le> fl (a * b) \<and> fl (a * b) \<le> 1"
  using fl_mult_bounds [OF _ _ _ _ one_representable, of a b] mult_le_bound [of a b 1] pow2_110_bounds
    small_le_fin_bound [of "a * b"] val_mul [of x a y b] by simp

definition score_in :: "ScoreWeights \<Rightarrow> HealthSignals \<Rightarrow> rat" where
  "score_in w h = score_val (the (val (spread_num (Fin (fl (2 / 5))) (w_availability w))))
     (the (val (spread_num (Fin (fl (2 / 5))) (w_errorRate w))))
     (the (val (spread_num (Fin (fl (1 / 5))) (w_latency w))))
     (the (val (availability h))) (the (val (ewmaErrorRate h))) (the (val (ewmaLatencyMs h)))"

lemma val_score:
  assumes "signals_ok (getHealth s p)" "weights_ok w"
  shows "val (calculateScore s p w) = Some (score_in w (getHealth s p))"
proof -
  obtain av er lat where h: "val (availability (getHealth s p)) = Some av" "0 \<le> av" "av \<le> 1"
    "val (ewmaErrorRate (getHealth s p)) = Some er" "0 \<le> er" "er \<le> 1"
    "val (ewmaLatencyMs (getHealth s p)) = Some lat" "0 \<le> lat" "lat \<le> pow2 100"
    using assms(1) unfolding signals_ok_def by (metis unit_numE latency_numE)
  obtain wa we wl where w: "val (spread_num (Fin (fl (2 / 5))) (w_availability w)) = Some wa" "0 \<le> wa" "wa \<le> 1"
    "val (spread_num (Fin (fl (2 / 5))) (w_errorRate w)) = Some we" "0 \<le> we" "we \<le> 1"
    "val (spread_num (Fin (fl (1 / 5))) (w_latency w)) = Some wl" "0 \<le> wl" "wl \<le> 1"
    using assms(2) unfolding weights_ok_def by (metis unit_numE)
  note a = val_product [OF w(1-3) h(1-3)]
  note b = val_product [OF w(4-6) val_complement [OF h(4-6)] fl_complement(1,2) [OF h(5,6)]]
  note l = val_latency_score [OF h(7-9)] latency_score_bounds [OF h(8)]
  note c = val_product [OF w(7-9) l(1) l(2) [THEN conjunct1] l(2) [THEN conjunct2]]
  have two: "representable 2" using representable_pow2 [of 1] by simp
  let ?ab = "fl (fl (wa * av) + fl (we * fl (1 - er)))"
  have ab: "0 \<le> ?ab" "?ab \<le> 2" using a b by (simp_all add: fl_nonneg fl_le_representable [OF two])
  have fin: "\<bar>y\<bar> \<le> fin_bound" if "0 \<le> y" "y \<le> 3" for y
    using that small_le_fin_bound [of y] pow2_110_bounds by simp
  have sum: "val (num_add (num_mul (spread_num (Fin (fl (2 / 5))) (w_availability w)) (availability (getHealth s p)))
      (num_mul (spread_num (Fin (fl (2 / 5))) (w_errorRate w)) (num_sub (num_of_int 1) (ewmaErrorRate (getHealth s p))))) = Some ?ab"
    using a b by (intro val_add fin) auto
  show ?thesis
    unfolding calculateScore_def Let_def
    by (subst val_max [OF _ val_min [OF _ val_add [OF sum c [THEN conjunct1] fin]]])
      (use ab c in \<open>simp_all add: score_in_def score_val_def h w\<close>)
qed

text \<open>C23: The score is monotone in every signal: with weights between 0 and 1, a provider that is at
  least as available, fails at most as often and is at most as slow as another scores at least
  as high, in the rounded arithmetic of the code.\<close>

theorem score_monotone:
  assumes "signals_ok (getHealth s p)" "signals_ok (getHealth s q)" "weights_ok w"
    and "num_le (availability (getHealth s p)) (availability (getHealth s q))"
    and "num_le (ewmaErrorRate (getHealth s q)) (ewmaErrorRate (getHealth s p))"
    and "num_le (ewmaLatencyMs (getHealth s q)) (ewmaLatencyMs (getHealth s p))"
  shows "num_le (calculateScore s p w) (calculateScore s q w)"
proof -
  have v: "\<exists>r. val x = Some r \<and> 0 \<le> r" if "unit_num x \<or> latency_num x" for x
    using that unit_numE [of x] latency_numE [of x] by metis
  have mono: "the (val x) \<le> the (val y)" if "num_le x y" "unit_num x \<or> latency_num x" "unit_num y \<or> latency_num y" for x y
    using that v [of x] v [of y] le_val by force
  have "score_in w (getHealth s p) \<le> score_in w (getHealth s q)"
    unfolding score_in_def
  proof (rule score_val_mono)
    show "the (val (availability (getHealth s p))) \<le> the (val (availability (getHealth s q)))"
      "the (val (ewmaErrorRate (getHealth s q))) \<le> the (val (ewmaErrorRate (getHealth s p)))"
      "the (val (ewmaLatencyMs (getHealth s q))) \<le> the (val (ewmaLatencyMs (getHealth s p)))"
      using assms by (auto intro!: mono simp: signals_ok_def)
    show "0 \<le> the (val (spread_num (Fin (fl (2 / 5))) (w_availability w)))"
      "0 \<le> the (val (spread_num (Fin (fl (2 / 5))) (w_errorRate w)))"
      "0 \<le> the (val (spread_num (Fin (fl (1 / 5))) (w_latency w)))"
      using assms(3) v by (auto simp: weights_ok_def) (metis option.sel)+
  qed
  then show ?thesis using le_val [OF val_score [OF assms(1,3)] val_score [OF assms(2,3)]] by simp
qed

theorem score_monotone_witness:
  "num_le (calculateScore (updateAvailability (new_scorer default_alpha) ''openai'' OPEN) ''openai'' no_weights)
          (calculateScore (updateAvailability (new_scorer default_alpha) ''openai'' OPEN) ''groq'' no_weights)"
proof (rule score_monotone [OF _ _ no_weights_ok])
  have ok: "scorer_ok (updateAvailability (new_scorer default_alpha) ''openai'' OPEN)"
    using scorer_event_ok [OF new_scorer_ok [OF unit_default_alpha], of "Inr (''openai'', OPEN)"] by simp
  then show "signals_ok (getHealth (updateAvailability (new_scorer default_alpha) ''openai'' OPEN) ''openai'')"
    "signals_ok (getHealth (updateAvailability (new_scorer default_alpha) ''openai'' OPEN) ''groq'')"
    by (simp_all add: scorer_ok_def)
qed (simp_all add: scorer_health, simp_all add: getHealth_def new_scorer_def cold_start_def)

lemma clamp_unit:
  "num_max (num_of_int 0) (num_min (num_of_int 1) x) = NaN \<or>
   num_le (num_of_int 0) (num_max (num_of_int 0) (num_min (num_of_int 1) x)) \<and>
   num_le (num_max (num_of_int 0) (num_min (num_of_int 1) x)) (num_of_int 1)"
  by (cases x) (auto simp: num_max_def num_min_def)

lemma score_clamp:
  "calculateScore s p w = NaN \<or>
   num_le (num_of_int 0) (calculateScore s p w) \<and> num_le (calculateScore s p w) (num_of_int 1)"
  using clamp_unit by (simp only: calculateScore_def Let_def)

lemma is_double_min_max [simp]:
  "is_double x \<Longrightarrow> is_double y \<Longrightarrow> is_double (num_min x y)"
  "is_double x \<Longrightarrow> is_double y \<Longrightarrow> is_double (num_max x y)"
  by (simp_all add: num_min_def num_max_def)

lemma is_double_score: "is_double (calculateScore s p w)"
proof -
  have "is_double (num_of_int 0)" "is_double (num_of_int 1)"
    using fl_int [of 1] one_less_huge by simp_all
  then show ?thesis
    by (simp only: calculateScore_def Let_def is_double_min_max is_double_add is_double_mul)
qed

text \<open>For signals and weights in range the score is a double between zero and one.\<close>

lemma score_unit:
  assumes "signals_ok (getHealth s p)" "weights_ok w"
  shows "unit_num (calculateScore s p w)"
  using score_clamp [of s p w] val_score [OF assms] is_double_score [of s p w]
  by (auto simp: unit_num_def)

text \<open>For every scorer, every weights object and every history the score is \<open>NaN\<close> or between 0 and
  1; with signals in range and weights between 0 and 1 it is not \<open>NaN\<close>.\<close>

theorem score_clamped:
  "(calculateScore s p w = NaN \<or>
    num_le (num_of_int 0) (calculateScore s p w) \<and> num_le (calculateScore s p w) (num_of_int 1)) \<and>
   (signals_ok (getHealth s p) \<longrightarrow> weights_ok w \<longrightarrow> calculateScore s p w \<noteq> NaN)"
proof
  show "calculateScore s p w = NaN \<or>
    num_le (num_of_int 0) (calculateScore s p w) \<and> num_le (calculateScore s p w) (num_of_int 1)"
    by (rule score_clamp)
  show "signals_ok (getHealth s p) \<longrightarrow> weights_ok w \<longrightarrow> calculateScore s p w \<noteq> NaN"
    using val_score [of s p w] by auto
qed

theorem score_clamped_witness:
  "calculateScore (new_scorer default_alpha) ''groq'' no_weights \<noteq> NaN"
  using score_clamped [of "new_scorer default_alpha" "''groq''" no_weights] no_weights_ok
    new_scorer_ok [OF unit_default_alpha] by (simp add: scorer_ok_def)

end
