(* ===== verification/Canonicalize.thy ===== *)
theory Canonicalize
  imports NumberText "HOL-Library.List_Lexorder" "HOL-Library.Char_ord"
begin

text \<open>
  \<open>packages/sdk/src/utils/canonicalize.ts\<close> over the values a payload can hold, with the parts of
  \<open>JSON.stringify\<close> it uses. A string is a list of code units below 256; an object is the list of its
  own enumerable properties in insertion order, its keys distinct; a payload is a finite tree. The
  main results: the text does not depend on the order of keys, and on JSON payloads whose keys
  need no escaping it determines the value.
\<close>

subsection \<open>Values\<close>

text \<open>\<open>Opaque\<close> stands for functions and symbols, which \<open>JSON.stringify\<close> turns into \<open>undefined\<close>.\<close>

datatype jsval =
    Null
  | Undefined
  | Bool bool
  | Num number
  | Str string
  | BigInt int
  | Opaque
  | Arr "jsval list"
  | Obj "(string \<times> jsval) list"

text \<open>What \<open>canonicalize\<close> yields: a string, \<open>undefined\<close>, or a \<open>TypeError\<close> (for a \<open>BigInt\<close>).\<close>

datatype canon = Text string | NoText | Throw

subsection \<open>Operations\<close>

definition json_char :: "char \<Rightarrow> string" where
  "json_char c =
     (if c = CHR 0x22 then [CHR 0x5C, CHR 0x22]
      else if c = CHR 0x5C then [CHR 0x5C, CHR 0x5C]
      else if c = CHR 0x08 then [CHR 0x5C, CHR ''b'']
      else if c = CHR 0x09 then [CHR 0x5C, CHR ''t'']
      else if c = CHR 0x0A then [CHR 0x5C, CHR ''n'']
      else if c = CHR 0x0C then [CHR 0x5C, CHR ''f'']
      else if c = CHR 0x0D then [CHR 0x5C, CHR ''r'']
      else if (of_char c :: nat) < 32 then CHR 0x5C # ''u00'' @ hex2 (of_char c)
      else [c])"

definition json_quote :: "string \<Rightarrow> string" where
  "json_quote s = CHR 0x22 # concat (map json_char s) @ [CHR 0x22]"

fun json_number :: "number \<Rightarrow> string" where
  "json_number NaN = ''null''"
| "json_number (Inf s) = ''null''"
| "json_number x = num_text x"

text \<open>The conversions of an element by \<open>join\<close> and of a value by the template literal.\<close>

fun join_text :: "canon \<Rightarrow> string" where
  "join_text (Text t) = t"
| "join_text c = []"

fun template_text :: "canon \<Rightarrow> string" where
  "template_text (Text t) = t"
| "template_text c = ''undefined''"

definition pair_text :: "string \<times> canon \<Rightarrow> string" where
  "pair_text p = CHR 0x22 # fst p @ [CHR 0x22] @ '':'' @ template_text (snd p)"

definition array_result :: "canon list \<Rightarrow> canon" where
  "array_result cs = (if Throw \<in> set cs then Throw else Text (''['' @ join '','' (map join_text cs) @ '']''))"

definition object_result :: "(string \<times> canon) list \<Rightarrow> canon" where
  "object_result vs =
     (let sortedKeys = sort (map fst vs);
          pairs = map (\<lambda>key. (key, the (map_of vs key))) sortedKeys
      in if Throw \<in> snd ` set vs then Throw
         else Text (''{'' @ join '','' (map pair_text pairs) @ ''}''))"

fun canonicalize :: "jsval \<Rightarrow> canon" where
  "canonicalize Null = Text ''null''"
| "canonicalize Undefined = NoText"
| "canonicalize (Bool b) = Text (if b then ''true'' else ''false'')"
| "canonicalize (Num x) = Text (json_number x)"
| "canonicalize (Str s) = Text (json_quote s)"
| "canonicalize (BigInt n) = Throw"
| "canonicalize Opaque = NoText"
| "canonicalize (Arr xs) = array_result (map canonicalize xs)"
| "canonicalize (Obj kvs) = object_result (map (\<lambda>(k, v). (k, canonicalize v)) kvs)"

text \<open>Objects as the language keeps them: no key twice, at any depth.\<close>

fun distinct_keys :: "jsval \<Rightarrow> bool" where
  "distinct_keys (Arr xs) \<longleftrightarrow> list_all distinct_keys xs"
| "distinct_keys (Obj kvs) \<longleftrightarrow> distinct (map fst kvs) \<and> list_all (\<lambda>(k, v). distinct_keys v) kvs"
| "distinct_keys v \<longleftrightarrow> True"

subsection \<open>Equality of payloads\<close>

text \<open>
  \<open>same v w\<close>: the two values are equal as data, the order of an object's keys left out of account.
\<close>

fun same :: "jsval \<Rightarrow> jsval \<Rightarrow> bool" where
  "same (Arr xs) w \<longleftrightarrow> (case w of Arr ys \<Rightarrow> list_all2 same xs ys | _ \<Rightarrow> False)"
| "same (Obj kvs) w \<longleftrightarrow>
     (case w of
        Obj kws \<Rightarrow> set (map fst kvs) = set (map fst kws) \<and>
          (\<forall>(k, v) \<in> set kvs. case map_of kws k of None \<Rightarrow> False | Some u \<Rightarrow> same v u)
      | _ \<Rightarrow> False)"
| "same v w \<longleftrightarrow> v = w"

lemma canonicalize_example:
  "canonicalize (Obj [(''b'', Num (num_of_int 2)), (''a'', Arr [Str ''x'', Bool True])]) =
   Text ''{\"a\":[\"x\",true],\"b\":2}''"
  by code_simp

subsection \<open>The order of keys does not matter\<close>

lemma jsval_induct [case_names Leaf Arr Obj]:
  assumes leaf: "\<And>v. (\<forall>xs. v \<noteq> Arr xs) \<Longrightarrow> (\<forall>kvs. v \<noteq> Obj kvs) \<Longrightarrow> P v"
    and arr: "\<And>xs. (\<And>x. x \<in> set xs \<Longrightarrow> P x) \<Longrightarrow> P (Arr xs)"
    and obj: "\<And>kvs. (\<And>k v. (k, v) \<in> set kvs \<Longrightarrow> P v) \<Longrightarrow> P (Obj kvs)"
  shows "P v"
  by (induction v) (auto intro: leaf arr obj[rule_format] simp: snds.simps)

lemma object_result_cong:
  assumes "distinct (map fst vs)" "distinct (map fst ws)" "map_of vs = map_of ws"
  shows "object_result vs = object_result ws"
proof -
  have "set vs = set ws" using assms by (simp add: map_of_inject_set)
  moreover from this have "set (map fst vs) = set (map fst ws)" by simp
  then have "sort (map fst vs) = sort (map fst ws)"
    using assms(1,2) by (metis set_eq_iff_mset_eq_distinct mset_sort properties_for_sort sorted_sort)
  ultimately show ?thesis using assms(3) by (simp add: object_result_def)
qed

lemma map_of_canon: "map_of (map (\<lambda>(k, v). (k, f v)) kvs) k = map_option f (map_of kvs k)"
  by (induction kvs) auto

lemma map_fst_canon [simp]: "map fst (map (\<lambda>(k, v). (k, f v)) kvs) = map fst kvs"
  by (induction kvs) auto

lemma map_fst_comp_canon [simp]: "map (fst \<circ> (\<lambda>(k, v). (k, f v))) kvs = map fst kvs"
  by (induction kvs) auto

lemma same_canonicalize:
  "distinct_keys v \<Longrightarrow> distinct_keys w \<Longrightarrow> same v w \<Longrightarrow> canonicalize v = canonicalize w"
proof (induction v arbitrary: w rule: jsval_induct)
  case (Leaf v)
  then show ?case by (cases v) auto
next
  case (Arr xs)
  then obtain ys where w: "w = Arr ys" "list_all2 same xs ys" by (cases w) auto
  have "map canonicalize xs = map canonicalize ys"
  proof (rule nth_equalityI)
    show "length (map canonicalize xs) = length (map canonicalize ys)" using w(2) by (simp add: list_all2_lengthD)
    fix i
    assume "i < length (map canonicalize xs)"
    then have "xs ! i \<in> set xs" "ys ! i \<in> set ys" "same (xs ! i) (ys ! i)" "i < length xs" "i < length ys"
      using w(2) by (auto simp: list_all2_conv_all_nth)
    then show "map canonicalize xs ! i = map canonicalize ys ! i"
      using Arr by (simp add: w(1) list_all_iff)
  qed
  then show ?case by (simp add: w)
next
  case (Obj kvs)
  then obtain kws where w: "w = Obj kws" "set (map fst kvs) = set (map fst kws)"
    "\<forall>(k, v) \<in> set kvs. case map_of kws k of None \<Rightarrow> False | Some u \<Rightarrow> same v u"
    by (cases w) auto
  have "map_option canonicalize (map_of kvs k) = map_option canonicalize (map_of kws k)" for k
  proof (cases "map_of kvs k")
    case None
    then have "map_of kws k = None" using w(2) by (simp add: map_of_eq_None_iff)
    with None show ?thesis by simp
  next
    case (Some v)
    then have kv: "(k, v) \<in> set kvs" by (rule map_of_SomeD)
    then obtain u where u: "map_of kws k = Some u" "same v u" using w(3) by (auto split: option.splits)
    have "(k, u) \<in> set kws" using u(1) by (rule map_of_SomeD)
    then have "distinct_keys v" "distinct_keys u" using Obj.prems kv w(1) by (auto simp: list_all_iff)
    then have "canonicalize v = canonicalize u" using Obj.IH [OF kv _ _ u(2)] by simp
    then show ?thesis using Some u(1) by simp
  qed
  then show ?case
    using Obj.prems w(1) by (auto intro!: object_result_cong simp: map_of_canon fun_eq_iff)
qed


subsection \<open>The text determines the value\<close>

lemma char_code: "of_char c < (256 :: nat)"
  by (metis of_char_mod_256 mod_less_divisor zero_less_numeral)

lemma hex2_append:
  assumes "hex2 (of_char c) @ x = hex2 (of_char d) @ y" shows "c = d \<and> x = y"
proof -
  have "hex2 (of_char c) = hex2 (of_char d)" "x = y" using assms by (simp_all add: hex2_def)
  then show ?thesis using hex2_inj [OF char_code char_code] of_char_eq_iff by blast
qed

text \<open>Every character has its own code, and no code continues another or starts with a quote.\<close>

lemma json_char_cases:
  obtains (plain) "json_char c = [c]" "c \<noteq> CHR 0x22" "c \<noteq> CHR 0x5C"
    | (short) e where "json_char c = [CHR 0x5C, e]" "e \<noteq> CHR ''u''"
        "(e, c) \<in> {(CHR 0x22, CHR 0x22), (CHR 0x5C, CHR 0x5C), (CHR ''b'', CHR 0x08), (CHR ''t'', CHR 0x09),
                  (CHR ''n'', CHR 0x0A), (CHR ''f'', CHR 0x0C), (CHR ''r'', CHR 0x0D)}"
    | (control) "json_char c = CHR 0x5C # ''u00'' @ hex2 (of_char c)"
proof -
  let ?special = "{CHR 0x22, CHR 0x5C, CHR 0x08, CHR 0x09, CHR 0x0A, CHR 0x0C, CHR 0x0D}"
  consider "c = CHR 0x22" | "c = CHR 0x5C" | "c = CHR 0x08" | "c = CHR 0x09" | "c = CHR 0x0A"
    | "c = CHR 0x0C" | "c = CHR 0x0D" | "c \<notin> ?special" by auto
  then show thesis
  proof cases
    case 1 then show thesis by (intro short [of "CHR 0x22"]) (simp_all add: json_char_def)
  next
    case 2 then show thesis by (intro short [of "CHR 0x5C"]) (simp_all add: json_char_def)
  next
    case 3 then show thesis by (intro short [of "CHR ''b''"]) (simp_all add: json_char_def)
  next
    case 4 then show thesis by (intro short [of "CHR ''t''"]) (simp_all add: json_char_def)
  next
    case 5 then show thesis by (intro short [of "CHR ''n''"]) (simp_all add: json_char_def)
  next
    case 6 then show thesis by (intro short [of "CHR ''f''"]) (simp_all add: json_char_def)
  next
    case 7 then show thesis by (intro short [of "CHR ''r''"]) (simp_all add: json_char_def)
  next
    case 8
    then show thesis
      using plain control by (cases "of_char c < (32 :: nat)") (simp_all add: json_char_def)
  qed
qed

lemma json_char_append:
  assumes "json_char c @ x = json_char d @ y" shows "c = d \<and> x = y"
proof (cases c rule: json_char_cases)
  case plain
  with assms show ?thesis by (cases d rule: json_char_cases) simp_all
next
  case (short e)
  note c = this
  show ?thesis
  proof (cases d rule: json_char_cases)
    case (short f)
    have "e = f" "x = y" using assms c(1) short(1) by simp_all
    then show ?thesis using c(3) short(3) by auto
  qed (use assms c in simp_all)
next
  case control
  note c = this
  show ?thesis
  proof (cases d rule: json_char_cases)
    case control
    have "hex2 (of_char c) @ x = hex2 (of_char d) @ y" using assms c control by simp
    then show ?thesis by (rule hex2_append)
  qed (use assms c in auto)
qed

lemma json_char_first: "json_char c @ x \<noteq> CHR 0x22 # y"
  by (cases c rule: json_char_cases) auto

lemma json_chars_append:
  "concat (map json_char s) @ CHR 0x22 # x = concat (map json_char t) @ CHR 0x22 # y \<Longrightarrow> s = t \<and> x = y"
proof (induction s arbitrary: t)
  case Nil
  then show ?case
  proof (cases t)
    case (Cons d u)
    with Nil have "json_char d @ concat (map json_char u) @ CHR 0x22 # y = CHR 0x22 # x" by simp
    then show ?thesis using json_char_first by blast
  qed simp
next
  case (Cons c s)
  then show ?case
  proof (cases t)
    case Nil
    with Cons.prems have "json_char c @ concat (map json_char s) @ CHR 0x22 # x = CHR 0x22 # y" by simp
    then show ?thesis using json_char_first by blast
  next
    case (Cons d u)
    then have "json_char c @ concat (map json_char s) @ CHR 0x22 # x = json_char d @ concat (map json_char u) @ CHR 0x22 # y"
      using Cons.prems by simp
    from json_char_append [OF this] Cons.IH [of u] Cons show ?thesis by simp
  qed
qed

lemma json_quote_append:
  assumes "json_quote s @ x = json_quote t @ y" shows "s = t \<and> x = y"
proof -
  have "concat (map json_char s) @ CHR 0x22 # x = concat (map json_char t) @ CHR 0x22 # y"
    using assms by (simp add: json_quote_def)
  then show ?thesis by (rule json_chars_append)
qed


text \<open>
  JSON payloads: finite numbers (the language has one text for the two zeros, so minus zero is
  left out), keys that need no escaping, and \<open>undefined\<close> only as the value of a property.
\<close>

fun plain :: "jsval \<Rightarrow> bool" where
  "plain (Num (Fin r)) \<longleftrightarrow> is_double (Fin r)"
| "plain (Num x) \<longleftrightarrow> False"
| "plain Undefined \<longleftrightarrow> False"
| "plain (BigInt n) \<longleftrightarrow> False"
| "plain Opaque \<longleftrightarrow> False"
| "plain (Arr xs) \<longleftrightarrow> list_all plain xs"
| "plain (Obj kvs) \<longleftrightarrow> distinct (map fst kvs) \<and>
     list_all (\<lambda>(k, v). CHR 0x22 \<notin> set k \<and> (v = Undefined \<or> plain v)) kvs"
| "plain v \<longleftrightarrow> True"

definition member_ok :: "jsval \<Rightarrow> bool" where
  "member_ok v \<longleftrightarrow> v = Undefined \<or> plain v"

definition value_text :: "jsval \<Rightarrow> string" where
  "value_text v = template_text (canonicalize v)"

definition items :: "(string \<times> jsval) list \<Rightarrow> (string \<times> jsval) list" where
  "items kvs = map (\<lambda>key. (key, the (map_of kvs key))) (sort (map fst kvs))"

definition item_text :: "string \<times> jsval \<Rightarrow> string" where
  "item_text p = CHR 0x22 # fst p @ [CHR 0x22] @ '':'' @ value_text (snd p)"

lemma items_set: "distinct (map fst kvs) \<Longrightarrow> set (items kvs) = set kvs"
  by (force simp: items_def)

lemma plain_Text: "plain v \<Longrightarrow> canonicalize v = Text (value_text v)"
proof (induction v rule: jsval_induct)
  case (Leaf v)
  then show ?case by (cases v) (auto simp: value_text_def)
next
  case (Arr xs)
  then have "Throw \<notin> canonicalize ` set xs" by (auto simp: list_all_iff)
  then show ?case by (simp add: value_text_def array_result_def)
next
  case (Obj kvs)
  have "Throw \<noteq> canonicalize v" if "(k, v) \<in> set kvs" for k v
    using that Obj by (cases "v = Undefined") (auto simp: list_all_iff)
  then have "Throw \<notin> snd ` set (map (\<lambda>(k, v). (k, canonicalize v)) kvs)" by auto
  then show ?case by (simp add: value_text_def object_result_def Let_def)
qed

lemma value_text_Arr: "list_all plain xs \<Longrightarrow> value_text (Arr xs) = ''['' @ join '','' (map value_text xs) @ '']''"
proof -
  assume a: "list_all plain xs"
  then have eq: "map (join_text \<circ> canonicalize) xs = map value_text xs"
    by (auto simp: list_all_iff plain_Text)
  show ?thesis using plain_Text [of "Arr xs"] a by (simp add: array_result_def eq split: if_splits)
qed

lemma value_text_Obj:
  assumes "plain (Obj kvs)"
  shows "value_text (Obj kvs) = ''{'' @ join '','' (map item_text (items kvs)) @ ''}''"
proof -
  let ?vs = "map (\<lambda>(k, v). (k, canonicalize v)) kvs"
  have eq: "map (pair_text \<circ> (\<lambda>key. (key, the (map_of ?vs key)))) (sort (map fst kvs)) =
      map (item_text \<circ> (\<lambda>key. (key, the (map_of kvs key)))) (sort (map fst kvs))"
  proof (rule map_cong [OF refl])
    fix key
    assume "key \<in> set (sort (map fst kvs))"
    then obtain v where "map_of kvs key = Some v" by (metis map_of_eq_None_iff not_None_eq set_map set_sort)
    then show "(pair_text \<circ> (\<lambda>key. (key, the (map_of ?vs key)))) key =
        (item_text \<circ> (\<lambda>key. (key, the (map_of kvs key)))) key"
      by (simp add: pair_text_def item_text_def value_text_def map_of_canon)
  qed
  show ?thesis
    using plain_Text [OF assms] by (simp add: object_result_def items_def Let_def eq split: if_splits)
qed

text \<open>The first character of a text tells the kind of its value.\<close>

fun lead :: "jsval \<Rightarrow> char \<Rightarrow> bool" where
  "lead Null c \<longleftrightarrow> c = CHR ''n''"
| "lead Undefined c \<longleftrightarrow> c = CHR ''u''"
| "lead (Bool b) c \<longleftrightarrow> c = (if b then CHR ''t'' else CHR ''f'')"
| "lead (Num x) c \<longleftrightarrow> is_digit c \<or> c = CHR ''-''"
| "lead (Str s) c \<longleftrightarrow> c = CHR 0x22"
| "lead (Arr xs) c \<longleftrightarrow> c = CHR ''[''"
| "lead (Obj kvs) c \<longleftrightarrow> c = CHR ''{''"
| "lead v c \<longleftrightarrow> False"

lemma value_text_lead:
  assumes "member_ok v" shows "value_text v \<noteq> [] \<and> lead v (hd (value_text v))"
proof (cases v)
  case (Num x)
  then show ?thesis using assms num_text_finite(3,4) by (cases x) (auto simp: member_ok_def value_text_def)
next
  case (Arr xs)
  then show ?thesis using assms value_text_Arr [of xs] by (simp add: member_ok_def)
next
  case (Obj kvs)
  then show ?thesis using assms value_text_Obj [of kvs] by (simp add: member_ok_def)
qed (use assms in \<open>simp_all add: member_ok_def value_text_def json_quote_def\<close>)


text \<open>What can follow a value in a text.\<close>

definition stop :: "string \<Rightarrow> bool" where
  "stop r \<longleftrightarrow> r = [] \<or> hd r \<in> {CHR '','', CHR '']'', CHR ''}''}"

lemma stop_simps [simp]: "stop []" "stop (c # r) \<longleftrightarrow> c \<in> {CHR '','', CHR '']'', CHR ''}''}"
  by (simp_all add: stop_def)

lemma number_append:
  assumes "is_double (Fin x)" "is_double (Fin y)" "num_text (Fin x) @ r = num_text (Fin y) @ q" "stop r" "stop q"
  shows "x = y \<and> r = q"
proof -
  have take: "takeWhile number_char (num_text (Fin z) @ u) = num_text (Fin z)" if "is_double (Fin z)" "stop u" for z u
  proof -
    have "takeWhile number_char u = []" using that(2) by (cases u) (auto simp: number_char_def is_digit_def)
    then show ?thesis using num_text_finite(2) [of z] that(1) by (simp add: takeWhile_append)
  qed
  have "num_text (Fin x) = num_text (Fin y)"
    using take [OF assms(1,4)] take [OF assms(2,5)] assms(3) by simp
  then show ?thesis using num_text_inj [of x y] assms(1-3) by simp
qed

text \<open>Two separated sequences of texts agree item by item when single items can be told apart.\<close>

lemma separated_append:
  assumes "\<And>x y r q. x \<in> set xs \<Longrightarrow> y \<in> set ys \<Longrightarrow> stop r \<Longrightarrow> stop q \<Longrightarrow> F x @ r = F y @ q \<Longrightarrow> Q x y \<and> r = q"
    and "c \<in> {CHR '']'', CHR ''}''}" "stop r" "stop q"
    and "concat (map (\<lambda>x. '','' @ F x) xs) @ c # r = concat (map (\<lambda>y. '','' @ F y) ys) @ c # q"
  shows "list_all2 Q xs ys \<and> r = q"
  using assms(1,5)
proof (induction xs arbitrary: ys)
  case Nil
  then show ?case using assms(2) by (cases ys) auto
next
  case (Cons x xs)
  then obtain y ys' where ys: "ys = y # ys'" using assms(2) by (cases ys) auto
  let ?t = "concat (map (\<lambda>x. '','' @ F x) xs) @ c # r" and ?u = "concat (map (\<lambda>y. '','' @ F y) ys') @ c # q"
  have "F x @ ?t = F y @ ?u" using Cons.prems(2) ys by simp
  moreover have "stop ?t" "stop ?u" using assms(2) by (cases xs; cases ys'; auto)+
  ultimately have "Q x y" "?t = ?u" using Cons.prems(1) [of x y ?t ?u] ys by simp_all
  moreover have "list_all2 Q xs ys' \<and> r = q"
    by (rule Cons.IH) (use Cons.prems(1) ys \<open>?t = ?u\<close> in auto)
  ultimately show ?case by (simp add: ys)
qed

lemma join_append:
  assumes dec: "\<And>x y r q. x \<in> set xs \<Longrightarrow> y \<in> set ys \<Longrightarrow> stop r \<Longrightarrow> stop q \<Longrightarrow> F x @ r = F y @ q \<Longrightarrow> Q x y \<and> r = q"
    and first: "\<And>x. x \<in> set xs \<union> set ys \<Longrightarrow> F x \<noteq> [] \<and> hd (F x) \<noteq> c"
    and c: "c \<in> {CHR '']'', CHR ''}''}" and stop: "stop r" "stop q"
    and eq: "join '','' (map F xs) @ c # r = join '','' (map F ys) @ c # q"
  shows "list_all2 Q xs ys \<and> r = q"
proof (cases xs)
  case Nil
  have False if "ys = y # ys'" for y ys'
    using eq first [of y] Nil that by (cases "F y") (auto simp: join_Cons)
  then show ?thesis using eq Nil by (cases ys) auto
next
  case (Cons x xs')
  show ?thesis
  proof (cases ys)
    case Nil
    then show ?thesis using eq first [of x] Cons by (cases "F x") (auto simp: join_Cons)
  next
    case ys: (Cons y ys')
    let ?t = "concat (map (\<lambda>x. '','' @ F x) xs') @ c # r" and ?u = "concat (map (\<lambda>y. '','' @ F y) ys') @ c # q"
    have "F x @ ?t = F y @ ?u" using eq Cons ys by (simp add: join_Cons comp_def)
    moreover have "stop ?t" "stop ?u" using c by (cases xs'; cases ys'; auto)+
    ultimately have "Q x y" "?t = ?u" using dec [of x y ?t ?u] Cons ys by simp_all
    moreover have "list_all2 Q xs' ys' \<and> r = q"
      by (rule separated_append [of xs' ys' F Q c r q]) (use dec c stop Cons ys \<open>?t = ?u\<close> in auto)
    ultimately show ?thesis by (simp add: Cons ys)
  qed
qed

lemma key_append:
  "c \<notin> set k \<Longrightarrow> c \<notin> set l \<Longrightarrow> k @ c # x = l @ c # y \<Longrightarrow> k = l \<and> x = y"
proof (induction k arbitrary: l)
  case Nil
  then show ?case by (cases l) auto
next
  case (Cons a k)
  then show ?case by (cases l) auto
qed

lemma common_lead:
  assumes "member_ok v" "member_ok w" "value_text v @ r = value_text w @ q"
  obtains c where "lead v c" "lead w c"
  using value_text_lead [OF assms(1)] value_text_lead [OF assms(2)] assms(3) by (metis hd_append2)

lemma leaf_append:
  assumes leaf: "\<forall>xs. v \<noteq> Arr xs" "\<forall>kvs. v \<noteq> Obj kvs"
    and ok: "member_ok v" "member_ok w" "stop r" "stop q" "value_text v @ r = value_text w @ q"
  shows "same v w \<and> r = q"
proof -
  obtain c where c: "lead v c" "lead w c" using common_lead [OF ok(1,2,5)] .
  note no = is_digit_def
  show ?thesis
  proof (cases v)
    case (Num x)
    then obtain y where w: "w = Num y" using c by (cases w) (auto simp: no split: if_splits)
    obtain a b where "x = Fin a" "y = Fin b" "is_double (Fin a)" "is_double (Fin b)"
      using ok Num w by (cases x; cases y) (auto simp: member_ok_def)
    then show ?thesis using number_append [of a b r q] ok(3-5) Num w by (simp add: value_text_def)
  next
    case (Str s)
    then obtain t where w: "w = Str t" using c by (cases w) (auto simp: no split: if_splits)
    then show ?thesis using json_quote_append [of s r t q] ok(5) Str by (simp add: value_text_def)
  next
    case (Bool b)
    then obtain d where w: "w = Bool d" using c by (cases w) (auto simp: no split: if_splits)
    then show ?thesis using ok(5) Bool by (cases b; cases d) (simp_all add: value_text_def)
  next
    case Null
    then have w: "w = Null" using c by (cases w) (auto simp: no split: if_splits)
    then show ?thesis using ok(5) Null by (simp add: value_text_def)
  next
    case Undefined
    then have w: "w = Undefined" using c by (cases w) (auto simp: no split: if_splits)
    then show ?thesis using ok(5) Undefined by (simp add: value_text_def)
  qed (use leaf c in auto)
qed

definition same_item :: "string \<times> jsval \<Rightarrow> string \<times> jsval \<Rightarrow> bool" where
  "same_item p p' \<longleftrightarrow> fst p = fst p' \<and> same (snd p) (snd p')"

lemma same_items:
  assumes "distinct (map fst kvs)" "distinct (map fst kws)" "list_all2 same_item (items kvs) (items kws)"
  shows "same (Obj kvs) (Obj kws)"
proof -
  have keys: "map fst (items kvs) = map fst (items kws)"
    using assms(3) by (auto simp: list_all2_conv_all_nth same_item_def intro: nth_equalityI)
  have "set (map fst (items k)) = fst ` set k" for k :: "(string \<times> jsval) list" by (simp add: items_def comp_def)
  with keys have fst: "set (map fst kvs) = set (map fst kws)" by (metis set_map)
  have "\<exists>u. map_of kws k = Some u \<and> same v u" if "(k, v) \<in> set kvs" for k v
  proof -
    have "(k, v) \<in> set (items kvs)" using that items_set [OF assms(1)] by simp
    then obtain i where i: "i < length (items kvs)" "items kvs ! i = (k, v)" by (auto simp: in_set_conv_nth)
    then have j: "i < length (items kws)" "same_item (k, v) (items kws ! i)"
      using assms(3) by (auto simp: list_all2_conv_all_nth)
    then obtain u where u: "items kws ! i = (k, u)" "same v u" by (cases "items kws ! i") (auto simp: same_item_def)
    then have "(k, u) \<in> set (items kws)" using j(1) by (metis nth_mem)
    then have "map_of kws k = Some u" using items_set [OF assms(2)] assms(2) by simp
    with u(2) show ?thesis by simp
  qed
  then show ?thesis using fst by fastforce
qed

lemma lead_not_close: "lead v c \<Longrightarrow> c \<notin> {CHR '']'', CHR ''}''}"
  by (cases v) (auto simp: is_digit_def split: if_splits)

lemma plain_Obj_member: "plain (Obj kvs) \<Longrightarrow> (k, v) \<in> set kvs \<Longrightarrow> member_ok v \<and> CHR 0x22 \<notin> set k"
  by (auto simp: list_all_iff member_ok_def)

lemma member_append:
  "member_ok v \<Longrightarrow> member_ok w \<Longrightarrow> stop r \<Longrightarrow> stop q \<Longrightarrow> value_text v @ r = value_text w @ q \<Longrightarrow>
   same v w \<and> r = q"
proof (induction v arbitrary: w r q rule: jsval_induct)
  case (Leaf v)
  then show ?case by (intro leaf_append) auto
next
  case (Arr xs)
  obtain c where c: "lead (Arr xs) c" "lead w c" using common_lead [OF Arr.prems(1,2,5)] .
  obtain ys where w: "w = Arr ys" using c by (cases w) (auto simp: is_digit_def split: if_splits)
  have ok: "list_all plain xs" "list_all plain ys" using Arr.prems(1,2) by (simp_all add: member_ok_def w)
  have eq: "join '','' (map value_text xs) @ CHR '']'' # r = join '','' (map value_text ys) @ CHR '']'' # q"
    using Arr.prems(5) by (simp add: w value_text_Arr ok)
  have mem: "member_ok x" if "x \<in> set xs \<union> set ys" for x using ok that by (auto simp: list_all_iff member_ok_def)
  have "list_all2 same xs ys \<and> r = q"
  proof (rule join_append [OF _ _ _ Arr.prems(3,4) eq])
    fix x y t u
    assume a: "x \<in> set xs" "y \<in> set ys" "stop t" "stop u" "value_text x @ t = value_text y @ u"
    then have "member_ok x" "member_ok y" using mem by simp_all
    then show "same x y \<and> t = u" using Arr.IH [OF a(1)] a(3-5) by simp
  next
    fix x
    assume "x \<in> set xs \<union> set ys"
    then show "value_text x \<noteq> [] \<and> hd (value_text x) \<noteq> CHR '']''"
      using value_text_lead [OF mem] lead_not_close by blast
  qed simp
  then show ?case by (simp add: w)
next
  case (Obj kvs)
  obtain c where c: "lead (Obj kvs) c" "lead w c" using common_lead [OF Obj.prems(1,2,5)] .
  obtain kws where w: "w = Obj kws" using c by (cases w) (auto simp: is_digit_def split: if_splits)
  have ok: "plain (Obj kvs)" "plain (Obj kws)" using Obj.prems(1,2) by (simp_all add: member_ok_def w)
  have dist: "distinct (map fst kvs)" "distinct (map fst kws)" using ok by simp_all
  have eq: "join '','' (map item_text (items kvs)) @ CHR ''}'' # r = join '','' (map item_text (items kws)) @ CHR ''}'' # q"
    using Obj.prems(5) by (simp only: w value_text_Obj [OF ok(1)] value_text_Obj [OF ok(2)]) simp
  have "list_all2 same_item (items kvs) (items kws) \<and> r = q"
  proof (rule join_append [OF _ _ _ Obj.prems(3,4) eq])
    fix p p' t u
    assume p: "p \<in> set (items kvs)" "p' \<in> set (items kws)" "stop t" "stop u" "item_text p @ t = item_text p' @ u"
    obtain k v k' v' where pp: "p = (k, v)" "p' = (k', v')" by (cases p; cases p')
    have set: "(k, v) \<in> set kvs" "(k', v') \<in> set kws" using p(1,2) pp items_set dist by auto
    note m = plain_Obj_member [OF ok(1) set(1)] plain_Obj_member [OF ok(2) set(2)]
    have "k @ CHR 0x22 # '':'' @ value_text v @ t = k' @ CHR 0x22 # '':'' @ value_text v' @ u"
      using p(5) by (simp add: item_text_def pp)
    from key_append [OF _ _ this] m have "k = k'" "'':'' @ value_text v @ t = '':'' @ value_text v' @ u" by auto
    then show "same_item p p' \<and> t = u"
      using Obj.IH [OF set(1), of v' t u] m p(3,4) by (simp add: same_item_def pp)
  next
    fix p
    show "item_text p \<noteq> [] \<and> hd (item_text p) \<noteq> CHR ''}''" by (simp add: item_text_def)
  qed simp
  then show ?case using same_items [OF dist] by (simp add: w)
qed

lemma plain_distinct_keys: "plain v \<Longrightarrow> distinct_keys v"
proof (induction v rule: jsval_induct)
  case (Leaf v)
  then show ?case by (cases v) auto
next
  case (Obj kvs)
  then show ?case by (force simp: list_all_iff)
qed (simp add: list_all_iff)

text \<open>The canonical text of a payload does not depend on the order in which keys were inserted, at
  any depth: payloads that are equal as data, whatever values they hold, have the same text (or
  both throw).\<close>

theorem canonical_order_independent:
  assumes "distinct_keys v" "distinct_keys w" "same v w"
  shows "canonicalize v = canonicalize w"
  using assms by (rule same_canonicalize)

theorem canonical_order_independent_witness:
  "canonicalize (Obj [(''b'', Num (num_of_int 2)), (''a'', Undefined)]) =
   canonicalize (Obj [(''a'', Undefined), (''b'', Num (num_of_int 2))])"
  by (rule canonical_order_independent) auto

text \<open>C4: On JSON payloads whose keys contain no double quote the canonical text determines the
  payload: two payloads have the same text exactly when they are equal as data.\<close>

theorem canonical_injective:
  assumes "plain v" "plain w"
  shows "canonicalize v = canonicalize w \<longleftrightarrow> same v w"
proof
  assume "canonicalize v = canonicalize w"
  then have "value_text v @ [] = value_text w @ []" by (simp add: value_text_def)
  then show "same v w" using member_append [of v w "[]" "[]"] assms by (simp add: member_ok_def)
next
  assume "same v w"
  then show "canonicalize v = canonicalize w"
    using same_canonicalize plain_distinct_keys assms by blast
qed

theorem canonical_injective_witness:
  "canonicalize (Obj [(''n'', Arr [Num (num_of_int 1), Num (num_of_int 2)])]) \<noteq>
   canonicalize (Obj [(''n'', Arr [Num (num_of_int 12)])])"
proof -
  have fl: "fl 1 = 1" "fl 2 = 2" "fl 12 = 12" "(12 :: rat) < pow2 1024" "(2 :: rat) < pow2 1024" "(1 :: rat) < pow2 1024"
    using fl_int [of 1] fl_int [of 2] fl_int [of 12] by (simp_all add: pow2_def)
  have "plain (Obj [(''n'', Arr [Num (num_of_int 1), Num (num_of_int 2)])])" by (simp add: fl)
  moreover have "plain (Obj [(''n'', Arr [Num (num_of_int 12)])])" by (simp add: fl)
  moreover have "\<not> same (Obj [(''n'', Arr [Num (num_of_int 1), Num (num_of_int 2)])]) (Obj [(''n'', Arr [Num (num_of_int 12)])])"
    by simp
  ultimately show ?thesis using canonical_injective by blast
qed

text \<open>
  The key that spells out an entry \<open>k: v\<close> and the beginning of the entry after it.
\<close>

definition spelling_key :: "string \<Rightarrow> jsval \<Rightarrow> string \<Rightarrow> string" where
  "spelling_key k v l = k @ CHR 0x22 # '':'' @ template_text (canonicalize v) @ '','' @ CHR 0x22 # l"

lemma spelled_text:
  assumes "k < l" "canonicalize v \<noteq> Throw"
  shows "canonicalize (Obj [(spelling_key k v l, w)]) = canonicalize (Obj [(k, v), (l, w)])"
  using assms(2) less_imp_neq [OF assms(1)]
  by (simp add: object_result_def Let_def assms(1) less_imp_le pair_text_def spelling_key_def)

lemma array_text_cong:
  "canonicalize u = canonicalize v \<Longrightarrow> canonicalize (Arr (xs @ u # ys)) = canonicalize (Arr (xs @ v # ys))"
  by simp

text \<open>C32: Outside those payloads texts collide, because keys are not escaped and \<open>join\<close> and
  \<open>JSON.stringify\<close> write several values alike. For any keys \<open>k < l\<close> and any values, the object with
  the single key \<open>k\":v,\"l\<close> has the text of the object with the two entries \<open>k: v\<close> and \<open>l: w\<close>; in any
  array an \<open>undefined\<close> can be exchanged for a function, or \<open>null\<close> for \<open>NaN\<close> or an infinity; and the
  array with one value \<open>u\<close> that has no text has the text of the empty array. None of these pairs
  is equal as data, so two requests with such payloads share a fingerprint.\<close>

theorem canonical_collisions:
  assumes "k < l" "canonicalize v \<noteq> Throw" "canonicalize u = NoText" "x = NaN \<or> x = Inf s"
  shows "canonicalize (Obj [(spelling_key k v l, w)]) = canonicalize (Obj [(k, v), (l, w)]) \<and>
    \<not> same (Obj [(spelling_key k v l, w)]) (Obj [(k, v), (l, w)]) \<and>
    canonicalize (Arr (xs @ Undefined # ys)) = canonicalize (Arr (xs @ Opaque # ys)) \<and>
    \<not> same (Arr (xs @ Undefined # ys)) (Arr (xs @ Opaque # ys)) \<and>
    canonicalize (Arr (xs @ Null # ys)) = canonicalize (Arr (xs @ Num x # ys)) \<and>
    \<not> same (Arr (xs @ Null # ys)) (Arr (xs @ Num x # ys)) \<and>
    canonicalize (Arr [u]) = canonicalize (Arr []) \<and> \<not> same (Arr [u]) (Arr [])"
proof (intro conjI)
  show "canonicalize (Obj [(spelling_key k v l, w)]) = canonicalize (Obj [(k, v), (l, w)])"
    by (rule spelled_text [OF assms(1,2)])
  show "\<not> same (Obj [(spelling_key k v l, w)]) (Obj [(k, v), (l, w)])"
    using less_imp_neq [OF assms(1)] by auto
  show "canonicalize (Arr (xs @ Null # ys)) = canonicalize (Arr (xs @ Num x # ys))"
    using assms(4) by (intro array_text_cong) auto
  show "canonicalize (Arr [u]) = canonicalize (Arr [])"
    using assms(3) by (simp add: array_result_def)
qed (auto simp: list_all2_append list_all2_lengthD)

theorem canonical_collisions_witness:
  "canonicalize (Obj [(''a\":[1,null],\"b'', Num (num_of_int 2))]) =
     canonicalize (Obj [(''a'', Arr [Num (num_of_int 1), Null]), (''b'', Num (num_of_int 2))]) \<and>
   \<not> same (Obj [(''a\":[1,null],\"b'', Num (num_of_int 2))])
     (Obj [(''a'', Arr [Num (num_of_int 1), Null]), (''b'', Num (num_of_int 2))])"
proof -
  have key: "spelling_key ''a'' (Arr [Num (num_of_int 1), Null]) ''b'' = ''a\":[1,null],\"b''" by code_simp
  have "canonicalize (Arr [Num (num_of_int 1), Null]) \<noteq> Throw" "''a'' < ''b''" by code_simp+
  from canonical_collisions [OF this(2,1), of Undefined NaN False "Num (num_of_int 2)"]
  show ?thesis unfolding key by simp
qed

end
