(* ===== verification/Crypto.thy ===== *)
theory Crypto
  imports Canonicalize "HOL-Library.Word"
begin

text \<open>
  \<open>packages/sdk/src/utils/crypto.ts\<close>: finding the Web Crypto implementation, the UTF-8 encoding of a
  string (code units below 256), the digest, which is the platform's and a parameter here, and
  its text in lowercase hexadecimal.
\<close>

subsection \<open>Operations\<close>

datatype sdk_error = CryptoUnavailableError | PayloadTypeError

text \<open>
  What the runtime offers: the global objects \<open>globalThis\<close> and \<open>global\<close>, if defined, each with the
  value of \<open>crypto?.subtle\<close>, if it is an object.
\<close>

record 's runtime =
  globalThis :: "'s option option"
  global_object :: "'s option option"

fun subtle_of :: "'s option option \<Rightarrow> 's option" where
  "subtle_of None = None"
| "subtle_of (Some s) = s"

definition getSubtleCrypto :: "'s runtime \<Rightarrow> sdk_error + 's" where
  "getSubtleCrypto env =
     (case subtle_of (globalThis env) of
        Some s \<Rightarrow> Inr s
      | None \<Rightarrow> (case subtle_of (global_object env) of
            Some s \<Rightarrow> Inr s
          | None \<Rightarrow> Inl CryptoUnavailableError))"

text \<open>\<open>byte.toString(16)\<close> and \<open>padStart\<close>.\<close>

definition to_hex :: "nat \<Rightarrow> string" where
  "to_hex n = (if n < 16 then [hex_digit n] else [hex_digit (n div 16), hex_digit (n mod 16)])"

definition padStart :: "nat \<Rightarrow> char \<Rightarrow> string \<Rightarrow> string" where
  "padStart n c s = replicate (n - length s) c @ s"

definition bufferToHex :: "8 word list \<Rightarrow> string" where
  "bufferToHex buffer = concat (map (\<lambda>b. padStart 2 CHR ''0'' (to_hex (unat b))) buffer)"

definition utf8_char :: "char \<Rightarrow> 8 word list" where
  "utf8_char c =
     (let n = of_char c :: nat
      in if n < 128 then [of_nat n] else [of_nat (192 + n div 64), of_nat (128 + n mod 64)])"

definition utf8 :: "string \<Rightarrow> 8 word list" where
  "utf8 s = concat (map utf8_char s)"

text \<open>A Web Crypto implementation is represented by its SHA-256 digest of a byte sequence.\<close>

type_synonym digest = "8 word list \<Rightarrow> 8 word list"

definition sha256 :: "digest runtime \<Rightarrow> string \<Rightarrow> sdk_error + string" where
  "sha256 env input =
     (case getSubtleCrypto env of
        Inl e \<Rightarrow> Inl e
      | Inr digest \<Rightarrow> Inr (bufferToHex (digest (utf8 input))))"

subsection \<open>Hexadecimal text\<close>

lemma unat_byte: "unat (b :: 8 word) < 256"
  using unsigned_less [of b, where ?'a = nat] by simp

lemma hex_byte: "padStart 2 CHR ''0'' (to_hex (unat (b :: 8 word))) = hex2 (unat b)"
proof -
  have "hex_digit 0 = CHR ''0''" by code_simp
  then show ?thesis using unat_byte [of b] by (auto simp: padStart_def to_hex_def hex2_def)
qed

lemma bufferToHex_hex2: "bufferToHex bs = concat (map (\<lambda>b. hex2 (unat b)) bs)"
  by (simp add: bufferToHex_def hex_byte)

lemma bufferToHex_simps [simp]:
  "bufferToHex [] = []" "bufferToHex (b # bs) = hex2 (unat b) @ bufferToHex bs"
  by (simp_all add: bufferToHex_hex2)

lemma length_hex2 [simp]: "length (hex2 n) = 2"
  by (simp add: hex2_def)

lemma bufferToHex_length [simp]: "length (bufferToHex bs) = 2 * length bs"
  by (induction bs) simp_all

lemma bufferToHex_inj: "bufferToHex bs = bufferToHex cs \<Longrightarrow> bs = cs"
proof (induction bs arbitrary: cs)
  case Nil
  then have "length (bufferToHex cs) = 0" by (metis bufferToHex_simps(1) list.size(3))
  then show ?case by simp
next
  case (Cons b bs)
  then obtain c cs' where cs: "cs = c # cs'" by (cases cs) (auto simp: hex2_def)
  have "hex2 (unat b) = hex2 (unat c)" "bufferToHex bs = bufferToHex cs'"
    using Cons.prems cs by (simp_all add: append_eq_append_conv)
  then show ?case using Cons.IH cs hex2_inj [OF unat_byte unat_byte] by (simp add: word_unat_eq_iff)
qed

definition lower_hex :: "char \<Rightarrow> bool" where
  "lower_hex c \<longleftrightarrow> c \<in> set ''0123456789abcdef''"

lemma hex_digit_lower: "d < 16 \<Longrightarrow> lower_hex (hex_digit d)"
proof -
  have "list_all (\<lambda>d. lower_hex (hex_digit d)) [0..<16]" by code_simp
  then show "d < 16 \<Longrightarrow> lower_hex (hex_digit d)" by (simp add: list_all_iff)
qed

lemma bufferToHex_lower: "\<forall>c \<in> set (bufferToHex bs). lower_hex c"
  by (induction bs) (auto simp: hex2_def intro: hex_digit_lower dest: less_imp_diff_less simp: unat_byte less_mult_imp_div_less)

text \<open>Reading the text back: two digits for each byte.\<close>

definition hex_value :: "char \<Rightarrow> nat" where
  "hex_value c = (let n = of_char c in if n < 58 then n - 48 else n - 87)"

fun read_hex :: "string \<Rightarrow> 8 word list option" where
  "read_hex [] = Some []"
| "read_hex [c] = None"
| "read_hex (c # d # h) =
     (if lower_hex c \<and> lower_hex d
      then map_option (\<lambda>bs. of_nat (16 * hex_value c + hex_value d) # bs) (read_hex h) else None)"

lemma hex_value_digit: "d < 16 \<Longrightarrow> hex_value (hex_digit d) = d"
  by (auto simp: hex_value_def of_hex_digit Let_def)

lemma lower_hex_value: "lower_hex c \<Longrightarrow> hex_value c < 16 \<and> hex_digit (hex_value c) = c"
proof -
  have "list_all (\<lambda>c. hex_value c < 16 \<and> hex_digit (hex_value c) = c) ''0123456789abcdef''" by code_simp
  then have "\<forall>c \<in> set ''0123456789abcdef''. hex_value c < 16 \<and> hex_digit (hex_value c) = c" by (simp only: list_all_iff)
  then show "lower_hex c \<Longrightarrow> ?thesis" unfolding lower_hex_def by blast
qed

lemma read_hex_byte: "read_hex (hex2 (unat b) @ h) = map_option (\<lambda>bs. b # bs) (read_hex h)"
proof -
  have "unat b div 16 < 16" "unat b mod 16 < 16" using unat_byte [of b] by auto
  then show ?thesis by (simp add: hex2_def hex_value_digit hex_digit_lower)
qed

lemma read_bufferToHex: "read_hex (bufferToHex bs) = Some bs"
  by (induction bs) (simp_all add: read_hex_byte)

lemma unat_of_small: "n < 256 \<Longrightarrow> unat (of_nat n :: 8 word) = n"
  by (simp add: unat_of_nat)

lemma hex2_value:
  assumes "lower_hex c" "lower_hex d"
  shows "hex2 (unat (of_nat (16 * hex_value c + hex_value d) :: 8 word)) = [c, d]"
proof -
  note v = lower_hex_value [OF assms(1)] lower_hex_value [OF assms(2)]
  then have "unat (of_nat (16 * hex_value c + hex_value d) :: 8 word) = 16 * hex_value c + hex_value d"
    by (intro unat_of_small) simp
  then show ?thesis using v by (simp only: hex2_def) (simp add: mult.commute [of 16])
qed

lemma bufferToHex_read:
  "even (length h) \<Longrightarrow> \<forall>c \<in> set h. lower_hex c \<Longrightarrow> \<exists>bs. read_hex h = Some bs \<and> bufferToHex bs = h"
proof (induction h rule: read_hex.induct)
  case (3 c d h)
  then obtain bs where "read_hex h = Some bs" "bufferToHex bs = h" by auto
  then show ?case using 3 hex2_value [of c d] by auto
qed simp_all

subsection \<open>UTF-8\<close>

lemma utf8_char_cases:
  obtains (one) "utf8_char c = [of_nat (of_char c)]" "of_char c < (128 :: nat)"
    | (two) "utf8_char c = [of_nat (192 + of_char c div 64), of_nat (128 + of_char c mod 64)]" "128 \<le> (of_char c :: nat)"
  by (cases "of_char c < (128 :: nat)") (auto simp: utf8_char_def Let_def)

lemma utf8_char_append:
  assumes "utf8_char c @ x = utf8_char d @ y" shows "c = d \<and> x = y"
proof -
  have small: "of_char e div 64 < (4 :: nat)" for e using char_code [of e] by (intro less_mult_imp_div_less) simp
  have eq: "(of_nat m :: 8 word) = of_nat n \<longleftrightarrow> m = n" if "m < 256" "n < 256" for m n
    using unat_of_small [OF that(1)] unat_of_small [OF that(2)] by (metis)
  show ?thesis
  proof (cases c rule: utf8_char_cases)
    case c: one
    show ?thesis
    proof (cases d rule: utf8_char_cases)
      case one
      then have "of_char c = (of_char d :: nat)" "x = y" using assms c eq by simp_all
      then show ?thesis using of_char_eq_iff by blast
    next
      case two
      then have "(of_nat (of_char c) :: 8 word) = of_nat (192 + of_char d div 64)" using assms c by simp
      then have "of_char c = 192 + of_char d div (64 :: nat)"
        by (rule eq [THEN iffD1, rotated 2]) (use char_code [of c] small [of d] in simp_all)
      then show ?thesis using c(2) by simp
    qed
  next
    case c: two
    show ?thesis
    proof (cases d rule: utf8_char_cases)
      case one
      then have "(of_nat (of_char d) :: 8 word) = of_nat (192 + of_char c div 64)" using assms c by simp
      then have "of_char d = 192 + of_char c div (64 :: nat)"
        by (rule eq [THEN iffD1, rotated 2]) (use char_code [of d] small [of c] in simp_all)
      then show ?thesis using one(2) by simp
    next
      case two
      then have "(of_nat (192 + of_char c div 64) :: 8 word) = of_nat (192 + of_char d div 64)"
        "(of_nat (128 + of_char c mod 64) :: 8 word) = of_nat (128 + of_char d mod 64)" "x = y"
        using assms c by simp_all
      moreover have "128 + of_char e mod 64 < (256 :: nat)" for e
        using mod_less_divisor [of 64 "of_char e :: nat"] by linarith
      ultimately have "of_char c div 64 = (of_char d div 64 :: nat)" "of_char c mod 64 = (of_char d mod 64 :: nat)"
        using eq small [of c] small [of d] by (simp_all del: of_nat_add)
      then have "of_char c = (of_char d :: nat)" by (metis div_mult_mod_eq)
      then show ?thesis using \<open>x = y\<close> of_char_eq_iff by blast
    qed
  qed
qed

lemma utf8_inj: "utf8 s = utf8 t \<Longrightarrow> s = t"
proof (induction s arbitrary: t)
  case Nil
  then show ?case by (cases t) (auto simp: utf8_def utf8_char_def Let_def split: if_splits)
next
  case (Cons c s)
  then show ?case
  proof (cases t)
    case Nil
    then show ?thesis using Cons.prems by (auto simp: utf8_def utf8_char_def Let_def split: if_splits)
  next
    case t: (Cons d u)
    have "utf8_char c @ utf8 s = utf8_char d @ utf8 u" using Cons.prems t by (simp add: utf8_def)
    from utf8_char_append [OF this] Cons.IH t show ?thesis by simp
  qed
qed


subsection \<open>The text of a digest\<close>

text \<open>C29: Where Web Crypto is available, hashing succeeds on every string, and with a digest of 32 bytes
  the result is a text of 64 characters, all of them lowercase hexadecimal digits; where it is
  not available, every hash fails with \<open>CryptoUnavailableError\<close>.\<close>

theorem sha256_format:
  assumes "\<forall>d x. getSubtleCrypto env = Inr d \<longrightarrow> length (d x) = 32"
  shows "(sha256 env input = Inl CryptoUnavailableError \<and> subtle_of (globalThis env) = None \<and> subtle_of (global_object env) = None) \<or>
    (\<exists>h. sha256 env input = Inr h \<and> length h = 64 \<and> (\<forall>c \<in> set h. lower_hex c))"
  using assms bufferToHex_lower
  by (cases "subtle_of (globalThis env)"; cases "subtle_of (global_object env)")
    (auto simp: sha256_def getSubtleCrypto_def simp del: bufferToHex_simps)

text \<open>A digest of the right length to instantiate the hypotheses with.\<close>

definition sample_digest :: digest where
  "sample_digest bs = take 32 (bs @ replicate 32 0)"

definition sample_runtime :: "digest runtime" where
  "sample_runtime = \<lparr>globalThis = Some (Some sample_digest), global_object = None\<rparr>"

lemma sample_subtle [simp]: "getSubtleCrypto sample_runtime = Inr sample_digest"
  by (simp add: getSubtleCrypto_def sample_runtime_def)

lemma length_sample_digest [simp]: "length (sample_digest bs) = 32"
  by (simp add: sample_digest_def)

theorem sha256_format_witness: "\<exists>h. sha256 sample_runtime ''hello'' = Inr h \<and> length h = 64"
proof -
  have "\<forall>d x. getSubtleCrypto sample_runtime = Inr d \<longrightarrow> length (d x) = 32" by simp
  from sha256_format [OF this, of "''hello''"] show ?thesis
    by (auto simp: sample_runtime_def [THEN arg_cong, of globalThis])
qed

text \<open>C25: The text of a hash stands for the digest itself: reading it back gives exactly the bytes of the
  digest of the input's encoding, every sequence of bytes survives the trip, and every text of
  hexadecimal digits of even length is the text of the bytes it is read as.\<close>

theorem hash_text_roundtrip:
  "read_hex (bufferToHex bs) = Some bs \<and>
   (even (length h) \<longrightarrow> (\<forall>c \<in> set h. lower_hex c) \<longrightarrow> (\<exists>cs. read_hex h = Some cs \<and> bufferToHex cs = h)) \<and>
   (getSubtleCrypto env = Inr digest \<longrightarrow> (\<exists>t. sha256 env input = Inr t \<and> read_hex t = Some (digest (utf8 input))))"
  using bufferToHex_read [of h] read_bufferToHex by (simp add: sha256_def)

theorem hash_text_roundtrip_witness:
  "(\<exists>cs. read_hex ''00ff'' = Some cs \<and> bufferToHex cs = ''00ff'') \<and>
   (\<exists>t. sha256 sample_runtime ''hello'' = Inr t \<and> read_hex t = Some (sample_digest (utf8 ''hello'')))"
proof -
  have "\<forall>c \<in> set ''00ff''. lower_hex c" by (simp add: lower_hex_def)
  then show ?thesis using hash_text_roundtrip [of "[]" "''00ff''" sample_runtime sample_digest "''hello''"] by simp
qed

end
