(* ===== verification/Idempotency.thy ===== *)
theory Idempotency
  imports Crypto
begin

text \<open>
  \<open>IdempotencyGuard\<close> of \<open>packages/sdk/src/idempotency.ts\<close>. The file states the interface of a replay
  cache, a locale whose laws a client relies on, and shows that the guard provides it: eviction
  is invisible, and an entry is replayed exactly until its time to live has elapsed.
\<close>

subsection \<open>Data and operations\<close>

record PartialIdempotencyOptions =
  p_ttlSeconds :: "number partial"
  p_hashAlgorithm :: "string partial"

record IdempotencyOptions =
  ttlSeconds :: number
  hashAlgorithm :: "string option"

record 'b CachedResponse =
  statusCode :: int
  body :: 'b
  cachedAt :: number

record 'b CacheEntry =
  response :: "'b CachedResponse"
  expiresAt :: number

record 'b IdempotencyGuard =
  cache :: "string \<rightharpoonup> 'b CacheEntry"
  options :: IdempotencyOptions

definition new_guard :: "PartialIdempotencyOptions \<Rightarrow> 'b IdempotencyGuard" where
  "new_guard p =
     \<lparr>cache = Map.empty,
      options = \<lparr>ttlSeconds = spread_num (num_of_int 3600) (p_ttlSeconds p),
        hashAlgorithm = (case p_hashAlgorithm p of Absent \<Rightarrow> Some ''SHA-256'' | Present v \<Rightarrow> v)\<rparr>\<rparr>"

definition no_idempotency_options :: PartialIdempotencyOptions where
  "no_idempotency_options = \<lparr>p_ttlSeconds = Absent, p_hashAlgorithm = Absent\<rparr>"

text \<open>
  A payload is an object, so its text is a string unless a \<open>BigInt\<close> in it throws; encoding
  \<open>undefined\<close> gives no bytes.
\<close>

definition fingerprint :: "digest runtime \<Rightarrow> jsval \<Rightarrow> sdk_error + string" where
  "fingerprint env payload =
     (case canonicalize payload of
        Throw \<Rightarrow> Inl PayloadTypeError
      | NoText \<Rightarrow> sha256 env []
      | Text canonical \<Rightarrow> sha256 env canonical)"

definition get_cached :: "'b IdempotencyGuard \<Rightarrow> number \<Rightarrow> string \<Rightarrow> 'b CachedResponse option \<times> 'b IdempotencyGuard" where
  "get_cached g now key =
     (case cache g key of
        None \<Rightarrow> (None, g)
      | Some entry \<Rightarrow>
          if num_ge now (expiresAt entry) then (None, g\<lparr>cache := (cache g)(key := None)\<rparr>)
          else (Some (response entry), g))"

text \<open>\<open>t1\<close> is read for the expiry, \<open>t2\<close> by \<open>new Date()\<close>.\<close>

definition set_cached :: "'b IdempotencyGuard \<Rightarrow> number \<Rightarrow> number \<Rightarrow> string \<Rightarrow> 'b \<Rightarrow> int \<Rightarrow> 'b IdempotencyGuard" where
  "set_cached g t1 t2 key resp status =
     (let expires = num_add t1 (num_mul (ttlSeconds (options g)) (num_of_int 1000))
      in g\<lparr>cache := (cache g)(key \<mapsto>
            \<lparr>response = \<lparr>statusCode = status, body = resp, cachedAt = t2\<rparr>, expiresAt = expires\<rparr>)\<rparr>)"

definition clear_cache :: "'b IdempotencyGuard \<Rightarrow> 'b IdempotencyGuard" where
  "clear_cache g = g\<lparr>cache := Map.empty\<rparr>"

subsection \<open>The interface of a replay cache\<close>

text \<open>
  \<open>view s t k\<close> is what a reader at time \<open>t\<close> finds under \<open>k\<close>. Looking up answers from the view and does
  not change it from then on, storing replaces one entry for a fixed lifetime, and an entry that
  is visible was visible at every earlier time.
\<close>

locale replay_cache =
  fixes lookup :: "'s \<Rightarrow> int \<Rightarrow> string \<Rightarrow> 'r option \<times> 's"
    and store :: "'s \<Rightarrow> int \<Rightarrow> string \<Rightarrow> 'r \<Rightarrow> 's"
    and view :: "'s \<Rightarrow> int \<Rightarrow> string \<Rightarrow> 'r option"
    and inv :: "'s \<Rightarrow> bool"
    and time_ok :: "int \<Rightarrow> bool"
    and lifetime :: int
  assumes lookup_inv: "inv s \<Longrightarrow> inv (snd (lookup s t k))"
    and store_inv: "inv s \<Longrightarrow> inv (store s t k r)"
    and lookup_result: "fst (lookup s t k) = view s t k"
    and lookup_view: "t \<le> t' \<Longrightarrow> view (snd (lookup s t k)) t' k' = view s t' k'"
    and store_view: "inv s \<Longrightarrow> time_ok t \<Longrightarrow>
      view (store s t k r) t' k' = (if k' = k then (if t' < t + lifetime then Some r else None) else view s t' k')"
begin

text \<open>A run of lookups and stores, each with its time.\<close>

fun step :: "'s \<Rightarrow> int \<times> string \<times> 'r option \<Rightarrow> 's" where
  "step s (t, k, None) = snd (lookup s t k)"
| "step s (t, k, Some r) = store s t k r"

definition quiet :: "int \<Rightarrow> string \<Rightarrow> (int \<times> string \<times> 'r option) \<Rightarrow> bool" where
  "quiet t' k e \<longleftrightarrow> fst e \<le> t' \<and> time_ok (fst e) \<and> (fst (snd e) = k \<longrightarrow> snd (snd e) = None)"

lemma step_inv: "inv s \<Longrightarrow> inv (step s e)"
  by (cases "(s, e)" rule: step.cases) (simp_all add: lookup_inv store_inv)

lemma step_view: "inv s \<Longrightarrow> quiet t' k e \<Longrightarrow> view (step s e) t' k = view s t' k"
  by (cases "(s, e)" rule: step.cases) (auto simp: quiet_def lookup_view store_view)

lemma run_view:
  "inv s \<Longrightarrow> \<forall>e \<in> set es. quiet t' k e \<Longrightarrow> view (foldl step s es) t' k = view s t' k"
  by (induction es arbitrary: s) (simp_all add: step_inv step_view)

lemma run_inv: "inv s \<Longrightarrow> inv (foldl step s es)"
  by (induction es arbitrary: s) (simp_all add: step_inv)

lemma replay:
  assumes "inv s" "time_ok t" "\<forall>e \<in> set es. quiet t' k e"
  shows "fst (lookup (foldl step (store s t k r) es) t' k) = (if t' < t + lifetime then Some r else None)"
  using assms by (simp add: lookup_result run_view store_inv store_view)

end

subsection \<open>The guard is a replay cache\<close>

definition live :: "number \<Rightarrow> 'b CacheEntry \<Rightarrow> bool" where
  "live now e \<longleftrightarrow> \<not> num_ge now (expiresAt e)"

definition guard_view :: "'b IdempotencyGuard \<Rightarrow> int \<Rightarrow> string \<Rightarrow> 'b CachedResponse option" where
  "guard_view g t key =
     (case cache g key of None \<Rightarrow> None | Some e \<Rightarrow> if live (num_of_int t) e then Some (response e) else None)"

definition guard_lookup :: "'b IdempotencyGuard \<Rightarrow> int \<Rightarrow> string \<Rightarrow> 'b CachedResponse option \<times> 'b IdempotencyGuard" where
  "guard_lookup g t key = get_cached g (num_of_int t) key"

definition guard_store :: "'b IdempotencyGuard \<Rightarrow> int \<Rightarrow> string \<Rightarrow> 'b CachedResponse \<Rightarrow> 'b IdempotencyGuard" where
  "guard_store g t key r = set_cached g (num_of_int t) (cachedAt r) key (body r) (statusCode r)"

definition guard_ttl :: "int \<Rightarrow> 'b IdempotencyGuard \<Rightarrow> bool" where
  "guard_ttl T g \<longleftrightarrow> ttlSeconds (options g) = num_of_int T \<and> 0 \<le> T \<and> T \<le> 10 ^ 11"

definition ms_ok :: "int \<Rightarrow> bool" where
  "ms_ok t \<longleftrightarrow> 0 \<le> t \<and> t \<le> max_time"

lemma live_mono: "live (num_of_int t') e \<Longrightarrow> t \<le> t' \<Longrightarrow> live (num_of_int t) e"
proof -
  assume l: "live (num_of_int t') e" "t \<le> t'"
  have "(of_int t :: rat) \<le> of_int t'" using l(2) by simp
  then show ?thesis using l(1) by (cases "expiresAt e") (auto simp: live_def)
qed

lemma expiry_sum:
  "guard_ttl T g \<Longrightarrow> ms_ok t \<Longrightarrow>
   num_add (num_of_int t) (num_mul (ttlSeconds (options g)) (Fin 1000)) = num_of_int (t + T * 1000)"
  using num_mul_int [of T 1000] num_add_int [of t "T * 1000"]
  by (simp add: guard_ttl_def ms_ok_def max_time_def)

lemma guard_lookup_ttl [simp]: "guard_ttl T (snd (guard_lookup g t k)) = guard_ttl T g"
  by (simp add: guard_lookup_def get_cached_def guard_ttl_def split: option.split)

lemma guard_store_ttl [simp]: "guard_ttl T (guard_store g t k r) = guard_ttl T g"
  by (simp add: guard_store_def set_cached_def guard_ttl_def Let_def)

interpretation guard: replay_cache guard_lookup guard_store guard_view "guard_ttl T" ms_ok "T * 1000" for T
proof
  fix g :: "'b IdempotencyGuard" and t t' :: int and k k' :: string and r :: "'b CachedResponse"
  show "fst (guard_lookup g t k) = guard_view g t k"
    by (simp add: guard_lookup_def get_cached_def guard_view_def live_def split: option.split)
  show "guard_view (snd (guard_lookup g t k)) t' k' = guard_view g t' k'" if "t \<le> t'"
    using that live_mono [of t' _ t]
    by (auto simp: guard_lookup_def get_cached_def guard_view_def live_def split: option.split)
  show "guard_view (guard_store g t k r) t' k' =
      (if k' = k then (if t' < t + T * 1000 then Some r else None) else guard_view g t' k')"
    if "guard_ttl T g" "ms_ok t"
    by (simp add: guard_store_def set_cached_def guard_view_def live_def Let_def expiry_sum [OF that] not_le num_le_int
        del: of_int_add of_int_mult)
qed simp_all

text \<open>C5: A stored response is replayed exactly for its time to live: whatever lookups of any key and
  whatever stores under other keys happen in between, a lookup at time \<open>t'\<close> finds the response
  when \<open>t'\<close> is before the expiry and nothing from the expiry on. Evicting expired entries at a
  lookup can never be observed.\<close>

theorem replayed_until_expiry:
  assumes "guard_ttl T g" "ms_ok t" "\<forall>e \<in> set es. guard.quiet t' k e"
  shows "fst (guard_lookup (foldl guard.step (guard_store g t k r) es) t' k) =
    (if t' < t + T * 1000 then Some r else None)"
  by (rule guard.replay [OF assms])

definition sample_response :: "unit CachedResponse" where
  "sample_response = \<lparr>statusCode = 200, body = (), cachedAt = num_of_int 1000\<rparr>"

theorem replayed_until_expiry_witness:
  "fst (guard_lookup (foldl guard.step (guard_store (new_guard no_idempotency_options) 1000 ''k'' sample_response)
     [(2000, ''k'', None), (3000, ''j'', Some sample_response)]) 3600999 ''k'') = Some sample_response"
  using replayed_until_expiry [of 3600 "new_guard no_idempotency_options" 1000
      "[(2000, ''k'', None), (3000, ''j'', Some sample_response)]" 3600999 "''k''" sample_response]
  by (simp add: guard_ttl_def new_guard_def no_idempotency_options_def ms_ok_def max_time_def guard.quiet_def)

subsection \<open>Fingerprints\<close>

lemma fingerprint_plain:
  assumes "plain v" "getSubtleCrypto env = Inr d"
  shows "fingerprint env v = Inr (bufferToHex (d (utf8 (value_text v))))"
  using plain_Text [OF assms(1)] assms(2) by (simp add: fingerprint_def sha256_def)

lemma fingerprint_same_iff:
  assumes "plain v" "plain w" "getSubtleCrypto env = Inr d"
  shows "fingerprint env v = fingerprint env w \<longleftrightarrow> same v w \<or>
    utf8 (value_text v) \<noteq> utf8 (value_text w) \<and> d (utf8 (value_text v)) = d (utf8 (value_text w))"
proof -
  have texts: "value_text v = value_text w \<longleftrightarrow> same v w"
    using same_canonicalize [OF plain_distinct_keys plain_distinct_keys] assms(1,2)
      member_append [of v w "[]" "[]"] plain_Text [OF assms(1)] plain_Text [OF assms(2)]
    by (auto simp: member_ok_def)
  show ?thesis
    using texts fingerprint_plain [OF assms(1,3)] fingerprint_plain [OF assms(2,3)] bufferToHex_inj utf8_inj
    by (auto simp del: bufferToHex_simps)
qed

text \<open>C16: The fingerprint identifies a request: payloads equal as data have equal fingerprints, and
  two JSON payloads with equal fingerprints are equal as data unless the digest of the platform
  collides on their two canonical texts.\<close>

theorem fingerprint_identifies:
  assumes "plain v" "plain w" "getSubtleCrypto env = Inr d"
  shows "(same v w \<longrightarrow> fingerprint env v = fingerprint env w) \<and>
    (fingerprint env v = fingerprint env w \<longrightarrow> same v w \<or>
       utf8 (value_text v) \<noteq> utf8 (value_text w) \<and> d (utf8 (value_text v)) = d (utf8 (value_text w)))"
  using fingerprint_same_iff [OF assms] by blast

theorem fingerprint_identifies_witness:
  "fingerprint sample_runtime (Obj [(''a'', Null), (''b'', Bool True)]) =
   fingerprint sample_runtime (Obj [(''b'', Bool True), (''a'', Null)])"
  using fingerprint_identifies [of "Obj [(''a'', Null), (''b'', Bool True)]" "Obj [(''b'', Bool True), (''a'', Null)]"
      sample_runtime sample_digest]
  by auto

end
