(* ===== verification/JsonText.thy ===== *)
theory JsonText
  imports Canonicalize DateText
begin

text \<open>
  \<open>JSON.stringify\<close> as the client applies it to a request and, with an indentation, the trace to its
  events. The result is that the two layouts write the same document: the indented text without
  the blanks outside its strings is the compact one.
\<close>

subsection \<open>Operations\<close>

text \<open>\<open>JSON.stringify\<close>: undefined members are left out, undefined elements written as \<open>null\<close>.\<close>

fun element_text :: "canon \<Rightarrow> string" where
  "element_text (Text t) = t"
| "element_text c = ''null''"

definition member_texts :: "(string \<times> canon) list \<Rightarrow> string list" where
  "member_texts vs = concat (map (\<lambda>(k, c). case c of Text t \<Rightarrow> [json_quote k @ '':'' @ t] | _ \<Rightarrow> []) vs)"

fun stringify :: "jsval \<Rightarrow> canon" where
  "stringify (Arr xs) =
     (let cs = map stringify xs
      in if Throw \<in> set cs then Throw else Text (''['' @ join '','' (map element_text cs) @ '']''))"
| "stringify (Obj kvs) =
     (let vs = map (\<lambda>(k, v). (k, stringify v)) kvs
      in if Throw \<in> snd ` set vs then Throw else Text (''{'' @ join '','' (member_texts vs) @ ''}''))"
| "stringify v = canonicalize v"

text \<open>
  The layout with an indentation: \<open>g\<close> is the text of one level and \<open>ind\<close> that of the levels
  around the value.
\<close>

definition layout :: "string \<Rightarrow> string \<Rightarrow> string \<Rightarrow> string \<Rightarrow> string list \<Rightarrow> string" where
  "layout l r g ind ts =
     (if ts = [] then l @ r
      else if g = [] then l @ join '','' ts @ r
      else l @ [CHR 0x0A] @ ind @ g @ join ('','' @ [CHR 0x0A] @ ind @ g) ts @ [CHR 0x0A] @ ind @ r)"

definition spaced_members :: "string \<Rightarrow> (string \<times> canon) list \<Rightarrow> string list" where
  "spaced_members g vs =
     concat (map (\<lambda>(k, c). case c of Text t \<Rightarrow> [json_quote k @ '':'' @ (if g = [] then [] else '' '') @ t] | _ \<Rightarrow> []) vs)"

fun stringify_indented :: "string \<Rightarrow> string \<Rightarrow> jsval \<Rightarrow> canon" where
  "stringify_indented g ind (Arr xs) =
     (let cs = map (stringify_indented g (ind @ g)) xs
      in if Throw \<in> set cs then Throw else Text (layout ''['' '']'' g ind (map element_text cs)))"
| "stringify_indented g ind (Obj kvs) =
     (let vs = map (\<lambda>(k, v). (k, stringify_indented g (ind @ g) v)) kvs
      in if Throw \<in> snd ` set vs then Throw else Text (layout ''{'' ''}'' g ind (spaced_members g vs)))"
| "stringify_indented g ind v = canonicalize v"

subsection \<open>Leaving out the blanks\<close>

text \<open>\<open>squeeze q s\<close>: the text without blanks outside strings; \<open>q\<close> tells whether it begins in a string.\<close>

definition blank :: "char \<Rightarrow> bool" where
  "blank c \<longleftrightarrow> c = CHR '' '' \<or> c = CHR 0x0A"

fun squeeze :: "bool \<Rightarrow> string \<Rightarrow> string" where
  "squeeze q [] = []"
| "squeeze q [c] = (if \<not> q \<and> blank c then [] else [c])"
| "squeeze q (c # d # s) =
     (if q \<and> c = CHR 0x5C then c # d # squeeze True s
      else if c = CHR 0x22 then c # squeeze (\<not> q) (d # s)
      else if \<not> q \<and> blank c then squeeze q (d # s)
      else c # squeeze q (d # s))"

lemma squeeze_Cons:
  "c \<noteq> CHR 0x5C \<or> \<not> q \<Longrightarrow> squeeze q (c # s) =
   (if c = CHR 0x22 then c # squeeze (\<not> q) s else if \<not> q \<and> blank c then squeeze q s else c # squeeze q s)"
  by (cases s) (auto simp: blank_def)

lemma squeeze_escape: "squeeze True (CHR 0x5C # c # s) = CHR 0x5C # c # squeeze True s"
  by simp

declare squeeze.simps(2,3) [simp del]

lemma squeeze_inside: "CHR 0x22 \<notin> set s \<Longrightarrow> CHR 0x5C \<notin> set s \<Longrightarrow> squeeze True (s @ r) = s @ squeeze True r"
  by (induction s) (auto simp: squeeze_Cons)

lemma hex2_quotes: "n < 256 \<Longrightarrow> CHR 0x22 \<notin> set (hex2 n) \<and> CHR 0x5C \<notin> set (hex2 n)"
proof -
  have "hex_digit d \<noteq> CHR 0x22 \<and> hex_digit d \<noteq> CHR 0x5C" if "d < 16" for d
    using of_hex_digit [OF that] that by (auto split: if_splits)
  then have digit: "CHR 0x22 \<noteq> hex_digit d \<and> CHR 0x5C \<noteq> hex_digit d" if "d < 16" for d
    using that by metis
  assume "n < 256"
  then have "n div 16 < 16" "n mod 16 < 16" by auto
  from this [THEN digit] show ?thesis by (simp add: hex2_def)
qed

lemma squeeze_char: "squeeze True (json_char c @ r) = json_char c @ squeeze True r"
proof (cases c rule: json_char_cases)
  case control
  have "of_char c < (256 :: nat)" by (rule char_code)
  then show ?thesis
    using squeeze_inside [of "''00'' @ hex2 (of_char c)"] hex2_quotes [of "of_char c"]
    by (simp add: control squeeze_escape)
qed (simp_all add: squeeze_Cons squeeze_escape)

text \<open>\<open>squeezed s t\<close>: outside strings, \<open>s\<close> is \<open>t\<close> with more blanks.\<close>

definition squeezed :: "string \<Rightarrow> string \<Rightarrow> bool" where
  "squeezed s t \<longleftrightarrow> (\<forall>r. squeeze False (s @ r) = t @ squeeze False r)"

lemma squeezed_append: "squeezed s t \<Longrightarrow> squeezed s' t' \<Longrightarrow> squeezed (s @ s') (t @ t')"
  by (simp add: squeezed_def)

lemma squeezed_blank: "\<forall>c \<in> set s. blank c \<Longrightarrow> squeezed s []"
  unfolding squeezed_def by (induction s) (auto simp: squeeze_Cons blank_def)

lemma squeezed_solid: "\<forall>c \<in> set s. \<not> blank c \<and> c \<noteq> CHR 0x22 \<Longrightarrow> squeezed s s"
  unfolding squeezed_def by (induction s) (auto simp: squeeze_Cons)

lemma squeezed_quote: "squeezed (json_quote s) (json_quote s)"
proof -
  have "squeeze True (concat (map json_char s) @ r) = concat (map json_char s) @ squeeze True r" for r
    by (induction s) (simp_all add: squeeze_char)
  then show ?thesis by (simp add: squeezed_def json_quote_def squeeze_Cons)
qed

lemma squeezed_join:
  "squeezed sep sep' \<Longrightarrow> list_all2 squeezed ss ts \<Longrightarrow> squeezed (join sep ss) (join sep' ts)"
proof (induction sep ss arbitrary: ts rule: join.induct)
  case (1 sep)
  then show ?case by (simp add: squeezed_def)
next
  case (2 sep s)
  then show ?case by (auto simp: list_all2_Cons1)
next
  case (3 sep s s' ss)
  then obtain t t' ts' where ts: "ts = t # t' # ts'" "squeezed s t" "list_all2 squeezed (s' # ss) (t' # ts')"
    by (auto simp: list_all2_Cons1)
  show ?case using squeezed_append [OF ts(2) squeezed_append [OF 3(2) 3(1) [OF 3(2) ts(3)]]] by (simp add: ts(1))
qed

lemma squeezed_layout:
  assumes "\<forall>c \<in> set g. blank c" "\<forall>c \<in> set ind. blank c" "squeezed l l" "squeezed r r" "list_all2 squeezed ss ts"
  shows "squeezed (layout l r g ind ss) (l @ join '','' ts @ r)"
proof -
  have comma: "squeezed '','' '',''" by (rule squeezed_solid) (simp add: blank_def)
  have nl: "squeezed ([CHR 0x0A] @ ind @ g) []" "squeezed ([CHR 0x0A] @ ind) []"
    by (rule squeezed_blank; use assms(1,2) in \<open>auto simp: blank_def\<close>)+
  have sep: "squeezed ('','' @ [CHR 0x0A] @ ind @ g) '',''" using squeezed_append [OF comma nl(1)] by simp
  show ?thesis
  proof (cases "ss = [] \<or> g = []")
    case True
    have "layout l r g ind ss = l @ join '','' ss @ r"
      using True by (cases "ss = []") (simp_all add: layout_def)
    then show ?thesis using squeezed_append [OF assms(3) squeezed_append [OF squeezed_join [OF comma assms(5)] assms(4)]] by (simp only:)
  next
    case False
    have "squeezed (l @ ([CHR 0x0A] @ ind @ g) @ join ('','' @ [CHR 0x0A] @ ind @ g) ss @ ([CHR 0x0A] @ ind) @ r)
        (l @ [] @ join '','' ts @ [] @ r)"
      by (rule squeezed_append [OF assms(3) squeezed_append [OF nl(1) squeezed_append [OF squeezed_join [OF sep assms(5)]
            squeezed_append [OF nl(2) assms(4)]]]])
    then show ?thesis using False by (simp add: layout_def)
  qed
qed

subsection \<open>The two layouts\<close>

text \<open>The numbers of a value are doubles.\<close>

fun doubles :: "jsval \<Rightarrow> bool" where
  "doubles (Num x) \<longleftrightarrow> is_double x"
| "doubles (Arr xs) \<longleftrightarrow> list_all doubles xs"
| "doubles (Obj kvs) \<longleftrightarrow> list_all (\<lambda>(k, v). doubles v) kvs"
| "doubles v \<longleftrightarrow> True"

lemma squeezed_number: "is_double x \<Longrightarrow> squeezed (json_number x) (json_number x)"
proof (rule squeezed_solid)
  assume "is_double x"
  then have "\<forall>c \<in> set (json_number x). number_char c \<or> c \<in> {CHR ''n'', CHR ''u'', CHR ''l''}"
    using num_text_finite(2) by (cases x) (auto simp: number_char_def is_digit_def simp del: num_text.simps(4))
  then show "\<forall>c \<in> set (json_number x). \<not> blank c \<and> c \<noteq> CHR 0x22"
    by (auto simp: number_char_def is_digit_def blank_def)
qed

text \<open>What \<open>p\<close> is as a result with more blanks than the result \<open>c\<close>.\<close>

fun squeezed_result :: "canon \<Rightarrow> canon \<Rightarrow> bool" where
  "squeezed_result (Text s) c \<longleftrightarrow> (case c of Text t \<Rightarrow> squeezed s t | _ \<Rightarrow> False)"
| "squeezed_result p c \<longleftrightarrow> p = c"

lemma squeezed_result_Throw: "squeezed_result p c \<Longrightarrow> Throw = p \<longleftrightarrow> Throw = c"
  by (cases p; cases c) auto

lemma squeezed_element: "squeezed_result p c \<Longrightarrow> squeezed (element_text p) (element_text c)"
  by (cases p; cases c) (auto intro!: squeezed_solid simp: blank_def)

lemma squeezed_member:
  assumes "squeezed_result p c" "\<forall>c \<in> set g. blank c"
  shows "list_all2 squeezed (spaced_members g [(k, p)]) (member_texts [(k, c)])"
proof (cases p)
  case (Text s)
  then obtain t where t: "c = Text t" "squeezed s t" using assms(1) by (cases c) auto
  have "squeezed (if g = [] then [] else '' '') []" by (intro squeezed_blank) (simp add: blank_def)
  moreover have "squeezed '':'' '':''" by (rule squeezed_solid) (simp add: blank_def)
  ultimately have "squeezed (json_quote k @ '':'' @ (if g = [] then [] else '' '') @ s) (json_quote k @ '':'' @ [] @ t)"
    by (intro squeezed_append squeezed_quote t(2))
  then show ?thesis by (simp add: Text t(1) spaced_members_def member_texts_def)
qed (use assms in \<open>auto simp: spaced_members_def member_texts_def\<close>)

lemma squeezed_members:
  "(\<And>k v. (k, v) \<in> set kvs \<Longrightarrow> squeezed_result (f v) (h v)) \<Longrightarrow> \<forall>c \<in> set g. blank c \<Longrightarrow>
   list_all2 squeezed (spaced_members g (map (\<lambda>(k, v). (k, f v)) kvs)) (member_texts (map (\<lambda>(k, v). (k, h v)) kvs))"
proof (induction kvs)
  case (Cons kv kvs)
  obtain k v where kv: "kv = (k, v)" by fastforce
  have "list_all2 squeezed (spaced_members g [(k, f v)] @ spaced_members g (map (\<lambda>(k, v). (k, f v)) kvs))
      (member_texts [(k, h v)] @ member_texts (map (\<lambda>(k, v). (k, h v)) kvs))"
    using Cons by (intro list_all2_appendI squeezed_member) (auto simp: kv)
  then show ?case by (simp add: kv spaced_members_def member_texts_def)
qed (simp add: spaced_members_def member_texts_def)

lemma brackets_solid: "squeezed ''['' ''[''" "squeezed '']'' '']''" "squeezed ''{'' ''{''" "squeezed ''}'' ''}''"
  by (rule squeezed_solid, simp add: blank_def)+

lemma squeezed_result_if:
  "(P \<longleftrightarrow> Q) \<Longrightarrow> squeezed s t \<Longrightarrow> squeezed_result (if P then Throw else Text s) (if Q then Throw else Text t)"
  by simp

lemma squeezed_array:
  assumes g: "\<forall>c \<in> set g. blank c"
    and IH: "\<And>x ind. x \<in> set xs \<Longrightarrow> doubles x \<Longrightarrow> \<forall>c \<in> set ind. blank c \<Longrightarrow> squeezed_result (stringify_indented g ind x) (stringify x)"
    and pr: "doubles (Arr xs)" "\<forall>c \<in> set ind. blank c"
  shows "squeezed_result (stringify_indented g ind (Arr xs)) (stringify (Arr xs))"
proof -
  have "\<forall>c \<in> set (ind @ g). blank c" using g pr(2) by auto
  then have el: "squeezed_result (stringify_indented g (ind @ g) x) (stringify x)" if "x \<in> set xs" for x
    using IH that pr(1) by (simp add: list_all_iff)
  then have "Throw \<in> set (map (stringify_indented g (ind @ g)) xs) \<longleftrightarrow> Throw \<in> set (map stringify xs)"
    unfolding set_map image_iff by (intro bex_cong refl squeezed_result_Throw)
  moreover have "list_all2 squeezed (map element_text (map (stringify_indented g (ind @ g)) xs)) (map element_text (map stringify xs))"
    unfolding list.map_comp list_all2_map1 list_all2_map2 comp_def
    by (intro list.rel_refl_strong squeezed_element el)
  from squeezed_layout [OF g pr(2) brackets_solid(1,2) this]
  have "squeezed (layout ''['' '']'' g ind (map element_text (map (stringify_indented g (ind @ g)) xs)))
    (''['' @ join '','' (map element_text (map stringify xs)) @ '']'')" .
  ultimately show ?thesis
    unfolding stringify.simps stringify_indented.simps Let_def by (rule squeezed_result_if)
qed

lemma squeezed_object:
  assumes g: "\<forall>c \<in> set g. blank c"
    and IH: "\<And>k v ind. (k, v) \<in> set kvs \<Longrightarrow> doubles v \<Longrightarrow> \<forall>c \<in> set ind. blank c \<Longrightarrow> squeezed_result (stringify_indented g ind v) (stringify v)"
    and pr: "doubles (Obj kvs)" "\<forall>c \<in> set ind. blank c"
  shows "squeezed_result (stringify_indented g ind (Obj kvs)) (stringify (Obj kvs))"
proof -
  have "\<forall>c \<in> set (ind @ g). blank c" using g pr(2) by auto
  then have el: "squeezed_result (stringify_indented g (ind @ g) v) (stringify v)" if "(k, v) \<in> set kvs" for k v
    using IH [OF that] pr(1) that by (fastforce simp: list_all_iff)
  have "(\<exists>kv \<in> set kvs. Throw = stringify_indented g (ind @ g) (snd kv)) \<longleftrightarrow> (\<exists>kv \<in> set kvs. Throw = stringify (snd kv))"
    by (intro bex_cong refl squeezed_result_Throw) (metis el prod.collapse)
  then have "Throw \<in> snd ` set (map (\<lambda>(k, v). (k, stringify_indented g (ind @ g) v)) kvs) \<longleftrightarrow>
      Throw \<in> snd ` set (map (\<lambda>(k, v). (k, stringify v)) kvs)"
    by (simp add: image_iff split_beta)
  moreover from squeezed_layout [OF g pr(2) brackets_solid(3,4) squeezed_members [OF el g]]
  have "squeezed (layout ''{'' ''}'' g ind (spaced_members g (map (\<lambda>(k, v). (k, stringify_indented g (ind @ g) v)) kvs)))
    (''{'' @ join '','' (member_texts (map (\<lambda>(k, v). (k, stringify v)) kvs)) @ ''}'')" .
  ultimately show ?thesis
    unfolding stringify.simps stringify_indented.simps Let_def by (rule squeezed_result_if)
qed

lemma squeezed_leaf:
  "\<forall>xs. v \<noteq> Arr xs \<Longrightarrow> \<forall>kvs. v \<noteq> Obj kvs \<Longrightarrow> doubles v \<Longrightarrow>
   squeezed_result (stringify_indented g ind v) (stringify v)"
  by (cases v) (auto intro!: squeezed_solid squeezed_quote squeezed_number simp: blank_def)

lemma indented_result:
  assumes "\<forall>c \<in> set g. blank c"
  shows "doubles v \<Longrightarrow> \<forall>c \<in> set ind. blank c \<Longrightarrow> squeezed_result (stringify_indented g ind v) (stringify v)"
proof (induction v arbitrary: ind rule: jsval_induct)
  case (Leaf v)
  then show ?case by (intro squeezed_leaf)
next
  case (Arr xs)
  show ?case by (rule squeezed_array [OF assms Arr.IH Arr.prems])
next
  case (Obj kvs)
  show ?case by (rule squeezed_object [OF assms Obj.IH Obj.prems])
qed

text \<open>Serialising fails exactly on a value that holds a \<open>BigInt\<close>.\<close>

fun has_bigint :: "jsval \<Rightarrow> bool" where
  "has_bigint (BigInt n) \<longleftrightarrow> True"
| "has_bigint (Arr xs) \<longleftrightarrow> list_ex has_bigint xs"
| "has_bigint (Obj kvs) \<longleftrightarrow> list_ex (\<lambda>(k, v). has_bigint v) kvs"
| "has_bigint v \<longleftrightarrow> False"

lemma stringify_throws: "stringify v = Throw \<longleftrightarrow> has_bigint v"
proof (induction v rule: jsval_induct)
  case (Leaf v)
  then show ?case by (cases v) simp_all
next
  case (Arr xs)
  have "Throw \<in> stringify ` set xs \<longleftrightarrow> (\<exists>x \<in> set xs. stringify x = Throw)" unfolding image_iff by metis
  then show ?case using Arr by (simp add: Let_def list_ex_iff)
next
  case (Obj kvs)
  have "Throw \<in> snd ` set (map (\<lambda>(k, v). (k, stringify v)) kvs) \<longleftrightarrow> (\<exists>(k, v) \<in> set kvs. stringify v = Throw)"
    by (force simp: image_iff)
  also have "\<dots> \<longleftrightarrow> (\<exists>(k, v) \<in> set kvs. has_bigint v)" using Obj by (intro bex_cong refl) auto
  finally show ?case by (simp add: Let_def list_ex_iff)
qed

text \<open>Leaving out the blanks of the indented text gives the compact text.\<close>

theorem indented_compact:
  assumes "doubles v" "\<forall>c \<in> set g. blank c" "stringify_indented g [] v = Text s"
  shows "stringify v = Text (squeeze False s)"
  using indented_result [OF assms(2,1), of "[]"] assms(3)
  by (auto simp: squeezed_def split: canon.splits dest: spec [of _ "[]"])

end
