(* ===== verification/Trace.thy ===== *)
theory Trace
  imports JsonText
begin

text \<open>
  \<open>ExecutionTraceBuilder\<close> of \<open>packages/sdk/src/trace.ts\<close>. A metadata object is the list of its
  properties; the readings of the performance timer and of the date are arguments. The lemmas
  say when an end throws, that properly used traces keep exactly one open event per running step,
  what the summary and the total duration report, and what the text of \<open>toJSON\<close> contains.
\<close>

subsection \<open>Data\<close>

datatype TraceStep = AUTH | RATE_LIMIT | IDEMPOTENCY | POLICY | ROUTING | EXECUTION | FINALIZE

text \<open>The steps in the order of their declaration.\<close>

fun step_number :: "TraceStep \<Rightarrow> nat" where
  "step_number AUTH = 0"
| "step_number RATE_LIMIT = 1"
| "step_number IDEMPOTENCY = 2"
| "step_number POLICY = 3"
| "step_number ROUTING = 4"
| "step_number EXECUTION = 5"
| "step_number FINALIZE = 6"

lemma step_number_inj: "step_number s = step_number t \<Longrightarrow> s = t"
  by (cases s; cases t) simp_all

instantiation TraceStep :: linorder
begin

definition "s \<le> t \<longleftrightarrow> step_number s \<le> step_number t" for s t :: TraceStep

definition "s < t \<longleftrightarrow> step_number s < step_number t" for s t :: TraceStep

instance
  by standard (auto simp: less_eq_TraceStep_def less_TraceStep_def intro: step_number_inj)

end

datatype TraceStepStatus = Passed | Failed | Waiting | Skipped

type_synonym metadata = "(string \<times> jsval) list"

record TraceError =
  err_type :: string
  err_message :: string

text \<open>\<open>ev_started\<close>: the event was pushed by \<open>start\<close>, which fixes the order of its properties.\<close>

record TraceEvent =
  ev_step :: TraceStep
  ev_timestamp :: number
  ev_durationMs :: "number option"
  ev_metadata :: "metadata option"
  ev_error :: "TraceError option"
  ev_started :: bool

record TraceStepSummary =
  sum_step :: TraceStep
  sum_status :: TraceStepStatus
  sum_durationMs :: "number option"
  sum_metadata :: "metadata option"

record ExecutionTraceBuilder =
  events :: "TraceEvent list"
  stepStartTimes :: "TraceStep \<rightharpoonup> number"
  requestId :: string

subsection \<open>Operations\<close>

definition new_trace :: "string \<Rightarrow> ExecutionTraceBuilder" where
  "new_trace rid = \<lparr>events = [], stepStartTimes = Map.empty, requestId = rid\<rparr>"

text \<open>Setting a property keeps its place when the key exists; spreading sets one after the other.\<close>

fun set_property :: "metadata \<Rightarrow> string \<times> jsval \<Rightarrow> metadata" where
  "set_property [] kv = [kv]"
| "set_property (p # ps) kv = (if fst p = fst kv then kv # ps else p # set_property ps kv)"

definition merge_metadata :: "metadata option \<Rightarrow> metadata \<Rightarrow> metadata" where
  "merge_metadata old new = foldl set_property (case old of None \<Rightarrow> [] | Some m \<Rightarrow> m) new"

definition trace_start ::
  "number \<Rightarrow> number \<Rightarrow> TraceStep \<Rightarrow> metadata option \<Rightarrow> ExecutionTraceBuilder \<Rightarrow> ExecutionTraceBuilder" where
  "trace_start startTime date step meta b =
     b\<lparr>stepStartTimes := (stepStartTimes b)(step \<mapsto> startTime),
       events := events b @ [\<lparr>ev_step = step, ev_timestamp = date, ev_durationMs = None,
         ev_metadata = meta, ev_error = None, ev_started = True\<rparr>]\<rparr>"

definition attach_metadata :: "metadata option \<Rightarrow> TraceEvent \<Rightarrow> TraceEvent" where
  "attach_metadata meta e =
     (case meta of None \<Rightarrow> e | Some m \<Rightarrow> e\<lparr>ev_metadata := Some (merge_metadata (ev_metadata e) m)\<rparr>)"

definition unended :: "TraceStep \<Rightarrow> TraceEvent \<Rightarrow> bool" where
  "unended step e \<longleftrightarrow> ev_step e = step \<and> ev_durationMs e = None"

text \<open>\<open>Inl step\<close>: the error that the step was never started.\<close>

definition trace_end ::
  "number \<Rightarrow> TraceStep \<Rightarrow> metadata option \<Rightarrow> ExecutionTraceBuilder \<Rightarrow> TraceStep + ExecutionTraceBuilder" where
  "trace_end now step meta b =
     (case stepStartTimes b step of
        None \<Rightarrow> Inl step
      | Some startTime \<Rightarrow>
          (let durationMs = num_sub now startTime
           in Inr (b\<lparr>stepStartTimes := (stepStartTimes b)(step := None),
                events := update_first (unended step)
                  (\<lambda>e. attach_metadata meta (e\<lparr>ev_durationMs := Some durationMs\<rparr>)) (events b)\<rparr>)))"

definition unfailed :: "TraceStep \<Rightarrow> TraceEvent \<Rightarrow> bool" where
  "unfailed step e \<longleftrightarrow> ev_step e = step \<and> ev_error e = None"

text \<open>The error is given by its \<open>name\<close> and \<open>message\<close>; an empty name becomes \<open>Error\<close>.\<close>

definition trace_error ::
  "number \<Rightarrow> number \<Rightarrow> TraceStep \<Rightarrow> string \<times> string \<Rightarrow> metadata option \<Rightarrow>
   ExecutionTraceBuilder \<Rightarrow> ExecutionTraceBuilder" where
  "trace_error now date step err meta b =
     (let startTime = stepStartTimes b step;
          durationMs = map_option (num_sub now) startTime;
          info = \<lparr>err_type = (if fst err = [] then ''Error'' else fst err), err_message = snd err\<rparr>;
          b = b\<lparr>stepStartTimes := (stepStartTimes b)(step := None)\<rparr>
      in if \<exists>e \<in> set (events b). unfailed step e then
           b\<lparr>events := update_first (unfailed step)
               (\<lambda>e. attach_metadata meta (e\<lparr>ev_durationMs := durationMs, ev_error := Some info\<rparr>)) (events b)\<rparr>
         else
           b\<lparr>events := events b @ [\<lparr>ev_step = step, ev_timestamp = date, ev_durationMs = durationMs,
               ev_metadata = meta, ev_error = Some info, ev_started = False\<rparr>]\<rparr>)"

definition event_status :: "ExecutionTraceBuilder \<Rightarrow> TraceEvent \<Rightarrow> TraceStepStatus" where
  "event_status b e =
     (if ev_error e \<noteq> None then Failed
      else if ev_durationMs e \<noteq> None then Passed
      else if stepStartTimes b (ev_step e) \<noteq> None then Waiting
      else Skipped)"

definition toSummary :: "ExecutionTraceBuilder \<Rightarrow> TraceStepSummary list" where
  "toSummary b = map (\<lambda>e. \<lparr>sum_step = ev_step e, sum_status = event_status b e,
     sum_durationMs = ev_durationMs e, sum_metadata = ev_metadata e\<rparr>) (events b)"

definition or_zero :: "number \<Rightarrow> number" where
  "or_zero d = (if num_falsy d then num_of_int 0 else d)"

definition getTotalDurationMs :: "ExecutionTraceBuilder \<Rightarrow> number" where
  "getTotalDurationMs b =
     (let completed = filter (\<lambda>e. ev_durationMs e \<noteq> None) (events b)
      in if events b = [] then num_of_int 0
         else if completed = [] then num_of_int 0
         else (let lastEvent = last completed;
                   lastTimestamp = num_add (ev_timestamp lastEvent) (or_zero (the (ev_durationMs lastEvent)))
               in num_sub lastTimestamp (ev_timestamp (hd (events b)))))"

fun step_text :: "TraceStep \<Rightarrow> string" where
  "step_text AUTH = ''auth''"
| "step_text RATE_LIMIT = ''rate_limit''"
| "step_text IDEMPOTENCY = ''idempotency''"
| "step_text POLICY = ''policy''"
| "step_text ROUTING = ''routing''"
| "step_text EXECUTION = ''execution''"
| "step_text FINALIZE = ''finalize''"

text \<open>The values that the serialisation reads; a date contributes its text, or \<open>null\<close> when invalid.\<close>

definition date_value :: "number \<Rightarrow> jsval" where
  "date_value t = (case toISOString t of None \<Rightarrow> Null | Some s \<Rightarrow> Str s)"

definition error_value :: "TraceError \<Rightarrow> jsval" where
  "error_value e = Obj [(''type'', Str (err_type e)), (''message'', Str (err_message e))]"

definition optional_value :: "('a \<Rightarrow> jsval) \<Rightarrow> 'a option \<Rightarrow> jsval" where
  "optional_value f x = (case x of None \<Rightarrow> Undefined | Some v \<Rightarrow> f v)"

definition event_value :: "TraceEvent \<Rightarrow> jsval" where
  "event_value e =
     (let head = [(''step'', Str (step_text (ev_step e))), (''timestamp'', date_value (ev_timestamp e))];
          meta = [(''metadata'', optional_value Obj (ev_metadata e))];
          result = [(''durationMs'', optional_value Num (ev_durationMs e)),
            (''error'', optional_value error_value (ev_error e))]
      in Obj (if ev_started e then head @ meta @ result else head @ result @ meta))"

definition trace_value :: "ExecutionTraceBuilder \<Rightarrow> jsval" where
  "trace_value b =
     Obj [(''requestId'', Str (requestId b)), (''events'', Arr (map event_value (events b))),
          (''totalDurationMs'', Num (getTotalDurationMs b))]"

definition toJSON :: "ExecutionTraceBuilder \<Rightarrow> canon" where
  "toJSON b = stringify_indented ''  '' [] (trace_value b)"

subsection \<open>Steps and their events\<close>

definition statuses :: "ExecutionTraceBuilder \<Rightarrow> (TraceStep \<times> TraceStepStatus) list" where
  "statuses b = map (\<lambda>s. (sum_step s, sum_status s)) (toSummary b)"

lemma attach_metadata_fields [simp]:
  "ev_step (attach_metadata m e) = ev_step e" "ev_durationMs (attach_metadata m e) = ev_durationMs e"
  "ev_error (attach_metadata m e) = ev_error e" "ev_timestamp (attach_metadata m e) = ev_timestamp e"
  by (cases m; simp add: attach_metadata_def)+

text \<open>
  Disciplined use: a step is started only when it is not running, and ended or failed only when it
  is. \<open>trace_ok\<close> is what such use maintains: every running step has exactly one open event, no other
  step has one, and a failed event is finished.
\<close>

definition trace_ok :: "ExecutionTraceBuilder \<Rightarrow> bool" where
  "trace_ok b \<longleftrightarrow>
     (\<forall>step. length (filter (unended step) (events b)) = (if stepStartTimes b step = None then 0 else 1)) \<and>
     (\<forall>e \<in> set (events b). ev_error e \<noteq> None \<longrightarrow> ev_durationMs e \<noteq> None)"

lemma new_trace_ok: "trace_ok (new_trace rid)"
  by (simp add: trace_ok_def new_trace_def)

lemma start_ok: "trace_ok b \<Longrightarrow> stepStartTimes b step = None \<Longrightarrow> trace_ok (trace_start t d step m b)"
  by (auto simp: trace_ok_def trace_start_def unended_def)

lemma open_event:
  assumes "trace_ok b" "stepStartTimes b step \<noteq> None"
  shows "\<exists>e \<in> set (events b). unended step e"
proof -
  have "length (filter (unended step) (events b)) = 1" using assms by (auto simp: trace_ok_def)
  then have "filter (unended step) (events b) \<noteq> []" by auto
  then show ?thesis by (auto simp: filter_empty_conv)
qed

lemma count_unended_other:
  "other \<noteq> step \<Longrightarrow> (\<And>e. ev_step (f e) = ev_step e) \<Longrightarrow> (\<And>e. P e \<Longrightarrow> ev_step e = step) \<Longrightarrow>
   filter (unended other) (update_first P f xs) = filter (unended other) xs"
  by (rule filter_update_first) (auto simp: unended_def)

lemma set_update_first: "y \<in> set (update_first P f xs) \<Longrightarrow> y \<in> set xs \<or> (\<exists>x \<in> set xs. P x \<and> y = f x)"
  by (induction xs) (auto split: if_splits)

text \<open>Closing the one open event of a running step.\<close>

lemma close_ok:
  assumes ok: "trace_ok b" and run: "stepStartTimes b step \<noteq> None"
    and ex: "\<exists>e \<in> set (events b). P e" and P: "\<And>e. e \<in> set (events b) \<Longrightarrow> P e \<longleftrightarrow> unended step e"
    and f: "\<And>e. ev_step (f e) = ev_step e" "\<And>e. ev_durationMs (f e) \<noteq> None"
  shows "trace_ok (b\<lparr>stepStartTimes := (stepStartTimes b)(step := None), events := update_first P f (events b)\<rparr>)"
proof -
  have upd: "update_first P f (events b) = update_first (unended step) f (events b)"
    using P by (rule update_first_cong)
  have closed: "length (filter (unended step) (update_first (unended step) f (events b))) = 0"
  proof -
    have "Suc (length (filter (unended step) (update_first (unended step) f (events b)))) = length (filter (unended step) (events b))"
      using ex P f(2) by (intro count_update_first) (auto simp: unended_def)
    then show ?thesis using ok run by (auto simp: trace_ok_def)
  qed
  have "length (filter (unended s) (update_first (unended step) f (events b))) =
      (if ((stepStartTimes b)(step := None)) s = None then 0 else 1)" for s
  proof (cases "s = step")
    case False
    then have "filter (unended s) (update_first (unended step) f (events b)) = filter (unended s) (events b)"
      using f(1) by (intro count_unended_other) (auto simp: unended_def)
    then show ?thesis using ok False by (simp add: trace_ok_def)
  qed (use closed in simp)
  moreover have "ev_durationMs e \<noteq> None" if "e \<in> set (update_first (unended step) f (events b))" "ev_error e \<noteq> None" for e
    using set_update_first [OF that(1)] that(2) ok f(2) by (auto simp: trace_ok_def)
  ultimately show ?thesis by (simp add: trace_ok_def upd)
qed

lemma end_ok:
  assumes "trace_ok b" "stepStartTimes b step = Some t"
  shows "\<exists>b'. trace_end now step meta b = Inr b' \<and> trace_ok b' \<and> stepStartTimes b' = (stepStartTimes b)(step := None)"
proof -
  let ?f = "\<lambda>e. attach_metadata meta (e\<lparr>ev_durationMs := Some (num_sub now t)\<rparr>)"
  have "trace_ok (b\<lparr>stepStartTimes := (stepStartTimes b)(step := None), events := update_first (unended step) ?f (events b)\<rparr>)"
    using assms open_event [OF assms(1), of step] by (intro close_ok) auto
  then show ?thesis using assms(2) by (simp add: trace_end_def Let_def)
qed

text \<open>An error may be recorded when the running step is the only unfailed one of its kind.\<close>

definition single_attempt :: "TraceStep \<Rightarrow> ExecutionTraceBuilder \<Rightarrow> bool" where
  "single_attempt step b \<longleftrightarrow> (\<forall>e \<in> set (events b). unfailed step e \<longrightarrow> unended step e)"

lemma error_ok:
  assumes "trace_ok b" "stepStartTimes b step = Some t" "single_attempt step b"
  shows "trace_ok (trace_error now date step err meta b) \<and>
    stepStartTimes (trace_error now date step err meta b) = (stepStartTimes b)(step := None)"
proof -
  let ?f = "\<lambda>e. attach_metadata meta (e\<lparr>ev_durationMs := Some (num_sub now t),
     ev_error := Some \<lparr>err_type = (if fst err = [] then ''Error'' else fst err), err_message = snd err\<rparr>\<rparr>)"
  have iff: "unfailed step e \<longleftrightarrow> unended step e" if "e \<in> set (events b)" for e
    using that assms(1,3) by (auto simp: single_attempt_def unfailed_def unended_def trace_ok_def)
  have ex: "\<exists>e \<in> set (events b). unfailed step e"
    using open_event [OF assms(1), of step] assms(2) iff by auto
  have "trace_ok (b\<lparr>stepStartTimes := (stepStartTimes b)(step := None), events := update_first (unfailed step) ?f (events b)\<rparr>)"
    using assms(2) iff ex by (intro close_ok [OF assms(1)]) auto
  then show ?thesis using assms(2) ex by (simp add: trace_error_def Let_def)
qed

datatype trace_op =
    StartOp number number TraceStep "metadata option"
  | EndOp number TraceStep "metadata option"
  | ErrorOp number number TraceStep "string \<times> string" "metadata option"

fun trace_step :: "ExecutionTraceBuilder \<Rightarrow> trace_op \<Rightarrow> ExecutionTraceBuilder" where
  "trace_step b (StartOp t d step m) = trace_start t d step m b"
| "trace_step b (EndOp t step m) = (case trace_end t step m b of Inl e \<Rightarrow> b | Inr b' \<Rightarrow> b')"
| "trace_step b (ErrorOp t d step err m) = trace_error t d step err m b"

fun disciplined :: "ExecutionTraceBuilder \<Rightarrow> trace_op list \<Rightarrow> bool" where
  "disciplined b [] \<longleftrightarrow> True"
| "disciplined b (StartOp t d step m # ops) \<longleftrightarrow>
     stepStartTimes b step = None \<and> disciplined (trace_start t d step m b) ops"
| "disciplined b (EndOp t step m # ops) \<longleftrightarrow>
     stepStartTimes b step \<noteq> None \<and> disciplined (trace_step b (EndOp t step m)) ops"
| "disciplined b (ErrorOp t d step err m # ops) \<longleftrightarrow>
     stepStartTimes b step \<noteq> None \<and> single_attempt step b \<and> disciplined (trace_error t d step err m b) ops"

lemma disciplined_ok: "trace_ok b \<Longrightarrow> disciplined b ops \<Longrightarrow> trace_ok (foldl trace_step b ops)"
proof (induction b ops rule: disciplined.induct)
  case (3 b t step m ops)
  then show ?case using end_ok [of b step _ t m] by (auto split: sum.splits)
qed (auto simp: start_ok error_ok)

lemma no_skipped: "trace_ok b \<Longrightarrow> (s, Skipped) \<notin> set (statuses b)"
proof
  assume ok: "trace_ok b" and "(s, Skipped) \<in> set (statuses b)"
  then obtain e where e: "e \<in> set (events b)" "event_status b e = Skipped"
    by (auto simp: statuses_def toSummary_def)
  then have "unended (ev_step e) e" "stepStartTimes b (ev_step e) = None"
    by (auto simp: event_status_def unended_def split: if_splits)
  then have "filter (unended (ev_step e)) (events b) \<noteq> []" "length (filter (unended (ev_step e)) (events b)) = 0"
    using e(1) ok by (auto simp: filter_empty_conv trace_ok_def)
  then show False by simp
qed

lemma count_list_map_pair:
  "count_list (map (\<lambda>e. (g e, h e)) xs) (a, c) = length (filter (\<lambda>e. g e = a \<and> h e = c) xs)"
  by (induction xs) auto

lemma waiting_count:
  assumes "trace_ok b"
  shows "count_list (statuses b) (step, Waiting) = (if stepStartTimes b step = None then 0 else 1)"
proof -
  have status: "(ev_step e = step \<and> event_status b e = Waiting) \<longleftrightarrow> unended step e \<and> stepStartTimes b step \<noteq> None"
    if "e \<in> set (events b)" for e
    using that assms by (auto simp: event_status_def unended_def trace_ok_def)
  have "count_list (statuses b) (step, Waiting) =
      length (filter (\<lambda>e. ev_step e = step \<and> event_status b e = Waiting) (events b))"
    by (simp add: statuses_def toSummary_def comp_def count_list_map_pair)
  also have "\<dots> = length (filter (\<lambda>e. unended step e \<and> stepStartTimes b step \<noteq> None) (events b))"
    by (rule arg_cong [OF filter_cong [OF refl status]])
  also have "\<dots> = (if stepStartTimes b step = None then 0 else 1)"
    using assms by (auto simp: trace_ok_def)
  finally show ?thesis .
qed

text \<open>C26: In a trace that is used as documented (a step is started when it is not running, ended or
  failed when it is, and failed at its first attempt) the summary is exact: a step is reported as
  waiting once while it runs and never otherwise, and nothing is reported as skipped.\<close>

theorem summary_exact:
  assumes "disciplined (new_trace rid) ops"
  defines "b \<equiv> foldl trace_step (new_trace rid) ops"
  shows "count_list (statuses b) (step, Waiting) = (if stepStartTimes b step = None then 0 else 1) \<and>
    (step, Skipped) \<notin> set (statuses b)"
  using waiting_count no_skipped disciplined_ok [OF new_trace_ok assms(1)] by (simp add: b_def)

theorem summary_exact_witness:
  "count_list (statuses (foldl trace_step (new_trace ''req'')
     [StartOp NaN NaN AUTH None, EndOp NaN AUTH None, StartOp NaN NaN ROUTING None])) (ROUTING, Waiting) = 1"
  using summary_exact [of "''req''" "[StartOp NaN NaN AUTH None, EndOp NaN AUTH None, StartOp NaN NaN ROUTING None]" ROUTING]
  by (simp add: new_trace_def trace_start_def trace_end_def Let_def)

text \<open>C33: A retried step is reported wrongly: when a step that has already passed is started again and
  fails, the error is written to the first, passed event, and the failed attempt is reported as
  skipped.\<close>

theorem retry_misreported:
  "statuses (foldl trace_step (new_trace rid)
     [StartOp t1 d1 step m1, EndOp t2 step m2, StartOp t3 d3 step m3, ErrorOp t4 d4 step err m4]) =
   [(step, Failed), (step, Skipped)]"
  by (simp add: new_trace_def trace_start_def trace_end_def trace_error_def Let_def unended_def unfailed_def
      statuses_def toSummary_def event_status_def)

definition nested_steps :: "trace_op list" where
  "nested_steps = [StartOp (num_of_int 0) (num_of_int 1000) ROUTING None,
     StartOp (num_of_int 10) (num_of_int 1010) EXECUTION None,
     EndOp (num_of_int 20) EXECUTION None, EndOp (num_of_int 500) ROUTING None]"

text \<open>The total duration is not that from the first start to the last end when steps overlap: it
  ends with the last completed event in the order of starting, so a step that encloses a shorter
  one is cut off at the end of the shorter one.\<close>

theorem nested_total_too_short:
  "getTotalDurationMs (foldl trace_step (new_trace rid) nested_steps) = num_of_int 20 \<and>
   map ev_durationMs (events (foldl trace_step (new_trace rid) nested_steps)) = [Some (num_of_int 500), Some (num_of_int 10)]"
proof -
  have "num_sub (Fin 20) (Fin 10) = Fin 10" "num_sub (Fin 500) (Fin 0) = Fin 500"
    "num_add (Fin 1010) (Fin 10) = Fin 1020" "num_sub (Fin 1020) (Fin 1000) = Fin 20"
    using num_sub_int [of 20 10] num_sub_int [of 500 0] num_add_int [of 1010 10] num_sub_int [of 1020 1000] by simp_all
  then show ?thesis
    by (simp add: nested_steps_def new_trace_def trace_start_def trace_end_def Let_def unended_def attach_metadata_def
        getTotalDurationMs_def or_zero_def num_falsy_def is_zero_def)
qed

subsection \<open>The text of a trace\<close>

lemma has_bigint_event:
  "has_bigint (event_value e) \<longleftrightarrow> (\<exists>m. ev_metadata e = Some m \<and> has_bigint (Obj m))"
  by (cases "ev_metadata e"; cases "ev_durationMs e"; cases "ev_error e"; cases "toISOString (ev_timestamp e)")
    (auto simp: event_value_def Let_def optional_value_def error_value_def date_value_def)

lemma has_bigint_trace: "has_bigint (trace_value b) \<longleftrightarrow> (\<exists>e \<in> set (events b). has_bigint (event_value e))"
  by (simp add: trace_value_def list_ex_iff)

text \<open>
  The document that the trace's text should be, written out as text from the fields of the trace
  and without the values the code builds: the names of the steps, each event's members in the
  order its properties were set, and the time from the first event's stamp to the end of the last
  completed event.
\<close>

definition step_names :: "(TraceStep \<times> string) list" where
  "step_names = [(AUTH, ''auth''), (RATE_LIMIT, ''rate_limit''), (IDEMPOTENCY, ''idempotency''),
     (POLICY, ''policy''), (ROUTING, ''routing''), (EXECUTION, ''execution''), (FINALIZE, ''finalize'')]"

definition member_document :: "string \<Rightarrow> string \<Rightarrow> string" where
  "member_document k t = CHR 0x22 # k @ CHR 0x22 # '':'' @ t"

definition optional_member :: "string \<Rightarrow> string option \<Rightarrow> string list" where
  "optional_member k t = (case t of None \<Rightarrow> [] | Some t \<Rightarrow> [member_document k t])"

definition date_document :: "number \<Rightarrow> string" where
  "date_document t = (case t of Fin r \<Rightarrow> json_quote (iso_text \<lfloor>r\<rfloor>) | _ \<Rightarrow> ''null'')"

definition error_document :: "TraceError \<Rightarrow> string" where
  "error_document e = ''{'' @ member_document ''type'' (json_quote (err_type e)) @ '','' @
     member_document ''message'' (json_quote (err_message e)) @ ''}''"

definition metadata_document :: "metadata \<Rightarrow> string" where
  "metadata_document m = element_text (stringify (Obj m))"

definition event_document :: "TraceEvent \<Rightarrow> string" where
  "event_document e =
     (let metadata = optional_member ''metadata'' (map_option metadata_document (ev_metadata e));
          duration = optional_member ''durationMs'' (map_option json_number (ev_durationMs e));
          err = optional_member ''error'' (map_option error_document (ev_error e))
      in ''{'' @ join '',''
           ([member_document ''step'' (json_quote (the (map_of step_names (ev_step e)))),
             member_document ''timestamp'' (date_document (ev_timestamp e))] @
            (if ev_started e then metadata @ duration @ err else duration @ err @ metadata)) @ ''}'')"

definition documented_total :: "TraceEvent list \<Rightarrow> number" where
  "documented_total es =
     (case find (\<lambda>e. ev_durationMs e \<noteq> None) (rev es) of
        None \<Rightarrow> num_of_int 0
      | Some e \<Rightarrow> num_sub (num_add (ev_timestamp e) (or_zero (the (ev_durationMs e)))) (ev_timestamp (es ! 0)))"

definition trace_document :: "ExecutionTraceBuilder \<Rightarrow> string" where
  "trace_document b =
     ''{'' @ member_document ''requestId'' (json_quote (requestId b)) @ '','' @
     member_document ''events'' (''['' @ join '','' (map event_document (events b)) @ '']'') @ '','' @
     member_document ''totalDurationMs'' (json_number (documented_total (events b))) @ ''}''"

lemma find_rev: "find P (rev xs) = (if filter P xs = [] then None else Some (last (filter P xs)))"
  by (induction xs rule: rev_induct) auto

lemma total_documented: "getTotalDurationMs b = documented_total (events b)"
  unfolding getTotalDurationMs_def documented_total_def find_rev Let_def
  by (cases "events b = []") (simp_all add: hd_conv_nth)

lemma step_text_names: "step_text s = the (map_of step_names s)"
  by (cases s) (simp_all add: step_names_def)

lemma quote_plain:
  "json_quote ''step'' = ''\"step\"''" "json_quote ''timestamp'' = ''\"timestamp\"''"
  "json_quote ''metadata'' = ''\"metadata\"''" "json_quote ''durationMs'' = ''\"durationMs\"''"
  "json_quote ''error'' = ''\"error\"''" "json_quote ''type'' = ''\"type\"''"
  "json_quote ''message'' = ''\"message\"''" "json_quote ''requestId'' = ''\"requestId\"''"
  "json_quote ''events'' = ''\"events\"''" "json_quote ''totalDurationMs'' = ''\"totalDurationMs\"''"
  by code_simp+

lemma stringify_date: "stringify (date_value t) = Text (date_document t)"
  by (cases t) (simp_all add: date_value_def date_document_def)

lemma stringify_error: "stringify (error_value e) = Text (error_document e)"
  by (simp add: error_value_def error_document_def member_document_def member_texts_def quote_plain)

lemma stringify_optional:
  "(\<And>v. x = Some v \<Longrightarrow> stringify (f v) = Text (g v)) \<Longrightarrow>
   stringify (optional_value f x) = (case x of None \<Rightarrow> NoText | Some v \<Rightarrow> Text (g v))"
  by (cases x) (simp_all add: optional_value_def)

lemma member_texts_Nil: "member_texts [] = []"
  by (simp add: member_texts_def)

lemma member_texts_Cons:
  "member_texts ((k, c) # vs) = (case c of Text t \<Rightarrow> [json_quote k @ '':'' @ t] | _ \<Rightarrow> []) @ member_texts vs"
  by (cases c) (simp_all add: member_texts_def)

lemma member_optional:
  "(case (case x of None \<Rightarrow> NoText | Some v \<Rightarrow> Text (g v)) of Text t \<Rightarrow> [json_quote k @ '':'' @ t] | _ \<Rightarrow> []) =
   (case map_option g x of None \<Rightarrow> [] | Some t \<Rightarrow> [json_quote k @ '':'' @ t])"
  by (cases x) simp_all

lemma stringify_event:
  assumes "\<And>m. ev_metadata e = Some m \<Longrightarrow> \<not> has_bigint (Obj m)"
  shows "stringify (event_value e) = Text (event_document e)"
proof -
  have "stringify (Obj m) = Text (metadata_document m)" if "ev_metadata e = Some m" for m
  proof -
    have "stringify (Obj m) \<noteq> NoText" by (simp add: Let_def)
    moreover have "stringify (Obj m) \<noteq> Throw" using stringify_throws [of "Obj m"] assms [OF that] by metis
    ultimately show ?thesis by (cases "stringify (Obj m)") (simp_all add: metadata_document_def)
  qed
  then have meta: "stringify (optional_value Obj (ev_metadata e)) =
      (case ev_metadata e of None \<Rightarrow> NoText | Some m \<Rightarrow> Text (metadata_document m))"
    by (rule stringify_optional)
  have dur: "stringify (optional_value Num (ev_durationMs e)) =
      (case ev_durationMs e of None \<Rightarrow> NoText | Some d \<Rightarrow> Text (json_number d))"
    by (rule stringify_optional) simp
  have err: "stringify (optional_value error_value (ev_error e)) =
      (case ev_error e of None \<Rightarrow> NoText | Some x \<Rightarrow> Text (error_document x))"
    by (rule stringify_optional) (rule stringify_error)
  show ?thesis
    by (cases "ev_started e")
      (simp_all add: event_value_def event_document_def Let_def optional_member_def member_document_def
        stringify_date step_text_names meta dur err member_texts_Nil member_texts_Cons member_optional quote_plain
        split: option.split)
qed

lemma stringify_trace:
  assumes "\<And>e m. e \<in> set (events b) \<Longrightarrow> ev_metadata e = Some m \<Longrightarrow> \<not> has_bigint (Obj m)"
  shows "stringify (trace_value b) = Text (trace_document b)"
proof -
  have "map stringify (map event_value (events b)) = map Text (map event_document (events b))"
    using assms by (simp add: stringify_event)
  then have "stringify (Arr (map event_value (events b))) = Text (''['' @ join '','' (map event_document (events b)) @ '']'')"
    by (auto simp only: stringify.simps Let_def set_map image_iff canon.distinct list.map_comp comp_def element_text.simps list.map_ident if_False bex_simps simp_thms Bex_def)
  then show ?thesis
    by (simp add: trace_value_def trace_document_def total_documented member_document_def member_texts_Cons
        member_texts_Nil quote_plain del: stringify.simps(1))
qed

text \<open>The numbers a caller can put into a trace are doubles.\<close>

definition event_doubles :: "TraceEvent \<Rightarrow> bool" where
  "event_doubles e \<longleftrightarrow> (\<forall>d \<in> set_option (ev_durationMs e). is_double d) \<and>
     (\<forall>m \<in> set_option (ev_metadata e). doubles (Obj m))"

lemma is_double_sum: "is_double (num_add x y)"
  by (cases x; cases y) (simp_all add: num_add.simps)

lemma doubles_trace: "\<forall>e \<in> set (events b). event_doubles e \<Longrightarrow> doubles (trace_value b)"
proof -
  assume ok: "\<forall>e \<in> set (events b). event_doubles e"
  have "doubles (event_value e)" if "event_doubles e" for e
    using that by (cases "ev_durationMs e"; cases "ev_metadata e"; cases "ev_error e"; cases "toISOString (ev_timestamp e)")
      (auto simp: event_doubles_def event_value_def Let_def optional_value_def error_value_def date_value_def)
  moreover have "is_double (getTotalDurationMs b)"
    by (simp add: getTotalDurationMs_def Let_def num_sub_def is_double_sum)
  ultimately show ?thesis using ok by (simp add: trace_value_def list_all_iff)
qed

text \<open>C28: The text of a trace fails to be written exactly when the metadata of one of its events holds a
  \<open>BigInt\<close>. Otherwise it is, apart from the blanks outside strings, the JSON document of the trace:
  the request id; every event in order with the name of its step, the ISO text of its stamp, its
  duration, error type and message and metadata, each present exactly when recorded; and the total
  from the first event's stamp to the end of the last completed event, or 0.\<close>

theorem toJSON_document:
  assumes "\<forall>e \<in> set (events b). event_doubles e"
  shows "(toJSON b = Throw \<longleftrightarrow> (\<exists>e \<in> set (events b). \<exists>m. ev_metadata e = Some m \<and> has_bigint (Obj m))) \<and>
    (toJSON b \<noteq> Throw \<longrightarrow> (\<exists>s. toJSON b = Text s \<and> squeeze False s = trace_document b))"
proof -
  note ok = doubles_trace [OF assms]
  have gap: "\<forall>c \<in> set ''  ''. blank c" by (simp add: blank_def)
  have res: "squeezed_result (toJSON b) (stringify (trace_value b))"
    unfolding toJSON_def by (rule indented_result [OF gap ok]) simp
  have throw: "toJSON b = Throw \<longleftrightarrow> (\<exists>e \<in> set (events b). \<exists>m. ev_metadata e = Some m \<and> has_bigint (Obj m))"
    using squeezed_result_Throw [OF res] stringify_throws [of "trace_value b"]
    by (auto simp: has_bigint_trace has_bigint_event)
  moreover have "toJSON b \<noteq> NoText" by (simp add: toJSON_def trace_value_def Let_def)
  moreover have "squeeze False s = trace_document b" if "toJSON b = Text s" for s
    using that indented_compact [OF ok gap] stringify_trace [of b] throw by (auto simp: toJSON_def)
  ultimately show ?thesis by (cases "toJSON b") simp_all
qed

definition sample_trace :: ExecutionTraceBuilder where
  "sample_trace = trace_error NaN (num_of_int 1000) AUTH (''TypeError'', ''no key'') None
     (trace_start NaN (num_of_int 1000) ROUTING (Some [(''cacheHit'', Bool True)]) (new_trace ''req_1''))"

lemma sample_trace_events:
  "events sample_trace = [\<lparr>ev_step = ROUTING, ev_timestamp = Fin 1000, ev_durationMs = None,
      ev_metadata = Some [(''cacheHit'', Bool True)], ev_error = None, ev_started = True\<rparr>,
    \<lparr>ev_step = AUTH, ev_timestamp = Fin 1000, ev_durationMs = None,
      ev_metadata = None, ev_error = Some \<lparr>err_type = ''TypeError'', err_message = ''no key''\<rparr>, ev_started = False\<rparr>]"
  by (simp add: sample_trace_def trace_error_def trace_start_def new_trace_def unfailed_def)

theorem toJSON_document_witness:
  "\<exists>s. toJSON sample_trace = Text s \<and>
     squeeze False s = ''{\"requestId\":\"req_1\",\"events\":['' @
       ''{\"step\":\"routing\",\"timestamp\":\"1970-01-01T00:00:01.000Z\",\"metadata\":{\"cacheHit\":true}},'' @
       ''{\"step\":\"auth\",\"timestamp\":\"1970-01-01T00:00:01.000Z\",\"error\":{\"type\":\"TypeError\",\"message\":\"no key\"}}'' @
       ''],\"totalDurationMs\":0}''"
proof -
  have "\<forall>e \<in> set (events sample_trace). event_doubles e" by (simp add: sample_trace_events event_doubles_def)
  from toJSON_document [OF this] have "\<exists>s. toJSON sample_trace = Text s \<and> squeeze False s = trace_document sample_trace"
    by (simp add: sample_trace_events)
  moreover have "trace_document sample_trace = ''{\"requestId\":\"req_1\",\"events\":['' @
       ''{\"step\":\"routing\",\"timestamp\":\"1970-01-01T00:00:01.000Z\",\"metadata\":{\"cacheHit\":true}},'' @
       ''{\"step\":\"auth\",\"timestamp\":\"1970-01-01T00:00:01.000Z\",\"error\":{\"type\":\"TypeError\",\"message\":\"no key\"}}'' @
       ''],\"totalDurationMs\":0}''"
    by code_simp
  ultimately show ?thesis by (simp only:)
qed

end
