(* ===== verification/ControlPlane.thy ===== *)
theory ControlPlane
  imports RateLimiter AdapterScorer Idempotency Trace
begin

text \<open>
  \<open>InfrGateControlPlane\<close> of \<open>packages/sdk/src/client.ts\<close>: the guard, the limiter, the scorer and the
  breakers in one state, and the pipeline \<open>execute\<close>. An \<open>execute\<close> is cut at its five awaits; a
  phase is what the function waits for, and \<open>resume\<close> runs it to the next await. \<open>clk i\<close> is the
  \<open>i\<close>-th reading of a clock (\<open>performance.now()\<close>, \<open>Date.now()\<close> or \<open>new Date()\<close>) that the piece of code
  makes, in the order of the code. The machine of the second part lets any number of executions
  share one control plane and take their pieces in any order.
\<close>

subsection \<open>Data\<close>

record ControlPlaneConfig =
  cfg_idempotency :: "PartialIdempotencyOptions option"
  cfg_rateLimit :: "RateLimitOptions option"
  cfg_circuitBreaker :: "PartialBreakerConfig option"
  cfg_tracing :: "bool partial"

record 'b InfrGateControlPlane =
  idempotency :: "'b IdempotencyGuard"
  rateLimit :: TokenBucketRateLimiter
  scorer :: AdapterScorer
  config :: ControlPlaneConfig
  circuitBreakers :: "string \<rightharpoonup> ProviderCircuitBreaker"

text \<open>What an \<open>execute\<close> can throw. The promise of the handler rejects with a thrown value.\<close>

datatype execute_error =
    FingerprintFailed sdk_error
  | RateLimitError string
  | HandlerFailed thrown
  | StepNotStarted TraceStep

datatype 'b phase =
    AwaitFingerprint "sdk_error + string"
  | AwaitGet string "'b CachedResponse option"
  | AwaitCheck string RateLimitResult
  | AwaitHandler string
  | AwaitSet 'b
  | Settled "execute_error + 'b"

text \<open>One call of \<open>execute\<close>; \<open>handler_calls\<close> counts the calls of its handler.\<close>

record 'b execution =
  tenantKey :: string
  trace :: ExecutionTraceBuilder
  handler_calls :: nat
  phase :: "'b phase"

type_synonym clock = "nat \<Rightarrow> number"

subsection \<open>Construction, breakers and ranking\<close>

definition new_control_plane :: "ControlPlaneConfig option \<Rightarrow> 'b InfrGateControlPlane" where
  "new_control_plane cfg =
     (let given = (case cfg of
            None \<Rightarrow> \<lparr>cfg_idempotency = None, cfg_rateLimit = None, cfg_circuitBreaker = None, cfg_tracing = Absent\<rparr>
          | Some c \<Rightarrow> c)
      in \<lparr>idempotency = new_guard (case cfg_idempotency given of None \<Rightarrow> no_idempotency_options | Some p \<Rightarrow> p),
          rateLimit = new_limiter (case cfg_rateLimit given of None \<Rightarrow> default_rate_limit | Some p \<Rightarrow> p),
          scorer = new_scorer default_alpha,
          config = given\<lparr>cfg_tracing := (case cfg_tracing given of Absent \<Rightarrow> Present (Some True) | t \<Rightarrow> t)\<rparr>,
          circuitBreakers = Map.empty\<rparr>)"

text \<open>\<open>now\<close> is the clock reading of \<open>breaker.getState()\<close>. The breaker the caller gets is the one in the map.\<close>

definition getCircuitBreaker :: "number \<Rightarrow> string \<Rightarrow> 'b InfrGateControlPlane \<Rightarrow> 'b InfrGateControlPlane" where
  "getCircuitBreaker now name cp =
     (let br = (case circuitBreakers cp name of
            None \<Rightarrow> new_breaker name (case cfg_circuitBreaker (config cp) of None \<Rightarrow> no_config | Some p \<Rightarrow> p)
          | Some br \<Rightarrow> br);
          (st, br) = getState now br
      in cp\<lparr>circuitBreakers := (circuitBreakers cp)(name \<mapsto> br),
            scorer := updateAvailability (scorer cp) name st\<rparr>)"

text \<open>
  \<open>Array.prototype.sort\<close>: stable, by the sign of the comparison, \<open>NaN\<close> counting as zero. (The order
  is implementation-defined only for a comparison that is not consistent.)
\<close>

fun insert_by :: "('a \<Rightarrow> 'a \<Rightarrow> number) \<Rightarrow> 'a \<Rightarrow> 'a list \<Rightarrow> 'a list" where
  "insert_by cmp x [] = [x]"
| "insert_by cmp x (y # ys) =
     (if num_less (num_of_int 0) (cmp x y) then y # insert_by cmp x ys else x # y # ys)"

definition sort_by :: "('a \<Rightarrow> 'a \<Rightarrow> number) \<Rightarrow> 'a list \<Rightarrow> 'a list" where
  "sort_by cmp xs = foldr (insert_by cmp) xs []"

definition rankProviders :: "'b InfrGateControlPlane \<Rightarrow> string list \<Rightarrow> string list" where
  "rankProviders cp providers =
     (let scored = map (\<lambda>p. (p, calculateScore (scorer cp) p no_weights)) providers
      in map fst (sort_by (\<lambda>a b. num_sub (snd b) (snd a)) scored))"

subsection \<open>The pipeline\<close>

definition retry_text :: "number option \<Rightarrow> string" where
  "retry_text r = (case r of None \<Rightarrow> ''undefined'' | Some x \<Rightarrow> num_text x)"

definition rate_limit_message :: "RateLimitResult \<Rightarrow> string" where
  "rate_limit_message res = ''Rate limit exceeded. Retry after '' @ retry_text (retryAfter res) @ ''s''"

definition retry_value :: "number option \<Rightarrow> jsval" where
  "retry_value r = (case r of None \<Rightarrow> Undefined | Some x \<Rightarrow> Num x)"

definition begin_execute :: "digest runtime \<Rightarrow> clock \<Rightarrow> string \<Rightarrow> string \<Rightarrow> jsval \<Rightarrow> 'b execution" where
  "begin_execute env clk rid tenant payload =
     \<lparr>tenantKey = tenant, trace = trace_start (clk 0) (clk 1) IDEMPOTENCY None (new_trace rid),
      handler_calls = 0, phase = AwaitFingerprint (fingerprint env payload)\<rparr>"

text \<open>Ending a step throws when the step was not started; otherwise the execution goes on.\<close>

definition end_step ::
  "number \<Rightarrow> TraceStep \<Rightarrow> metadata option \<Rightarrow> 'b execution \<Rightarrow>
   ('b execution \<Rightarrow> 'b execution \<times> 'b InfrGateControlPlane) \<Rightarrow> 'b InfrGateControlPlane \<Rightarrow>
   'b execution \<times> 'b InfrGateControlPlane" where
  "end_step now step meta x go cp =
     (case trace_end now step meta (trace x) of
        Inl s \<Rightarrow> (x\<lparr>phase := Settled (Inl (StepNotStarted s))\<rparr>, cp)
      | Inr tr \<Rightarrow> go (x\<lparr>trace := tr\<rparr>))"

definition start_step :: "number \<Rightarrow> number \<Rightarrow> TraceStep \<Rightarrow> 'b execution \<Rightarrow> 'b execution" where
  "start_step now date step x = x\<lparr>trace := trace_start now date step None (trace x)\<rparr>"

definition after_fingerprint ::
  "clock \<Rightarrow> sdk_error + string \<Rightarrow> 'b execution \<Rightarrow> 'b InfrGateControlPlane \<Rightarrow> 'b execution \<times> 'b InfrGateControlPlane" where
  "after_fingerprint clk r x cp =
     (case r of
        Inl e \<Rightarrow> (x\<lparr>phase := Settled (Inl (FingerprintFailed e))\<rparr>, cp)
      | Inr key \<Rightarrow>
          (let (cached, g) = get_cached (idempotency cp) (clk 0) key
           in (x\<lparr>phase := AwaitGet key cached\<rparr>, cp\<lparr>idempotency := g\<rparr>)))"

definition after_get ::
  "clock \<Rightarrow> string \<Rightarrow> 'b CachedResponse option \<Rightarrow> 'b execution \<Rightarrow> 'b InfrGateControlPlane \<Rightarrow>
   'b execution \<times> 'b InfrGateControlPlane" where
  "after_get clk key cached x cp =
     (case cached of
        Some r \<Rightarrow>
          end_step (clk 0) IDEMPOTENCY (Some [(''cacheHit'', Bool True), (''key'', Str key)]) x
            (\<lambda>x. (x\<lparr>phase := Settled (Inr (body r))\<rparr>, cp)) cp
      | None \<Rightarrow>
          end_step (clk 0) IDEMPOTENCY (Some [(''cacheHit'', Bool False), (''key'', Str key)]) x
            (\<lambda>x. let x = start_step (clk 1) (clk 2) RATE_LIMIT x;
                     (res, l) = check (rateLimit cp) (clk 3) (tenantKey x) (num_of_int 1)
                 in (x\<lparr>phase := AwaitCheck key res\<rparr>, cp\<lparr>rateLimit := l\<rparr>)) cp)"

definition after_check ::
  "clock \<Rightarrow> string \<Rightarrow> RateLimitResult \<Rightarrow> 'b execution \<Rightarrow> 'b InfrGateControlPlane \<Rightarrow>
   'b execution \<times> 'b InfrGateControlPlane" where
  "after_check clk key res x cp =
     (if \<not> allowed res then
        (x\<lparr>trace := trace_error (clk 0) (clk 1) RATE_LIMIT (''RateLimitError'', rate_limit_message res)
             (Some [(''allowed'', Bool False), (''retryAfter'', retry_value (retryAfter res))]) (trace x),
           phase := Settled (Inl (RateLimitError (rate_limit_message res)))\<rparr>, cp)
      else
        end_step (clk 0) RATE_LIMIT (Some [(''allowed'', Bool True), (''remaining'', Num (remaining res))]) x
          (\<lambda>x. let x = start_step (clk 1) (clk 2) EXECUTION x
               in (x\<lparr>handler_calls := handler_calls x + 1, phase := AwaitHandler key\<rparr>, cp)) cp)"

definition after_handler ::
  "clock \<Rightarrow> thrown + 'b \<Rightarrow> string \<Rightarrow> 'b execution \<Rightarrow> 'b InfrGateControlPlane \<Rightarrow>
   'b execution \<times> 'b InfrGateControlPlane" where
  "after_handler clk outcome key x cp =
     (case outcome of
        Inl e \<Rightarrow> (x\<lparr>phase := Settled (Inl (HandlerFailed e))\<rparr>, cp)
      | Inr result \<Rightarrow>
          end_step (clk 0) EXECUTION None x
            (\<lambda>x. let x = start_step (clk 1) (clk 2) FINALIZE x;
                     g = set_cached (idempotency cp) (clk 3) (clk 4) key result 200
                 in (x\<lparr>phase := AwaitSet result\<rparr>, cp\<lparr>idempotency := g\<rparr>)) cp)"

definition after_set ::
  "clock \<Rightarrow> 'b \<Rightarrow> 'b execution \<Rightarrow> 'b InfrGateControlPlane \<Rightarrow> 'b execution \<times> 'b InfrGateControlPlane" where
  "after_set clk result x cp =
     end_step (clk 0) FINALIZE (Some [(''cached'', Bool True)]) x
       (\<lambda>x. (x\<lparr>phase := Settled (Inr result)\<rparr>, cp)) cp"

text \<open>From one await to the next; \<open>outcome\<close> is how the handler settles, where it is awaited.\<close>

definition resume ::
  "clock \<Rightarrow> thrown + 'b \<Rightarrow> 'b execution \<times> 'b InfrGateControlPlane \<Rightarrow> 'b execution \<times> 'b InfrGateControlPlane" where
  "resume clk outcome s =
     (let (x, cp) = s in
      case phase x of
        AwaitFingerprint r \<Rightarrow> after_fingerprint clk r x cp
      | AwaitGet key cached \<Rightarrow> after_get clk key cached x cp
      | AwaitCheck key res \<Rightarrow> after_check clk key res x cp
      | AwaitHandler key \<Rightarrow> after_handler clk outcome key x cp
      | AwaitSet result \<Rightarrow> after_set clk result x cp
      | Settled r \<Rightarrow> (x, cp))"

text \<open>A call that nothing interleaves with: \<open>clks i\<close> is the clock of its \<open>i\<close>-th piece.\<close>

definition execute_alone ::
  "digest runtime \<Rightarrow> (nat \<Rightarrow> clock) \<Rightarrow> string \<Rightarrow> string \<Rightarrow> jsval \<Rightarrow> thrown + 'b \<Rightarrow> 'b InfrGateControlPlane \<Rightarrow>
   'b execution \<times> 'b InfrGateControlPlane" where
  "execute_alone env clks rid tenant payload outcome cp =
     foldl (\<lambda>s i. resume (clks i) outcome s)
       (begin_execute env (clks 0) rid tenant payload, cp) [1, 2, 3, 4, 5]"

subsection \<open>Ranking is a stable sort\<close>

definition score_of :: "'b InfrGateControlPlane \<Rightarrow> string \<Rightarrow> rat" where
  "score_of cp p = the (val (calculateScore (scorer cp) p no_weights))"

text \<open>Gradual underflow: the difference of two different doubles does not round to zero.\<close>

lemma fl_diff_pos:
  assumes "representable a" "representable b" "a < b"
  shows "0 < fl (b - a)"
proof -
  obtain m e where a: "a = of_int m * pow2 e" "- 1074 \<le> e" using assms(1) by (auto simp: representable_def)
  obtain n f where b: "b = of_int n * pow2 f" "- 1074 \<le> f" using assms(2) by (auto simp: representable_def)
  define M where "M = m * 2 ^ nat (e + 1074)"
  define N where "N = n * 2 ^ nat (f + 1074)"
  have A: "a = of_int M * pow2 (- 1074)"
    using pow2_add [of "e + 1074" "- 1074"] pow2_nat [of "nat (e + 1074)"] a by (simp add: M_def)
  have B: "b = of_int N * pow2 (- 1074)"
    using pow2_add [of "f + 1074" "- 1074"] pow2_nat [of "nat (f + 1074)"] b by (simp add: N_def)
  have "M < N" using assms(3) A B by simp
  then have "(1 :: rat) \<le> of_int (N - M)" by simp
  then have "1 * pow2 (- 1074) \<le> of_int (N - M) * pow2 (- 1074)"
    by (rule mult_right_mono) (simp add: less_imp_le)
  then have "pow2 (- 1074) \<le> b - a" by (simp add: A B algebra_simps)
  then have "pow2 (- 1074) \<le> fl (b - a)" by (simp add: fl_ge_representable representable_pow2)
  then show ?thesis using pow2_pos [of "- 1074"] by linarith
qed

lemma fl_diff_sign: "representable a \<Longrightarrow> representable b \<Longrightarrow> 0 < fl (b - a) \<longleftrightarrow> a < b"
  using fl_diff_pos [of a b] fl_mono [of "b - a" 0] by (cases "a < b") (auto simp: not_less)

lemma insort_key_map: "insort_key f (g x) (map g ys) = map g (insort_key (\<lambda>a. f (g a)) x ys)"
  by (induction ys) simp_all

lemma sort_key_map: "sort_key f (map g xs) = map g (sort_key (\<lambda>a. f (g a)) xs)"
  by (induction xs) (simp_all add: insort_key_map)

lemma insert_by_insort:
  "(\<And>y. y \<in> set ys \<Longrightarrow> num_less (num_of_int 0) (cmp x y) \<longleftrightarrow> f y < f x) \<Longrightarrow>
   insert_by cmp x ys = insort_key f x ys"
  by (induction ys) (auto simp: not_less)

lemma sort_by_sort_key:
  "(\<And>x y. x \<in> set xs \<Longrightarrow> y \<in> set xs \<Longrightarrow> num_less (num_of_int 0) (cmp x y) \<longleftrightarrow> f y < f x) \<Longrightarrow>
   sort_by cmp xs = sort_key f xs"
proof (induction xs)
  case (Cons x xs)
  have "sort_by cmp (x # xs) = insert_by cmp x (sort_key f xs)"
    using Cons by (simp add: sort_by_def del: val.simps)
  also have "\<dots> = insort_key f x (sort_key f xs)" using Cons.prems by (intro insert_by_insort) auto
  finally show ?case by simp
qed (simp add: sort_by_def)

lemma rank_sorted:
  assumes "scorer_ok (scorer cp)"
  shows "rankProviders cp providers = sort_key (\<lambda>p. - score_of cp p) providers"
proof -
  let ?score = "\<lambda>p. calculateScore (scorer cp) p no_weights"
  let ?scored = "map (\<lambda>p. (p, ?score p)) providers"
  have unit: "unit_num (?score p)" for p
    using assms no_weights_ok by (intro score_unit) (simp_all add: scorer_ok_def)
  have val: "val (?score p) = Some (score_of cp p) \<and> 0 \<le> score_of cp p \<and> score_of cp p \<le> 1 \<and>
      representable (score_of cp p)" for p
    using unit [of p] by (auto simp: score_of_def elim!: unit_numE)
  have less: "num_less (num_of_int 0) (num_sub (?score q) (?score p)) \<longleftrightarrow> score_of cp p < score_of cp q" for p q
  proof -
    have "\<bar>score_of cp q - score_of cp p\<bar> \<le> 1" using val [of p] val [of q] by (simp add: abs_le_iff)
    also have "1 \<le> fin_bound" using pow2_le_fin_bound [of 0] by simp
    finally have "val (num_sub (?score q) (?score p)) = Some (fl (score_of cp q - score_of cp p))"
      using val by (intro val_sub) simp_all
    then show ?thesis using fl_diff_sign [of "score_of cp p" "score_of cp q"] val [of p] val [of q]
      by (cases "num_sub (?score q) (?score p)") auto
  qed
  have "sort_by (\<lambda>a b. num_sub (snd b) (snd a)) ?scored = sort_key (\<lambda>a. - score_of cp (fst a)) ?scored"
    using less by (intro sort_by_sort_key) auto
  then show ?thesis by (simp add: rankProviders_def sort_key_map comp_def)
qed

text \<open>C13: \<open>rankProviders\<close> returns the given names, none lost and none invented, in descending order of
  health score, and names with equal scores keep the order the caller gave them: it is the stable
  sort by the negated score. The rounding of the subtraction in the comparison cannot merge
  or swap two different scores.\<close>

theorem ranking_stable:
  assumes "scorer_ok (scorer cp)"
  shows "rankProviders cp providers = sort_key (\<lambda>p. - score_of cp p) providers"
  by (rule rank_sorted [OF assms])

theorem ranking_stable_witness:
  "rankProviders (new_control_plane None :: unit InfrGateControlPlane) [''openai'', ''groq''] = [''openai'', ''groq'']"
  using ranking_stable [of "new_control_plane None :: unit InfrGateControlPlane" "[''openai'', ''groq'']"]
    new_scorer_ok [OF unit_default_alpha]
  by (simp add: new_control_plane_def score_of_def calculateScore_def getHealth_def new_scorer_def Let_def)

subsection \<open>Executions in flight\<close>

text \<open>
  The control plane with the executions begun so far. An event begins an execution or runs a
  begun one to its next await.
\<close>

type_synonym 'b plane = "'b InfrGateControlPlane \<times> 'b execution list"

datatype 'b plane_event =
    Begin clock string string jsval
  | Resume nat clock "thrown + 'b"

fun fire :: "digest runtime \<Rightarrow> 'b plane \<Rightarrow> 'b plane_event \<Rightarrow> 'b plane" where
  "fire env (cp, xs) (Begin clk rid tenant payload) = (cp, xs @ [begin_execute env clk rid tenant payload])"
| "fire env (cp, xs) (Resume i clk outcome) =
     (if i < length xs then (let (x, cp) = resume clk outcome (xs ! i, cp) in (cp, xs[i := x])) else (cp, xs))"

text \<open>
  What the trace of an execution shows, by the phase it is in. An execution that was answered from
  the cache has called no handler.
\<close>

fun expected :: "nat \<Rightarrow> 'b phase \<Rightarrow> (TraceStep \<times> TraceStepStatus) list" where
  "expected n (AwaitFingerprint r) = [(IDEMPOTENCY, Waiting)]"
| "expected n (AwaitGet key c) = [(IDEMPOTENCY, Waiting)]"
| "expected n (AwaitCheck key res) = [(IDEMPOTENCY, Passed), (RATE_LIMIT, Waiting)]"
| "expected n (AwaitHandler key) = [(IDEMPOTENCY, Passed), (RATE_LIMIT, Passed), (EXECUTION, Waiting)]"
| "expected n (AwaitSet r) =
     [(IDEMPOTENCY, Passed), (RATE_LIMIT, Passed), (EXECUTION, Passed), (FINALIZE, Waiting)]"
| "expected n (Settled (Inr r)) =
     (if n = 0 then [(IDEMPOTENCY, Passed)]
      else [(IDEMPOTENCY, Passed), (RATE_LIMIT, Passed), (EXECUTION, Passed), (FINALIZE, Passed)])"
| "expected n (Settled (Inl (FingerprintFailed e))) = [(IDEMPOTENCY, Waiting)]"
| "expected n (Settled (Inl (RateLimitError m))) = [(IDEMPOTENCY, Passed), (RATE_LIMIT, Failed)]"
| "expected n (Settled (Inl (HandlerFailed e))) =
     [(IDEMPOTENCY, Passed), (RATE_LIMIT, Passed), (EXECUTION, Waiting)]"
| "expected n (Settled (Inl (StepNotStarted s))) = []"

fun called :: "'b phase \<Rightarrow> nat set" where
  "called (AwaitHandler key) = {1}"
| "called (AwaitSet r) = {1}"
| "called (Settled (Inr r)) = {0, 1}"
| "called (Settled (Inl (HandlerFailed e))) = {1}"
| "called (Settled (Inl (StepNotStarted s))) = {}"
| "called p = {0}"

definition waiting_steps :: "(TraceStep \<times> TraceStepStatus) list \<Rightarrow> TraceStep set" where
  "waiting_steps es = {s. (s, Waiting) \<in> set es}"

definition event_flags :: "TraceEvent \<Rightarrow> TraceStep \<times> TraceStepStatus" where
  "event_flags e = (ev_step e, if ev_error e \<noteq> None then Failed else if ev_durationMs e \<noteq> None then Passed else Waiting)"

definition execution_ok :: "'b execution \<Rightarrow> bool" where
  "execution_ok x \<longleftrightarrow>
     (let es = expected (handler_calls x) (phase x) in
      map event_flags (events (trace x)) = es \<and>
      dom (stepStartTimes (trace x)) = waiting_steps es \<and> handler_calls x \<in> called (phase x))"


lemma event_flags_conv:
  "event_flags e = (s, st) \<longleftrightarrow> ev_step e = s \<and>
     st = (if ev_error e \<noteq> None then Failed else if ev_durationMs e \<noteq> None then Passed else Waiting)"
  by (auto simp: event_flags_def)

lemma start_flags [simp]:
  "map event_flags (events (trace_start t d s m b)) = map event_flags (events b) @ [(s, Waiting)]"
  "dom (stepStartTimes (trace_start t d s m b)) = insert s (dom (stepStartTimes b))"
  by (auto simp: trace_start_def event_flags_def)

lemma end_flags:
  assumes "map event_flags (events b) = es @ [(s, Waiting)]" "\<forall>p \<in> set es. snd p = Passed" "s \<in> dom (stepStartTimes b)"
  shows "\<exists>b'. trace_end t s m b = Inr b' \<and> map event_flags (events b') = es @ [(s, Passed)] \<and>
    dom (stepStartTimes b') = dom (stepStartTimes b) - {s}"
proof -
  obtain xs e where xs: "events b = xs @ [e]" "map event_flags xs = es" "event_flags e = (s, Waiting)"
    using assms(1) by (auto simp: map_eq_append_conv)
  have "\<not> unended s x" if "x \<in> set xs" for x
    using assms(2) that by (auto simp: unended_def event_flags_def xs(2)[symmetric] dest!: bspec split: if_splits)
  moreover have "unended s e" using xs(3) by (auto simp: unended_def event_flags_conv split: if_splits)
  ultimately show ?thesis using assms(3) xs
    by (auto simp: trace_end_def Let_def update_first_append event_flags_conv split: if_splits)
qed

lemma error_flags:
  assumes "map event_flags (events b) = es @ [(s, Waiting)]" "s \<notin> fst ` set es"
  shows "map event_flags (events (trace_error t d s err m b)) = es @ [(s, Failed)] \<and>
    dom (stepStartTimes (trace_error t d s err m b)) = dom (stepStartTimes b) - {s}"
proof -
  obtain xs e where xs: "events b = xs @ [e]" "map event_flags xs = es" "event_flags e = (s, Waiting)"
    using assms(1) by (auto simp: map_eq_append_conv)
  have no: "\<not> unfailed s x" if "x \<in> set xs" for x
    using assms(2) that by (auto simp: unfailed_def event_flags_def image_iff xs(2)[symmetric])
  moreover have "unfailed s e" using xs(3) by (auto simp: unfailed_def event_flags_conv split: if_splits)
  ultimately show ?thesis using xs
    by (auto simp: trace_error_def Let_def update_first_append event_flags_def)
qed

lemma begin_ok: "execution_ok (begin_execute env clk rid tenant payload)"
  by (auto simp: execution_ok_def begin_execute_def waiting_steps_def new_trace_def)

text \<open>Ending the step that is waiting succeeds, and the rest of the piece goes on from there.\<close>

lemma end_step_flags:
  assumes "map event_flags (events (trace x)) = es @ [(s, Waiting)]" "\<forall>p \<in> set es. snd p = Passed"
    "dom (stepStartTimes (trace x)) = {s}"
    and "\<And>tr. map event_flags (events tr) = es @ [(s, Passed)] \<Longrightarrow> dom (stepStartTimes tr) = {} \<Longrightarrow> P (go (x\<lparr>trace := tr\<rparr>))"
  shows "P (end_step t s m x go cp)"
proof -
  obtain tr where "trace_end t s m (trace x) = Inr tr" "map event_flags (events tr) = es @ [(s, Passed)]"
    "dom (stepStartTimes tr) = {}"
    using end_flags [OF assms(1,2), of t m] assms(3) by auto
  then show ?thesis using assms(4) by (simp add: end_step_def)
qed

lemma resume_ok:
  assumes "execution_ok x"
  shows "execution_ok (fst (resume clk outcome (x, cp)))"
proof (cases "phase x")
  case (AwaitFingerprint r)
  then show ?thesis using assms
    by (cases r) (auto simp: execution_ok_def resume_def after_fingerprint_def split: prod.split)
next
  case (AwaitGet key c)
  then have x: "map event_flags (events (trace x)) = [] @ [(IDEMPOTENCY, Waiting)]"
    "dom (stepStartTimes (trace x)) = {IDEMPOTENCY}" "handler_calls x = 0"
    using assms by (auto simp: execution_ok_def waiting_steps_def)
  show ?thesis
    by (cases c; simp add: resume_def AwaitGet after_get_def;
        rule end_step_flags [OF x(1) _ x(2), where P = "\<lambda>s. execution_ok (fst s)"])
      (auto simp: x(3) execution_ok_def waiting_steps_def start_step_def split: prod.split)
next
  case (AwaitCheck key res)
  then have x: "map event_flags (events (trace x)) = [(IDEMPOTENCY, Passed)] @ [(RATE_LIMIT, Waiting)]"
    "dom (stepStartTimes (trace x)) = {RATE_LIMIT}" "handler_calls x = 0"
    using assms by (auto simp: execution_ok_def waiting_steps_def)
  show ?thesis
  proof (cases "allowed res")
    case True
    show ?thesis
      by (simp add: resume_def AwaitCheck after_check_def True;
          rule end_step_flags [OF x(1) _ x(2), where P = "\<lambda>s. execution_ok (fst s)"])
        (auto simp: x(3) execution_ok_def waiting_steps_def start_step_def)
  next
    case False
    then show ?thesis
      using error_flags [OF x(1)] x(2,3)
      by (simp add: resume_def AwaitCheck after_check_def execution_ok_def waiting_steps_def)
  qed
next
  case (AwaitHandler key)
  then have x: "map event_flags (events (trace x)) = [(IDEMPOTENCY, Passed), (RATE_LIMIT, Passed)] @ [(EXECUTION, Waiting)]"
    "dom (stepStartTimes (trace x)) = {EXECUTION}" "handler_calls x = 1"
    using assms by (auto simp: execution_ok_def waiting_steps_def)
  show ?thesis
  proof (cases outcome)
    case (Inl e)
    then show ?thesis using x by (simp add: resume_def AwaitHandler after_handler_def execution_ok_def waiting_steps_def)
  next
    case (Inr r)
    show ?thesis
      by (simp add: resume_def AwaitHandler after_handler_def Inr;
          rule end_step_flags [OF x(1) _ x(2), where P = "\<lambda>s. execution_ok (fst s)"])
        (auto simp: x(3) execution_ok_def waiting_steps_def start_step_def)
  qed
next
  case (AwaitSet r)
  then have x: "map event_flags (events (trace x)) =
      [(IDEMPOTENCY, Passed), (RATE_LIMIT, Passed), (EXECUTION, Passed)] @ [(FINALIZE, Waiting)]"
    "dom (stepStartTimes (trace x)) = {FINALIZE}" "handler_calls x = 1"
    using assms by (auto simp: execution_ok_def waiting_steps_def)
  show ?thesis
    by (simp add: resume_def AwaitSet after_set_def;
        rule end_step_flags [OF x(1) _ x(2), where P = "\<lambda>s. execution_ok (fst s)"])
      (auto simp: x(3) execution_ok_def waiting_steps_def)
qed (use assms in \<open>simp add: resume_def\<close>)

lemma fire_ok:
  "\<forall>x \<in> set (snd s). execution_ok x \<Longrightarrow> \<forall>x \<in> set (snd (fire env s e)). execution_ok x"
  by (cases "(env, s, e)" rule: fire.cases)
    (auto simp: begin_ok split_beta dest!: set_update_subset_insert [THEN subsetD] intro: resume_ok)

lemma run_ok: "\<forall>x \<in> set (snd s). execution_ok x \<Longrightarrow> \<forall>x \<in> set (snd (foldl (fire env) s es)). execution_ok x"
proof (induction es arbitrary: s)
  case (Cons e es)
  from Cons.IH [OF fire_ok [OF Cons.prems]] show ?case by simp
qed simp

lemma execution_ok_statuses:
  assumes "execution_ok x"
  shows "statuses (trace x) = expected (handler_calls x) (phase x)"
proof -
  have flags: "map event_flags (events (trace x)) = expected (handler_calls x) (phase x)"
    and dom: "dom (stepStartTimes (trace x)) = waiting_steps (expected (handler_calls x) (phase x))"
    using assms by (simp_all add: execution_ok_def Let_def)
  have "(ev_step e, event_status (trace x) e) = event_flags e" if e: "e \<in> set (events (trace x))" for e
  proof (cases "ev_error e = None \<and> ev_durationMs e = None")
    case True
    then have "event_flags e = (ev_step e, Waiting)" by (simp add: event_flags_def)
    moreover have "event_flags e \<in> set (expected (handler_calls x) (phase x))"
      unfolding flags [symmetric] using e by simp
    ultimately have "ev_step e \<in> dom (stepStartTimes (trace x))"
      by (simp add: dom waiting_steps_def)
    with True show ?thesis by (auto simp: event_status_def event_flags_def)
  qed (auto simp: event_status_def event_flags_def)
  then have "map (\<lambda>e. (ev_step e, event_status (trace x) e)) (events (trace x)) = map event_flags (events (trace x))"
    by (rule map_cong [OF refl])
  then show ?thesis by (simp add: flags statuses_def toSummary_def comp_def)
qed

text \<open>C9: Whatever the interleaving of the executions that share a control plane, each execution calls
  its handler at most once, the trace of each shows exactly the steps it has gone through (passed,
  failed or waiting as its phase says, nothing skipped), and ending a step never throws.\<close>

theorem pipeline_trace:
  assumes "x \<in> set (snd (foldl (fire env) (cp, []) es))"
  shows "statuses (trace x) = expected (handler_calls x) (phase x) \<and> handler_calls x \<le> 1 \<and>
    phase x \<noteq> Settled (Inl (StepNotStarted s))"
proof -
  have ok: "execution_ok x" using run_ok [of "(cp, [])"] assms by force
  then have "handler_calls x \<in> called (phase x)" by (simp add: execution_ok_def Let_def)
  then have "handler_calls x \<le> 1 \<and> phase x \<noteq> Settled (Inl (StepNotStarted s))"
    by (cases "phase x" rule: called.cases) auto
  with execution_ok_statuses [OF ok] show ?thesis by simp
qed

theorem pipeline_trace_witness:
  "statuses (trace (snd (foldl (fire \<lparr>globalThis = None, global_object = None\<rparr>) (new_control_plane None, [])
     [Begin (\<lambda>i. NaN) ''r'' ''t'' (Obj []), Resume 0 (\<lambda>i. NaN) (Inr ())]) ! 0)) = [(IDEMPOTENCY, Waiting)]"
proof -
  let ?env = "\<lparr>globalThis = None, global_object = None\<rparr> :: digest runtime"
  let ?es = "[Begin (\<lambda>i. NaN) ''r'' ''t'' (Obj []), Resume 0 (\<lambda>i. NaN) (Inr ())]"
  let ?x = "snd (foldl (fire ?env) (new_control_plane None, []) ?es) ! 0"
  have "phase ?x = Settled (Inl (FingerprintFailed CryptoUnavailableError))" "handler_calls ?x = 0"
    by (simp_all add: begin_execute_def resume_def after_fingerprint_def fingerprint_def object_result_def
        sha256_def getSubtleCrypto_def)
  moreover have "?x \<in> set (snd (foldl (fire ?env) (new_control_plane None, []) ?es))"
    by (rule nth_mem) (simp add: split_beta)
  ultimately show ?thesis using pipeline_trace [of ?x ?env _ ?es] by auto
qed

text \<open>
  \<open>TraceStep\<close> lists the steps in the order of the documented pipeline, in which the rate limit is
  checked before the cache. The pipeline that runs is another one: as soon as an execution has gone
  beyond the cache its steps are not in that order.
\<close>

theorem steps_out_of_order:
  assumes "x \<in> set (snd (foldl (fire env) (cp, []) es))"
  shows "sorted (map fst (statuses (trace x))) \<longleftrightarrow> length (statuses (trace x)) \<le> 1"
proof -
  have ok: "execution_ok x" using run_ok [of "(cp, [])"] assms by force
  then have "handler_calls x \<in> called (phase x)" by (simp add: execution_ok_def Let_def)
  then show ?thesis
    unfolding execution_ok_statuses [OF ok]
    by (cases "(handler_calls x, phase x)" rule: expected.cases) (auto simp: less_eq_TraceStep_def)
qed

text \<open>The checks of the limiter that a run makes, and the calls of handlers on behalf of a tenant.\<close>

definition piece_check :: "clock \<Rightarrow> 'b execution \<Rightarrow> limiter_call list" where
  "piece_check clk x =
     (case phase x of
        AwaitGet key None \<Rightarrow> [Check (the (whole (clk 3))) (tenantKey x) (num_of_int 1)]
      | _ \<Rightarrow> [])"

fun rate_call :: "'b plane \<Rightarrow> 'b plane_event \<Rightarrow> limiter_call list" where
  "rate_call (cp, xs) (Begin clk rid tenant payload) = []"
| "rate_call (cp, xs) (Resume i clk outcome) = (if i < length xs then piece_check clk (xs ! i) else [])"

fun rate_calls :: "digest runtime \<Rightarrow> 'b plane \<Rightarrow> 'b plane_event list \<Rightarrow> limiter_call list" where
  "rate_calls env s [] = []"
| "rate_calls env s (e # es) = rate_call s e @ rate_calls env (fire env s e) es"

fun whole_clock :: "'b plane_event \<Rightarrow> bool" where
  "whole_clock (Resume i clk outcome) \<longleftrightarrow> whole (clk 3) \<noteq> None"
| "whole_clock e \<longleftrightarrow> True"

definition tenant_calls :: "string \<Rightarrow> 'b execution \<Rightarrow> nat" where
  "tenant_calls tenant x = (if tenantKey x = tenant then handler_calls x else 0)"

definition admitted :: "string \<Rightarrow> 'b execution \<Rightarrow> nat" where
  "admitted tenant x =
     (if tenantKey x = tenant then
        handler_calls x + (case phase x of AwaitCheck key res \<Rightarrow> if allowed res then 1 else 0 | _ \<Rightarrow> 0)
      else 0)"

definition total :: "('b execution \<Rightarrow> nat) \<Rightarrow> 'b plane \<Rightarrow> nat" where
  "total f s = sum_list (map f (snd s))"

lemma total_update: "i < length xs \<Longrightarrow> total f (cp, xs[i := x]) + f (xs ! i) = total f (cp', xs) + f x"
  by (induction xs arbitrary: i) (auto simp: total_def split: nat.splits)

text \<open>One piece: the limiter moves by the check it makes, and so does what has been admitted.\<close>

lemma resume_admitted:
  assumes clk: "whole (clk 3) \<noteq> None" and ok: "execution_ok x"
  shows "rateLimit (snd (resume clk outcome (x, cp))) = foldl limiter_step (rateLimit cp) (piece_check clk x) \<and>
    of_nat (admitted tenant (fst (resume clk outcome (x, cp)))) \<le>
      of_nat (admitted tenant x) + total_granted limiter_step (key_granted tenant) (rateLimit cp) (piece_check clk x)"
    (is "?P (resume clk outcome (x, cp))")
proof (cases "phase x")
  case (AwaitFingerprint r)
  then show ?thesis
    by (cases r) (simp_all add: piece_check_def resume_def after_fingerprint_def admitted_def split: prod.split)
next
  case (AwaitGet key c)
  then have x: "map event_flags (events (trace x)) = [] @ [(IDEMPOTENCY, Waiting)]"
    "dom (stepStartTimes (trace x)) = {IDEMPOTENCY}" "handler_calls x = 0"
    using ok by (auto simp: execution_ok_def waiting_steps_def)
  obtain t where t: "clk 3 = num_of_int t" using clk by (auto simp del: whole.simps)
  show ?thesis
    by (cases c; simp add: resume_def AwaitGet after_get_def;
        rule end_step_flags [OF x(1) _ x(2), where P = ?P])
      (auto simp: x(3) AwaitGet piece_check_def admitted_def start_step_def t split: prod.split)
next
  case (AwaitCheck key res)
  then show ?thesis
    by (auto simp: piece_check_def resume_def after_check_def admitted_def start_step_def end_step_def split: sum.split)
next
  case (AwaitHandler key)
  then show ?thesis
    by (cases outcome)
      (auto simp: piece_check_def resume_def after_handler_def admitted_def start_step_def end_step_def split: sum.split)
qed (auto simp: piece_check_def resume_def after_set_def admitted_def end_step_def split: sum.split)

lemma total_granted_append:
  "total_granted step g s (xs @ ys) = total_granted step g s xs + total_granted step g (foldl step s xs) ys"
  by (induction xs arbitrary: s) simp_all

lemma fire_admitted:
  assumes "whole_clock e" "\<forall>x \<in> set (snd s). execution_ok x"
  shows "rateLimit (fst (fire env s e)) = foldl limiter_step (rateLimit (fst s)) (rate_call s e) \<and>
    of_nat (total (admitted tenant) (fire env s e)) \<le>
      of_nat (total (admitted tenant) s) + total_granted limiter_step (key_granted tenant) (rateLimit (fst s)) (rate_call s e)"
proof (cases "(env, s, e)" rule: fire.cases)
  case (1 env cp xs clk rid tenant payload)
  then show ?thesis by (simp add: total_def begin_execute_def admitted_def)
next
  case (2 env' cp xs i clk outcome)
  show ?thesis
  proof (cases "i < length xs")
    case True
    obtain y cp' where r: "resume clk outcome (xs ! i, cp) = (y, cp')" by fastforce
    have "execution_ok (xs ! i)" using assms(2) 2 True by simp
    from resume_admitted [OF _ this, of clk outcome cp tenant] r
    have y: "rateLimit cp' = foldl limiter_step (rateLimit cp) (piece_check clk (xs ! i))"
      "of_nat (admitted tenant y) \<le> of_nat (admitted tenant (xs ! i)) +
         total_granted limiter_step (key_granted tenant) (rateLimit cp) (piece_check clk (xs ! i))"
      using assms(1) 2 by simp_all
    have "(of_nat (total (admitted tenant) (cp', xs[i := y])) :: rat) + of_nat (admitted tenant (xs ! i)) =
        of_nat (total (admitted tenant) (cp, xs)) + of_nat (admitted tenant y)"
      using total_update [OF True, of "admitted tenant" cp' y cp] by (simp flip: of_nat_add)
    with y 2 True r show ?thesis by simp
  qed (use 2 in simp)
qed

lemma run_admitted:
  assumes "\<forall>e \<in> set es. whole_clock e" "\<forall>x \<in> set (snd s). execution_ok x"
  shows "of_nat (total (admitted tenant) (foldl (fire env) s es)) \<le>
    of_nat (total (admitted tenant) s) +
    total_granted limiter_step (key_granted tenant) (rateLimit (fst s)) (rate_calls env s es)"
  using assms
proof (induction es arbitrary: s)
  case (Cons e es)
  note f = fire_admitted [of e s env tenant]
  have "of_nat (total (admitted tenant) (foldl (fire env) (fire env s e) es)) \<le>
      of_nat (total (admitted tenant) (fire env s e)) +
      total_granted limiter_step (key_granted tenant) (rateLimit (fst (fire env s e))) (rate_calls env (fire env s e) es)"
    using Cons.prems by (intro Cons.IH fire_ok) simp_all
  with f Cons.prems show ?case by (simp add: total_granted_append)
qed simp

lemma calls_le_admitted: "total (tenant_calls tenant) s \<le> total (admitted tenant) s"
  by (auto simp: total_def tenant_calls_def admitted_def intro!: sum_list_mono)

text \<open>C1: The pipeline as a whole is rate limited: however the executions of all tenants interleave, the
  calls of handlers on behalf of one tenant that a run makes are at most the capacity plus the
  refill rate times the length of the window of time its checks fall into, plus the rounding
  allowance of each check. No interleaving of the awaits lets a handler through unmetered.\<close>

theorem handler_calls_bounded:
  assumes "limiter_ok \<lfloor>t0\<rfloor> (rateLimit cp)" and "0 \<le> t0" and "\<forall>e \<in> set es. whole_clock e"
    and "in_window (\<lambda>c. of_int (call_time c)) (key_call_ok tenant) t0 t1 (rate_calls env (cp, []) es)"
  shows "of_nat (total (tenant_calls tenant) (foldl (fire env) (cp, []) es)) \<le>
    cap_of (rl_config (rateLimit cp)) + rate_of (rl_config (rateLimit cp)) / 1000 * (t1 - t0)
      + check_err (rl_config (rateLimit cp)) * of_nat (length (rate_calls env (cp, []) es))"
proof -
  let ?l = "rateLimit cp" and ?cs = "rate_calls env (cp, []) es"
  have "configured_limiter (rl_config ?l)"
    using assms(1) by (simp add: configured_limiter_def limiter_ok_def)
  then have "total_granted limiter_step (key_granted tenant) ?l ?cs \<le>
      cap_of (rl_config ?l) + rate_of (rl_config ?l) / 1000 * (t1 - t0) + check_err (rl_config ?l) * of_nat (length ?cs)"
    using assms configured_limiter.key_window_bound [of "rl_config ?l" ?l t0 tenant t1 ?cs]
    by (simp add: limiter_valid_def)
  moreover have "(of_nat (total (tenant_calls tenant) (foldl (fire env) (cp, []) es)) :: rat) \<le>
      total_granted limiter_step (key_granted tenant) ?l ?cs"
    using run_admitted [of es "(cp, [])" tenant env] assms(3)
      calls_le_admitted [of tenant "foldl (fire env) (cp, []) es", THEN of_nat_mono, where 'a = rat]
    by (simp add: total_def)
  ultimately show ?thesis by linarith
qed

subsection \<open>Two executions of one request at once\<close>

definition still :: clock where
  "still i = num_of_int 0"

text \<open>Two executions of the same payload whose pieces alternate; the handlers settle with \<open>a\<close> and \<open>b\<close>.\<close>

definition duplicate_run :: "jsval \<Rightarrow> 'b \<Rightarrow> 'b \<Rightarrow> 'b plane_event list" where
  "duplicate_run payload a b =
     [Begin still ''r1'' ''t'' payload, Begin still ''r2'' ''t'' payload,
      Resume 0 still (Inr a), Resume 1 still (Inr b), Resume 0 still (Inr a), Resume 1 still (Inr b),
      Resume 0 still (Inr a), Resume 1 still (Inr b), Resume 0 still (Inr a), Resume 1 still (Inr b),
      Resume 0 still (Inr a), Resume 1 still (Inr b)]"

lemma still_bucket:
  assumes "rl_config l = rl_config (new_limiter default_rate_limit)" "0 < n" "n \<le> 100"
    "buckets l (bucket_key (rl_config l) k) = (if n = 100 then None else Some \<lparr>tokens = num_of_int n, lastRefill = num_of_int 0\<rparr>)"
  shows "allowed (fst (check l (num_of_int 0) k (num_of_int 1)))"
    "buckets (snd (check l (num_of_int 0) k (num_of_int 1))) (bucket_key (rl_config l) k) =
       Some \<lparr>tokens = num_of_int (n - 1), lastRefill = num_of_int 0\<rparr>"
proof -
  have c: "capacity (rl_config l) = num_of_int 100" "refillRate (rl_config l) = num_of_int 10"
    by (simp_all add: assms(1) new_limiter_def default_rate_limit_def)
  have "tokens (load_bucket l (num_of_int 0) k) = num_of_int n"
    using assms(2-4) num_add_int [of n 0] num_add_int [of 100 0]
    by (simp add: load_bucket_def refill_def Let_def c num_eval round_to_def)
  moreover have "num_sub (num_of_int n) (num_of_int 1) = num_of_int (n - 1)"
    using assms(2,3) by (intro num_sub_int) simp
  ultimately show "allowed (fst (check l (num_of_int 0) k (num_of_int 1)))"
    "buckets (snd (check l (num_of_int 0) k (num_of_int 1))) (bucket_key (rl_config l) k) =
       Some \<lparr>tokens = num_of_int (n - 1), lastRefill = num_of_int 0\<rparr>"
    using assms(2,3) check_allowed_bucket [of l "num_of_int 0" k "num_of_int 1"]
    by (simp_all add: check_allowed_iff)
qed
lemmas pipeline_simps = begin_execute_def resume_def after_fingerprint_def after_get_def after_check_def
  after_handler_def after_set_def end_step_def start_step_def trace_end_def trace_start_def new_trace_def
  unended_def Let_def

lemma still_number: "still i = Fin 0"
  by (simp add: still_def)

text \<open>C34: Exactly-once execution does not hold between requests in flight: when two executions of the
  same payload alternate, both miss the cache, both handlers are called and each caller gets the
  result of its own handler.\<close>

theorem duplicates_both_run:
  assumes "fingerprint env payload = Inr key"
  shows "map (\<lambda>x. (handler_calls x, phase x))
      (snd (foldl (fire env) (new_control_plane None, []) (duplicate_run payload a b))) =
    [(1, Settled (Inr a)), (1, Settled (Inr b))]"
proof -
  let ?l = "new_limiter default_rate_limit" and ?t = "num_of_int 0" and ?n = "num_of_int 1"
  obtain res1 l1 where c1: "check ?l ?t ''t'' ?n = (res1, l1)" by fastforce
  obtain res2 l2 where c2: "check l1 ?t ''t'' ?n = (res2, l2)" by fastforce
  have 1: "allowed res1" "buckets l1 (bucket_key (rl_config ?l) ''t'') = Some \<lparr>tokens = num_of_int 99, lastRefill = ?t\<rparr>"
    using still_bucket [of ?l 100 "''t''"] c1 by (simp_all add: new_limiter_def)
  have "rl_config l1 = rl_config ?l" by (metis check_config c1 snd_conv)
  then have 2: "allowed res2" using still_bucket [of l1 99 "''t''"] 1 c2 by simp
  show ?thesis
    using c1 c2 1(1) 2
    by (simp add: assms(1) duplicate_run_def pipeline_simps get_cached_def still_number new_control_plane_def new_guard_def)
qed

theorem duplicates_both_run_witness:
  "\<exists>key. fingerprint sample_runtime (Obj []) = Inr key \<and>
     map phase (snd (foldl (fire sample_runtime) (new_control_plane None, []) (duplicate_run (Obj []) (1 :: nat) 2))) =
       [Settled (Inr 1), Settled (Inr 2)]"
proof -
  have key: "fingerprint sample_runtime (Obj []) = Inr (bufferToHex (sample_digest (utf8 (value_text (Obj [])))))"
    by (rule fingerprint_plain) (simp_all add: getSubtleCrypto_def sample_runtime_def)
  show ?thesis
    using duplicates_both_run [OF key, of "1 :: nat" 2] key by (auto dest!: arg_cong [where f = "map snd"] simp: comp_def)
qed


theorem handler_calls_bounded_witness:
  "of_nat (total (tenant_calls ''t'') (foldl (fire sample_runtime) (new_control_plane None, []) (duplicate_run (Obj []) () ())))
   \<le> 100 + 10 / 1000 * (0 :: rat) + check_err (rl_config (new_limiter default_rate_limit)) * 2"
proof -
  let ?cp = "new_control_plane None :: unit InfrGateControlPlane" and ?es = "duplicate_run (Obj []) () ()"
  have key: "fingerprint sample_runtime (Obj []) = Inr (bufferToHex (sample_digest (utf8 (value_text (Obj [])))))"
    by (rule fingerprint_plain) (simp_all add: getSubtleCrypto_def sample_runtime_def)
  have l: "rateLimit ?cp = new_limiter default_rate_limit" by (simp add: new_control_plane_def)
  obtain res1 l1 where c1: "check (new_limiter default_rate_limit) (Fin 0) ''t'' (Fin 1) = (res1, l1)" by fastforce
  obtain res2 l2 where c2: "check l1 (Fin 0) ''t'' (Fin 1) = (res2, l2)" by fastforce
  have calls: "rate_calls sample_runtime (?cp, []) ?es = [Check 0 ''t'' (num_of_int 1), Check 0 ''t'' (num_of_int 1)]"
    by (cases "allowed res1"; cases "allowed res2")
      (simp_all add: key duplicate_run_def pipeline_simps get_cached_def still_number new_control_plane_def new_guard_def
        piece_check_def c1 c2)
  have "limiter_ok \<lfloor>0 :: rat\<rfloor> (rateLimit ?cp)"
    unfolding l by (rule new_limiter_ok [OF default_config_ok])
  from handler_calls_bounded [OF this, of ?es "''t''" 0 sample_runtime] show ?thesis
    unfolding calls l by (simp add: duplicate_run_def still_number valid_time_def max_time_def
        cap_of_def rate_of_def new_limiter_def default_rate_limit_def)
qed

subsection \<open>An execution on its own\<close>

text \<open>
  An auxiliary reading of \<open>execute_alone\<close> for the proofs, in one piece and with the trace left out:
  the result or error, the number of calls of the handler, and the new control plane. \<open>t1\<close> is the
  time of the lookup, \<open>t2\<close> that of the check, \<open>t3\<close> and \<open>t4\<close> those of the store.
\<close>

definition pipeline ::
  "digest runtime \<Rightarrow> number \<times> number \<times> number \<times> number \<Rightarrow> string \<Rightarrow> jsval \<Rightarrow> thrown + 'b \<Rightarrow> 'b InfrGateControlPlane \<Rightarrow>
   (execute_error + 'b) \<times> nat \<times> 'b InfrGateControlPlane" where
  "pipeline env ts tenant payload outcome cp =
     (let (t1, t2, t3, t4) = ts in
      case fingerprint env payload of
        Inl e \<Rightarrow> (Inl (FingerprintFailed e), 0, cp)
      | Inr key \<Rightarrow>
          (let (cached, g) = get_cached (idempotency cp) t1 key; cp = cp\<lparr>idempotency := g\<rparr> in
           case cached of
             Some r \<Rightarrow> (Inr (body r), 0, cp)
           | None \<Rightarrow>
               (let (res, l) = check (rateLimit cp) t2 tenant (num_of_int 1); cp = cp\<lparr>rateLimit := l\<rparr> in
                if \<not> allowed res then (Inl (RateLimitError (rate_limit_message res)), 0, cp)
                else
                  (case outcome of
                     Inl e \<Rightarrow> (Inl (HandlerFailed e), 1, cp)
                   | Inr r \<Rightarrow> (Inr r, 1, cp\<lparr>idempotency := set_cached g t3 t4 key r 200\<rparr>)))))"

lemma execute_alone_settles:
  "\<exists>x. execute_alone env clks rid tenant payload outcome cp =
      (x, snd (snd (pipeline env (clks 1 0, clks 2 3, clks 4 3, clks 4 4) tenant payload outcome cp))) \<and>
    phase x = Settled (fst (pipeline env (clks 1 0, clks 2 3, clks 4 3, clks 4 4) tenant payload outcome cp)) \<and>
    handler_calls x = fst (snd (pipeline env (clks 1 0, clks 2 3, clks 4 3, clks 4 4) tenant payload outcome cp))"
proof (cases "fingerprint env payload")
  case (Inl e)
  then show ?thesis by (simp add: execute_alone_def pipeline_def pipeline_simps)
next
  case (Inr key)
  obtain c g where g: "get_cached (idempotency cp) (clks 1 0) key = (c, g)" by fastforce
  obtain res l where l: "check (rateLimit cp) (clks 2 3) tenant (Fin 1) = (res, l)" by fastforce
  show ?thesis
  proof (cases c)
    case (Some r)
    with Inr g show ?thesis by (simp add: execute_alone_def pipeline_def pipeline_simps)
  next
    case None
    with Inr g l show ?thesis by (cases "allowed res"; cases outcome) (simp_all add: execute_alone_def pipeline_def pipeline_simps)
  qed
qed

text \<open>What a single execution leaves in the trace-free reading, in one equation.\<close>

lemma execute_alone_pipeline:
  assumes "execute_alone env clks rid tenant payload outcome cp = (x, cp')" "phase x = Settled r"
  shows "pipeline env (clks 1 0, clks 2 3, clks 4 3, clks 4 4) tenant payload outcome cp = (r, handler_calls x, cp')"
  using execute_alone_settles [of env clks rid tenant payload outcome cp] assms by (auto intro: prod_eqI)

lemma pipeline_execute_alone:
  assumes "pipeline env (clks 1 0, clks 2 3, clks 4 3, clks 4 4) tenant payload outcome cp = (r, n, cp')"
  shows "\<exists>x. execute_alone env clks rid tenant payload outcome cp = (x, cp') \<and> phase x = Settled r \<and> handler_calls x = n"
  using execute_alone_settles [of env clks rid tenant payload outcome cp] assms by auto

lemma pipeline_stored:
  assumes "pipeline env (t1, t2, t3, t4) tenant payload outcome cp = (Inr r, 1, cp')" "fingerprint env payload = Inr key"
  shows "\<exists>g. idempotency cp' = set_cached g t3 t4 key r 200 \<and> options g = options (idempotency cp)"
  using assms
  by (auto simp: pipeline_def get_cached_def Let_def split: prod.splits option.splits if_splits sum.splits)

lemma pipeline_hit:
  assumes "fst (get_cached (idempotency cp) t1 key) = Some r" "fingerprint env payload = Inr key"
  shows "\<exists>cp'. pipeline env (t1, t2, t3, t4) tenant payload outcome cp = (Inr (body r), 0, cp') \<and> rateLimit cp' = rateLimit cp"
  using assms by (auto simp: pipeline_def Let_def split: prod.splits)

lemma fingerprint_same:
  assumes "plain v" "plain w" "same v w" "getSubtleCrypto env = Inr d"
  shows "fingerprint env v = fingerprint env w"
  using same_canonicalize [OF plain_distinct_keys plain_distinct_keys] assms by (simp add: fingerprint_def)

text \<open>C7: A request that was executed is replayed end to end: when a call of \<open>execute\<close> has run its handler
  and returned \<open>r\<close>, every later call with a payload equal to its payload as data (in any order of
  keys), whatever else has happened to the control plane since that did not store under the same
  fingerprint, returns \<open>r\<close> until the time to live has elapsed, without calling its handler and
  without a token. Request id and tenant play no part: the second call may be another tenant's. The
  store is stamped by the fourth reading of the fourth piece (\<open>t\<close>), the lookup reads the clock
  first in the first piece (\<open>t'\<close>).\<close>

theorem replay_end_to_end:
  assumes "plain p1" "plain p2" "same p1 p2" "getSubtleCrypto env = Inr d"
    and "execute_alone env clks1 rid1 tenant1 p1 outcome1 cp = (x1, cp1)"
    and "phase x1 = Settled (Inr r)" "handler_calls x1 = 1" "clks1 4 3 = num_of_int t"
    and "guard_ttl T (idempotency cp)" "ms_ok t"
    and "idempotency cp2 = foldl guard.step (idempotency cp1) es"
    and "\<forall>e \<in> set es. guard.quiet t' (bufferToHex (d (utf8 (value_text p1)))) e" "t' < t + T * 1000"
    and "clks2 1 0 = num_of_int t'"
  shows "\<exists>x2 cp3. execute_alone env clks2 rid2 tenant2 p2 outcome2 cp2 = (x2, cp3) \<and>
    phase x2 = Settled (Inr r) \<and> handler_calls x2 = 0 \<and> rateLimit cp3 = rateLimit cp2"
proof -
  let ?key = "bufferToHex (d (utf8 (value_text p1)))"
  have key: "fingerprint env p1 = Inr ?key" "fingerprint env p2 = Inr ?key"
    using fingerprint_plain [OF assms(1,4)] fingerprint_same [OF assms(1-4)] by simp_all
  have run: "pipeline env (clks1 1 0, clks1 2 3, num_of_int t, clks1 4 4) tenant1 p1 outcome1 cp = (Inr r, 1, cp1)"
    using execute_alone_pipeline [OF assms(5,6)] assms(7,8) by simp
  obtain g where g: "idempotency cp1 = set_cached g (num_of_int t) (clks1 4 4) ?key r 200" "options g = options (idempotency cp)"
    using pipeline_stored [OF run key(1)] by blast
  let ?resp = "\<lparr>statusCode = 200, body = r, cachedAt = clks1 4 4\<rparr>"
  have st: "idempotency cp1 = guard_store g t ?key ?resp" using g(1) by (simp add: guard_store_def)
  have "guard_ttl T g" using assms(9) g(2) by (simp add: guard_ttl_def)
  from guard.replay [OF this assms(10,12), of ?resp] have "fst (guard_lookup (idempotency cp2) t' ?key) = Some ?resp"
    using assms(11,13) st by simp
  then have "fst (get_cached (idempotency cp2) (clks2 1 0) ?key) = Some ?resp" by (simp only: guard_lookup_def assms(14))
  from pipeline_hit [OF this key(2)] obtain cp3
    where "pipeline env (clks2 1 0, clks2 2 3, clks2 4 3, clks2 4 4) tenant2 p2 outcome2 cp2 = (Inr r, 0, cp3)"
      "rateLimit cp3 = rateLimit cp2"
    by fastforce
  with pipeline_execute_alone [OF this(1)] show ?thesis by blast
qed

definition sample_payload :: "bool \<Rightarrow> jsval" where
  "sample_payload swap = (let a = (''model'', Str ''gpt-4''); b = (''stream'', Bool False) in Obj (if swap then [b, a] else [a, b]))"

theorem replay_end_to_end_witness:
  "\<exists>x1 cp1 x2 cp3. execute_alone sample_runtime (\<lambda>i j. num_of_int 0) ''req_1'' ''tenant'' (sample_payload False)
       (Inr ''answer'') (new_control_plane None) = (x1, cp1) \<and> phase x1 = Settled (Inr ''answer'') \<and> handler_calls x1 = 1 \<and>
     execute_alone sample_runtime (\<lambda>i j. num_of_int 3599999) ''req_2'' ''other'' (sample_payload True)
       (Inr ''second'') cp1 = (x2, cp3) \<and> phase x2 = Settled (Inr ''answer'') \<and> handler_calls x2 = 0"
proof -
  let ?cp = "new_control_plane None :: string InfrGateControlPlane"
  let ?clks = "(\<lambda>i j. num_of_int 0) :: nat \<Rightarrow> clock"
  have p: "plain (sample_payload False)" "plain (sample_payload True)" "same (sample_payload False) (sample_payload True)"
    by (auto simp: sample_payload_def)
  have crypto: "getSubtleCrypto sample_runtime = Inr sample_digest" by (simp add: getSubtleCrypto_def sample_runtime_def)
  obtain res l where c: "check (new_limiter default_rate_limit) (Fin 0) ''tenant'' (Fin 1) = (res, l)" by fastforce
  then have "allowed res" using still_bucket(1) [of "new_limiter default_rate_limit" 100 "''tenant''"] by (simp add: new_limiter_def)
  then obtain cp1 where "pipeline sample_runtime (?clks 1 0, ?clks 2 3, ?clks 4 3, ?clks 4 4) ''tenant''
      (sample_payload False) (Inr ''answer'') ?cp = (Inr ''answer'', 1, cp1)"
    using fingerprint_plain [OF p(1) crypto] c
    by (simp add: pipeline_def new_control_plane_def new_guard_def get_cached_def)
  from pipeline_execute_alone [OF this] obtain x1 where first: "execute_alone sample_runtime ?clks ''req_1'' ''tenant''
      (sample_payload False) (Inr ''answer'') ?cp = (x1, cp1)" "phase x1 = Settled (Inr ''answer'')" "handler_calls x1 = 1"
    by blast
  have "guard_ttl 3600 (idempotency ?cp)"
    by (simp add: guard_ttl_def new_control_plane_def new_guard_def no_idempotency_options_def)
  from replay_end_to_end [OF p crypto first refl this, of cp1 "[]" 3599999 "\<lambda>i j. num_of_int 3599999"
      "''req_2''" "''other''" "Inr ''second''"] first
  show ?thesis by (auto simp: ms_ok_def max_time_def)
qed

subsection \<open>Breakers and scores play no part in an execution\<close>

definition with_health ::
  "(string \<Rightarrow> ProviderCircuitBreaker option) \<Rightarrow> AdapterScorer \<Rightarrow> 'b InfrGateControlPlane \<Rightarrow> 'b InfrGateControlPlane" where
  "with_health B sc cp = cp\<lparr>circuitBreakers := B, scorer := sc\<rparr>"

lemma with_health_fields [simp]:
  "idempotency (with_health B sc cp) = idempotency cp" "rateLimit (with_health B sc cp) = rateLimit cp"
  "(with_health B sc cp)\<lparr>idempotency := g\<rparr> = with_health B sc (cp\<lparr>idempotency := g\<rparr>)"
  "(with_health B sc cp)\<lparr>rateLimit := l\<rparr> = with_health B sc (cp\<lparr>rateLimit := l\<rparr>)"
  by (simp_all add: with_health_def)

lemma resume_health:
  "resume clk outcome (x, with_health B sc cp) = map_prod id (with_health B sc) (resume clk outcome (x, cp))"
  by (cases "phase x")
    (simp_all add: resume_def after_fingerprint_def after_get_def after_check_def after_handler_def after_set_def
      end_step_def Let_def split: sum.split option.split prod.split)

lemma fire_health:
  "fire env (with_health B sc cp, xs) e = map_prod (with_health B sc) id (fire env (cp, xs) e)"
  by (cases e) (simp_all add: resume_health split: prod.split)

text \<open>C10: No execution consults a circuit breaker or a health score: whatever breakers and scores the
  control plane holds, every interleaving of executions goes the same way, with the same results,
  handler calls, errors and traces, and leaves breakers and scores as they were. A provider whose
  circuit is open does not keep \<open>execute\<close> from calling its handler.\<close>

theorem execute_ignores_breakers:
  "foldl (fire env) (cp\<lparr>circuitBreakers := B, scorer := sc\<rparr>, xs) es =
   (let (cp', xs') = foldl (fire env) (cp, xs) es in (cp'\<lparr>circuitBreakers := B, scorer := sc\<rparr>, xs'))"
proof -
  have "foldl (fire env) (with_health B sc cp, xs) es = map_prod (with_health B sc) id (foldl (fire env) (cp, xs) es)"
  proof (induction es arbitrary: cp xs)
    case (Cons e es)
    obtain cp' xs' where "fire env (cp, xs) e = (cp', xs')" by fastforce
    then show ?case using Cons [of cp' xs'] by (simp add: fire_health)
  qed simp
  then show ?thesis by (simp add: with_health_def Let_def map_prod_def split_beta)
qed

end
