(* ===== verification/Client.thy ===== *)
theory Client
  imports ControlPlane
begin

text \<open>
  \<open>InfrGateClient\<close> of \<open>packages/sdk/src/client.ts\<close>: the chat completion call as an execution of the
  control plane. The platform's \<open>fetch\<close> is a parameter, a function from the request to what its
  promise settles with; a response carries what its \<open>json()\<close> yields. The main result: the replay
  cache never confuses two different chat requests.
\<close>

subsection \<open>HTTP\<close>

record http_request =
  rq_url :: "string option"
  rq_method :: string
  rq_headers :: "(string \<times> string) list"
  rq_body :: string

record http_response =
  rs_ok :: bool
  rs_status :: number
  rs_statusText :: string
  rs_json :: "thrown + jsval"

type_synonym fetcher = "http_request \<Rightarrow> thrown + http_response"

subsection \<open>Data\<close>

record InfrGateClientConfig =
  baseUrl :: string
  apiKey :: string
  cfg_controlPlane :: "ControlPlaneConfig option"
  cfg_fetch :: "fetcher option"

datatype role = System | User | Assistant

record ChatMessage =
  msg_role :: role
  msg_content :: string

record ChatCompletionParams =
  model :: string
  messages :: "ChatMessage list"
  temperature :: "number option"
  maxTokens :: "number option"
  stream :: "bool option"
  idempotencyKey :: "string option"

record InfrGateClient =
  client_config :: InfrGateClientConfig
  controlPlane :: "jsval InfrGateControlPlane"

subsection \<open>Operations\<close>

definition new_client :: "InfrGateClientConfig \<Rightarrow> InfrGateClient" where
  "new_client cfg = \<lparr>client_config = cfg, controlPlane = new_control_plane (cfg_controlPlane cfg)\<rparr>"

fun role_text :: "role \<Rightarrow> string" where
  "role_text System = ''system''"
| "role_text User = ''user''"
| "role_text Assistant = ''assistant''"

definition message_value :: "ChatMessage \<Rightarrow> jsval" where
  "message_value m = Obj [(''role'', Str (role_text (msg_role m))), (''content'', Str (msg_content m))]"

definition optional_number :: "number option \<Rightarrow> jsval" where
  "optional_number x = (case x of None \<Rightarrow> Undefined | Some n \<Rightarrow> Num n)"

definition chat_payload :: "ChatCompletionParams \<Rightarrow> jsval" where
  "chat_payload params =
     Obj [(''model'', Str (model params)),
          (''messages'', Arr (map message_value (messages params))),
          (''temperature'', optional_number (temperature params)),
          (''max_tokens'', optional_number (maxTokens params))]"

definition chat_headers :: "InfrGateClientConfig \<Rightarrow> ChatCompletionParams \<Rightarrow> (string \<times> string) list" where
  "chat_headers cfg params =
     (let headers = [(''Content-Type'', ''application/json''), (''Authorization'', ''Bearer '' @ apiKey cfg)]
      in case idempotencyKey params of
           None \<Rightarrow> headers
         | Some k \<Rightarrow> if k = [] then headers else headers @ [(''Idempotency-Key'', k)])"

text \<open>The handler: the request is sent, or serialising it throws (a \<open>BigInt\<close> in it).\<close>

definition chat_handler :: "fetcher \<Rightarrow> InfrGateClientConfig \<Rightarrow> ChatCompletionParams \<Rightarrow> thrown + jsval" where
  "chat_handler global_fetch cfg params =
     (let url = baseUrl cfg @ ''/v1/chat/completions'';
          headers = chat_headers cfg params;
          fetchFn = (case cfg_fetch cfg of Some f \<Rightarrow> f | None \<Rightarrow> global_fetch)
      in case stringify (chat_payload params) of
           Text t \<Rightarrow>
             (case fetchFn \<lparr>rq_url = Some url, rq_method = ''POST'', rq_headers = headers, rq_body = t\<rparr> of
                Inl e \<Rightarrow> Inl e
              | Inr resp \<Rightarrow>
                  if \<not> rs_ok resp then
                    Inl (ErrorObject ''Error''
                      (''Provider error: '' @ num_text (rs_status resp) @ '' '' @ rs_statusText resp))
                  else rs_json resp)
         | _ \<Rightarrow> Inl (ErrorObject ''TypeError'' []))"

text \<open>
  A call that nothing interleaves with. \<open>None\<close> would be a promise that never settles; \<open>uuid\<close> is what
  \<open>crypto.randomUUID()\<close> returns.
\<close>

definition createChatCompletion ::
  "digest runtime \<Rightarrow> (nat \<Rightarrow> clock) \<Rightarrow> string \<Rightarrow> fetcher \<Rightarrow> ChatCompletionParams \<Rightarrow> InfrGateClient \<Rightarrow>
   (execute_error + jsval) option \<times> InfrGateClient" where
  "createChatCompletion env clks uuid global_fetch params c =
     (let requestId = ''req_'' @ uuid;
          tenantKey = apiKey (client_config c);
          payload = chat_payload params;
          (x, cp) = execute_alone env clks requestId tenantKey payload
             (chat_handler global_fetch (client_config c) params) (controlPlane c)
      in (case phase x of Settled r \<Rightarrow> Some r | _ \<Rightarrow> None, c\<lparr>controlPlane := cp\<rparr>))"

subsection \<open>Which requests share a cached answer\<close>

lemma role_text_inj [simp]: "role_text r = role_text r' \<longleftrightarrow> r = r'"
  by (cases r; cases r') simp_all

lemma same_message: "same (message_value m) (message_value n) \<longleftrightarrow> m = n"
  by (auto simp: message_value_def)

lemma same_messages: "same (Arr (map message_value ms)) (Arr (map message_value ns)) \<longleftrightarrow> ms = ns"
proof -
  have "list_all2 same (map message_value ms) (map message_value ns) \<longleftrightarrow> list_all2 (=) ms ns"
    unfolding list_all2_map1 list_all2_map2 same_message ..
  then show ?thesis by (simp add: list_all2_eq)
qed

lemma same_optional: "same (optional_number x) (optional_number y) \<longleftrightarrow> x = y"
  by (auto simp: optional_number_def split: option.splits)

lemma same_chat:
  "same (chat_payload p) (chat_payload q) \<longleftrightarrow>
   model p = model q \<and> messages p = messages q \<and> temperature p = temperature q \<and> maxTokens p = maxTokens q"
  unfolding chat_payload_def using same_messages same_optional
  by (simp del: same.simps(1))

text \<open>The numbers of the request, where they are given, are finite doubles other than minus zero.\<close>

definition number_ok :: "number option \<Rightarrow> bool" where
  "number_ok x \<longleftrightarrow> (case x of None \<Rightarrow> True | Some n \<Rightarrow> plain (Num n))"

definition chat_ok :: "ChatCompletionParams \<Rightarrow> bool" where
  "chat_ok p \<longleftrightarrow> number_ok (temperature p) \<and> number_ok (maxTokens p)"

lemma plain_chat:
  assumes "chat_ok p" shows "plain (chat_payload p)"
proof -
  have "member_ok (optional_number x)" if "number_ok x" for x
    using that by (cases x) (simp_all add: number_ok_def optional_number_def member_ok_def)
  then have "member_ok (optional_number (temperature p))" "member_ok (optional_number (maxTokens p))"
    using assms by (simp_all add: chat_ok_def)
  then show ?thesis
    by (simp add: chat_payload_def message_value_def list_all_iff member_ok_def)
qed

text \<open>C14: The replay cache never confuses two chat requests: their fingerprints are equal exactly when
  model, messages, temperature and token limit are equal, unless the platform's digest collides.
  The idempotency key of the caller and the streaming flag play no part.\<close>

theorem chat_requests_identified:
  assumes "chat_ok p" "chat_ok q" "getSubtleCrypto env = Inr d"
  shows "fingerprint env (chat_payload p) = fingerprint env (chat_payload q) \<longleftrightarrow>
    (model p = model q \<and> messages p = messages q \<and> temperature p = temperature q \<and> maxTokens p = maxTokens q) \<or>
    utf8 (value_text (chat_payload p)) \<noteq> utf8 (value_text (chat_payload q)) \<and>
    d (utf8 (value_text (chat_payload p))) = d (utf8 (value_text (chat_payload q)))"
  using fingerprint_same_iff [OF plain_chat [OF assms(1)] plain_chat [OF assms(2)] assms(3)]
  unfolding same_chat .

definition sample_chat :: ChatCompletionParams where
  "sample_chat = \<lparr>model = ''gpt-4'', messages = [\<lparr>msg_role = User, msg_content = ''Hello''\<rparr>],
     temperature = None, maxTokens = None, stream = None, idempotencyKey = None\<rparr>"

theorem chat_requests_identified_witness:
  "fingerprint sample_runtime (chat_payload sample_chat) =
   fingerprint sample_runtime (chat_payload (sample_chat\<lparr>stream := Some True, idempotencyKey := Some ''k''\<rparr>))"
proof -
  have "chat_ok sample_chat" "chat_ok (sample_chat\<lparr>stream := Some True, idempotencyKey := Some ''k''\<rparr>)"
    by (simp_all add: chat_ok_def number_ok_def sample_chat_def)
  moreover have "getSubtleCrypto sample_runtime = Inr sample_digest"
    by (simp add: getSubtleCrypto_def sample_runtime_def)
  ultimately show ?thesis using chat_requests_identified [of sample_chat] by simp
qed

subsection \<open>Failures\<close>

lemma pipeline_failure_view:
  assumes "pipeline env (num_of_int t1, t2, t3, t4) tenant payload outcome cp = (Inl e, n, cp')" "t1 \<le> t"
  shows "guard_view (idempotency cp') t k = guard_view (idempotency cp) t k"
proof -
  have "idempotency cp' = idempotency cp \<or> (\<exists>key. idempotency cp' = snd (guard_lookup (idempotency cp) t1 key))"
    using assms(1)
    by (auto simp: pipeline_def guard_lookup_def Let_def split: sum.splits prod.splits option.splits if_splits)
      (metis snd_conv)+
  then show ?thesis using guard.lookup_view [OF assms(2), of "idempotency cp"] by auto
qed

text \<open>C15: A failed call is never replayed: when a chat completion ends in an error, whatever the error
  (no digest, a denied check, a provider that answers with an error status, a network failure),
  what the replay cache answers from the time of the lookup on is what it answered before, under
  every key, so that a retry is sent again.\<close>

theorem failures_not_cached:
  assumes "createChatCompletion env clks uuid global_fetch params c = (Some (Inl e), c')"
    and "clks 1 0 = num_of_int t1" "t1 \<le> t"
  shows "guard_view (idempotency (controlPlane c')) t k = guard_view (idempotency (controlPlane c)) t k"
proof -
  let ?pipe = "pipeline env (clks 1 0, clks 2 3, clks 4 3, clks 4 4) (apiKey (client_config c)) (chat_payload params)
     (chat_handler global_fetch (client_config c) params) (controlPlane c)"
  have "fst ?pipe = Inl e" "snd (snd ?pipe) = controlPlane c'"
    using assms(1) execute_alone_settles [of env clks "''req_'' @ uuid" "apiKey (client_config c)" "chat_payload params"
        "chat_handler global_fetch (client_config c) params" "controlPlane c"]
    by (auto simp: createChatCompletion_def)
  then show ?thesis
    using pipeline_failure_view [of env t1 "clks 2 3" "clks 4 3" "clks 4 4"] assms(2,3) by (metis prod.collapse)
qed

definition sample_client :: InfrGateClient where
  "sample_client = new_client \<lparr>baseUrl = ''https://gateway'', apiKey = ''sk'', cfg_controlPlane = None, cfg_fetch = None\<rparr>"

definition failing_fetch :: fetcher where
  "failing_fetch rq = Inr \<lparr>rs_ok = False, rs_status = num_of_int 500, rs_statusText = ''Internal'', rs_json = Inr Null\<rparr>"

theorem failures_not_cached_witness:
  "\<exists>e c'. createChatCompletion sample_runtime (\<lambda>i. still) ''u'' failing_fetch sample_chat sample_client = (Some (Inl e), c') \<and>
     guard_view (idempotency (controlPlane c')) 5 ''k'' = None"
proof -
  let ?h = "chat_handler failing_fetch (client_config sample_client) sample_chat"
  let ?pipe = "pipeline sample_runtime (still 0, still 3, still 3, still 4) (apiKey (client_config sample_client))
     (chat_payload sample_chat) ?h (controlPlane sample_client)"
  have h: "\<exists>e. ?h = Inl e"
    by (simp add: chat_handler_def failing_fetch_def sample_client_def new_client_def Let_def split: canon.split)
  have "\<exists>e. fst ?pipe = Inl e"
    using h by (auto simp: pipeline_def sample_client_def new_client_def new_control_plane_def new_guard_def
        get_cached_def Let_def split: sum.split prod.split)
  then obtain e c' where r: "createChatCompletion sample_runtime (\<lambda>i. still) ''u'' failing_fetch sample_chat sample_client = (Some (Inl e), c')"
    using execute_alone_settles [of sample_runtime "\<lambda>i. still" "''req_'' @ ''u''" "apiKey (client_config sample_client)"
        "chat_payload sample_chat" ?h "controlPlane sample_client"]
    by (auto simp: createChatCompletion_def)
  from failures_not_cached [OF r, of 0 5 "''k''"] r show ?thesis
    by (simp add: still_def guard_view_def sample_client_def new_client_def new_control_plane_def new_guard_def)
qed

end
