(* ===== verification/Routing.thy ===== *)
theory Routing
  imports Client
begin

text \<open>
  The fallback loop of \<open>packages/sdk/examples/multi-provider-routing.ts\<close>: providers are tried in the
  order of their health scores, each through its circuit breaker, until one answers. \<open>clks p i\<close> is
  the \<open>i\<close>-th clock reading of the attempt at provider \<open>p\<close>. The console output is not modelled, but
  what its arguments do is: reading \<open>result.content.slice\<close> can throw.
\<close>

subsection \<open>Operations\<close>

definition example_config :: ControlPlaneConfig where
  "example_config =
     \<lparr>cfg_idempotency = None, cfg_rateLimit = None,
      cfg_circuitBreaker = Some (no_config\<lparr>p_failureThreshold := Present (Some (num_of_int 5)),
        p_recoveryTimeoutMs := Present (Some (num_of_int 30000)),
        p_successThreshold := Present (Some (num_of_int 2))\<rparr>),
      cfg_tracing = Absent\<rparr>"

definition endpoints :: "(string \<times> string) list" where
  "endpoints =
     [(''openai'', ''https://api.openai.com/v1/chat/completions''),
      (''groq'', ''https://api.groq.com/openai/v1/chat/completions''),
      (''gemini'', ''https://generativelanguage.googleapis.com/v1beta/models/gemini-pro:generateContent''),
      (''huggingface'', ''https://api-inference.huggingface.co/models/meta-llama/Meta-Llama-3-8B-Instruct'')]"

definition completion_body :: "string \<Rightarrow> jsval" where
  "completion_body promptText =
     Obj [(''messages'', Arr [Obj [(''role'', Str ''user''), (''content'', Str promptText)]]),
          (''max_tokens'', Num (num_of_int 256))]"

definition completion_request :: "string \<Rightarrow> string \<Rightarrow> http_request" where
  "completion_request provider promptText =
     \<lparr>rq_url = map_of endpoints provider, rq_method = ''POST'',
      rq_headers = [(''Content-Type'', ''application/json'')],
      rq_body = template_text (stringify (completion_body promptText))\<rparr>"

definition provider_outcome :: "string \<Rightarrow> thrown + http_response \<Rightarrow> thrown + jsval" where
  "provider_outcome provider r =
     (case r of
        Inl e \<Rightarrow> Inl e
      | Inr resp \<Rightarrow>
          if \<not> rs_ok resp then Inl (ErrorObject ''Error'' (provider @ '' returned '' @ num_text (rs_status resp)))
          else rs_json resp)"

text \<open>
  One attempt: the breaker is fetched and asked, the request is sent if the call is admitted, and
  the outcome and its latency are recorded. Also yields the requests sent.
\<close>

definition put_breaker :: "string \<Rightarrow> ProviderCircuitBreaker \<Rightarrow> 'b InfrGateControlPlane \<Rightarrow> 'b InfrGateControlPlane" where
  "put_breaker name br cp = cp\<lparr>circuitBreakers := (circuitBreakers cp)(name \<mapsto> br)\<rparr>"

definition record_attempt ::
  "string \<Rightarrow> number \<Rightarrow> breaker_error + jsval \<Rightarrow> 'b InfrGateControlPlane \<Rightarrow> 'b InfrGateControlPlane" where
  "record_attempt provider latency r cp = cp\<lparr>scorer := record_sample (scorer cp) provider latency (isl r)\<rparr>"

definition callProvider ::
  "clock \<Rightarrow> fetcher \<Rightarrow> string \<Rightarrow> string \<Rightarrow> 'b InfrGateControlPlane \<Rightarrow>
   (breaker_error + jsval) \<times> http_request list \<times> 'b InfrGateControlPlane" where
  "callProvider clk fetch provider promptText cp =
     (let startTime = clk 0;
          cp = getCircuitBreaker (clk 1) provider cp
      in case execute_begin (clk 2) (the (circuitBreakers cp provider)) of
           (Inl e, br) \<Rightarrow>
             (Inl e, [], record_attempt provider (num_sub (clk 3) startTime) (Inl e) (put_breaker provider br cp))
         | (Inr st, br) \<Rightarrow>
             (let request = completion_request provider promptText;
                  (r, br) = execute_end (clk 3) (clk 4) (clk 5) st (provider_outcome provider (fetch request)) br
              in (r, [request], record_attempt provider (num_sub (clk 6) startTime) r (put_breaker provider br cp))))"

text \<open>Whether \<open>result.content.slice(0, 100)\<close> returns; it throws when the content has no such method.\<close>

fun content_slices :: "jsval \<Rightarrow> bool" where
  "content_slices (Obj kvs) \<longleftrightarrow>
     (case map_of kvs ''content'' of Some (Str t) \<Rightarrow> True | Some (Arr xs) \<Rightarrow> True | _ \<Rightarrow> False)"
| "content_slices v \<longleftrightarrow> False"

text \<open>\<open>None\<close>: the error that all providers are unavailable.\<close>

fun try_providers ::
  "(string \<Rightarrow> clock) \<Rightarrow> fetcher \<Rightarrow> string \<Rightarrow> string list \<Rightarrow> 'b InfrGateControlPlane \<Rightarrow>
   jsval option \<times> http_request list \<times> 'b InfrGateControlPlane" where
  "try_providers clks fetch promptText [] cp = (None, [], cp)"
| "try_providers clks fetch promptText (p # ps) cp =
     (let (r, sent, cp) = callProvider (clks p) fetch p promptText cp;
          usable = (case r of Inl e \<Rightarrow> False | Inr v \<Rightarrow> content_slices v)
      in if usable then (Some (projr r), sent, cp)
         else (let (r, more, cp) = try_providers clks fetch promptText ps cp in (r, sent @ more, cp)))"

definition providers :: "string list" where
  "providers = [''openai'', ''groq'', ''gemini'', ''huggingface'']"

definition generateCompletion ::
  "(string \<Rightarrow> clock) \<Rightarrow> fetcher \<Rightarrow> string \<Rightarrow> 'b InfrGateControlPlane \<Rightarrow>
   jsval option \<times> http_request list \<times> 'b InfrGateControlPlane" where
  "generateCompletion clks fetch promptText cp =
     (let ranked = rankProviders cp providers in try_providers clks fetch promptText ranked cp)"

text \<open>The entry point; the first component tells whether it ends by printing a fatal error.\<close>

definition main ::
  "(string \<Rightarrow> clock) \<Rightarrow> fetcher \<Rightarrow> 'b InfrGateControlPlane \<Rightarrow> bool \<times> http_request list \<times> 'b InfrGateControlPlane" where
  "main clks fetch cp =
     (case generateCompletion clks fetch ''Explain quantum computing in simple terms'' cp of
        (r, sent, cp) \<Rightarrow> (r = None, sent, cp))"

subsection \<open>What an attempt does\<close>

lemma execute_end_result: "(\<exists>e. r = Inl e \<and> isl (fst (execute_end t1 t2 t3 st r b))) \<or>
    (\<exists>v. r = Inr v \<and> fst (execute_end t1 t2 t3 st r b) = Inr v)"
proof (cases r)
  case (Inl e)
  then show ?thesis by (cases e) simp_all
qed simp

lemma callProvider_cases:
  obtains (refused) e cp' where "callProvider clk fetch p t cp = (Inl e, [], cp')"
  | (failed) e d cp' where "callProvider clk fetch p t cp = (Inl e, [completion_request p t], cp')"
      "provider_outcome p (fetch (completion_request p t)) = Inl d"
  | (answered) v cp' where "callProvider clk fetch p t cp = (Inr v, [completion_request p t], cp')"
      "provider_outcome p (fetch (completion_request p t)) = Inr v"
proof -
  let ?br = "the (circuitBreakers (getCircuitBreaker (clk 1) p cp) p)"
  obtain r0 br where start: "execute_begin (clk 2) ?br = (r0, br)" by fastforce
  show thesis
  proof (cases r0)
    case (Inl e)
    with start show ?thesis by (intro refused) (simp add: callProvider_def)
  next
    case (Inr st)
    let ?o = "provider_outcome p (fetch (completion_request p t))"
    obtain r br' where fin: "execute_end (clk 3) (clk 4) (clk 5) st ?o br = (r, br')" by fastforce
    obtain cp' where c: "callProvider clk fetch p t cp = (r, [completion_request p t], cp')"
      using start Inr fin by (simp add: callProvider_def)
    show ?thesis
    proof (cases r)
      case (Inl e)
      then have "\<exists>d. ?o = Inl d"
        using execute_end_result [of ?o "clk 3" "clk 4" "clk 5" st br] fin by auto
      with c Inl failed show ?thesis by blast
    next
      case (Inr v)
      then have "?o = Inr v"
        using execute_end_result [of ?o "clk 3" "clk 4" "clk 5" st br] fin by auto
      with c Inr answered show ?thesis by blast
    qed
  qed
qed

text \<open>An attempt leaves the breakers of the other providers alone.\<close>

lemma getCircuitBreaker_other: "q \<noteq> p \<Longrightarrow> circuitBreakers (getCircuitBreaker t p cp) q = circuitBreakers cp q"
  by (simp add: getCircuitBreaker_def Let_def split: prod.split)

lemma callProvider_other:
  "callProvider clk fetch p t cp = (r, sent, cp') \<Longrightarrow> q \<noteq> p \<Longrightarrow> circuitBreakers cp' q = circuitBreakers cp q"
  by (auto simp: callProvider_def record_attempt_def put_breaker_def getCircuitBreaker_other Let_def
      split: prod.splits sum.splits)

text \<open>A breaker that is open and may not be probed yet lets no request through.\<close>

definition shut_out :: "(string \<Rightarrow> clock) \<Rightarrow> string \<Rightarrow> 'b InfrGateControlPlane \<Rightarrow> bool" where
  "shut_out clks p cp \<longleftrightarrow>
     (case circuitBreakers cp p of
        None \<Rightarrow> False
      | Some br \<Rightarrow> state br = OPEN \<and> \<not> canAttemptHalfOpen (clks p 1) br \<and> \<not> canAttemptHalfOpen (clks p 2) br)"

lemma shut_out_refused:
  assumes "shut_out clks p cp"
  shows "fst (snd (callProvider (clks p) fetch p t cp)) = []"
proof -
  obtain br where br: "circuitBreakers cp p = Some br" "state br = OPEN"
    "\<not> canAttemptHalfOpen (clks p 1) br" "\<not> canAttemptHalfOpen (clks p 2) br"
    using assms by (auto simp: shut_out_def split: option.splits)
  have "circuitBreakers (getCircuitBreaker (clks p 1) p cp) p = Some br"
    using br by (simp add: getCircuitBreaker_def getState_def)
  then show ?thesis
    using br by (simp add: callProvider_def execute_begin_def getState_def)
qed

text \<open>The refusal is recorded all the same, as a failure of the provider.\<close>

theorem refusals_recorded:
  assumes "shut_out clks p cp" "callProvider (clks p) fetch p t cp = (r, sent, cp')"
  shows "sent = [] \<and> isl r \<and> scorer cp' =
    record_sample (updateAvailability (scorer cp) p OPEN) p (num_sub (clks p 3) (clks p 0)) True"
proof -
  obtain br where br: "circuitBreakers cp p = Some br" "state br = OPEN"
    "\<not> canAttemptHalfOpen (clks p 1) br" "\<not> canAttemptHalfOpen (clks p 2) br"
    using assms(1) by (auto simp: shut_out_def split: option.splits)
  then show ?thesis
    using assms(2) by (auto simp: callProvider_def getCircuitBreaker_def execute_begin_def getState_def
        record_attempt_def put_breaker_def)
qed

lemma callProvider_shut_out:
  assumes "callProvider (clks p) fetch p t cp = (r, sent, cp')" "q \<noteq> p"
  shows "shut_out clks q cp' \<longleftrightarrow> shut_out clks q cp"
  using callProvider_other [OF assms] by (simp add: shut_out_def)

subsection \<open>The fallback loop\<close>

definition usable :: "fetcher \<Rightarrow> string \<Rightarrow> string \<Rightarrow> jsval \<Rightarrow> bool" where
  "usable fetch t p v \<longleftrightarrow> provider_outcome p (fetch (completion_request p t)) = Inr v \<and> content_slices v"

text \<open>
  When a provider's breaker lets the request through, read off the state before the loop: a circuit
  that is closed (or that does not exist yet) does, an open one when the recovery timeout has passed
  at one of the two readings of the attempt, and a half-open one while a probe may still start.
\<close>

definition probe_due :: "number \<Rightarrow> ProviderCircuitBreaker \<Rightarrow> bool" where
  "probe_due t br \<longleftrightarrow> (\<exists>opened \<in> set_option (openedAt br).
     \<not> num_falsy opened \<and> num_ge t (num_add opened (recoveryTimeoutMs (cb_config br))))"

definition slot_free :: "int \<Rightarrow> ProviderCircuitBreaker \<Rightarrow> bool" where
  "slot_free running br \<longleftrightarrow> \<not> num_ge (num_of_int running) (halfOpenMaxRequests (cb_config br))"

definition lets_through :: "(string \<Rightarrow> clock) \<Rightarrow> 'b InfrGateControlPlane \<Rightarrow> string \<Rightarrow> bool" where
  "lets_through clks cp p \<longleftrightarrow>
     (case circuitBreakers cp p of
        None \<Rightarrow> True
      | Some br \<Rightarrow> (case state br of
            CLOSED \<Rightarrow> True
          | OPEN \<Rightarrow> (probe_due (clks p 1) br \<or> probe_due (clks p 2) br) \<and> slot_free 0 br
          | HALF_OPEN \<Rightarrow> slot_free (halfOpenCount br) br))"

lemma probe_due_attempt: "canAttemptHalfOpen t br = probe_due t br"
  by (auto simp: canAttemptHalfOpen_def probe_due_def split: option.split)

lemma shut_out_not_through: "shut_out clks p cp \<Longrightarrow> \<not> lets_through clks cp p"
  by (auto simp: shut_out_def lets_through_def probe_due_attempt split: option.splits)

lemma execute_begin_admits:
  "isl (fst (execute_begin t2 (snd (getState t1 br)))) \<longleftrightarrow>
     \<not> (case state br of
          CLOSED \<Rightarrow> True
        | OPEN \<Rightarrow> (probe_due t1 br \<or> probe_due t2 br) \<and> slot_free 0 br
        | HALF_OPEN \<Rightarrow> slot_free (halfOpenCount br) br)"
  by (cases "state br")
    (auto simp: execute_begin_def getState_def Let_def probe_due_attempt slot_free_def)

lemma callProvider_sent:
  assumes "callProvider (clks p) fetch p t cp = (r, sent, cp')"
  shows "if lets_through clks cp p then sent = [completion_request p t] else sent = [] \<and> isl r"
proof -
  define b0 where "b0 = (case circuitBreakers cp p of
      None \<Rightarrow> new_breaker p (case cfg_circuitBreaker (config cp) of None \<Rightarrow> no_config | Some c \<Rightarrow> c)
    | Some br \<Rightarrow> br)"
  have "circuitBreakers (getCircuitBreaker (clks p 1) p cp) p = Some (snd (getState (clks p 1) b0))"
    by (simp add: getCircuitBreaker_def b0_def Let_def split: prod.split)
  moreover have "isl (fst (execute_begin (clks p 2) (snd (getState (clks p 1) b0)))) \<longleftrightarrow> \<not> lets_through clks cp p"
    by (simp add: execute_begin_admits lets_through_def b0_def new_breaker_def split: option.split del: One_nat_def)
  ultimately show ?thesis
    using assms by (auto simp: callProvider_def Let_def split: prod.splits sum.splits)
qed

lemma callProvider_result:
  assumes "callProvider (clks p) fetch p t cp = (r, sent, cp')" "lets_through clks cp p"
  shows "(\<exists>v. r = Inr v \<and> provider_outcome p (fetch (completion_request p t)) = Inr v) \<or>
    isl r \<and> isl (provider_outcome p (fetch (completion_request p t)))"
  using assms callProvider_sent [of clks p fetch t cp r sent cp']
  by (cases rule: callProvider_cases [of "clks p" fetch p t cp]) auto

lemma callProvider_through:
  assumes "callProvider (clks p) fetch p t cp = (r, sent, cp')" "q \<noteq> p"
  shows "lets_through clks cp' q \<longleftrightarrow> lets_through clks cp q"
  using callProvider_other [OF assms] by (simp add: lets_through_def)

text \<open>
  What the loop returns and sends, over the providers that let the request through: \<open>failed\<close> are
  those before the first usable answer, \<open>rest\<close> those from it on.
\<close>

lemma try_providers_falls_back:
  assumes "try_providers clks fetch t ps cp = (r, sent, cp')" "distinct ps"
  shows "\<exists>failed rest. filter (lets_through clks cp) ps = failed @ rest \<and>
    (\<forall>p \<in> set failed. \<forall>v. \<not> usable fetch t p v) \<and>
    (case rest of
       [] \<Rightarrow> r = None \<and> sent = map (\<lambda>p. completion_request p t) failed
     | p # ps \<Rightarrow> (\<exists>v. r = Some v \<and> usable fetch t p v) \<and>
         sent = map (\<lambda>p. completion_request p t) (failed @ [p]))"
  using assms
proof (induction ps arbitrary: r sent cp)
  case Nil
  then show ?case by simp
next
  case (Cons p ps)
  obtain r0 s0 cp0 where c: "callProvider (clks p) fetch p t cp = (r0, s0, cp0)" by (rule prod_cases3)
  have same: "filter (lets_through clks cp0) ps = filter (lets_through clks cp) ps"
  proof (rule filter_cong [OF refl])
    fix q
    assume "q \<in> set ps"
    then have "q \<noteq> p" using Cons.prems(2) by auto
    with c show "lets_through clks cp0 q = lets_through clks cp q" by (rule callProvider_through)
  qed
  consider (shut) "\<not> lets_through clks cp p" "s0 = []" "isl r0"
    | (bad) "lets_through clks cp p" "s0 = [completion_request p t]" "\<forall>v. \<not> usable fetch t p v"
        "\<not> (case r0 of Inl e \<Rightarrow> False | Inr v \<Rightarrow> content_slices v)"
    | (good) v where "lets_through clks cp p" "s0 = [completion_request p t]" "r0 = Inr v" "usable fetch t p v"
    using callProvider_sent [of clks p fetch t cp r0 s0 cp0] callProvider_result [of clks p fetch t cp r0 s0 cp0] c
    by (cases "lets_through clks cp p"; cases "\<exists>v. usable fetch t p v")
      (auto simp: usable_def isl_def split: sum.splits)
  then show ?case
  proof cases
    case shut
    then obtain more where t: "try_providers clks fetch t ps cp0 = (r, more, cp')" "sent = more"
      using Cons.prems(1) c by (auto simp: isl_def split: prod.splits)
    from Cons.IH [OF t(1)] Cons.prems(2) show ?thesis unfolding same t(2) using shut(1) by simp
  next
    case bad
    then obtain more where t: "try_providers clks fetch t ps cp0 = (r, more, cp')" "sent = s0 @ more"
      using Cons.prems(1) c by (auto split: prod.splits)
    obtain failed rest where IH: "filter (lets_through clks cp) ps = failed @ rest"
      "\<forall>p \<in> set failed. \<forall>v. \<not> usable fetch t p v"
      "case rest of [] \<Rightarrow> r = None \<and> more = map (\<lambda>p. completion_request p t) failed
       | p # ps \<Rightarrow> (\<exists>v. r = Some v \<and> usable fetch t p v) \<and>
           more = map (\<lambda>p. completion_request p t) (failed @ [p])"
      using Cons.IH [OF t(1)] Cons.prems(2) unfolding same by auto
    show ?thesis
      using IH bad t(2) by (intro exI [of _ "p # failed"] exI [of _ rest]) (auto split: list.splits)
  next
    case good
    then have "r = Some v" "sent = [completion_request p t]"
      using Cons.prems(1) c by (simp_all add: usable_def)
    then show ?thesis
      using good by (intro exI [of _ "[]"] exI [of _ "filter (lets_through clks cp) (p # ps)"]) auto
  qed
qed

lemma mset_insert_by: "mset (insert_by cmp x ys) = add_mset x (mset ys)"
  by (induction ys) simp_all

lemma mset_sort_by: "mset (sort_by cmp xs) = mset xs"
  by (induction xs) (simp_all add: sort_by_def mset_insert_by)

lemma mset_rankProviders: "mset (rankProviders cp ps) = mset ps"
  by (simp add: rankProviders_def mset_sort_by multiset.map_comp comp_def)

lemma ranked_distinct: "distinct ps \<Longrightarrow> distinct (rankProviders cp ps)"
  using mset_eq_imp_distinct_iff [OF mset_rankProviders] by blast

lemma distinct_providers: "distinct providers"
  by (simp add: providers_def)

text \<open>C12: The fallback loop asks, in the order of the ranking (a permutation of the four providers),
  exactly the providers whose breaker lets the request through, up to and including the first one
  with a usable answer, which it returns. A provider that fails is followed by the next one; a
  circuit that is open and not due for a probe is passed over without a request; and all are
  reported unavailable exactly when every provider that lets the request through has been asked and
  none gave a usable answer.\<close>

theorem fallback_order:
  assumes "generateCompletion clks fetch t cp = (r, sent, cp')"
  shows "mset (rankProviders cp providers) = mset providers \<and>
    (\<forall>p. shut_out clks p cp \<longrightarrow> \<not> lets_through clks cp p) \<and>
    (\<exists>failed rest. filter (lets_through clks cp) (rankProviders cp providers) = failed @ rest \<and>
      (\<forall>p \<in> set failed. \<forall>v. \<not> usable fetch t p v) \<and>
      (case rest of
         [] \<Rightarrow> r = None \<and> sent = map (\<lambda>p. completion_request p t) failed
       | p # ps \<Rightarrow> (\<exists>v. r = Some v \<and> usable fetch t p v) \<and>
           sent = map (\<lambda>p. completion_request p t) (failed @ [p])))"
proof -
  have "distinct (rankProviders cp providers)" by (rule ranked_distinct [OF distinct_providers])
  with try_providers_falls_back [OF _ this, of clks fetch t cp r sent cp'] assms show ?thesis
    by (simp add: generateCompletion_def mset_rankProviders shut_out_not_through)
qed

text \<open>A \<open>fetch\<close> that always answers with status 200 and an object.\<close>

definition ok_fetch :: "(http_request \<Rightarrow> (string \<times> jsval) list) \<Rightarrow> fetcher" where
  "ok_fetch answer rq =
     Inr \<lparr>rs_ok = True, rs_status = num_of_int 200, rs_statusText = ''OK'', rs_json = Inr (Obj (answer rq))\<rparr>"

lemma fresh_call_sent:
  assumes "circuitBreakers cp p = None"
  shows "fst (snd (callProvider clk fetch p t cp)) = [completion_request p t]"
  using assms by (simp add: callProvider_def getCircuitBreaker_def getState_def new_breaker_def execute_begin_def
      Let_def split: prod.split)

lemma try_fresh:
  assumes "distinct ps" "\<forall>p \<in> set ps. circuitBreakers cp p = None" "\<forall>p \<in> set ps. \<forall>v. \<not> usable fetch t p v"
  shows "fst (try_providers clks fetch t ps cp) = None \<and>
    fst (snd (try_providers clks fetch t ps cp)) = map (\<lambda>p. completion_request p t) ps"
  using assms
proof (induction ps arbitrary: cp)
  case (Cons p ps)
  obtain r cp' where c: "callProvider (clks p) fetch p t cp = (r, [completion_request p t], cp')"
    using fresh_call_sent [of cp p "clks p" fetch t] Cons.prems(2) by (cases "callProvider (clks p) fetch p t cp") auto
  have "\<not> (case r of Inl e \<Rightarrow> False | Inr v \<Rightarrow> content_slices v)"
    using c Cons.prems(3) by (cases rule: callProvider_cases [of "clks p" fetch p t cp]) (auto simp: usable_def)
  moreover have "\<forall>q \<in> set ps. circuitBreakers cp' q = None"
    using Cons.prems(1,2) callProvider_other [OF c] by (metis distinct.simps(2) list.set_intros(2))
  ultimately show ?case using c Cons.IH [of cp'] Cons.prems by (simp add: split_beta)
qed simp

text \<open>C35: As written the example never succeeds: the providers it calls answer in the shape of a chat
  completion, which has no top-level \<open>content\<close>, so reading \<open>result.content.slice\<close> throws inside
  the \<open>try\<close>: every provider is asked, every one answers, and all are reported unavailable.\<close>

theorem chat_answers_unusable:
  assumes "\<And>rq. map_of (answer rq) ''content'' = None"
  shows "fst (generateCompletion clks (ok_fetch answer) t (new_control_plane (Some example_config) :: 'b InfrGateControlPlane)) = None \<and>
    length (fst (snd (generateCompletion clks (ok_fetch answer) t (new_control_plane (Some example_config) :: 'b InfrGateControlPlane)))) = 4"
proof -
  let ?cp = "new_control_plane (Some example_config) :: 'b InfrGateControlPlane"
  let ?ranked = "rankProviders ?cp providers"
  have "\<not> usable (ok_fetch answer) t p v" for p v
    using assms by (auto simp: usable_def provider_outcome_def ok_fetch_def)
  then have "fst (try_providers clks (ok_fetch answer) t ?ranked ?cp) = None \<and>
      fst (snd (try_providers clks (ok_fetch answer) t ?ranked ?cp)) = map (\<lambda>p. completion_request p t) ?ranked"
    by (intro try_fresh ranked_distinct distinct_providers) (simp_all add: new_control_plane_def)
  moreover have "length ?ranked = 4"
    using mset_eq_length [OF mset_rankProviders, of ?cp providers] by (simp add: providers_def)
  ultimately show ?thesis by (simp add: generateCompletion_def)
qed

definition chat_answer :: "http_request \<Rightarrow> (string \<times> jsval) list" where
  "chat_answer rq = [(''id'', Str ''chatcmpl-1''),
     (''choices'', Arr [Obj [(''message'', Obj [(''role'', Str ''assistant''), (''content'', Str ''Hi'')])]])]"

theorem chat_answers_unusable_witness:
  "fst (generateCompletion (\<lambda>p i. num_of_int 0) (ok_fetch chat_answer) ''Explain''
     (new_control_plane (Some example_config) :: unit InfrGateControlPlane)) = None"
  using chat_answers_unusable [of chat_answer "\<lambda>p i. num_of_int 0" "''Explain''", where 'b = unit] by (simp add: chat_answer_def)

definition content_answer :: "http_request \<Rightarrow> (string \<times> jsval) list" where
  "content_answer rq = [(''content'', Str ''Hi''), (''model'', Str ''m'')]"

text \<open>A \<open>fetch\<close> at which the first provider is down and the others answer.\<close>

definition partial_outage :: fetcher where
  "partial_outage rq =
     (if rq_url rq = map_of endpoints ''openai''
      then Inr \<lparr>rs_ok = False, rs_status = num_of_int 503, rs_statusText = ''Unavailable'', rs_json = Inr Null\<rparr>
      else ok_fetch content_answer rq)"

lemma no_difference: "\<not> num_less (num_of_int 0) (num_sub c c)"
proof (cases c)
  case (Fin x)
  have "round_to (x < 0 \<and> 0 < x) 0 = Fin 0" using round_to_int [of 0 "x < 0 \<and> 0 < x"] by auto
  moreover have "round_to False 0 = Fin 0" using round_to_int [of 0 False] by simp
  ultimately show ?thesis using Fin by (simp add: num_sub_def num_eval)
qed (use round_to_int [of 0 False] in \<open>simp_all add: num_sub_def num_eval\<close>)

lemma sort_by_equal:
  "\<forall>a \<in> set xs. snd a = c \<Longrightarrow> sort_by (\<lambda>a b. num_sub (snd b) (snd a)) xs = xs"
proof (induction xs)
  case (Cons x xs)
  then show ?case using no_difference by (cases xs) (simp_all add: sort_by_def)
qed (simp add: sort_by_def)

lemma fresh_score: "calculateScore (new_scorer a) p w = calculateScore (new_scorer a) [] w"
  by (simp add: calculateScore_def getHealth_def new_scorer_def)

lemma fresh_ranking: "rankProviders (new_control_plane None :: unit InfrGateControlPlane) providers = providers"
proof -
  let ?s = "calculateScore (new_scorer default_alpha) [] no_weights"
  have fresh: "scorer (new_control_plane None :: unit InfrGateControlPlane) = new_scorer default_alpha"
    by (simp add: new_control_plane_def)
  have "rankProviders (new_control_plane None :: unit InfrGateControlPlane) providers =
      map fst (sort_by (\<lambda>a b. num_sub (snd b) (snd a)) (map (\<lambda>p. (p, ?s)) providers))"
    unfolding rankProviders_def Let_def fresh
    by (intro arg_cong [of _ _ "\<lambda>xs. map fst (sort_by _ xs)"] map_cong refl)
      (simp only: prod.inject simp_thms, rule fresh_score)
  also have "\<dots> = providers" by (subst sort_by_equal [of _ ?s]) (simp_all add: comp_def)
  finally show ?thesis .
qed

theorem fallback_order_witness:
  "\<exists>cp'. generateCompletion (\<lambda>p i. num_of_int 0) partial_outage ''Explain''
       (new_control_plane None :: unit InfrGateControlPlane) =
     (Some (Obj [(''content'', Str ''Hi''), (''model'', Str ''m'')]),
      [completion_request ''openai'' ''Explain'', completion_request ''groq'' ''Explain''], cp')"
proof -
  obtain r sent cp' where g: "generateCompletion (\<lambda>p i. num_of_int 0) partial_outage ''Explain''
      (new_control_plane None :: unit InfrGateControlPlane) = (r, sent, cp')"
    by (rule prod_cases3)
  have all: "filter (lets_through (\<lambda>p i. num_of_int 0) (new_control_plane None :: unit InfrGateControlPlane)) providers = providers"
    by (simp add: providers_def lets_through_def new_control_plane_def)
  have down: "\<not> usable partial_outage ''Explain'' ''openai'' v" for v
    by (simp add: usable_def provider_outcome_def partial_outage_def completion_request_def)
  have up: "usable partial_outage ''Explain'' p v \<longleftrightarrow> v = Obj [(''content'', Str ''Hi''), (''model'', Str ''m'')]"
    if "p \<in> set (tl providers)" for p v
    using that by (auto simp: usable_def provider_outcome_def partial_outage_def completion_request_def ok_fetch_def
        content_answer_def endpoints_def providers_def)
  obtain failed rest where f: "providers = failed @ rest"
    "\<forall>p \<in> set failed. \<forall>v. \<not> usable partial_outage ''Explain'' p v"
    "case rest of [] \<Rightarrow> r = None \<and> sent = map (\<lambda>p. completion_request p ''Explain'') failed
      | p # ps \<Rightarrow> (\<exists>v. r = Some v \<and> usable partial_outage ''Explain'' p v) \<and>
          sent = map (\<lambda>p. completion_request p ''Explain'') (failed @ [p])"
    using fallback_order [OF g] unfolding fresh_ranking all by blast
  have "failed = [''openai'']"
    using f down up by (cases failed; cases "tl failed") (auto simp: providers_def split: list.splits)
  then have "rest = [''groq'', ''gemini'', ''huggingface'']" using f(1) by (simp add: providers_def)
  then show ?thesis using f(3) \<open>failed = [''openai'']\<close> g up by (auto simp: providers_def)
qed

end
