(* ===== verification/RoutingHealth.thy ===== *)
theory RoutingHealth
  imports Routing
begin

text \<open>
  Completions one after the other, as the routing example makes them. The breakers, the scorer and
  the ranking meet here: what the properties of \<open>CircuitBreaker\<close>, \<open>AdapterScorer\<close> and \<open>ControlPlane\<close>
  assume of a control plane holds of every one that a sequence of completions can produce.
\<close>

subsection \<open>Healthy control planes\<close>

text \<open>Between two attempts no call is in flight, so the count of probes must be zero.\<close>

definition healthy_breaker :: "string \<Rightarrow> ProviderCircuitBreaker \<Rightarrow> bool" where
  "healthy_breaker p b \<longleftrightarrow> breaker_inv b \<and> providerName b = p \<and> halfOpenCount b = 0"

definition healthy :: "'b InfrGateControlPlane \<Rightarrow> bool" where
  "healthy cp \<longleftrightarrow> scorer_ok (scorer cp) \<and> (\<forall>p b. circuitBreakers cp p = Some b \<longrightarrow> healthy_breaker p b)"

lemma new_plane_healthy: "healthy (new_control_plane cfg)"
  by (simp add: healthy_def new_control_plane_def new_scorer_ok unit_default_alpha Let_def)

lemma getState_healthy: "healthy_breaker p b \<Longrightarrow> healthy_breaker p (snd (getState t b))"
  using getState_inv [of b t] by (auto simp: healthy_breaker_def getState_def Let_def)

lemma new_breaker_healthy: "healthy_breaker p (new_breaker p cfg)"
  by (simp add: healthy_breaker_def new_breaker_inv) (simp add: new_breaker_def)

lemma getCircuitBreaker_healthy:
  assumes "healthy cp"
  shows "healthy (getCircuitBreaker t p cp)" "healthy_breaker p (the (circuitBreakers (getCircuitBreaker t p cp) p))"
proof -
  define b where "b = (case circuitBreakers cp p of
      None \<Rightarrow> new_breaker p (case cfg_circuitBreaker (config cp) of None \<Rightarrow> no_config | Some c \<Rightarrow> c) | Some b \<Rightarrow> b)"
  have "healthy_breaker p b"
    using assms new_breaker_healthy by (auto simp: b_def healthy_def split: option.split)
  then have b: "healthy_breaker p (snd (getState t b))" by (rule getState_healthy)
  obtain st b' where g: "getState t b = (st, b')" by fastforce
  have "scorer_ok (updateAvailability (scorer cp) p st)"
    using scorer_event_ok [of "scorer cp" "Inr (p, st)"] assms by (simp add: healthy_def)
  then show "healthy (getCircuitBreaker t p cp)" "healthy_breaker p (the (circuitBreakers (getCircuitBreaker t p cp) p))"
    using assms b g by (auto simp: getCircuitBreaker_def healthy_def b_def [symmetric])
qed

text \<open>A call that nothing interleaves with gives back the probe it has taken.\<close>

lemma recordSuccess_name [simp]: "providerName (recordSuccess t b) = providerName b"
  by (simp add: recordSuccess_def Let_def)

lemma recordFailure_name [simp]: "providerName (recordFailure t1 t2 t3 msg b) = providerName b"
  by (simp add: recordFailure_def shouldOpen_def getRecentFailures_def Let_def)

lemma execute_finally_inv [simp]: "breaker_inv (execute_finally s b) = breaker_inv b"
  by (simp add: breaker_inv_def)

lemma execute_healthy:
  assumes "healthy_breaker p b" "execute_begin t0 b = (Inr st, b')"
  shows "healthy_breaker p (snd (execute_end t1 t2 t3 st r b'))"
proof -
  let ?b = "snd (getState t0 b)"
  have b: "breaker_inv ?b" "providerName ?b = p" "halfOpenCount ?b = 0"
    using getState_healthy [OF assms(1), of t0] by (simp_all add: healthy_breaker_def)
  have eq: "b' = (if st = HALF_OPEN then ?b\<lparr>halfOpenCount := halfOpenCount ?b + 1\<rparr> else ?b)"
    using execute_begin_state [OF assms(2), THEN conjunct1] by (simp only: Let_def sum.case)
  have b': "breaker_inv b'" "providerName b' = p" "halfOpenCount b' = (if st = HALF_OPEN then 1 else 0)"
    unfolding eq using b by simp_all
  from execute_end_cases [of t1 t2 t3 st r b'] show ?thesis
    by (elim disjE exE) (simp_all add: healthy_breaker_def recordSuccess_inv recordFailure_inv b')
qed

lemma reject_healthy:
  assumes "healthy_breaker p b" "execute_begin t0 b = (Inl e, b')"
  shows "healthy_breaker p b'"
  using getState_healthy [OF assms(1), of t0] execute_begin_state [OF assms(2)] by simp

subsection \<open>Attempts and completions\<close>

text \<open>The clock of an attempt shows whole milliseconds in the range of dates and never goes back.\<close>

definition steady :: "clock \<Rightarrow> bool" where
  "steady clk \<longleftrightarrow> (\<exists>ts. mono ts \<and> (\<forall>i. clk i = num_of_int (ts i) \<and> 0 \<le> ts i \<and> ts i \<le> max_time))"

lemma latency_int: "0 \<le> n \<Longrightarrow> n \<le> max_time \<Longrightarrow> latency_num (num_of_int n)"
proof -
  assume n: "0 \<le> n" "n \<le> max_time"
  have "(of_int n :: rat) \<le> of_int max_time" using n by simp
  also have "\<dots> \<le> pow2 100" by (simp add: max_time_def pow2_def)
  finally have "(of_int n :: rat) \<le> pow2 100" .
  moreover have "is_double (num_of_int n)" using n by (intro is_double_int) (simp add: max_time_def)
  ultimately show ?thesis using n by (simp add: latency_num_def del: is_double.simps)
qed

lemma steady_latency: "steady clk \<Longrightarrow> latency_num (num_sub (clk i) (clk 0))"
proof -
  assume "steady clk"
  then obtain ts where ts: "mono ts" "\<And>i. clk i = num_of_int (ts i)" "\<And>i. 0 \<le> ts i" "\<And>i. ts i \<le> max_time"
    by (auto simp: steady_def)
  have d: "0 \<le> ts i - ts 0" "ts i - ts 0 \<le> max_time" using monoD [OF ts(1), of 0 i] ts(3) [of 0] ts(4) [of i] by auto
  then have "num_sub (clk i) (clk 0) = num_of_int (ts i - ts 0)"
    unfolding ts(2) by (intro num_sub_int) (simp add: max_time_def)
  then show ?thesis using latency_int [OF d] by simp
qed

lemma record_healthy:
  assumes "healthy cp" "healthy_breaker p b" "latency_num lat"
  shows "healthy (record_attempt p lat r (put_breaker p b cp))"
  using assms scorer_event_ok [of "scorer cp" "Inl (p, lat, isl r)"]
  by (simp add: healthy_def record_attempt_def put_breaker_def)

lemma callProvider_healthy:
  assumes "healthy cp" "steady clk"
  shows "healthy (snd (snd (callProvider clk fetch p t cp)))"
proof -
  let ?cp = "getCircuitBreaker (clk 1) p cp"
  note cp = getCircuitBreaker_healthy [OF assms(1), where t = "clk 1" and p = p]
  obtain r b where start: "execute_begin (clk 2) (the (circuitBreakers ?cp p)) = (r, b)" by fastforce
  show ?thesis
  proof (cases r)
    case (Inl e)
    then show ?thesis
      using record_healthy [OF cp(1) reject_healthy [OF cp(2)] steady_latency [OF assms(2)]] start
      by (simp add: callProvider_def)
  next
    case (Inr st)
    let ?settled = "execute_end (clk 3) (clk 4) (clk 5) st (provider_outcome p (fetch (completion_request p t))) b"
    have "healthy_breaker p (snd ?settled)" using execute_healthy [OF cp(2)] start Inr by simp
    then show ?thesis
      using record_healthy [OF cp(1) _ steady_latency [OF assms(2)]] start Inr
      by (simp add: callProvider_def split_beta Let_def)
  qed
qed

lemma try_providers_healthy:
  "healthy cp \<Longrightarrow> \<forall>p. steady (clks p) \<Longrightarrow> healthy (snd (snd (try_providers clks fetch t ps cp)))"
proof (induction ps arbitrary: cp)
  case (Cons p ps)
  obtain r sent cp' where c: "callProvider (clks p) fetch p t cp = (r, sent, cp')" by (rule prod_cases3)
  have "healthy cp'" using callProvider_healthy [OF Cons.prems(1), of "clks p" fetch p t] Cons.prems(2) c by simp
  then show ?case using Cons.IH [OF _ Cons.prems(2)] c by (simp add: split_beta Let_def)
qed simp

text \<open>A sequence of completions, each with its clocks, its answers and its prompt.\<close>

type_synonym completion = "(string \<Rightarrow> clock) \<times> fetcher \<times> string"

fun complete :: "'b InfrGateControlPlane \<Rightarrow> completion \<Rightarrow> 'b InfrGateControlPlane" where
  "complete cp (clks, fetch, t) = snd (snd (generateCompletion clks fetch t cp))"

lemma completions_healthy:
  "healthy cp \<Longrightarrow> \<forall>(clks, fetch, t) \<in> set cs. \<forall>p. steady (clks p) \<Longrightarrow> healthy (foldl complete cp cs)"
proof (induction cs arbitrary: cp)
  case (Cons c cs)
  obtain clks fetch t where c: "c = (clks, fetch, t)" by (rule prod_cases3)
  have "healthy (complete cp c)"
    using Cons.prems by (simp add: c generateCompletion_def try_providers_healthy)
  then show ?case using Cons by simp
qed simp

subsection \<open>What every control plane in use satisfies\<close>

lemma probe_admitted:
  assumes "healthy_breaker p b" "\<not> num_ge (num_of_int 0) (halfOpenMaxRequests (cb_config b))"
    and "state b = HALF_OPEN \<or> state b = OPEN \<and> canAttemptHalfOpen t b"
  shows "fst (execute_begin t b) = Inr HALF_OPEN"
  using assms by (auto simp: healthy_breaker_def execute_begin_def getState_def)

text \<open>C30: After any sequence of completions on clocks that do not go back, whatever the providers
  answered, the ranking is the stable sort by score and every health signal is in its range; every
  breaker stands under its own name, satisfies the invariant of its state machine and has given
  back all its probes, so that a provider whose recovery timeout has elapsed is probed by its next
  call: the faults of overlapping probes do not arise in sequential use.\<close>

theorem sequential_use_sound:
  fixes cfg :: "ControlPlaneConfig option"
  assumes "\<forall>(clks, fetch, t) \<in> set cs. \<forall>p. steady (clks p)"
  defines "cp \<equiv> foldl complete (new_control_plane cfg :: 'b InfrGateControlPlane) cs"
  shows "rankProviders cp ps = sort_key (\<lambda>p. - score_of cp p) ps \<and> signals_ok (getHealth (scorer cp) p) \<and>
    (\<forall>b. circuitBreakers cp p = Some b \<longrightarrow>
       providerName b = p \<and> breaker_inv b \<and> halfOpenCount b = 0 \<and>
       (\<not> num_ge (num_of_int 0) (halfOpenMaxRequests (cb_config b)) \<and>
          (state b = HALF_OPEN \<or> state b = OPEN \<and> canAttemptHalfOpen t b) \<longrightarrow>
        fst (execute_begin t b) = Inr HALF_OPEN))"
proof -
  have h: "healthy cp" unfolding cp_def by (rule completions_healthy [OF new_plane_healthy assms(1)])
  then have "scorer_ok (scorer cp)" by (simp add: healthy_def)
  then have "rankProviders cp ps = sort_key (\<lambda>p. - score_of cp p) ps" "signals_ok (getHealth (scorer cp) p)"
    by (rule rank_sorted) (simp add: \<open>scorer_ok (scorer cp)\<close> [unfolded scorer_ok_def])
  moreover have "healthy_breaker p b" if "circuitBreakers cp p = Some b" for b
    using h that by (simp add: healthy_def)
  ultimately show ?thesis using probe_admitted by (simp add: healthy_breaker_def)
qed

text \<open>A provider that always answers with an error status.\<close>

definition down_fetch :: fetcher where
  "down_fetch rq = Inr \<lparr>rs_ok = False, rs_status = num_of_int 503, rs_statusText = ''Unavailable'', rs_json = Inr Null\<rparr>"

definition outage :: "nat \<Rightarrow> completion list" where
  "outage n = map (\<lambda>i. ((\<lambda>p j. num_of_int (1000 * int i + 1)), down_fetch, ''Explain'')) [0..<n]"

theorem sequential_use_sound_witness:
  "signals_ok (getHealth (scorer (foldl complete (new_control_plane (Some example_config) :: unit InfrGateControlPlane) (outage 9))) ''groq'')"
proof -
  have "steady (\<lambda>j. num_of_int (1000 * int i + 1))" if "i < 9" for i
    unfolding steady_def using that
    by (intro exI [of _ "\<lambda>j. 1000 * int i + 1"]) (simp add: max_time_def mono_def)
  then have "\<forall>(clks, fetch, t) \<in> set (outage 9). \<forall>p. steady (clks p)" by (auto simp: outage_def)
  from sequential_use_sound [OF this, of "Some example_config", where 'b = unit] show ?thesis by blast
qed

end
