(* ===== verification/Provenance.thy ===== *)
theory Provenance
  imports Client
begin

text \<open>
  Where results come from. Over a run of the control plane with any number of executions in flight
  (\<open>ControlPlane.fire\<close>), every result an execution returns is traced back to the call of a handler,
  its own or that of an earlier execution, whose payload has the same fingerprint. The invariant
  says of each phase and of each cache entry which handler call accounts for it.
\<close>

subsection \<open>The history of a run\<close>

text \<open>The payloads of the executions, in the order in which they were begun.\<close>

fun begun :: "'b plane_event list \<Rightarrow> jsval list" where
  "begun [] = []"
| "begun (Begin clk rid tenant payload # es) = payload # begun es"
| "begun (Resume i clk outcome # es) = begun es"

lemma begun_append [simp]: "begun (es @ fs) = begun es @ begun fs"
  by (induction es rule: begun.induct) simp_all

text \<open>A handler that was awaited under \<open>key\<close> has settled with \<open>v\<close>.\<close>

definition handled :: "digest runtime \<Rightarrow> 'b plane \<Rightarrow> 'b plane_event list \<Rightarrow> string \<Rightarrow> 'b \<Rightarrow> bool" where
  "handled env s es key v \<longleftrightarrow>
     (\<exists>es1 j clk es2. es = es1 @ Resume j clk (Inr v) # es2 \<and>
        j < length (snd (foldl (fire env) s es1)) \<and> phase (snd (foldl (fire env) s es1) ! j) = AwaitHandler key)"

lemma handled_later: "handled env s es key v \<Longrightarrow> handled env s (es @ fs) key v"
  unfolding handled_def by (metis append.assoc append_Cons)

lemma handled_now:
  "j < length (snd (foldl (fire env) s es)) \<Longrightarrow> phase (snd (foldl (fire env) s es) ! j) = AwaitHandler key \<Longrightarrow>
   handled env s (es @ [Resume j clk (Inr v)]) key v"
  unfolding handled_def by blast

subsection \<open>What each phase rests on\<close>

text \<open>\<open>f\<close> is the fingerprint of the execution's payload, \<open>H key v\<close> says that \<open>v\<close> came from a handler.\<close>

fun justified :: "(string \<Rightarrow> 'b \<Rightarrow> bool) \<Rightarrow> sdk_error + string \<Rightarrow> 'b phase \<Rightarrow> bool" where
  "justified H f (AwaitFingerprint r) \<longleftrightarrow> r = f"
| "justified H f (AwaitGet key cached) \<longleftrightarrow> f = Inr key \<and> (\<forall>r. cached = Some r \<longrightarrow> H key (body r))"
| "justified H f (AwaitCheck key res) \<longleftrightarrow> f = Inr key"
| "justified H f (AwaitHandler key) \<longleftrightarrow> f = Inr key"
| "justified H f (AwaitSet v) \<longleftrightarrow> (\<exists>key. f = Inr key \<and> H key v)"
| "justified H f (Settled (Inr v)) \<longleftrightarrow> (\<exists>key. f = Inr key \<and> H key v)"
| "justified H f (Settled (Inl e)) \<longleftrightarrow> True"

lemma justified_mono: "justified H f ph \<Longrightarrow> (\<And>key v. H key v \<Longrightarrow> H' key v) \<Longrightarrow> justified H' f ph"
  by (induction H f ph rule: justified.induct) auto

definition cache_accounted :: "(string \<Rightarrow> 'b \<Rightarrow> bool) \<Rightarrow> 'b IdempotencyGuard \<Rightarrow> bool" where
  "cache_accounted H g \<longleftrightarrow> (\<forall>key e. cache g key = Some e \<longrightarrow> H key (body (response e)))"

lemma cache_accounted_mono: "cache_accounted H g \<Longrightarrow> (\<And>key v. H key v \<Longrightarrow> H' key v) \<Longrightarrow> cache_accounted H' g"
  by (auto simp: cache_accounted_def)

lemma cache_accounted_get:
  assumes "cache_accounted H g" "get_cached g now key = (c, g')"
  shows "cache_accounted H g'" "c = Some r \<Longrightarrow> H key (body r)"
  using assms by (auto simp: cache_accounted_def get_cached_def split: option.splits if_splits)

lemma cache_accounted_set: "cache_accounted H g \<Longrightarrow> H key v \<Longrightarrow> cache_accounted H (set_cached g t1 t2 key v st)"
  by (simp add: cache_accounted_def set_cached_def Let_def)

text \<open>One piece of an execution keeps the accounts; a handler that settles is a new entry in them.\<close>

definition accounted :: "(string \<Rightarrow> 'b \<Rightarrow> bool) \<Rightarrow> sdk_error + string \<Rightarrow> 'b execution \<times> 'b InfrGateControlPlane \<Rightarrow> bool" where
  "accounted H f s \<longleftrightarrow> justified H f (phase (fst s)) \<and> cache_accounted H (idempotency (snd s))"

lemma resume_accounted:
  assumes "accounted H f (x, cp)" "\<And>key v. phase x = AwaitHandler key \<Longrightarrow> outcome = Inr v \<Longrightarrow> H key v"
  shows "accounted H f (resume clk outcome (x, cp))"
proof (cases "phase x")
  case (AwaitFingerprint r)
  show ?thesis
  proof (cases r)
    case (Inr key)
    obtain c g where g: "get_cached (idempotency cp) (clk 0) key = (c, g)" by fastforce
    have H: "cache_accounted H (idempotency cp)" "f = Inr key"
      using assms(1) AwaitFingerprint Inr by (simp_all add: accounted_def)
    then show ?thesis
      using cache_accounted_get [OF H(1) g] by (simp add: resume_def AwaitFingerprint after_fingerprint_def Inr g accounted_def)
  next
    case (Inl e)
    then show ?thesis
      using assms(1) AwaitFingerprint by (auto simp: resume_def after_fingerprint_def accounted_def)
  qed
next
  case (AwaitGet key c)
  then show ?thesis using assms(1)
    by (cases c) (auto simp: resume_def after_get_def accounted_def start_step_def end_step_def Let_def
        split: prod.split sum.split)
next
  case (AwaitCheck key res)
  then show ?thesis using assms(1)
    by (auto simp: resume_def after_check_def accounted_def start_step_def end_step_def Let_def split: sum.split)
next
  case (AwaitHandler key)
  then show ?thesis using assms
    by (cases outcome) (auto simp: resume_def after_handler_def accounted_def start_step_def end_step_def Let_def
        split: sum.split intro!: cache_accounted_set)
next
  case (AwaitSet v)
  then show ?thesis using assms(1)
    by (auto simp: resume_def after_set_def accounted_def end_step_def split: sum.split)
qed (use assms in \<open>simp add: resume_def\<close>)

subsection \<open>Runs\<close>

text \<open>The accounts of a run that starts with an empty cache and no execution.\<close>

definition run_accounted :: "digest runtime \<Rightarrow> 'b InfrGateControlPlane \<Rightarrow> 'b plane_event list \<Rightarrow> bool" where
  "run_accounted env cp es \<longleftrightarrow>
     (let s = foldl (fire env) (cp, []) es; H = handled env (cp, []) es in
      length (snd s) = length (begun es) \<and> cache_accounted H (idempotency (fst s)) \<and>
      (\<forall>i < length (begun es). justified H (fingerprint env (begun es ! i)) (phase (snd s ! i))))"

lemma justified_begin:
  "justified H (fingerprint env payload) (phase (begin_execute env clk rid tenant payload))"
  by (simp add: begin_execute_def)

lemma run_accounted_step:
  assumes "run_accounted env cp es"
  shows "run_accounted env cp (es @ [e])"
proof -
  obtain cp' xs where s: "foldl (fire env) (cp, []) es = (cp', xs)" by fastforce
  let ?H = "handled env (cp, []) es" and ?H' = "handled env (cp, []) (es @ [e])"
  have later: "?H key v \<Longrightarrow> ?H' key v" for key v by (rule handled_later)
  have len: "length xs = length (begun es)" and cache: "cache_accounted ?H' (idempotency cp')"
    and just: "\<And>i. i < length xs \<Longrightarrow> justified ?H' (fingerprint env (begun es ! i)) (phase (xs ! i))"
    using assms s later by (auto simp: run_accounted_def Let_def intro: cache_accounted_mono justified_mono)
  show ?thesis
  proof (cases e)
    case (Begin clk rid tenant payload)
    show ?thesis
      using len cache just justified_begin [of ?H' env payload clk rid tenant]
      by (auto simp: run_accounted_def Let_def s Begin nth_append less_Suc_eq)
  next
    case (Resume i clk outcome)
    show ?thesis
    proof (cases "i < length xs")
      case True
      obtain x cp'' where r: "resume clk outcome (xs ! i, cp') = (x, cp'')" by fastforce
      have "accounted ?H' (fingerprint env (begun es ! i)) (resume clk outcome (xs ! i, cp'))"
      proof (rule resume_accounted)
        show "accounted ?H' (fingerprint env (begun es ! i)) (xs ! i, cp')"
          using just [OF True] cache by (simp add: accounted_def)
        show "?H' key v" if "phase (xs ! i) = AwaitHandler key" "outcome = Inr v" for key v
          unfolding Resume that(2) using that(1) True by (intro handled_now) (simp_all add: s)
      qed
      then show ?thesis
        using len just cache by (auto simp: run_accounted_def Let_def s Resume True r accounted_def nth_list_update)
    next
      case False
      then show ?thesis using len cache just by (simp add: run_accounted_def Let_def s Resume)
    qed
  qed
qed

lemma every_run_accounted:
  assumes "cache (idempotency cp) = Map.empty"
  shows "run_accounted env cp es"
proof (induction es rule: rev_induct)
  case Nil
  show ?case using assms by (simp add: run_accounted_def cache_accounted_def)
next
  case (snoc e es)
  then show ?case by (rule run_accounted_step)
qed

text \<open>C11: No result out of thin air: however the executions that share a control plane interleave, a
  result that one of them returns is what a handler settled with earlier in the run, a handler that
  was called for a payload of the same fingerprint. So a caller never gets the answer to another
  question: where the two payloads are JSON, they are equal as data unless the platform's digest
  collides on their texts.\<close>

theorem results_accounted:
  assumes "cache (idempotency cp) = Map.empty"
    and "i < length (snd (foldl (fire env) (cp, []) es))"
    and "phase (snd (foldl (fire env) (cp, []) es) ! i) = Settled (Inr v)"
  shows "\<exists>es1 j clk es2 key. es = es1 @ Resume j clk (Inr v) # es2 \<and> j < length (begun es1) \<and>
    phase (snd (foldl (fire env) (cp, []) es1) ! j) = AwaitHandler key \<and>
    fingerprint env (begun es ! i) = Inr key \<and> fingerprint env (begun es1 ! j) = Inr key \<and>
    (\<forall>d. getSubtleCrypto env = Inr d \<and> plain (begun es ! i) \<and> plain (begun es1 ! j) \<longrightarrow>
       same (begun es ! i) (begun es1 ! j) \<or>
       utf8 (value_text (begun es ! i)) \<noteq> utf8 (value_text (begun es1 ! j)) \<and>
       d (utf8 (value_text (begun es ! i))) = d (utf8 (value_text (begun es1 ! j))))"
proof -
  have acc: "run_accounted env cp es" for es by (rule every_run_accounted [OF assms(1)])
  obtain key where key: "fingerprint env (begun es ! i) = Inr key" "handled env (cp, []) es key v"
    using acc [of es] assms(2,3) by (fastforce simp: run_accounted_def Let_def)
  then obtain es1 j clk es2 where h: "es = es1 @ Resume j clk (Inr v) # es2"
    "j < length (snd (foldl (fire env) (cp, []) es1))"
    "phase (snd (foldl (fire env) (cp, []) es1) ! j) = AwaitHandler key"
    by (auto simp: handled_def)
  have j: "j < length (begun es1)" "fingerprint env (begun es1 ! j) = Inr key"
    using acc [of es1] h(2,3) by (auto simp: run_accounted_def Let_def)
  show ?thesis
    using h(1,3) j key(1) fingerprint_same_iff [of "begun es ! i" "begun es1 ! j" env]
    by (intro exI conjI allI impI) (assumption | simp)+
qed

text \<open>A request, and once it has settled the same request again with its keys in another order.\<close>

definition repeated_run :: "bool plane_event list" where
  "repeated_run =
     [Begin still ''r1'' ''t'' (sample_payload False), Resume 0 still (Inr True), Resume 0 still (Inr True),
      Resume 0 still (Inr True), Resume 0 still (Inr True), Resume 0 still (Inr True),
      Begin still ''r2'' ''u'' (sample_payload True), Resume 1 still (Inr False), Resume 1 still (Inr False)]"

lemma repeated_run_phases:
  "map phase (snd (foldl (fire sample_runtime) (new_control_plane None, []) repeated_run)) =
   [Settled (Inr True), Settled (Inr True)]"
proof -
  have p: "plain (sample_payload False)" "plain (sample_payload True)" "same (sample_payload False) (sample_payload True)"
    by (auto simp: sample_payload_def)
  have crypto: "getSubtleCrypto sample_runtime = Inr sample_digest" by (simp add: getSubtleCrypto_def sample_runtime_def)
  obtain key where key: "fingerprint sample_runtime (sample_payload False) = Inr key"
    "fingerprint sample_runtime (sample_payload True) = Inr key"
    using fingerprint_plain [OF p(1) crypto] fingerprint_same [OF p crypto] by simp
  obtain res l where c: "check (new_limiter default_rate_limit) (Fin 0) ''t'' (Fin 1) = (res, l)" by fastforce
  then have "allowed res" using still_bucket(1) [of "new_limiter default_rate_limit" 100 "''t''"] by (simp add: new_limiter_def)
  then show ?thesis
    using c num_mul_int [of 3600 1000] num_add_int [of 0 3600000]
    by (simp add: repeated_run_def key pipeline_simps get_cached_def set_cached_def still_number
        new_control_plane_def new_guard_def no_idempotency_options_def)
qed

theorem results_accounted_witness:
  "\<exists>es1 j clk es2. repeated_run = es1 @ Resume j clk (Inr True) # es2 \<and>
     fingerprint sample_runtime (begun es1 ! j) = fingerprint sample_runtime (sample_payload True)"
proof -
  let ?s = "snd (foldl (fire sample_runtime) (new_control_plane None, []) repeated_run)"
  have run: "1 < length ?s" "phase (?s ! 1) = Settled (Inr True)"
    using repeated_run_phases by (auto simp: map_eq_Cons_conv)
  have empty: "cache (idempotency (new_control_plane None :: bool InfrGateControlPlane)) = Map.empty"
    by (simp add: new_control_plane_def new_guard_def)
  obtain es1 j clk es2 key where "repeated_run = es1 @ Resume j clk (Inr True) # es2"
    "fingerprint sample_runtime (begun repeated_run ! 1) = Inr key" "fingerprint sample_runtime (begun es1 ! j) = Inr key"
    using results_accounted [OF empty run] by blast
  moreover have "begun repeated_run ! 1 = sample_payload True" by (simp add: repeated_run_def)
  ultimately show ?thesis by metis
qed

end
