(* ===== verification/Replay.thy ===== *)
theory Replay
  imports Provenance
begin

text \<open>
  Replay while other executions are in flight. Over a run the guard of the control plane moves by
  the lookups and stores that its pieces make, so the laws of the replay cache
  (\<open>Idempotency.replay_cache\<close>) apply to every interleaving, not only to executions one after the
  other.
\<close>

subsection \<open>The calls on the guard\<close>

text \<open>The lookups and stores that a piece makes, each with its time.\<close>

type_synonym 'b guard_call = "int \<times> string \<times> 'b CachedResponse option"

definition piece_guard :: "clock \<Rightarrow> thrown + 'b \<Rightarrow> 'b execution \<Rightarrow> 'b guard_call list" where
  "piece_guard clk outcome x =
     (case (phase x, outcome) of
        (AwaitFingerprint (Inr key), _) \<Rightarrow> [(the (whole (clk 0)), key, None)]
      | (AwaitHandler key, Inr r) \<Rightarrow>
          [(the (whole (clk 3)), key, Some \<lparr>statusCode = 200, body = r, cachedAt = clk 4\<rparr>)]
      | _ \<Rightarrow> [])"

fun call_of_event :: "'b plane \<Rightarrow> 'b plane_event \<Rightarrow> 'b guard_call list" where
  "call_of_event (cp, xs) (Begin clk rid tenant payload) = []"
| "call_of_event (cp, xs) (Resume i clk outcome) = (if i < length xs then piece_guard clk outcome (xs ! i) else [])"

fun guard_calls :: "digest runtime \<Rightarrow> 'b plane \<Rightarrow> 'b plane_event list \<Rightarrow> 'b guard_call list" where
  "guard_calls env s [] = []"
| "guard_calls env s (e # es) = call_of_event s e @ guard_calls env (fire env s e) es"

fun whole_times :: "'b plane_event \<Rightarrow> bool" where
  "whole_times (Resume i clk outcome) \<longleftrightarrow> whole (clk 0) \<noteq> None \<and> whole (clk 3) \<noteq> None"
| "whole_times e \<longleftrightarrow> True"

lemma resume_guard:
  assumes clk: "clk 0 = num_of_int t0" "clk 3 = num_of_int t3" and ok: "execution_ok x"
  shows "idempotency (snd (resume clk outcome (x, cp))) = foldl guard.step (idempotency cp) (piece_guard clk outcome x)"
    (is "?P (resume clk outcome (x, cp))")
proof (cases "phase x")
  case (AwaitFingerprint r)
  then show ?thesis
    by (cases r) (auto simp: piece_guard_def resume_def after_fingerprint_def guard_lookup_def clk split: prod.split)
next
  case (AwaitGet key c)
  then show ?thesis
    by (cases c) (auto simp: piece_guard_def resume_def after_get_def end_step_def Let_def split: prod.split sum.split)
next
  case (AwaitCheck key res)
  then show ?thesis
    by (auto simp: piece_guard_def resume_def after_check_def end_step_def Let_def split: sum.split)
next
  case (AwaitHandler key)
  then have x: "map event_flags (events (trace x)) = [(IDEMPOTENCY, Passed), (RATE_LIMIT, Passed)] @ [(EXECUTION, Waiting)]"
    "dom (stepStartTimes (trace x)) = {EXECUTION}"
    using ok by (auto simp: execution_ok_def waiting_steps_def)
  show ?thesis
  proof (cases outcome)
    case (Inl e)
    then show ?thesis by (simp add: AwaitHandler piece_guard_def resume_def after_handler_def)
  next
    case (Inr r)
    obtain tr where "trace_end (clk 0) EXECUTION None (trace x) = Inr tr"
      using end_flags [OF x(1), of "clk 0" None] x(2) by auto
    then show ?thesis
      by (simp add: resume_def AwaitHandler after_handler_def Inr end_step_def piece_guard_def guard_store_def clk Let_def)
  qed
next
  case (AwaitSet v)
  then show ?thesis by (simp add: piece_guard_def resume_def after_set_def end_step_def split: sum.split)
qed (simp add: piece_guard_def resume_def)

lemma fire_guard:
  assumes "whole_times e" "\<forall>x \<in> set (snd s). execution_ok x"
  shows "idempotency (fst (fire env s e)) = foldl guard.step (idempotency (fst s)) (call_of_event s e)"
proof (cases "(env, s, e)" rule: fire.cases)
  case (2 env' cp xs i clk outcome)
  show ?thesis
  proof (cases "i < length xs")
    case True
    obtain t0 t3 where "clk 0 = num_of_int t0" "clk 3 = num_of_int t3" using assms(1) 2 by (auto simp del: whole.simps)
    then show ?thesis
      using resume_guard [of clk t0 t3 "xs ! i" outcome cp] assms(2) 2 True by (simp add: split_beta)
  qed (use 2 in simp)
qed simp

text \<open>Over a run, the guard has made the calls of its pieces.\<close>

lemma run_guard:
  "\<forall>e \<in> set es. whole_times e \<Longrightarrow> \<forall>x \<in> set (snd s). execution_ok x \<Longrightarrow>
   idempotency (fst (foldl (fire env) s es)) = foldl guard.step (idempotency (fst s)) (guard_calls env s es)"
proof (induction es arbitrary: s)
  case (Cons e es)
  have "\<forall>x \<in> set (snd (fire env s e)). execution_ok x" by (rule fire_ok [OF Cons.prems(2)])
  then show ?case using Cons fire_guard [of e s env] by simp
qed simp

subsection \<open>A stored result in flight\<close>

lemma resume_hit:
  assumes "execution_ok x" "phase x = AwaitFingerprint (Inr key)" "clk1 0 = num_of_int t'"
    and "fst (guard_lookup (idempotency cp1) t' key) = Some r"
  shows "\<exists>y. phase y = Settled (Inr (body r)) \<and> handler_calls y = 0 \<and>
    resume clk2 out2 (fst (resume clk1 out1 (x, cp1)), cp2) = (y, cp2)"
proof -
  obtain g where g: "get_cached (idempotency cp1) (clk1 0) key = (Some r, g)"
    using assms(3,4) by (cases "get_cached (idempotency cp1) (clk1 0) key") (simp add: guard_lookup_def)
  then have first: "fst (resume clk1 out1 (x, cp1)) = x\<lparr>phase := AwaitGet key (Some r)\<rparr>"
    by (simp add: resume_def assms(2) after_fingerprint_def)
  have x: "map event_flags (events (trace x)) = [] @ [(IDEMPOTENCY, Waiting)]"
    "IDEMPOTENCY \<in> dom (stepStartTimes (trace x))" "handler_calls x = 0"
    using assms(1,2) by (auto simp: execution_ok_def waiting_steps_def)
  obtain tr where "trace_end (clk2 0) IDEMPOTENCY (Some [(''cacheHit'', Bool True), (''key'', Str key)]) (trace x) = Inr tr"
    using end_flags [OF x(1) _ x(2), of "clk2 0" "Some [(''cacheHit'', Bool True), (''key'', Str key)]"] by auto
  then show ?thesis unfolding first by (simp add: resume_def after_get_def end_step_def x(3))
qed

lemma run_ttl:
  assumes "guard_ttl T (idempotency (fst s))" "\<forall>e \<in> set es. whole_times e" "\<forall>x \<in> set (snd s). execution_ok x"
  shows "guard_ttl T (idempotency (fst (foldl (fire env) s es)))"
  unfolding run_guard [OF assms(2,3)] by (rule guard.run_inv [OF assms(1)])

text \<open>C8: A result that a handler has settled with is replayed to the executions in flight: however the
  executions interleave, an execution that looks up the same fingerprint before the time to live
  has elapsed, with no store under that fingerprint and no later clock reading in between, settles
  with that result at its next piece, calls no handler and takes no token, whatever the other
  executions do before it goes on.\<close>

theorem replayed_in_flight:
  assumes "guard_ttl T (idempotency cp)" "\<forall>e \<in> set (es1 @ Resume i clk (Inr v) # es2). whole_times e"
    and "s1 = foldl (fire env) (cp, []) es1" "s2 = fire env s1 (Resume i clk (Inr v))" "s3 = foldl (fire env) s2 es2"
    and "i < length (snd s1)" "phase (snd s1 ! i) = AwaitHandler key" "clk 3 = num_of_int t" "ms_ok t"
    and "\<forall>c \<in> set (guard_calls env s2 es2). guard.quiet t' key c" "t' < t + T * 1000"
    and "j < length (snd s3)" "phase (snd s3 ! j) = AwaitFingerprint (Inr key)" "clk1 0 = num_of_int t'"
  shows "\<exists>y. phase y = Settled (Inr v) \<and> handler_calls y = 0 \<and>
    resume clk2 out2 (fst (resume clk1 out1 (snd s3 ! j, fst s3)), cp') = (y, cp')"
proof -
  have times: "\<forall>e \<in> set es1. whole_times e" "whole_times (Resume i clk (Inr v))" "\<forall>e \<in> set es2. whole_times e"
    using assms(2) by (simp_all del: whole_times.simps)
  have ok1: "\<forall>x \<in> set (snd s1). execution_ok x" unfolding assms(3) by (rule run_ok) simp
  have ok2: "\<forall>x \<in> set (snd s2). execution_ok x" unfolding assms(4) by (rule fire_ok [OF ok1])
  have ok3: "\<forall>x \<in> set (snd s3). execution_ok x" unfolding assms(5) by (rule run_ok [OF ok2])
  have ttl: "guard_ttl T (idempotency (fst s1))"
    unfolding assms(3) by (rule run_ttl) (simp_all add: assms(1) times(1))
  let ?r = "\<lparr>statusCode = 200, body = v, cachedAt = clk 4\<rparr>"
  obtain cp1 xs1 where s1: "s1 = (cp1, xs1)" by fastforce
  have "idempotency (fst s2) = guard_store (idempotency (fst s1)) t key ?r"
    using fire_guard [OF times(2) ok1, of env] assms(6-8) by (simp add: assms(4) s1 piece_guard_def)
  then have "idempotency (fst s3) = foldl guard.step (guard_store (idempotency (fst s1)) t key ?r) (guard_calls env s2 es2)"
    using run_guard [OF times(3) ok2, of env] by (simp add: assms(5))
  then have "fst (guard_lookup (idempotency (fst s3)) t' key) = Some ?r"
    using guard.replay [OF ttl assms(9,10), of ?r] assms(11) by simp
  from resume_hit [of "snd s3 ! j" key clk1 t' "fst s3" ?r clk2 out2 out1 cp', OF _ assms(13,14) this] ok3 assms(12)
  show ?thesis by simp
qed

text \<open>The second execution begins when the first one has settled its handler and not yet returned.\<close>

theorem replayed_in_flight_witness:
  "\<exists>s y. phase y = Settled (Inr True) \<and> handler_calls y = 0 \<and>
     s = foldl (fire sample_runtime) (new_control_plane None, [])
       [Begin still ''r1'' ''t'' (sample_payload False), Resume 0 still (Inr True), Resume 0 still (Inr True),
        Resume 0 still (Inr True), Resume 0 still (Inr True), Begin still ''r2'' ''u'' (sample_payload True)] \<and>
     resume still (Inr False) (fst (resume still (Inr False) (snd s ! 1, fst s)), fst s) = (y, fst s)"
proof -
  let ?cp = "new_control_plane None :: bool InfrGateControlPlane"
  let ?es1 = "[Begin still ''r1'' ''t'' (sample_payload False), Resume 0 still (Inr True), Resume 0 still (Inr True),
    Resume 0 still (Inr True)]" and ?es2 = "[Begin still ''r2'' ''u'' (sample_payload True)]"
  have p: "plain (sample_payload False)" "plain (sample_payload True)" "same (sample_payload False) (sample_payload True)"
    by (auto simp: sample_payload_def)
  have crypto: "getSubtleCrypto sample_runtime = Inr sample_digest" by (simp add: getSubtleCrypto_def sample_runtime_def)
  obtain key where key: "fingerprint sample_runtime (sample_payload False) = Inr key"
    "fingerprint sample_runtime (sample_payload True) = Inr key"
    using fingerprint_plain [OF p(1) crypto] fingerprint_same [OF p crypto] by simp
  define s1 where "s1 = foldl (fire sample_runtime) (?cp, []) ?es1"
  define s2 where "s2 = fire sample_runtime s1 (Resume 0 still (Inr True))"
  define s3 where "s3 = foldl (fire sample_runtime) s2 ?es2"
  obtain res l where c: "check (new_limiter default_rate_limit) (Fin 0) ''t'' (Fin 1) = (res, l)" by fastforce
  then have "allowed res" using still_bucket(1) [of "new_limiter default_rate_limit" 100 "''t''"] by (simp add: new_limiter_def)
  then have s1: "length (snd s1) = 1" "phase (snd s1 ! 0) = AwaitHandler key"
    using c by (simp_all add: s1_def key pipeline_simps get_cached_def still_number new_control_plane_def new_guard_def)
  then obtain cp1 x1 where "s1 = (cp1, [x1])" by (cases s1) (auto simp: length_Suc_conv)
  then have s3: "1 < length (snd s3)" "phase (snd s3 ! 1) = AwaitFingerprint (Inr key)" "guard_calls sample_runtime s2 ?es2 = []"
    by (simp_all add: s3_def s2_def split_beta begin_execute_def key)
  have times: "\<forall>e \<in> set (?es1 @ Resume 0 still (Inr True) # ?es2). whole_times e" by (simp add: still_number)
  have ttl: "guard_ttl 3600 (idempotency ?cp)"
    by (simp add: guard_ttl_def new_control_plane_def new_guard_def no_idempotency_options_def)
  have "still 3 = num_of_int 0" "still 0 = num_of_int 0" by (simp_all add: still_def)
  with replayed_in_flight [OF ttl times s1_def s2_def s3_def _ s1(2), of 0 0 1 still still "Inr False" "Inr False" "fst s3"]
    s1(1) s3 obtain y where "phase y = Settled (Inr True)" "handler_calls y = 0"
    "resume still (Inr False) (fst (resume still (Inr False) (snd s3 ! 1, fst s3)), fst s3) = (y, fst s3)"
    by (auto simp: ms_ok_def max_time_def)
  then show ?thesis by (intro exI [of _ s3] exI [of _ y]) (simp add: s3_def s2_def s1_def)
qed

end
