(* ===== verification/Jsx.thy ===== *)
theory Jsx
  imports NumberText "HOL-Library.Char_ord"
begin

text \<open>
  What the React components of \<open>Frontend/components\<close> are made of. A component is a function from its
  props, an object given as the list of its properties, to an element: its type (the name of
  a host element, of a component of this repository or of one of a package) with its props, among
  them the children. Rendering an element further is React's business; the functions here are
  those the source writes. A function value is named by its place in the source, with the values
  it captures. Text is a list of bytes in UTF-8. The packages \<open>clsx\<close>, \<open>tailwind-merge\<close> and
  \<open>class-variance-authority\<close> are parameters. The interface \<open>slotted\<close> is the contract of the styled
  parts: they mark their element with a slot and pass on every other prop.
\<close>

subsection \<open>Values\<close>

datatype ui_value =
    UndefV
  | NullV
  | BoolV bool
  | NumV number
  | StrV string
  | ArrV "ui_value list"
  | ObjV "(string \<times> ui_value) list"
  | FunV string "ui_value list"
  | ElemV string "(string \<times> ui_value) list"

type_synonym props = "(string \<times> ui_value) list"

fun truthy :: "ui_value \<Rightarrow> bool" where
  "truthy UndefV \<longleftrightarrow> False"
| "truthy NullV \<longleftrightarrow> False"
| "truthy (BoolV b) \<longleftrightarrow> b"
| "truthy (NumV x) \<longleftrightarrow> \<not> num_falsy x"
| "truthy (StrV s) \<longleftrightarrow> s \<noteq> []"
| "truthy v \<longleftrightarrow> True"

text \<open>\<open>===\<close> on primitive values; objects are never compared in the code modelled here.\<close>

fun strict_eq :: "ui_value \<Rightarrow> ui_value \<Rightarrow> bool" where
  "strict_eq UndefV UndefV \<longleftrightarrow> True"
| "strict_eq NullV NullV \<longleftrightarrow> True"
| "strict_eq (BoolV a) (BoolV b) \<longleftrightarrow> a = b"
| "strict_eq (NumV x) (NumV y) \<longleftrightarrow> num_le x y \<and> num_le y x"
| "strict_eq (StrV s) (StrV t) \<longleftrightarrow> s = t"
| "strict_eq v w \<longleftrightarrow> False"

definition js_and :: "ui_value \<Rightarrow> ui_value \<Rightarrow> ui_value" where
  "js_and a b = (if truthy a then b else a)"

definition js_or :: "ui_value \<Rightarrow> ui_value \<Rightarrow> ui_value" where
  "js_or a b = (if truthy a then a else b)"

definition js_nullish :: "ui_value \<Rightarrow> ui_value \<Rightarrow> ui_value" where
  "js_nullish a b = (if a = UndefV \<or> a = NullV then b else a)"

subsection \<open>Objects\<close>

text \<open>Reading a property, a destructuring default, and the rest of a destructured object.\<close>

definition read_prop :: "string \<Rightarrow> props \<Rightarrow> ui_value" where
  "read_prop k ps = (case map_of ps k of None \<Rightarrow> UndefV | Some v \<Rightarrow> v)"

definition or_default :: "ui_value \<Rightarrow> ui_value \<Rightarrow> ui_value" where
  "or_default d v = (if v = UndefV then d else v)"

definition rest :: "string list \<Rightarrow> props \<Rightarrow> props" where
  "rest ks ps = filter (\<lambda>(k, v). k \<notin> set ks) ps"

text \<open>Member access (\<open>v.k\<close>, and \<open>v?.k\<close>) on an object, the properties a spread copies, conversion to a string
  (the source text of a function, which its conversion gives, is never used).\<close>

fun member :: "string \<Rightarrow> ui_value \<Rightarrow> ui_value" where
  "member k (ObjV ps) = read_prop k ps"
| "member k v = UndefV"

definition opt_member :: "string \<Rightarrow> ui_value \<Rightarrow> ui_value" where
  "opt_member k v = (if v = UndefV \<or> v = NullV then UndefV else member k v)"

fun spread_fields :: "ui_value \<Rightarrow> props" where
  "spread_fields (ObjV ps) = ps"
| "spread_fields v = []"

fun to_text :: "ui_value \<Rightarrow> string" where
  "to_text UndefV = ''undefined''"
| "to_text NullV = ''null''"
| "to_text (BoolV b) = (if b then ''true'' else ''false'')"
| "to_text (NumV x) = num_text x"
| "to_text (StrV s) = s"
| "to_text (ArrV vs) = join '','' (map (\<lambda>v. if v = UndefV \<or> v = NullV then [] else to_text v) vs)"
| "to_text v = ''[object Object]''"

text \<open>A decimal literal \<open>n / 10\<^sup>k\<close>; numbers are added, other operands are concatenated as text.\<close>

definition decimal :: "int \<Rightarrow> nat \<Rightarrow> number" where
  "decimal n k = Fin (fl (of_int n / 10 ^ k))"

fun js_add :: "ui_value \<Rightarrow> ui_value \<Rightarrow> ui_value" where
  "js_add (NumV x) (NumV y) = NumV (num_add x y)"
| "js_add v w = StrV (to_text v @ to_text w)"

fun js_mul :: "ui_value \<Rightarrow> ui_value \<Rightarrow> ui_value" where
  "js_mul (NumV x) (NumV y) = NumV (num_mul x y)"
| "js_mul v w = NumV NaN"

text \<open>Computed access to arrays and objects, and the strings and arrays the components build.\<close>

definition js_index :: "ui_value \<Rightarrow> nat \<Rightarrow> ui_value" where
  "js_index v i = (case v of ArrV vs \<Rightarrow> if i < length vs then vs ! i else UndefV | _ \<Rightarrow> UndefV)"

fun js_at :: "ui_value \<Rightarrow> ui_value \<Rightarrow> ui_value" where
  "js_at (ArrV vs) (NumV x) =
     (case whole x of Some i \<Rightarrow> if 0 \<le> i then js_index (ArrV vs) (nat i) else UndefV | None \<Rightarrow> UndefV)"
| "js_at (ObjV ps) (StrV k) = read_prop k ps"
| "js_at v w = UndefV"

definition map_array :: "(ui_value \<Rightarrow> ui_value \<Rightarrow> ui_value) \<Rightarrow> ui_value \<Rightarrow> ui_value" where
  "map_array f v =
     (case v of ArrV vs \<Rightarrow> ArrV (map2 (\<lambda>w i. f w (NumV (Fin (of_nat i)))) vs [0..<length vs]) | _ \<Rightarrow> UndefV)"

definition to_upper :: "char \<Rightarrow> char" where
  "to_upper c = (if CHR ''a'' \<le> c \<and> c \<le> CHR ''z'' then char_of (of_char c - (32 :: nat)) else c)"

definition pad_start :: "nat \<Rightarrow> string \<Rightarrow> ui_value \<Rightarrow> ui_value" where
  "pad_start n c v = (let t = to_text v in StrV (concat (replicate (n - length t) c) @ t))"

fun words_of :: "string \<Rightarrow> string list" where
  "words_of [] = [[]]"
| "words_of (c # cs) =
     (case words_of cs of w # ws \<Rightarrow> if c = CHR '' '' then [] # w # ws else (c # w) # ws | [] \<Rightarrow> [[c]])"

definition js_words :: "ui_value \<Rightarrow> ui_value" where
  "js_words v = ArrV (map StrV (words_of (to_text v)))"

fun put :: "props \<Rightarrow> string \<times> ui_value \<Rightarrow> props" where
  "put [] kv = [kv]"
| "put (p # ps) kv = (if fst p = fst kv then kv # ps else p # put ps kv)"

text \<open>The entries of an object literal and the attributes of an element, set one after the other.\<close>

datatype attr = Attr string ui_value | Spread props

fun put_attr :: "props \<Rightarrow> attr \<Rightarrow> props" where
  "put_attr ps (Attr k v) = put ps (k, v)"
| "put_attr ps (Spread qs) = foldl put ps qs"

definition obj :: "attr list \<Rightarrow> props" where
  "obj as = foldl put_attr [] as"

text \<open>An element with the children written in it, which win over a \<open>children\<close> attribute.\<close>

fun jsx :: "string \<Rightarrow> attr list \<Rightarrow> ui_value list \<Rightarrow> ui_value" where
  "jsx tag as [] = ElemV tag (obj as)"
| "jsx tag as [c] = ElemV tag (obj (as @ [Attr ''children'' c]))"
| "jsx tag as cs = ElemV tag (obj (as @ [Attr ''children'' (ArrV cs)]))"

subsection \<open>Class names\<close>

record ui_lib =
  clsx :: "ui_value list \<Rightarrow> string"
  twMerge :: "string \<Rightarrow> string"
  cva :: "ui_value \<Rightarrow> ui_value \<Rightarrow> ui_value \<Rightarrow> string"

text \<open>\<open>cn\<close> of \<open>lib/utils.ts\<close> hands its list of arguments to \<open>clsx\<close> as one array.\<close>

definition cn :: "ui_lib \<Rightarrow> ui_value list \<Rightarrow> ui_value" where
  "cn lib inputs = StrV (twMerge lib (clsx lib [ArrV inputs]))"

type_synonym ui_component = "ui_lib \<Rightarrow> props \<Rightarrow> ui_value"

subsection \<open>Looking up the attributes of an element\<close>

fun elem_type :: "ui_value \<Rightarrow> string option" where
  "elem_type (ElemV tag ps) = Some tag"
| "elem_type v = None"

fun attribute :: "string \<Rightarrow> ui_value \<Rightarrow> ui_value option" where
  "attribute k (ElemV tag ps) = map_of ps k"
| "attribute k v = None"

lemma map_of_put: "map_of (put ps (k, v)) = (map_of ps)(k \<mapsto> v)"
  by (induction ps) auto

lemma map_of_puts: "distinct (map fst qs) \<Longrightarrow> map_of (foldl put ps qs) = map_of ps ++ map_of qs"
proof (induction qs arbitrary: ps)
  case (Cons q qs)
  obtain k v where q: "q = (k, v)" by (cases q)
  have "map_of qs k = None" using Cons.prems q by (simp add: map_of_eq_None_iff)
  then show ?case using Cons q by (auto simp: map_of_put map_add_def fun_eq_iff split: option.split)
qed simp

lemma distinct_rest: "distinct (map fst ps) \<Longrightarrow> distinct (map fst (rest ks ps))"
  by (simp add: rest_def distinct_map_filter)

lemma map_of_rest: "map_of (rest ks ps) k = (if k \<in> set ks then None else map_of ps k)"
  by (induction ps) (auto simp: rest_def)

lemma rest_Nil [simp]: "rest [] ps = ps"
  by (induction ps) (auto simp: rest_def)

lemma keys_put: "set (map fst (put ps kv)) = insert (fst kv) (set (map fst ps))"
  by (induction ps) auto

lemma distinct_put: "distinct (map fst ps) \<Longrightarrow> distinct (map fst (put ps kv))"
proof (induction ps)
  case (Cons p ps)
  then show ?case using keys_put [of ps kv] by (cases "fst p = fst kv") force+
qed simp

lemma distinct_puts: "distinct (map fst ps) \<Longrightarrow> distinct (map fst (foldl put ps qs))"
  by (induction qs arbitrary: ps) (simp_all add: distinct_put)

lemma distinct_put_attrs: "distinct (map fst ps) \<Longrightarrow> distinct (map fst (foldl put_attr ps as))"
proof (induction as arbitrary: ps)
  case (Cons a as)
  then show ?case by (cases a) (simp_all add: distinct_put distinct_puts)
qed simp

lemma distinct_obj [simp]: "distinct (map fst (obj as))"
  by (simp add: obj_def distinct_put_attrs)

text \<open>The last entry that sets a key decides.\<close>

fun decides :: "attr list \<Rightarrow> string \<Rightarrow> ui_value option" where
  "decides [] k = None"
| "decides (a # as) k =
     (case decides as k of
        Some v \<Rightarrow> Some v
      | None \<Rightarrow> (case a of Attr k' v \<Rightarrow> if k' = k then Some v else None | Spread qs \<Rightarrow> map_of qs k))"

fun attr_distinct :: "attr \<Rightarrow> bool" where
  "attr_distinct (Attr k v) \<longleftrightarrow> True"
| "attr_distinct (Spread qs) \<longleftrightarrow> distinct (map fst qs)"

lemma map_of_put_attrs:
  "list_all attr_distinct as \<Longrightarrow> map_of (foldl put_attr ps as) k = (case decides as k of Some v \<Rightarrow> Some v | None \<Rightarrow> map_of ps k)"
proof (induction as arbitrary: ps)
  case (Cons a as)
  then show ?case by (cases a) (auto simp: map_of_put map_of_puts map_add_def split: option.splits)
qed simp

lemma map_of_obj: "list_all attr_distinct as \<Longrightarrow> map_of (obj as) k = decides as k"
  by (simp add: obj_def map_of_put_attrs split: option.split)

lemma read_obj:
  "list_all attr_distinct as \<Longrightarrow> read_prop k (obj as) = (case decides as k of Some v \<Rightarrow> v | None \<Rightarrow> UndefV)"
  by (simp add: read_prop_def map_of_obj split: option.split)

lemma decides_append:
  "decides (as @ bs) k = (case decides bs k of Some v \<Rightarrow> Some v | None \<Rightarrow> decides as k)"
  by (induction as) (auto split: option.splits)

lemma attribute_jsx:
  assumes "list_all attr_distinct as" "k \<noteq> ''children'' \<or> cs = []"
  shows "attribute k (jsx tag as cs) = decides as k"
  using assms by (cases "(tag, as, cs)" rule: jsx.cases) (auto simp: map_of_obj decides_append)

subsection \<open>Slotted parts\<close>

text \<open>
  The contract of a styled part: it renders one element that carries the part's slot and then all
  the props it does not consume itself.
\<close>

locale slotted =
  fixes part :: "props \<Rightarrow> ui_value" and own :: "string list" and slot :: string
  assumes shape: "\<exists>tag as cs. part ps = jsx tag (as @ [Spread (rest own ps)]) cs \<and>
    list_all attr_distinct as \<and> decides as ''data-slot'' = Some (StrV slot) \<and> (cs \<noteq> [] \<longrightarrow> ''children'' \<in> set own)"
begin

lemma forwards:
  assumes "distinct (map fst ps)" "k \<notin> set own" "map_of ps k = Some v"
  shows "attribute k (part ps) = Some v"
proof -
  obtain tag as cs where c: "part ps = jsx tag (as @ [Spread (rest own ps)]) cs" "list_all attr_distinct as"
    "cs \<noteq> [] \<longrightarrow> ''children'' \<in> set own"
    using shape [of ps] by blast
  have "k \<noteq> ''children'' \<or> cs = []" using c(3) assms(2) by auto
  then have "attribute k (part ps) = decides (as @ [Spread (rest own ps)]) k"
    unfolding c(1) using c(2) distinct_rest [OF assms(1)] by (intro attribute_jsx) auto
  then show ?thesis using assms(2,3) by (simp add: decides_append map_of_rest)
qed

lemma marks:
  assumes "distinct (map fst ps)" "''data-slot'' \<notin> dom (map_of ps)"
  shows "attribute ''data-slot'' (part ps) = Some (StrV slot)"
proof -
  obtain tag as cs where c: "part ps = jsx tag (as @ [Spread (rest own ps)]) cs" "list_all attr_distinct as"
    "decides as ''data-slot'' = Some (StrV slot)"
    using shape [of ps] by blast
  have "attribute ''data-slot'' (part ps) = decides (as @ [Spread (rest own ps)]) ''data-slot''"
    unfolding c(1) using c(2) distinct_rest [OF assms(1)] by (intro attribute_jsx) auto
  then show ?thesis using assms(2) c(3) by (simp add: decides_append map_of_rest domIff)
qed

end

text \<open>How a definition meets the contract: its last attribute is the spread of the rest of its props.\<close>

lemma slotted_intro:
  assumes "\<And>ps. \<exists>tag as cs. part ps = jsx tag as cs \<and> as \<noteq> [] \<and> last as = Spread (rest own ps) \<and>
    list_all attr_distinct (butlast as) \<and> decides (butlast as) ''data-slot'' = Some (StrV slot) \<and>
    (cs \<noteq> [] \<longrightarrow> ''children'' \<in> set own)"
  shows "slotted part own slot"
proof
  fix ps
  obtain tag as cs where c: "part ps = jsx tag as cs" "as \<noteq> []" "last as = Spread (rest own ps)"
    "list_all attr_distinct (butlast as)" "decides (butlast as) ''data-slot'' = Some (StrV slot)"
    "cs \<noteq> [] \<longrightarrow> ''children'' \<in> set own"
    using assms [of ps] by blast
  have "as = butlast as @ [Spread (rest own ps)]" using c(2,3) by (metis append_butlast_last_id)
  with c show "\<exists>tag as cs. part ps = jsx tag (as @ [Spread (rest own ps)]) cs \<and> list_all attr_distinct as \<and>
      decides as ''data-slot'' = Some (StrV slot) \<and> (cs \<noteq> [] \<longrightarrow> ''children'' \<in> set own)"
    by metis
qed

subsection \<open>Stand-ins for the packages\<close>

text \<open>Stand-ins for the class-name packages: the strings in order, later ones not merged with earlier ones.\<close>

fun class_text :: "ui_value \<Rightarrow> string list" where
  "class_text (StrV s) = [s]"
| "class_text (ArrV vs) = concat (map class_text vs)"
| "class_text v = []"

definition sample_lib :: ui_lib where
  "sample_lib = \<lparr>clsx = (\<lambda>vs. join '' '' (class_text (ArrV vs))), twMerge = (\<lambda>s. s),
     cva = (\<lambda>base cfg v. join '' '' (class_text base))\<rparr>"

end
