(* ===== verification/UseToast.thy ===== *)
theory UseToast
  imports Jsx NumberText
begin

text \<open>
  The toast store of \<open>Frontend/hooks/use-toast.ts\<close>: a module-level state, a reducer whose dismissal
  also starts removal timers, and the components that listen to it. A toast is an object (its list
  of properties). The event loop runs one operation at a time: calls of the API, components
  mounting and unmounting, and timers that fire once they are due.
\<close>

subsection \<open>Data\<close>

definition TOAST_LIMIT :: nat where
  "TOAST_LIMIT = 1"

definition TOAST_REMOVE_DELAY :: int where
  "TOAST_REMOVE_DELAY = 1000000"

definition MAX_SAFE_INTEGER :: int where
  "MAX_SAFE_INTEGER = 2 ^ 53 - 1"

text \<open>A \<open>toastId\<close> is a string or \<open>undefined\<close>.\<close>

datatype Action =
    ADD_TOAST props
  | UPDATE_TOAST props
  | DISMISS_TOAST ui_value
  | REMOVE_TOAST ui_value

text \<open>
  \<open>toastTimeouts\<close> maps the id of a toast to the time its timer is due. \<open>listeners\<close> are the components
  whose effect has registered \<open>setState\<close>; \<open>component_state\<close> is the state each last set.
\<close>

record toast_store =
  id_count :: int
  toastTimeouts :: "string \<rightharpoonup> int"
  memoryState :: "props list"
  listeners :: "nat list"
  component_state :: "nat \<Rightarrow> props list"

definition initial_store :: toast_store where
  "initial_store = \<lparr>id_count = 0, toastTimeouts = Map.empty, memoryState = [], listeners = [],
     component_state = (\<lambda>c. [])\<rparr>"

subsection \<open>Operations\<close>

definition genId :: "toast_store \<Rightarrow> string \<times> toast_store" where
  "genId s =
     (let n = (id_count s + 1) mod MAX_SAFE_INTEGER
      in (dec n, s\<lparr>id_count := n\<rparr>))"

definition addToRemoveQueue :: "int \<Rightarrow> string \<Rightarrow> (string \<rightharpoonup> int) \<Rightarrow> (string \<rightharpoonup> int)" where
  "addToRemoveQueue now toastId timeouts =
     (if timeouts toastId \<noteq> None then timeouts else timeouts(toastId \<mapsto> now + TOAST_REMOVE_DELAY))"

text \<open>A value used as the key of a toast in the queue; toasts of the store carry string ids.\<close>

fun id_text :: "ui_value \<Rightarrow> string" where
  "id_text (StrV s) = s"
| "id_text v = ''undefined''"

definition same_id :: "ui_value \<Rightarrow> props \<Rightarrow> bool" where
  "same_id toastId t \<longleftrightarrow> strict_eq (read_prop ''id'' t) toastId"

text \<open>The reducer, with the timers its dismissal starts.\<close>

fun reducer :: "int \<Rightarrow> props list \<Rightarrow> (string \<rightharpoonup> int) \<Rightarrow> Action \<Rightarrow> props list \<times> (string \<rightharpoonup> int)" where
  "reducer now ts timeouts (ADD_TOAST t) = (take TOAST_LIMIT (t # ts), timeouts)"
| "reducer now ts timeouts (UPDATE_TOAST u) =
     (map (\<lambda>t. if strict_eq (read_prop ''id'' t) (read_prop ''id'' u) then obj [Spread t, Spread u] else t) ts, timeouts)"
| "reducer now ts timeouts (DISMISS_TOAST toastId) =
     (let timeouts = (if truthy toastId then addToRemoveQueue now (id_text toastId) timeouts
                      else foldl (\<lambda>q t. addToRemoveQueue now (id_text (read_prop ''id'' t)) q) timeouts ts)
      in (map (\<lambda>t. if same_id toastId t \<or> toastId = UndefV then obj [Spread t, Attr ''open'' (BoolV False)] else t) ts,
          timeouts))"
| "reducer now ts timeouts (REMOVE_TOAST toastId) =
     (if toastId = UndefV then [] else filter (\<lambda>t. \<not> same_id toastId t) ts, timeouts)"

definition dispatch :: "int \<Rightarrow> Action \<Rightarrow> toast_store \<Rightarrow> toast_store" where
  "dispatch now a s =
     (let (ts, timeouts) = reducer now (memoryState s) (toastTimeouts s) a
      in s\<lparr>memoryState := ts, toastTimeouts := timeouts,
           component_state := (\<lambda>c. if c \<in> set (listeners s) then ts else component_state s c)\<rparr>)"

text \<open>\<open>toast(props)\<close>: its \<open>onOpenChange\<close> captures the id. The update and dismissal it returns are below.\<close>

definition toast :: "int \<Rightarrow> props \<Rightarrow> toast_store \<Rightarrow> string \<times> toast_store" where
  "toast now ps s =
     (let (i, s) = genId s
      in (i, dispatch now (ADD_TOAST (obj [Spread ps, Attr ''id'' (StrV i), Attr ''open'' (BoolV True),
               Attr ''onOpenChange'' (FunV ''toast.onOpenChange'' [StrV i])])) s))"

definition toast_update :: "int \<Rightarrow> string \<Rightarrow> props \<Rightarrow> toast_store \<Rightarrow> toast_store" where
  "toast_update now i ps s = dispatch now (UPDATE_TOAST (obj [Spread ps, Attr ''id'' (StrV i)])) s"

definition toast_dismiss :: "int \<Rightarrow> string \<Rightarrow> toast_store \<Rightarrow> toast_store" where
  "toast_dismiss now i s = dispatch now (DISMISS_TOAST (StrV i)) s"

definition onOpenChange :: "int \<Rightarrow> string \<Rightarrow> bool \<Rightarrow> toast_store \<Rightarrow> toast_store" where
  "onOpenChange now i open' s = (if \<not> open' then toast_dismiss now i s else s)"

text \<open>The callback of a timer, which runs when it is due.\<close>

definition remove_timer :: "int \<Rightarrow> string \<Rightarrow> toast_store \<Rightarrow> toast_store" where
  "remove_timer now i s =
     dispatch now (REMOVE_TOAST (StrV i)) (s\<lparr>toastTimeouts := (toastTimeouts s)(i := None)\<rparr>)"

text \<open>The hook in a component: its first state, its effect and the cleanup of the effect.\<close>

definition useToast_mount :: "nat \<Rightarrow> toast_store \<Rightarrow> toast_store" where
  "useToast_mount c s = s\<lparr>component_state := (component_state s)(c := memoryState s)\<rparr>"

definition useToast_effect :: "nat \<Rightarrow> toast_store \<Rightarrow> toast_store" where
  "useToast_effect c s = s\<lparr>listeners := listeners s @ [c]\<rparr>"

definition useToast_cleanup :: "nat \<Rightarrow> toast_store \<Rightarrow> toast_store" where
  "useToast_cleanup c s = s\<lparr>listeners := remove1 c (listeners s)\<rparr>"

definition useToast_dismiss :: "int \<Rightarrow> ui_value \<Rightarrow> toast_store \<Rightarrow> toast_store" where
  "useToast_dismiss now toastId s = dispatch now (DISMISS_TOAST toastId) s"

subsection \<open>The store as a state machine\<close>

text \<open>
  Every interleaving of the API, of components and of timers. Callers hand over objects, and
  close a toast by dismissing it, not by an update of \<open>open\<close>.
\<close>

definition caller_props :: "props \<Rightarrow> bool" where
  "caller_props ps \<longleftrightarrow> distinct (map fst ps)"

inductive toast_step :: "toast_store \<Rightarrow> toast_store \<Rightarrow> bool" where
  show_toast: "caller_props ps \<Longrightarrow> toast_step s (snd (toast now ps s))"
| update: "caller_props ps \<Longrightarrow> map_of ps ''open'' = None \<Longrightarrow> toast_step s (toast_update now i ps s)"
| dismiss: "toast_step s (toast_dismiss now i s)"
| open_change: "toast_step s (onOpenChange now i b s)"
| dismiss_hook: "toastId = UndefV \<or> (\<exists>i. toastId = StrV i) \<Longrightarrow> toast_step s (useToast_dismiss now toastId s)"
| timer: "toastTimeouts s i = Some due \<Longrightarrow> due \<le> now \<Longrightarrow> toast_step s (remove_timer now i s)"
| mount: "toast_step s (useToast_mount c s)"
| effect: "toast_step s (useToast_effect c s)"
| cleanup: "toast_step s (useToast_cleanup c s)"

inductive toast_reachable :: "toast_store \<Rightarrow> bool" where
  start: "toast_reachable initial_store"
| step: "toast_reachable s \<Longrightarrow> toast_step s s' \<Longrightarrow> toast_reachable s'"

definition toast_ok :: "(string \<rightharpoonup> int) \<Rightarrow> props \<Rightarrow> bool" where
  "toast_ok timeouts t \<longleftrightarrow> distinct (map fst t) \<and>
     (\<exists>i. read_prop ''id'' t = StrV i \<and> (read_prop ''open'' t = BoolV False \<longrightarrow> timeouts i \<noteq> None))"

definition store_ok :: "toast_store \<Rightarrow> bool" where
  "store_ok s \<longleftrightarrow> length (memoryState s) \<le> TOAST_LIMIT \<and> (\<forall>t \<in> set (memoryState s). toast_ok (toastTimeouts s) t)"

lemma queue_dom: "timeouts j \<noteq> None \<Longrightarrow> addToRemoveQueue now i timeouts j \<noteq> None"
  by (simp add: addToRemoveQueue_def)

lemma queue_self: "addToRemoveQueue now i timeouts i \<noteq> None"
  by (simp add: addToRemoveQueue_def)

lemma queues_dom:
  "timeouts j \<noteq> None \<or> (\<exists>t \<in> set ts. id_text (read_prop ''id'' t) = j) \<Longrightarrow>
   foldl (\<lambda>q t. addToRemoveQueue now (id_text (read_prop ''id'' t)) q) timeouts ts j \<noteq> None"
proof (induction ts arbitrary: timeouts)
  case (Cons t ts)
  then have "addToRemoveQueue now (id_text (read_prop ''id'' t)) timeouts j \<noteq> None \<or>
      (\<exists>t \<in> set ts. id_text (read_prop ''id'' t) = j)"
    using queue_dom queue_self by auto
  then show ?case using Cons.IH by simp
qed simp

lemma toast_ok_mono: "toast_ok q t \<Longrightarrow> (\<And>j. q j \<noteq> None \<Longrightarrow> q' j \<noteq> None) \<Longrightarrow> toast_ok q' t"
  by (auto simp: toast_ok_def)

lemma read_obj_id [simp]:
  "distinct (map fst t) \<Longrightarrow> read_prop k (obj [Spread t, Attr k' v]) = (if k' = k then v else read_prop k t)"
  by (simp add: read_obj) (simp add: read_prop_def split: option.split)

text \<open>The reducer keeps the invariant.\<close>

definition action_ok :: "Action \<Rightarrow> bool" where
  "action_ok a \<longleftrightarrow>
     (case a of
        ADD_TOAST t \<Rightarrow> distinct (map fst t) \<and> (\<exists>i. read_prop ''id'' t = StrV i) \<and> read_prop ''open'' t = BoolV True
      | UPDATE_TOAST u \<Rightarrow> distinct (map fst u) \<and> (\<exists>i. read_prop ''id'' u = StrV i) \<and> map_of u ''open'' = None
      | DISMISS_TOAST i \<Rightarrow> i = UndefV \<or> (\<exists>j. i = StrV j)
      | REMOVE_TOAST i \<Rightarrow> True)"

lemma updated_toast:
  assumes "toast_ok q t" "distinct (map fst u)" "map_of u ''open'' = None" "strict_eq (read_prop ''id'' t) (read_prop ''id'' u)"
  shows "toast_ok q (obj [Spread t, Spread u])"
proof -
  obtain i where t: "distinct (map fst t)" "read_prop ''id'' t = StrV i" "read_prop ''open'' t = BoolV False \<longrightarrow> q i \<noteq> None"
    using assms(1) by (auto simp: toast_ok_def)
  have "read_prop ''id'' u = StrV i" using assms(4) t(2) by (cases "read_prop ''id'' u") auto
  then have u: "map_of u ''id'' = Some (StrV i)" by (auto simp: read_prop_def split: option.splits)
  have "read_prop ''id'' (obj [Spread t, Spread u]) = StrV i" using t(1) assms(2) u by (simp add: read_obj)
  moreover have "read_prop ''open'' (obj [Spread t, Spread u]) = read_prop ''open'' t"
    using t(1) assms(2,3) by (simp add: read_obj) (simp add: read_prop_def split: option.split)
  ultimately show ?thesis using t(3) by (simp add: toast_ok_def)
qed

lemma dismissed_toast:
  assumes "toast_ok q t" "\<And>j. q j \<noteq> None \<Longrightarrow> q' j \<noteq> None" "\<And>i. read_prop ''id'' t = StrV i \<Longrightarrow> q' i \<noteq> None"
  shows "toast_ok q' (obj [Spread t, Attr ''open'' (BoolV False)])"
  using assms by (auto simp: toast_ok_def)

lemma reducer_ok:
  assumes "action_ok a" "length ts \<le> TOAST_LIMIT" "\<forall>t \<in> set ts. toast_ok q t" "reducer now ts q a = (ts', q')"
  shows "length ts' \<le> TOAST_LIMIT \<and> (\<forall>t \<in> set ts'. toast_ok q' t)"
proof (cases a)
  case (ADD_TOAST t)
  then show ?thesis using assms by (auto simp: action_ok_def toast_ok_def TOAST_LIMIT_def)
next
  case (UPDATE_TOAST u)
  then show ?thesis using assms updated_toast [of q _ u] by (auto simp: action_ok_def)
next
  case (REMOVE_TOAST i)
  then show ?thesis using assms by (auto intro: le_trans [OF length_filter_le] split: if_splits)
next
  case (DISMISS_TOAST toastId)
  have eq: "ts' = map (\<lambda>t. if same_id toastId t \<or> toastId = UndefV then obj [Spread t, Attr ''open'' (BoolV False)] else t) ts"
    "q' = (if truthy toastId then addToRemoveQueue now (id_text toastId) q
           else foldl (\<lambda>q t. addToRemoveQueue now (id_text (read_prop ''id'' t)) q) q ts)"
    using assms(4) DISMISS_TOAST by (simp_all add: Let_def)
  have mono: "q' j \<noteq> None" if "q j \<noteq> None" for j
    using that queue_dom [of q j] queues_dom [of q j ts] by (simp add: eq)
  have ok: "toast_ok q' (if same_id toastId t \<or> toastId = UndefV then obj [Spread t, Attr ''open'' (BoolV False)] else t)"
    if t: "t \<in> set ts" for t
  proof (cases "same_id toastId t \<or> toastId = UndefV")
    case True
    have "q' i \<noteq> None" if i: "read_prop ''id'' t = StrV i" for i
    proof (cases "truthy toastId")
      case True
      then have "toastId = StrV i"
        using \<open>same_id toastId t \<or> toastId = UndefV\<close> i by (cases toastId) (auto simp: same_id_def)
      then show ?thesis using True queue_self by (simp add: eq)
    next
      case False
      then show ?thesis using t i queues_dom [of q i ts now] by (simp add: eq) force
    qed
    then show ?thesis using True assms(3) t mono by (auto intro: dismissed_toast)
  next
    case False
    then show ?thesis using assms(3) t mono by (auto intro: toast_ok_mono)
  qed
  have "\<forall>t \<in> set ts'. toast_ok q' t" unfolding eq(1) set_map using ok by blast
  then show ?thesis using assms(2) by (simp add: eq(1))
qed


lemma dispatch_ok: "store_ok s \<Longrightarrow> action_ok a \<Longrightarrow> store_ok (dispatch now a s)"
  using reducer_ok [of a "memoryState s" "toastTimeouts s" now]
  by (auto simp: store_ok_def dispatch_def Let_def split: prod.split)

lemma remove_timer_ok:
  assumes "store_ok s" shows "store_ok (remove_timer now i s)"
proof -
  have mem: "memoryState (remove_timer now i s) = filter (\<lambda>t. \<not> same_id (StrV i) t) (memoryState s)"
    "toastTimeouts (remove_timer now i s) = (toastTimeouts s)(i := None)"
    by (simp_all add: remove_timer_def dispatch_def)
  have "toast_ok ((toastTimeouts s)(i := None)) t" if t: "t \<in> set (memoryState s)" "\<not> same_id (StrV i) t" for t
  proof -
    have "toast_ok (toastTimeouts s) t" using assms t(1) by (simp add: store_ok_def)
    then obtain j where j: "distinct (map fst t)" "read_prop ''id'' t = StrV j"
      "read_prop ''open'' t = BoolV False \<longrightarrow> toastTimeouts s j \<noteq> None"
      unfolding toast_ok_def by blast
    have "j \<noteq> i" using t(2) j(2) by (simp add: same_id_def)
    with j show ?thesis by (simp add: toast_ok_def)
  qed
  then show ?thesis
    using assms le_trans [OF length_filter_le, of "memoryState s"] by (simp add: store_ok_def mem)
qed

lemma toast_step_ok: "toast_step s s' \<Longrightarrow> store_ok s \<Longrightarrow> store_ok s'"
proof (induction rule: toast_step.induct)
  case (show_toast ps s now)
  have "store_ok (snd (genId s))" using show_toast.prems by (simp add: store_ok_def genId_def Let_def)
  moreover have "action_ok (ADD_TOAST (obj [Spread ps, Attr ''id'' (StrV i), Attr ''open'' (BoolV True),
      Attr ''onOpenChange'' (FunV ''toast.onOpenChange'' [StrV i])]))" for i
    using show_toast.hyps by (simp add: action_ok_def read_obj caller_props_def)
  ultimately show ?case by (auto simp: toast_def split: prod.split intro: dispatch_ok)
next
  case (update ps s now i)
  have "action_ok (UPDATE_TOAST (obj [Spread ps, Attr ''id'' (StrV i)]))"
    using update.hyps by (simp add: action_ok_def read_obj map_of_obj caller_props_def)
  then show ?case using update.prems by (simp add: toast_update_def dispatch_ok)
next
  case (timer s i due now)
  then show ?case by (simp add: remove_timer_ok)
qed (auto simp: toast_dismiss_def onOpenChange_def useToast_dismiss_def useToast_mount_def useToast_effect_def
    useToast_cleanup_def action_ok_def store_ok_def intro!: dispatch_ok [unfolded store_ok_def])

lemma reachable_ok: "toast_reachable s \<Longrightarrow> store_ok s"
proof (induction rule: toast_reachable.induct)
  case start
  then show ?case by (simp add: store_ok_def initial_store_def)
qed (rule toast_step_ok)

text \<open>C36: In every interleaving of calls, components and timers at most one toast is shown, and a toast that
  has been dismissed has exactly one removal timer pending, whose firing takes it out of the store:
  no dismissed toast stays behind.\<close>

theorem toast_lifecycle:
  assumes "toast_reachable s" "t \<in> set (memoryState s)"
  shows "memoryState s = [t] \<and> (\<exists>i. read_prop ''id'' t = StrV i \<and>
    (read_prop ''open'' t = BoolV False \<longrightarrow>
      (\<exists>due. toastTimeouts s i = Some due \<and> toast_step s (remove_timer due i s) \<and> memoryState (remove_timer due i s) = [])))"
proof -
  have "length (memoryState s) \<le> 1" "toast_ok (toastTimeouts s) t"
    using reachable_ok [OF assms(1)] assms(2) by (auto simp: store_ok_def TOAST_LIMIT_def)
  then obtain i where t: "memoryState s = [t]" "read_prop ''id'' t = StrV i"
    "read_prop ''open'' t = BoolV False \<longrightarrow> toastTimeouts s i \<noteq> None"
    using assms(2) by (cases "memoryState s") (auto simp: toast_ok_def)
  have "memoryState (remove_timer due i s) = []" for due
    using t by (simp add: remove_timer_def dispatch_def same_id_def)
  moreover have "toast_step s (remove_timer due i s)" if "toastTimeouts s i = Some due" for due
    using that by (rule toast_step.timer) simp
  ultimately show ?thesis using t by auto
qed

definition dismissed_store :: toast_store where
  "dismissed_store = toast_dismiss 5 ''1'' (snd (toast 0 [(''title'', StrV ''Saved'')] initial_store))"

theorem toast_lifecycle_witness:
  "\<exists>t. memoryState dismissed_store = [t] \<and> read_prop ''open'' t = BoolV False \<and>
     (\<exists>i due. toastTimeouts dismissed_store i = Some due \<and> memoryState (remove_timer due i dismissed_store) = [])"
proof -
  have "toast_reachable dismissed_store"
    unfolding dismissed_store_def
    by (intro toast_reachable.step [OF toast_reachable.step [OF toast_reachable.start toast_step.show_toast] toast_step.dismiss])
      (simp add: caller_props_def)
  moreover have "dec 1 = ''1''" by code_simp
  then obtain t where "memoryState dismissed_store = [t]" "read_prop ''open'' t = BoolV False"
    by (simp add: dismissed_store_def toast_def genId_def initial_store_def toast_dismiss_def dispatch_def
        TOAST_LIMIT_def MAX_SAFE_INTEGER_def same_id_def read_obj)
  ultimately show ?thesis using toast_lifecycle [of dismissed_store t] by auto
qed

end
