(* ===== verification/UiControls.thy ===== *)
theory UiControls
  imports Jsx
begin

text \<open>
  Buttons, inputs and form parts of \<open>Frontend/components/ui\<close>. Each definition is the component of that name;
  the interpretations show which of them keep the contract of a slotted part.
\<close>

subsection \<open>\<open>button.tsx\<close>\<close>

definition buttonVariants :: "ui_lib \<Rightarrow> ui_value \<Rightarrow> ui_value" where
  \<open>buttonVariants lib v = StrV (cva lib
    (StrV ''inline-flex items-center justify-center gap-2 whitespace-nowrap rounded-md text-sm font-medium transition-all disabled:pointer-events-none disabled:opacity-50 [&_svg]:pointer-events-none [&_svg:not([class*='size-'])]:size-4 shrink-0 [&_svg]:shrink-0 outline-none focus-visible:border-ring focus-visible:ring-ring/50 focus-visible:ring-[3px] aria-invalid:ring-destructive/20 dark:aria-invalid:ring-destructive/40 aria-invalid:border-destructive'')
    (ObjV (obj [Attr ''variants'' (ObjV (obj [Attr ''variant'' (ObjV (obj [Attr ''default'' (StrV ''bg-primary text-primary-foreground hover:bg-primary/90''), Attr ''destructive'' (StrV ''bg-destructive text-white hover:bg-destructive/90 focus-visible:ring-destructive/20 dark:focus-visible:ring-destructive/40 dark:bg-destructive/60''), Attr ''outline'' (StrV ''border bg-background shadow-xs hover:bg-accent hover:text-accent-foreground dark:bg-input/30 dark:border-input dark:hover:bg-input/50''), Attr ''secondary'' (StrV ''bg-secondary text-secondary-foreground hover:bg-secondary/80''), Attr ''ghost'' (StrV ''hover:bg-accent hover:text-accent-foreground dark:hover:bg-accent/50''), Attr ''link'' (StrV ''text-primary underline-offset-4 hover:underline'')])), Attr ''size'' (ObjV (obj [Attr ''default'' (StrV ''h-9 px-4 py-2 has-[>svg]:px-3''), Attr ''sm'' (StrV ''h-8 rounded-md gap-1.5 px-3 has-[>svg]:px-2.5''), Attr ''lg'' (StrV ''h-10 rounded-md px-6 has-[>svg]:px-4''), Attr ''icon'' (StrV ''size-9''), Attr ''icon-sm'' (StrV ''size-8''), Attr ''icon-lg'' (StrV ''size-10'')]))])), Attr ''defaultVariants'' (ObjV (obj [Attr ''variant'' (StrV ''default''), Attr ''size'' (StrV ''default'')]))]))
    v)\<close>

definition Button :: ui_component where
  \<open>Button lib ps =
    (let className = read_prop ''className'' ps;
         variant = read_prop ''variant'' ps;
         size' = read_prop ''size'' ps;
         asChild = or_default (BoolV False) (read_prop ''asChild'' ps);
         props = rest [''className'', ''variant'', ''size'', ''asChild''] ps;
         Comp = (if truthy asChild then ''Slot'' else ''button'')
     in jsx Comp
         [Attr ''data-slot'' (StrV ''button''),
           Attr ''className'' (cn lib [buttonVariants lib (ObjV (obj [Attr ''variant'' variant, Attr ''size'' size', Attr ''className'' className]))]),
           Spread props]
         [])\<close>

subsection \<open>\<open>button-group.tsx\<close>\<close>

definition buttonGroupVariants :: "ui_lib \<Rightarrow> ui_value \<Rightarrow> ui_value" where
  \<open>buttonGroupVariants lib v = StrV (cva lib
    (StrV ''flex w-fit items-stretch [&>*]:focus-visible:z-10 [&>*]:focus-visible:relative [&>[data-slot=select-trigger]:not([class*='w-'])]:w-fit [&>input]:flex-1 has-[select[aria-hidden=true]:last-child]:[&>[data-slot=select-trigger]:last-of-type]:rounded-r-md has-[>[data-slot=button-group]]:gap-2'')
    (ObjV (obj [Attr ''variants'' (ObjV (obj [Attr ''orientation'' (ObjV (obj [Attr ''horizontal'' (StrV ''[&>*:not(:first-child)]:rounded-l-none [&>*:not(:first-child)]:border-l-0 [&>*:not(:last-child)]:rounded-r-none''), Attr ''vertical'' (StrV ''flex-col [&>*:not(:first-child)]:rounded-t-none [&>*:not(:first-child)]:border-t-0 [&>*:not(:last-child)]:rounded-b-none'')]))])), Attr ''defaultVariants'' (ObjV (obj [Attr ''orientation'' (StrV ''horizontal'')]))]))
    v)\<close>

definition ButtonGroup :: ui_component where
  \<open>ButtonGroup lib ps =
    (let className = read_prop ''className'' ps;
         orientation = read_prop ''orientation'' ps;
         props = rest [''className'', ''orientation''] ps
     in jsx ''div''
         [Attr ''role'' (StrV ''group''),
           Attr ''data-slot'' (StrV ''button-group''),
           Attr ''data-orientation'' orientation,
           Attr ''className'' (cn lib [buttonGroupVariants lib (ObjV (obj [Attr ''orientation'' orientation])),
               className]),
           Spread props]
         [])\<close>

definition ButtonGroupText :: ui_component where
  \<open>ButtonGroupText lib ps =
    (let className = read_prop ''className'' ps;
         asChild = or_default (BoolV False) (read_prop ''asChild'' ps);
         props = rest [''className'', ''asChild''] ps;
         Comp = (if truthy asChild then ''Slot'' else ''div'')
     in jsx Comp
         [Attr ''className'' (cn lib [StrV ''bg-muted flex items-center gap-2 rounded-md border px-4 text-sm font-medium shadow-xs [&_svg]:pointer-events-none [&_svg:not([class*='size-'])]:size-4'',
               className]),
           Spread props]
         [])\<close>

definition ButtonGroupSeparator :: ui_component where
  \<open>ButtonGroupSeparator lib ps =
    (let className = read_prop ''className'' ps;
         orientation = or_default (StrV ''vertical'') (read_prop ''orientation'' ps);
         props = rest [''className'', ''orientation''] ps
     in jsx ''Separator''
         [Attr ''data-slot'' (StrV ''button-group-separator''),
           Attr ''orientation'' orientation,
           Attr ''className'' (cn lib [StrV ''bg-input relative !m-0 self-stretch data-[orientation=vertical]:h-auto'',
               className]),
           Spread props]
         [])\<close>

subsection \<open>\<open>input.tsx\<close>\<close>

definition Input :: ui_component where
  \<open>Input lib ps =
    (let className = read_prop ''className'' ps;
         type = read_prop ''type'' ps;
         props = rest [''className'', ''type''] ps
     in jsx ''input''
         [Attr ''type'' type,
           Attr ''data-slot'' (StrV ''input''),
           Attr ''className'' (cn lib [StrV ''file:text-foreground placeholder:text-muted-foreground selection:bg-primary selection:text-primary-foreground dark:bg-input/30 border-input h-9 w-full min-w-0 rounded-md border bg-transparent px-3 py-1 text-base shadow-xs transition-[color,box-shadow] outline-none file:inline-flex file:h-7 file:border-0 file:bg-transparent file:text-sm file:font-medium disabled:pointer-events-none disabled:cursor-not-allowed disabled:opacity-50 md:text-sm'',
               StrV ''focus-visible:border-ring focus-visible:ring-ring/50 focus-visible:ring-[3px]'',
               StrV ''aria-invalid:ring-destructive/20 dark:aria-invalid:ring-destructive/40 aria-invalid:border-destructive'',
               className]),
           Spread props]
         [])\<close>

subsection \<open>\<open>textarea.tsx\<close>\<close>

definition Textarea :: ui_component where
  \<open>Textarea lib ps =
    (let className = read_prop ''className'' ps;
         props = rest [''className''] ps
     in jsx ''textarea''
         [Attr ''data-slot'' (StrV ''textarea''),
           Attr ''className'' (cn lib [StrV ''border-input placeholder:text-muted-foreground focus-visible:border-ring focus-visible:ring-ring/50 aria-invalid:ring-destructive/20 dark:aria-invalid:ring-destructive/40 aria-invalid:border-destructive dark:bg-input/30 flex field-sizing-content min-h-16 w-full rounded-md border bg-transparent px-3 py-2 text-base shadow-xs transition-[color,box-shadow] outline-none focus-visible:ring-[3px] disabled:cursor-not-allowed disabled:opacity-50 md:text-sm'',
               className]),
           Spread props]
         [])\<close>

subsection \<open>\<open>label.tsx\<close>\<close>

definition Label :: ui_component where
  \<open>Label lib ps =
    (let className = read_prop ''className'' ps;
         props = rest [''className''] ps
     in jsx ''LabelPrimitive.Root''
         [Attr ''data-slot'' (StrV ''label''),
           Attr ''className'' (cn lib [StrV ''flex items-center gap-2 text-sm leading-none font-medium select-none group-data-[disabled=true]:pointer-events-none group-data-[disabled=true]:opacity-50 peer-disabled:cursor-not-allowed peer-disabled:opacity-50'',
               className]),
           Spread props]
         [])\<close>

subsection \<open>\<open>separator.tsx\<close>\<close>

definition Separator :: ui_component where
  \<open>Separator lib ps =
    (let className = read_prop ''className'' ps;
         orientation = or_default (StrV ''horizontal'') (read_prop ''orientation'' ps);
         decorative = or_default (BoolV True) (read_prop ''decorative'' ps);
         props = rest [''className'', ''orientation'', ''decorative''] ps
     in jsx ''SeparatorPrimitive.Root''
         [Attr ''data-slot'' (StrV ''separator''),
           Attr ''decorative'' decorative,
           Attr ''orientation'' orientation,
           Attr ''className'' (cn lib [StrV ''bg-border shrink-0 data-[orientation=horizontal]:h-px data-[orientation=horizontal]:w-full data-[orientation=vertical]:h-full data-[orientation=vertical]:w-px'',
               className]),
           Spread props]
         [])\<close>

subsection \<open>\<open>checkbox.tsx\<close>\<close>

definition Checkbox :: ui_component where
  \<open>Checkbox lib ps =
    (let className = read_prop ''className'' ps;
         props = rest [''className''] ps
     in jsx ''CheckboxPrimitive.Root''
         [Attr ''data-slot'' (StrV ''checkbox''),
           Attr ''className'' (cn lib [StrV ''peer border-input dark:bg-input/30 data-[state=checked]:bg-primary data-[state=checked]:text-primary-foreground dark:data-[state=checked]:bg-primary data-[state=checked]:border-primary focus-visible:border-ring focus-visible:ring-ring/50 aria-invalid:ring-destructive/20 dark:aria-invalid:ring-destructive/40 aria-invalid:border-destructive size-4 shrink-0 rounded-[4px] border shadow-xs transition-shadow outline-none focus-visible:ring-[3px] disabled:cursor-not-allowed disabled:opacity-50'',
               className]),
           Spread props]
         [jsx ''CheckboxPrimitive.Indicator''
            [Attr ''data-slot'' (StrV ''checkbox-indicator''),
              Attr ''className'' (StrV ''flex items-center justify-center text-current transition-none'')]
            [jsx ''CheckIcon''
               [Attr ''className'' (StrV ''size-3.5'')]
               []]])\<close>

subsection \<open>\<open>radio-group.tsx\<close>\<close>

definition RadioGroup :: ui_component where
  \<open>RadioGroup lib ps =
    (let className = read_prop ''className'' ps;
         props = rest [''className''] ps
     in jsx ''RadioGroupPrimitive.Root''
         [Attr ''data-slot'' (StrV ''radio-group''),
           Attr ''className'' (cn lib [StrV ''grid gap-3'',
               className]),
           Spread props]
         [])\<close>

definition RadioGroupItem :: ui_component where
  \<open>RadioGroupItem lib ps =
    (let className = read_prop ''className'' ps;
         props = rest [''className''] ps
     in jsx ''RadioGroupPrimitive.Item''
         [Attr ''data-slot'' (StrV ''radio-group-item''),
           Attr ''className'' (cn lib [StrV ''border-input text-primary focus-visible:border-ring focus-visible:ring-ring/50 aria-invalid:ring-destructive/20 dark:aria-invalid:ring-destructive/40 aria-invalid:border-destructive dark:bg-input/30 aspect-square size-4 shrink-0 rounded-full border shadow-xs transition-[color,box-shadow] outline-none focus-visible:ring-[3px] disabled:cursor-not-allowed disabled:opacity-50'',
               className]),
           Spread props]
         [jsx ''RadioGroupPrimitive.Indicator''
            [Attr ''data-slot'' (StrV ''radio-group-indicator''),
              Attr ''className'' (StrV ''relative flex items-center justify-center'')]
            [jsx ''CircleIcon''
               [Attr ''className'' (StrV ''fill-primary absolute top-1/2 left-1/2 size-2 -translate-x-1/2 -translate-y-1/2'')]
               []]])\<close>

subsection \<open>\<open>switch.tsx\<close>\<close>

definition Switch :: ui_component where
  \<open>Switch lib ps =
    (let className = read_prop ''className'' ps;
         props = rest [''className''] ps
     in jsx ''SwitchPrimitive.Root''
         [Attr ''data-slot'' (StrV ''switch''),
           Attr ''className'' (cn lib [StrV ''peer data-[state=checked]:bg-primary data-[state=unchecked]:bg-input focus-visible:border-ring focus-visible:ring-ring/50 dark:data-[state=unchecked]:bg-input/80 inline-flex h-[1.15rem] w-8 shrink-0 items-center rounded-full border border-transparent shadow-xs transition-all outline-none focus-visible:ring-[3px] disabled:cursor-not-allowed disabled:opacity-50'',
               className]),
           Spread props]
         [jsx ''SwitchPrimitive.Thumb''
            [Attr ''data-slot'' (StrV ''switch-thumb''),
              Attr ''className'' (StrV ''bg-background dark:data-[state=unchecked]:bg-foreground dark:data-[state=checked]:bg-primary-foreground pointer-events-none block size-4 rounded-full ring-0 transition-transform data-[state=checked]:translate-x-[calc(100%-2px)] data-[state=unchecked]:translate-x-0'')]
            []])\<close>

subsection \<open>\<open>toggle.tsx\<close>\<close>

definition toggleVariants :: "ui_lib \<Rightarrow> ui_value \<Rightarrow> ui_value" where
  \<open>toggleVariants lib v = StrV (cva lib
    (StrV ''inline-flex items-center justify-center gap-2 rounded-md text-sm font-medium hover:bg-muted hover:text-muted-foreground disabled:pointer-events-none disabled:opacity-50 data-[state=on]:bg-accent data-[state=on]:text-accent-foreground [&_svg]:pointer-events-none [&_svg:not([class*='size-'])]:size-4 [&_svg]:shrink-0 focus-visible:border-ring focus-visible:ring-ring/50 focus-visible:ring-[3px] outline-none transition-[color,box-shadow] aria-invalid:ring-destructive/20 dark:aria-invalid:ring-destructive/40 aria-invalid:border-destructive whitespace-nowrap'')
    (ObjV (obj [Attr ''variants'' (ObjV (obj [Attr ''variant'' (ObjV (obj [Attr ''default'' (StrV ''bg-transparent''), Attr ''outline'' (StrV ''border border-input bg-transparent shadow-xs hover:bg-accent hover:text-accent-foreground'')])), Attr ''size'' (ObjV (obj [Attr ''default'' (StrV ''h-9 px-2 min-w-9''), Attr ''sm'' (StrV ''h-8 px-1.5 min-w-8''), Attr ''lg'' (StrV ''h-10 px-2.5 min-w-10'')]))])), Attr ''defaultVariants'' (ObjV (obj [Attr ''variant'' (StrV ''default''), Attr ''size'' (StrV ''default'')]))]))
    v)\<close>

definition Toggle :: ui_component where
  \<open>Toggle lib ps =
    (let className = read_prop ''className'' ps;
         variant = read_prop ''variant'' ps;
         size' = read_prop ''size'' ps;
         props = rest [''className'', ''variant'', ''size''] ps
     in jsx ''TogglePrimitive.Root''
         [Attr ''data-slot'' (StrV ''toggle''),
           Attr ''className'' (cn lib [toggleVariants lib (ObjV (obj [Attr ''variant'' variant, Attr ''size'' size', Attr ''className'' className]))]),
           Spread props]
         [])\<close>

subsection \<open>\<open>toggle-group.tsx\<close>\<close>

definition ToggleGroup :: ui_component where
  \<open>ToggleGroup lib ps =
    (let className = read_prop ''className'' ps;
         variant = read_prop ''variant'' ps;
         size' = read_prop ''size'' ps;
         children = read_prop ''children'' ps;
         props = rest [''className'', ''variant'', ''size'', ''children''] ps
     in jsx ''ToggleGroupPrimitive.Root''
         [Attr ''data-slot'' (StrV ''toggle-group''),
           Attr ''data-variant'' variant,
           Attr ''data-size'' size',
           Attr ''className'' (cn lib [StrV ''group/toggle-group flex w-fit items-center rounded-md data-[variant=outline]:shadow-xs'',
               className]),
           Spread props]
         [jsx ''ToggleGroupContext.Provider''
            [Attr ''value'' (ObjV (obj [Attr ''variant'' variant, Attr ''size'' size']))]
            [children]])\<close>

definition ToggleGroupItem :: "props \<Rightarrow> ui_component" where
  \<open>ToggleGroupItem ctx lib ps =
    (let className = read_prop ''className'' ps;
         children = read_prop ''children'' ps;
         variant = read_prop ''variant'' ps;
         size' = read_prop ''size'' ps;
         props = rest [''className'', ''children'', ''variant'', ''size''] ps;
         context = ObjV ctx
     in jsx ''ToggleGroupPrimitive.Item''
         [Attr ''data-slot'' (StrV ''toggle-group-item''),
           Attr ''data-variant'' (js_or (member ''variant'' context) variant),
           Attr ''data-size'' (js_or (member ''size'' context) size'),
           Attr ''className'' (cn lib [toggleVariants lib (ObjV (obj [Attr ''variant'' (js_or (member ''variant'' context) variant), Attr ''size'' (js_or (member ''size'' context) size')])),
               StrV ''min-w-0 flex-1 shrink-0 rounded-none shadow-none first:rounded-l-md last:rounded-r-md focus:z-10 focus-visible:z-10 data-[variant=outline]:border-l-0 data-[variant=outline]:first:border-l'',
               className]),
           Spread props]
         [children])\<close>

text \<open>The context an item finds outside every group: there its own variant and size are never used.\<close>

definition ToggleGroupContext :: props where
  "ToggleGroupContext = obj [Attr ''size'' (StrV ''default''), Attr ''variant'' (StrV ''default'')]"

lemma ToggleGroupItem_outside:
  "ToggleGroupItem ToggleGroupContext lib (ps @ [(''variant'', v), (''size'', w)]) =
   ToggleGroupItem ToggleGroupContext lib (ps @ [(''variant'', UndefV), (''size'', UndefV)])"
  by (simp add: ToggleGroupItem_def ToggleGroupContext_def obj_def Let_def read_prop_def js_or_def rest_def map_add_def split: option.split)


subsection \<open>\<open>select.tsx\<close>\<close>

definition Select :: ui_component where
  \<open>Select lib ps =
    (let props = ps
     in jsx ''SelectPrimitive.Root''
         [Attr ''data-slot'' (StrV ''select''),
           Spread props]
         [])\<close>

definition SelectGroup :: ui_component where
  \<open>SelectGroup lib ps =
    (let props = ps
     in jsx ''SelectPrimitive.Group''
         [Attr ''data-slot'' (StrV ''select-group''),
           Spread props]
         [])\<close>

definition SelectValue :: ui_component where
  \<open>SelectValue lib ps =
    (let props = ps
     in jsx ''SelectPrimitive.Value''
         [Attr ''data-slot'' (StrV ''select-value''),
           Spread props]
         [])\<close>

definition SelectTrigger :: ui_component where
  \<open>SelectTrigger lib ps =
    (let className = read_prop ''className'' ps;
         size' = or_default (StrV ''default'') (read_prop ''size'' ps);
         children = read_prop ''children'' ps;
         props = rest [''className'', ''size'', ''children''] ps
     in jsx ''SelectPrimitive.Trigger''
         [Attr ''data-slot'' (StrV ''select-trigger''),
           Attr ''data-size'' size',
           Attr ''className'' (cn lib [StrV ''border-input data-[placeholder]:text-muted-foreground [&_svg:not([class*='text-'])]:text-muted-foreground focus-visible:border-ring focus-visible:ring-ring/50 aria-invalid:ring-destructive/20 dark:aria-invalid:ring-destructive/40 aria-invalid:border-destructive dark:bg-input/30 dark:hover:bg-input/50 flex w-fit items-center justify-between gap-2 rounded-md border bg-transparent px-3 py-2 text-sm whitespace-nowrap shadow-xs transition-[color,box-shadow] outline-none focus-visible:ring-[3px] disabled:cursor-not-allowed disabled:opacity-50 data-[size=default]:h-9 data-[size=sm]:h-8 *:data-[slot=select-value]:line-clamp-1 *:data-[slot=select-value]:flex *:data-[slot=select-value]:items-center *:data-[slot=select-value]:gap-2 [&_svg]:pointer-events-none [&_svg]:shrink-0 [&_svg:not([class*='size-'])]:size-4'',
               className]),
           Spread props]
         [children,
           jsx ''SelectPrimitive.Icon''
            [Attr ''asChild'' (BoolV True)]
            [jsx ''ChevronDownIcon''
               [Attr ''className'' (StrV ''size-4 opacity-50'')]
               []]])\<close>

definition SelectContent :: ui_component where
  \<open>SelectContent lib ps =
    (let className = read_prop ''className'' ps;
         children = read_prop ''children'' ps;
         position = or_default (StrV ''popper'') (read_prop ''position'' ps);
         props = rest [''className'', ''children'', ''position''] ps
     in jsx ''SelectPrimitive.Portal''
         []
         [jsx ''SelectPrimitive.Content''
            [Attr ''data-slot'' (StrV ''select-content''),
              Attr ''className'' (cn lib [StrV ''bg-popover text-popover-foreground data-[state=open]:animate-in data-[state=closed]:animate-out data-[state=closed]:fade-out-0 data-[state=open]:fade-in-0 data-[state=closed]:zoom-out-95 data-[state=open]:zoom-in-95 data-[side=bottom]:slide-in-from-top-2 data-[side=left]:slide-in-from-right-2 data-[side=right]:slide-in-from-left-2 data-[side=top]:slide-in-from-bottom-2 relative z-50 max-h-(--radix-select-content-available-height) min-w-[8rem] origin-(--radix-select-content-transform-origin) overflow-x-hidden overflow-y-auto rounded-md border shadow-md'',
                  js_and (BoolV (strict_eq position (StrV ''popper''))) (StrV ''data-[side=bottom]:translate-y-1 data-[side=left]:-translate-x-1 data-[side=right]:translate-x-1 data-[side=top]:-translate-y-1''),
                  className]),
              Attr ''position'' position,
              Spread props]
            [jsx ''SelectScrollUpButton''
               []
               [],
              jsx ''SelectPrimitive.Viewport''
               [Attr ''className'' (cn lib [StrV ''p-1'',
                     js_and (BoolV (strict_eq position (StrV ''popper''))) (StrV ''h-[var(--radix-select-trigger-height)] w-full min-w-[var(--radix-select-trigger-width)] scroll-my-1'')])]
               [children],
              jsx ''SelectScrollDownButton''
               []
               []]])\<close>

definition SelectLabel :: ui_component where
  \<open>SelectLabel lib ps =
    (let className = read_prop ''className'' ps;
         props = rest [''className''] ps
     in jsx ''SelectPrimitive.Label''
         [Attr ''data-slot'' (StrV ''select-label''),
           Attr ''className'' (cn lib [StrV ''text-muted-foreground px-2 py-1.5 text-xs'',
               className]),
           Spread props]
         [])\<close>

definition SelectItem :: ui_component where
  \<open>SelectItem lib ps =
    (let className = read_prop ''className'' ps;
         children = read_prop ''children'' ps;
         props = rest [''className'', ''children''] ps
     in jsx ''SelectPrimitive.Item''
         [Attr ''data-slot'' (StrV ''select-item''),
           Attr ''className'' (cn lib [StrV ''focus:bg-accent focus:text-accent-foreground [&_svg:not([class*='text-'])]:text-muted-foreground relative flex w-full cursor-default items-center gap-2 rounded-sm py-1.5 pr-8 pl-2 text-sm outline-hidden select-none data-[disabled]:pointer-events-none data-[disabled]:opacity-50 [&_svg]:pointer-events-none [&_svg]:shrink-0 [&_svg:not([class*='size-'])]:size-4 *:[span]:last:flex *:[span]:last:items-center *:[span]:last:gap-2'',
               className]),
           Spread props]
         [jsx ''span''
            [Attr ''className'' (StrV ''absolute right-2 flex size-3.5 items-center justify-center'')]
            [jsx ''SelectPrimitive.ItemIndicator''
               []
               [jsx ''CheckIcon''
                  [Attr ''className'' (StrV ''size-4'')]
                  []]],
           jsx ''SelectPrimitive.ItemText''
            []
            [children]])\<close>

definition SelectSeparator :: ui_component where
  \<open>SelectSeparator lib ps =
    (let className = read_prop ''className'' ps;
         props = rest [''className''] ps
     in jsx ''SelectPrimitive.Separator''
         [Attr ''data-slot'' (StrV ''select-separator''),
           Attr ''className'' (cn lib [StrV ''bg-border pointer-events-none -mx-1 my-1 h-px'',
               className]),
           Spread props]
         [])\<close>

definition SelectScrollUpButton :: ui_component where
  \<open>SelectScrollUpButton lib ps =
    (let className = read_prop ''className'' ps;
         props = rest [''className''] ps
     in jsx ''SelectPrimitive.ScrollUpButton''
         [Attr ''data-slot'' (StrV ''select-scroll-up-button''),
           Attr ''className'' (cn lib [StrV ''flex cursor-default items-center justify-center py-1'',
               className]),
           Spread props]
         [jsx ''ChevronUpIcon''
            [Attr ''className'' (StrV ''size-4'')]
            []])\<close>

definition SelectScrollDownButton :: ui_component where
  \<open>SelectScrollDownButton lib ps =
    (let className = read_prop ''className'' ps;
         props = rest [''className''] ps
     in jsx ''SelectPrimitive.ScrollDownButton''
         [Attr ''data-slot'' (StrV ''select-scroll-down-button''),
           Attr ''className'' (cn lib [StrV ''flex cursor-default items-center justify-center py-1'',
               className]),
           Spread props]
         [jsx ''ChevronDownIcon''
            [Attr ''className'' (StrV ''size-4'')]
            []])\<close>

subsection \<open>\<open>field.tsx\<close>\<close>

definition FieldSet :: ui_component where
  \<open>FieldSet lib ps =
    (let className = read_prop ''className'' ps;
         props = rest [''className''] ps
     in jsx ''fieldset''
         [Attr ''data-slot'' (StrV ''field-set''),
           Attr ''className'' (cn lib [StrV ''flex flex-col gap-6'',
               StrV ''has-[>[data-slot=checkbox-group]]:gap-3 has-[>[data-slot=radio-group]]:gap-3'',
               className]),
           Spread props]
         [])\<close>

definition FieldLegend :: ui_component where
  \<open>FieldLegend lib ps =
    (let className = read_prop ''className'' ps;
         variant = or_default (StrV ''legend'') (read_prop ''variant'' ps);
         props = rest [''className'', ''variant''] ps
     in jsx ''legend''
         [Attr ''data-slot'' (StrV ''field-legend''),
           Attr ''data-variant'' variant,
           Attr ''className'' (cn lib [StrV ''mb-3 font-medium'',
               StrV ''data-[variant=legend]:text-base'',
               StrV ''data-[variant=label]:text-sm'',
               className]),
           Spread props]
         [])\<close>

definition FieldGroup :: ui_component where
  \<open>FieldGroup lib ps =
    (let className = read_prop ''className'' ps;
         props = rest [''className''] ps
     in jsx ''div''
         [Attr ''data-slot'' (StrV ''field-group''),
           Attr ''className'' (cn lib [StrV ''group/field-group @container/field-group flex w-full flex-col gap-7 data-[slot=checkbox-group]:gap-3 [&>[data-slot=field-group]]:gap-4'',
               className]),
           Spread props]
         [])\<close>

definition fieldVariants :: "ui_lib \<Rightarrow> ui_value \<Rightarrow> ui_value" where
  \<open>fieldVariants lib v = StrV (cva lib
    (StrV ''group/field flex w-full gap-3 data-[invalid=true]:text-destructive'')
    (ObjV (obj [Attr ''variants'' (ObjV (obj [Attr ''orientation'' (ObjV (obj [Attr ''vertical'' (ArrV [StrV ''flex-col [&>*]:w-full [&>.sr-only]:w-auto'']), Attr ''horizontal'' (ArrV [StrV ''flex-row items-center'', StrV ''[&>[data-slot=field-label]]:flex-auto'', StrV ''has-[>[data-slot=field-content]]:items-start has-[>[data-slot=field-content]]:[&>[role=checkbox],[role=radio]]:mt-px'']), Attr ''responsive'' (ArrV [StrV ''flex-col [&>*]:w-full [&>.sr-only]:w-auto @md/field-group:flex-row @md/field-group:items-center @md/field-group:[&>*]:w-auto'', StrV ''@md/field-group:[&>[data-slot=field-label]]:flex-auto'', StrV ''@md/field-group:has-[>[data-slot=field-content]]:items-start @md/field-group:has-[>[data-slot=field-content]]:[&>[role=checkbox],[role=radio]]:mt-px''])]))])), Attr ''defaultVariants'' (ObjV (obj [Attr ''orientation'' (StrV ''vertical'')]))]))
    v)\<close>

definition Field :: ui_component where
  \<open>Field lib ps =
    (let className = read_prop ''className'' ps;
         orientation = or_default (StrV ''vertical'') (read_prop ''orientation'' ps);
         props = rest [''className'', ''orientation''] ps
     in jsx ''div''
         [Attr ''role'' (StrV ''group''),
           Attr ''data-slot'' (StrV ''field''),
           Attr ''data-orientation'' orientation,
           Attr ''className'' (cn lib [fieldVariants lib (ObjV (obj [Attr ''orientation'' orientation])),
               className]),
           Spread props]
         [])\<close>

definition FieldContent :: ui_component where
  \<open>FieldContent lib ps =
    (let className = read_prop ''className'' ps;
         props = rest [''className''] ps
     in jsx ''div''
         [Attr ''data-slot'' (StrV ''field-content''),
           Attr ''className'' (cn lib [StrV ''group/field-content flex flex-1 flex-col gap-1.5 leading-snug'',
               className]),
           Spread props]
         [])\<close>

definition FieldLabel :: ui_component where
  \<open>FieldLabel lib ps =
    (let className = read_prop ''className'' ps;
         props = rest [''className''] ps
     in jsx ''Label''
         [Attr ''data-slot'' (StrV ''field-label''),
           Attr ''className'' (cn lib [StrV ''group/field-label peer/field-label flex w-fit gap-2 leading-snug group-data-[disabled=true]/field:opacity-50'',
               StrV ''has-[>[data-slot=field]]:w-full has-[>[data-slot=field]]:flex-col has-[>[data-slot=field]]:rounded-md has-[>[data-slot=field]]:border [&>*]:data-[slot=field]:p-4'',
               StrV ''has-data-[state=checked]:bg-primary/5 has-data-[state=checked]:border-primary dark:has-data-[state=checked]:bg-primary/10'',
               className]),
           Spread props]
         [])\<close>

definition FieldTitle :: ui_component where
  \<open>FieldTitle lib ps =
    (let className = read_prop ''className'' ps;
         props = rest [''className''] ps
     in jsx ''div''
         [Attr ''data-slot'' (StrV ''field-label''),
           Attr ''className'' (cn lib [StrV ''flex w-fit items-center gap-2 text-sm leading-snug font-medium group-data-[disabled=true]/field:opacity-50'',
               className]),
           Spread props]
         [])\<close>

definition FieldDescription :: ui_component where
  \<open>FieldDescription lib ps =
    (let className = read_prop ''className'' ps;
         props = rest [''className''] ps
     in jsx ''p''
         [Attr ''data-slot'' (StrV ''field-description''),
           Attr ''className'' (cn lib [StrV ''text-muted-foreground text-sm leading-normal font-normal group-has-[[data-orientation=horizontal]]/field:text-balance'',
               StrV ''last:mt-0 nth-last-2:-mt-1 [[data-variant=legend]+&]:-mt-1.5'',
               StrV ''[&>a:hover]:text-primary [&>a]:underline [&>a]:underline-offset-4'',
               className]),
           Spread props]
         [])\<close>

definition FieldSeparator :: ui_component where
  \<open>FieldSeparator lib ps =
    (let children = read_prop ''children'' ps;
         className = read_prop ''className'' ps;
         props = rest [''children'', ''className''] ps
     in jsx ''div''
         [Attr ''data-slot'' (StrV ''field-separator''),
           Attr ''data-content'' (BoolV (\<not> truthy (BoolV (\<not> truthy children)))),
           Attr ''className'' (cn lib [StrV ''relative -my-2 h-5 text-sm group-data-[variant=outline]/field-group:-mb-2'',
               className]),
           Spread props]
         [jsx ''Separator''
            [Attr ''className'' (StrV ''absolute inset-0 top-1/2'')]
            [],
           js_and children (jsx ''span''
            [Attr ''className'' (StrV ''bg-background text-muted-foreground relative mx-auto block w-fit px-2''),
              Attr ''data-slot'' (StrV ''field-separator-content'')]
            [children])])\<close>

text \<open>\<open>errors\<close> is an array or absent; the list items carry their index as key.\<close>

definition FieldError :: ui_component where
  \<open>FieldError lib ps =
    (let className = read_prop ''className'' ps;
         children = read_prop ''children'' ps;
         errors = read_prop ''errors'' ps;
         props = rest [''className'', ''children'', ''errors''] ps;
         content =
           (if truthy children then children
            else if \<not> truthy errors then NullV
            else case errors of
                ArrV es \<Rightarrow>
                  if length es = 1 \<and> truthy (opt_member ''message'' (es ! 0)) then member ''message'' (es ! 0)
                  else jsx ''ul''
                    [Attr ''className'' (StrV ''ml-4 flex list-disc flex-col gap-1'')]
                    [ArrV (map (\<lambda>(i, e). js_and (opt_member ''message'' e)
                       (jsx ''li'' [Attr ''key'' (NumV (Fin (of_nat i)))] [member ''message'' e])) (enumerate 0 es))]
              | _ \<Rightarrow> UndefV)
     in (if \<not> truthy content then NullV
         else jsx ''div''
           [Attr ''role'' (StrV ''alert''),
            Attr ''data-slot'' (StrV ''field-error''),
            Attr ''className'' (cn lib [StrV ''text-destructive text-sm font-normal'', className]),
            Spread props]
           [content]))\<close>

subsection \<open>\<open>input-group.tsx\<close>\<close>

definition InputGroup :: ui_component where
  \<open>InputGroup lib ps =
    (let className = read_prop ''className'' ps;
         props = rest [''className''] ps
     in jsx ''div''
         [Attr ''data-slot'' (StrV ''input-group''),
           Attr ''role'' (StrV ''group''),
           Attr ''className'' (cn lib [StrV ''group/input-group border-input dark:bg-input/30 relative flex w-full items-center rounded-md border shadow-xs transition-[color,box-shadow] outline-none'',
               StrV ''h-9 has-[>textarea]:h-auto'',
               StrV ''has-[>[data-align=inline-start]]:[&>input]:pl-2'',
               StrV ''has-[>[data-align=inline-end]]:[&>input]:pr-2'',
               StrV ''has-[>[data-align=block-start]]:h-auto has-[>[data-align=block-start]]:flex-col has-[>[data-align=block-start]]:[&>input]:pb-3'',
               StrV ''has-[>[data-align=block-end]]:h-auto has-[>[data-align=block-end]]:flex-col has-[>[data-align=block-end]]:[&>input]:pt-3'',
               StrV ''has-[[data-slot=input-group-control]:focus-visible]:border-ring has-[[data-slot=input-group-control]:focus-visible]:ring-ring/50 has-[[data-slot=input-group-control]:focus-visible]:ring-[3px]'',
               StrV ''has-[[data-slot][aria-invalid=true]]:ring-destructive/20 has-[[data-slot][aria-invalid=true]]:border-destructive dark:has-[[data-slot][aria-invalid=true]]:ring-destructive/40'',
               className]),
           Spread props]
         [])\<close>

definition inputGroupAddonVariants :: "ui_lib \<Rightarrow> ui_value \<Rightarrow> ui_value" where
  \<open>inputGroupAddonVariants lib v = StrV (cva lib
    (StrV ''text-muted-foreground flex h-auto cursor-text items-center justify-center gap-2 py-1.5 text-sm font-medium select-none [&>svg:not([class*='size-'])]:size-4 [&>kbd]:rounded-[calc(var(--radius)-5px)] group-data-[disabled=true]/input-group:opacity-50'')
    (ObjV (obj [Attr ''variants'' (ObjV (obj [Attr ''align'' (ObjV (obj [Attr ''inline-start'' (StrV ''order-first pl-3 has-[>button]:ml-[-0.45rem] has-[>kbd]:ml-[-0.35rem]''), Attr ''inline-end'' (StrV ''order-last pr-3 has-[>button]:mr-[-0.4rem] has-[>kbd]:mr-[-0.35rem]''), Attr ''block-start'' (StrV ''order-first w-full justify-start px-3 pt-3 [.border-b]:pb-3 group-has-[>input]/input-group:pt-2.5''), Attr ''block-end'' (StrV ''order-last w-full justify-start px-3 pb-3 [.border-t]:pt-3 group-has-[>input]/input-group:pb-2.5'')]))])), Attr ''defaultVariants'' (ObjV (obj [Attr ''align'' (StrV ''inline-start'')]))]))
    v)\<close>

definition InputGroupAddon :: ui_component where
  \<open>InputGroupAddon lib ps =
    (let className = read_prop ''className'' ps;
         align = or_default (StrV ''inline-start'') (read_prop ''align'' ps);
         props = rest [''className'', ''align''] ps
     in jsx ''div''
         [Attr ''role'' (StrV ''group''),
           Attr ''data-slot'' (StrV ''input-group-addon''),
           Attr ''data-align'' align,
           Attr ''className'' (cn lib [inputGroupAddonVariants lib (ObjV (obj [Attr ''align'' align])),
               className]),
           Attr ''onClick'' (FunV ''InputGroupAddon.onClick'' []),
           Spread props]
         [])\<close>

definition inputGroupButtonVariants :: "ui_lib \<Rightarrow> ui_value \<Rightarrow> ui_value" where
  \<open>inputGroupButtonVariants lib v = StrV (cva lib
    (StrV ''text-sm shadow-none flex gap-2 items-center'')
    (ObjV (obj [Attr ''variants'' (ObjV (obj [Attr ''size'' (ObjV (obj [Attr ''xs'' (StrV ''h-6 gap-1 px-2 rounded-[calc(var(--radius)-5px)] [&>svg:not([class*='size-'])]:size-3.5 has-[>svg]:px-2''), Attr ''sm'' (StrV ''h-8 px-2.5 gap-1.5 rounded-md has-[>svg]:px-2.5''), Attr ''icon-xs'' (StrV ''size-6 rounded-[calc(var(--radius)-5px)] p-0 has-[>svg]:p-0''), Attr ''icon-sm'' (StrV ''size-8 p-0 has-[>svg]:p-0'')]))])), Attr ''defaultVariants'' (ObjV (obj [Attr ''size'' (StrV ''xs'')]))]))
    v)\<close>

definition InputGroupButton :: ui_component where
  \<open>InputGroupButton lib ps =
    (let className = read_prop ''className'' ps;
         type = or_default (StrV ''button'') (read_prop ''type'' ps);
         variant = or_default (StrV ''ghost'') (read_prop ''variant'' ps);
         size' = or_default (StrV ''xs'') (read_prop ''size'' ps);
         props = rest [''className'', ''type'', ''variant'', ''size''] ps
     in jsx ''Button''
         [Attr ''type'' type,
           Attr ''data-size'' size',
           Attr ''variant'' variant,
           Attr ''className'' (cn lib [inputGroupButtonVariants lib (ObjV (obj [Attr ''size'' size'])),
               className]),
           Spread props]
         [])\<close>

definition InputGroupText :: ui_component where
  \<open>InputGroupText lib ps =
    (let className = read_prop ''className'' ps;
         props = rest [''className''] ps
     in jsx ''span''
         [Attr ''className'' (cn lib [StrV ''text-muted-foreground flex items-center gap-2 text-sm [&_svg]:pointer-events-none [&_svg:not([class*='size-'])]:size-4'',
               className]),
           Spread props]
         [])\<close>

definition InputGroupInput :: ui_component where
  \<open>InputGroupInput lib ps =
    (let className = read_prop ''className'' ps;
         props = rest [''className''] ps
     in jsx ''Input''
         [Attr ''data-slot'' (StrV ''input-group-control''),
           Attr ''className'' (cn lib [StrV ''flex-1 rounded-none border-0 bg-transparent shadow-none focus-visible:ring-0 dark:bg-transparent'',
               className]),
           Spread props]
         [])\<close>

definition InputGroupTextarea :: ui_component where
  \<open>InputGroupTextarea lib ps =
    (let className = read_prop ''className'' ps;
         props = rest [''className''] ps
     in jsx ''Textarea''
         [Attr ''data-slot'' (StrV ''input-group-control''),
           Attr ''className'' (cn lib [StrV ''flex-1 resize-none rounded-none border-0 bg-transparent py-3 shadow-none focus-visible:ring-0 dark:bg-transparent'',
               className]),
           Spread props]
         [])\<close>

text \<open>
  The click handler of the addon: nothing inside a button, otherwise the first input of the parent is
  focused, if there is one. The two arguments are what \<open>closest\<close> and \<open>querySelector\<close> find.
\<close>

definition InputGroupAddon_onClick :: "'e option \<Rightarrow> 'e option \<Rightarrow> 'e option" where
  "InputGroupAddon_onClick closest_button parent_input = (if closest_button \<noteq> None then None else parent_input)"

subsection \<open>\<open>input-otp.tsx\<close>\<close>

definition InputOTP :: ui_component where
  \<open>InputOTP lib ps =
    (let className = read_prop ''className'' ps;
         containerClassName = read_prop ''containerClassName'' ps;
         props = rest [''className'', ''containerClassName''] ps
     in jsx ''OTPInput''
         [Attr ''data-slot'' (StrV ''input-otp''),
           Attr ''containerClassName'' (cn lib [StrV ''flex items-center gap-2 has-disabled:opacity-50'',
               containerClassName]),
           Attr ''className'' (cn lib [StrV ''disabled:cursor-not-allowed'',
               className]),
           Spread props]
         [])\<close>

definition InputOTPGroup :: ui_component where
  \<open>InputOTPGroup lib ps =
    (let className = read_prop ''className'' ps;
         props = rest [''className''] ps
     in jsx ''div''
         [Attr ''data-slot'' (StrV ''input-otp-group''),
           Attr ''className'' (cn lib [StrV ''flex items-center'',
               className]),
           Spread props]
         [])\<close>

definition InputOTPSeparator :: ui_component where
  \<open>InputOTPSeparator lib ps =
    (let props = ps
     in jsx ''div''
         [Attr ''data-slot'' (StrV ''input-otp-separator''),
           Attr ''role'' (StrV ''separator''),
           Spread props]
         [jsx ''MinusIcon''
            []
            []])\<close>

text \<open>The slot reads its character from the context of the \<open>input-otp\<close> package.\<close>

fun array_get :: "ui_value \<Rightarrow> ui_value \<Rightarrow> ui_value" where
  "array_get (ArrV xs) (NumV (Fin r)) =
     (if of_int \<lfloor>r\<rfloor> = r \<and> 0 \<le> r \<and> nat \<lfloor>r\<rfloor> < length xs then xs ! nat \<lfloor>r\<rfloor> else UndefV)"
| "array_get v i = UndefV"

definition InputOTPSlot :: "ui_value \<Rightarrow> ui_component" where
  \<open>InputOTPSlot inputOTPContext lib ps =
    (let index = read_prop ''index'' ps;
         className = read_prop ''className'' ps;
         props = rest [''index'', ''className''] ps;
         slot = js_nullish
           (if inputOTPContext = UndefV \<or> inputOTPContext = NullV then UndefV
            else array_get (member ''slots'' inputOTPContext) index) (ObjV []);
         char = member ''char'' slot;
         hasFakeCaret = member ''hasFakeCaret'' slot;
         isActive = member ''isActive'' slot
     in jsx ''div''
         [Attr ''data-slot'' (StrV ''input-otp-slot''),
          Attr ''data-active'' isActive,
          Attr ''className'' (cn lib [StrV ''data-[active=true]:border-ring data-[active=true]:ring-ring/50 data-[active=true]:aria-invalid:ring-destructive/20 dark:data-[active=true]:aria-invalid:ring-destructive/40 aria-invalid:border-destructive data-[active=true]:aria-invalid:border-destructive dark:bg-input/30 border-input relative flex h-9 w-9 items-center justify-center border-y border-r text-sm shadow-xs transition-all outline-none first:rounded-l-md first:border-l last:rounded-r-md data-[active=true]:z-10 data-[active=true]:ring-[3px]'',
            className]),
          Spread props]
         [char,
          js_and hasFakeCaret (jsx ''div''
            [Attr ''className'' (StrV ''pointer-events-none absolute inset-0 flex items-center justify-center'')]
            [jsx ''div'' [Attr ''className'' (StrV ''animate-caret-blink bg-foreground h-4 w-px duration-1000'')] []])])\<close>

subsection \<open>\<open>spinner.tsx\<close>\<close>

definition Spinner :: ui_component where
  \<open>Spinner lib ps =
    (let className = read_prop ''className'' ps;
         props = rest [''className''] ps
     in jsx ''Loader2Icon''
         [Attr ''role'' (StrV ''status''),
           Attr ''aria-label'' (StrV ''Loading''),
           Attr ''className'' (cn lib [StrV ''size-4 animate-spin'',
               className]),
           Spread props]
         [])\<close>

subsection \<open>\<open>progress.tsx\<close>\<close>

fun to_number :: "ui_value \<Rightarrow> number" where
  "to_number (NumV x) = x"
| "to_number (BoolV b) = Fin (if b then 1 else 0)"
| "to_number NullV = Fin 0"
| "to_number v = NaN"

text \<open>\<open>value\<close> is a number, \<open>null\<close> or absent.\<close>

definition Progress :: ui_component where
  \<open>Progress lib ps =
    (let className = read_prop ''className'' ps;
         value = read_prop ''value'' ps;
         props = rest [''className'', ''value''] ps
     in jsx ''ProgressPrimitive.Root''
         [Attr ''data-slot'' (StrV ''progress''),
          Attr ''className'' (cn lib [StrV ''bg-primary/20 relative h-2 w-full overflow-hidden rounded-full'', className]),
          Spread props]
         [jsx ''ProgressPrimitive.Indicator''
           [Attr ''data-slot'' (StrV ''progress-indicator''),
            Attr ''className'' (StrV ''bg-primary h-full w-full flex-1 transition-all''),
            Attr ''style'' (ObjV (obj [Attr ''transform''
              (StrV (''translateX(-'' @ num_text (num_sub (Fin 100) (to_number (js_or value (NumV (Fin 0))))) @ ''%)''))]))]
           []])\<close>

subsection \<open>\<open>slider.tsx\<close>\<close>

definition is_array :: "ui_value \<Rightarrow> bool" where
  "is_array v \<longleftrightarrow> (case v of ArrV xs \<Rightarrow> True | _ \<Rightarrow> False)"

fun array_length :: "ui_value \<Rightarrow> nat" where
  "array_length (ArrV xs) = length xs"
| "array_length v = 0"

definition Slider :: ui_component where
  \<open>Slider lib ps =
    (let className = read_prop ''className'' ps;
         defaultValue = read_prop ''defaultValue'' ps;
         value = read_prop ''value'' ps;
         min' = or_default (NumV (Fin 0)) (read_prop ''min'' ps);
         max' = or_default (NumV (Fin 100)) (read_prop ''max'' ps);
         props = rest [''className'', ''defaultValue'', ''value'', ''min'', ''max''] ps;
         values = (if is_array value then value else if is_array defaultValue then defaultValue else ArrV [min', max'])
     in jsx ''SliderPrimitive.Root''
         [Attr ''data-slot'' (StrV ''slider''),
          Attr ''defaultValue'' defaultValue,
          Attr ''value'' value,
          Attr ''min'' min',
          Attr ''max'' max',
          Attr ''className'' (cn lib [StrV ''relative flex w-full touch-none items-center select-none data-[disabled]:opacity-50 data-[orientation=vertical]:h-full data-[orientation=vertical]:min-h-44 data-[orientation=vertical]:w-auto data-[orientation=vertical]:flex-col'',
            className]),
          Spread props]
         [jsx ''SliderPrimitive.Track''
           [Attr ''data-slot'' (StrV ''slider-track''),
            Attr ''className'' (StrV ''bg-muted relative grow overflow-hidden rounded-full data-[orientation=horizontal]:h-1.5 data-[orientation=horizontal]:w-full data-[orientation=vertical]:h-full data-[orientation=vertical]:w-1.5'')]
           [jsx ''SliderPrimitive.Range''
             [Attr ''data-slot'' (StrV ''slider-range''),
              Attr ''className'' (StrV ''bg-primary absolute data-[orientation=horizontal]:h-full data-[orientation=vertical]:w-full'')]
             []],
          ArrV (map (\<lambda>i. jsx ''SliderPrimitive.Thumb''
             [Attr ''data-slot'' (StrV ''slider-thumb''),
              Attr ''key'' (NumV (Fin (of_nat i))),
              Attr ''className'' (StrV ''border-primary ring-ring/50 block size-4 shrink-0 rounded-full border bg-white shadow-sm transition-[color,box-shadow] hover:ring-4 focus-visible:ring-4 focus-visible:outline-hidden disabled:pointer-events-none disabled:opacity-50'')]
             []) [0..<array_length values])])\<close>

subsection \<open>Which parts are slotted\<close>

interpretation Button_part: slotted "Button lib" "[''className'', ''variant'', ''size'', ''asChild'']" "''button''" for lib
  by (rule slotted_intro, unfold Button_def Let_def, intro exI conjI, rule refl) simp_all

interpretation ButtonGroup_part: slotted "ButtonGroup lib" "[''className'', ''orientation'']" "''button-group''" for lib
  by (rule slotted_intro, unfold ButtonGroup_def Let_def, intro exI conjI, rule refl) simp_all

interpretation ButtonGroupSeparator_part: slotted "ButtonGroupSeparator lib" "[''className'', ''orientation'']" "''button-group-separator''" for lib
  by (rule slotted_intro, unfold ButtonGroupSeparator_def Let_def, intro exI conjI, rule refl) simp_all

interpretation Input_part: slotted "Input lib" "[''className'', ''type'']" "''input''" for lib
  by (rule slotted_intro, unfold Input_def Let_def, intro exI conjI, rule refl) simp_all

interpretation Textarea_part: slotted "Textarea lib" "[''className'']" "''textarea''" for lib
  by (rule slotted_intro, unfold Textarea_def Let_def, intro exI conjI, rule refl) simp_all

interpretation Label_part: slotted "Label lib" "[''className'']" "''label''" for lib
  by (rule slotted_intro, unfold Label_def Let_def, intro exI conjI, rule refl) simp_all

interpretation Separator_part: slotted "Separator lib" "[''className'', ''orientation'', ''decorative'']" "''separator''" for lib
  by (rule slotted_intro, unfold Separator_def Let_def, intro exI conjI, rule refl) simp_all

interpretation RadioGroup_part: slotted "RadioGroup lib" "[''className'']" "''radio-group''" for lib
  by (rule slotted_intro, unfold RadioGroup_def Let_def, intro exI conjI, rule refl) simp_all

interpretation Toggle_part: slotted "Toggle lib" "[''className'', ''variant'', ''size'']" "''toggle''" for lib
  by (rule slotted_intro, unfold Toggle_def Let_def, intro exI conjI, rule refl) simp_all

interpretation ToggleGroup_part: slotted "ToggleGroup lib" "[''className'', ''variant'', ''size'', ''children'']" "''toggle-group''" for lib
  by (rule slotted_intro, unfold ToggleGroup_def Let_def, intro exI conjI, rule refl) simp_all

interpretation Select_part: slotted "Select lib" "[]" "''select''" for lib
  by (rule slotted_intro, unfold Select_def Let_def, intro exI conjI, rule refl) simp_all

interpretation SelectGroup_part: slotted "SelectGroup lib" "[]" "''select-group''" for lib
  by (rule slotted_intro, unfold SelectGroup_def Let_def, intro exI conjI, rule refl) simp_all

interpretation SelectValue_part: slotted "SelectValue lib" "[]" "''select-value''" for lib
  by (rule slotted_intro, unfold SelectValue_def Let_def, intro exI conjI, rule refl) simp_all

interpretation SelectTrigger_part: slotted "SelectTrigger lib" "[''className'', ''size'', ''children'']" "''select-trigger''" for lib
  by (rule slotted_intro, unfold SelectTrigger_def Let_def, intro exI conjI, rule refl) simp_all

interpretation SelectLabel_part: slotted "SelectLabel lib" "[''className'']" "''select-label''" for lib
  by (rule slotted_intro, unfold SelectLabel_def Let_def, intro exI conjI, rule refl) simp_all

interpretation SelectItem_part: slotted "SelectItem lib" "[''className'', ''children'']" "''select-item''" for lib
  by (rule slotted_intro, unfold SelectItem_def Let_def, intro exI conjI, rule refl) simp_all

interpretation SelectSeparator_part: slotted "SelectSeparator lib" "[''className'']" "''select-separator''" for lib
  by (rule slotted_intro, unfold SelectSeparator_def Let_def, intro exI conjI, rule refl) simp_all

interpretation FieldSet_part: slotted "FieldSet lib" "[''className'']" "''field-set''" for lib
  by (rule slotted_intro, unfold FieldSet_def Let_def, intro exI conjI, rule refl) simp_all

interpretation FieldLegend_part: slotted "FieldLegend lib" "[''className'', ''variant'']" "''field-legend''" for lib
  by (rule slotted_intro, unfold FieldLegend_def Let_def, intro exI conjI, rule refl) simp_all

interpretation FieldGroup_part: slotted "FieldGroup lib" "[''className'']" "''field-group''" for lib
  by (rule slotted_intro, unfold FieldGroup_def Let_def, intro exI conjI, rule refl) simp_all

interpretation Field_part: slotted "Field lib" "[''className'', ''orientation'']" "''field''" for lib
  by (rule slotted_intro, unfold Field_def Let_def, intro exI conjI, rule refl) simp_all

interpretation FieldContent_part: slotted "FieldContent lib" "[''className'']" "''field-content''" for lib
  by (rule slotted_intro, unfold FieldContent_def Let_def, intro exI conjI, rule refl) simp_all

interpretation FieldLabel_part: slotted "FieldLabel lib" "[''className'']" "''field-label''" for lib
  by (rule slotted_intro, unfold FieldLabel_def Let_def, intro exI conjI, rule refl) simp_all

interpretation FieldTitle_part: slotted "FieldTitle lib" "[''className'']" "''field-label''" for lib
  by (rule slotted_intro, unfold FieldTitle_def Let_def, intro exI conjI, rule refl) simp_all

interpretation FieldDescription_part: slotted "FieldDescription lib" "[''className'']" "''field-description''" for lib
  by (rule slotted_intro, unfold FieldDescription_def Let_def, intro exI conjI, rule refl) simp_all

interpretation FieldSeparator_part: slotted "FieldSeparator lib" "[''children'', ''className'']" "''field-separator''" for lib
  by (rule slotted_intro, unfold FieldSeparator_def Let_def, intro exI conjI, rule refl) simp_all

interpretation InputGroup_part: slotted "InputGroup lib" "[''className'']" "''input-group''" for lib
  by (rule slotted_intro, unfold InputGroup_def Let_def, intro exI conjI, rule refl) simp_all

interpretation InputGroupAddon_part: slotted "InputGroupAddon lib" "[''className'', ''align'']" "''input-group-addon''" for lib
  by (rule slotted_intro, unfold InputGroupAddon_def Let_def, intro exI conjI, rule refl) simp_all

interpretation InputGroupInput_part: slotted "InputGroupInput lib" "[''className'']" "''input-group-control''" for lib
  by (rule slotted_intro, unfold InputGroupInput_def Let_def, intro exI conjI, rule refl) simp_all

interpretation InputGroupTextarea_part: slotted "InputGroupTextarea lib" "[''className'']" "''input-group-control''" for lib
  by (rule slotted_intro, unfold InputGroupTextarea_def Let_def, intro exI conjI, rule refl) simp_all

interpretation InputOTP_part: slotted "InputOTP lib" "[''className'', ''containerClassName'']" "''input-otp''" for lib
  by (rule slotted_intro, unfold InputOTP_def Let_def, intro exI conjI, rule refl) simp_all

interpretation InputOTPGroup_part: slotted "InputOTPGroup lib" "[''className'']" "''input-otp-group''" for lib
  by (rule slotted_intro, unfold InputOTPGroup_def Let_def, intro exI conjI, rule refl) simp_all

definition uiControls_parts :: "ui_lib \<Rightarrow> ((props \<Rightarrow> ui_value) \<times> string list \<times> string) list" where
  "uiControls_parts lib =
    [(Button lib, [''className'', ''variant'', ''size'', ''asChild''], ''button''),
     (ButtonGroup lib, [''className'', ''orientation''], ''button-group''),
     (ButtonGroupSeparator lib, [''className'', ''orientation''], ''button-group-separator''),
     (Input lib, [''className'', ''type''], ''input''),
     (Textarea lib, [''className''], ''textarea''),
     (Label lib, [''className''], ''label''),
     (Separator lib, [''className'', ''orientation'', ''decorative''], ''separator''),
     (RadioGroup lib, [''className''], ''radio-group''),
     (Toggle lib, [''className'', ''variant'', ''size''], ''toggle''),
     (ToggleGroup lib, [''className'', ''variant'', ''size'', ''children''], ''toggle-group''),
     (Select lib, [], ''select''),
     (SelectGroup lib, [], ''select-group''),
     (SelectValue lib, [], ''select-value''),
     (SelectTrigger lib, [''className'', ''size'', ''children''], ''select-trigger''),
     (SelectLabel lib, [''className''], ''select-label''),
     (SelectItem lib, [''className'', ''children''], ''select-item''),
     (SelectSeparator lib, [''className''], ''select-separator''),
     (FieldSet lib, [''className''], ''field-set''),
     (FieldLegend lib, [''className'', ''variant''], ''field-legend''),
     (FieldGroup lib, [''className''], ''field-group''),
     (Field lib, [''className'', ''orientation''], ''field''),
     (FieldContent lib, [''className''], ''field-content''),
     (FieldLabel lib, [''className''], ''field-label''),
     (FieldTitle lib, [''className''], ''field-label''),
     (FieldDescription lib, [''className''], ''field-description''),
     (FieldSeparator lib, [''children'', ''className''], ''field-separator''),
     (InputGroup lib, [''className''], ''input-group''),
     (InputGroupAddon lib, [''className'', ''align''], ''input-group-addon''),
     (InputGroupInput lib, [''className''], ''input-group-control''),
     (InputGroupTextarea lib, [''className''], ''input-group-control''),
     (InputOTP lib, [''className'', ''containerClassName''], ''input-otp''),
     (InputOTPGroup lib, [''className''], ''input-otp-group'')]"

lemma uiControls_parts_slotted: "list_all (\<lambda>(f, own, slot). slotted f own slot) (uiControls_parts lib)"
  unfolding uiControls_parts_def list.pred_inject prod.case
  by (intro conjI list.pred_inject(1) Button_part.slotted_axioms
    ButtonGroup_part.slotted_axioms
    ButtonGroupSeparator_part.slotted_axioms
    Input_part.slotted_axioms
    Textarea_part.slotted_axioms
    Label_part.slotted_axioms
    Separator_part.slotted_axioms
    RadioGroup_part.slotted_axioms
    Toggle_part.slotted_axioms
    ToggleGroup_part.slotted_axioms
    Select_part.slotted_axioms
    SelectGroup_part.slotted_axioms
    SelectValue_part.slotted_axioms
    SelectTrigger_part.slotted_axioms
    SelectLabel_part.slotted_axioms
    SelectItem_part.slotted_axioms
    SelectSeparator_part.slotted_axioms
    FieldSet_part.slotted_axioms
    FieldLegend_part.slotted_axioms
    FieldGroup_part.slotted_axioms
    Field_part.slotted_axioms
    FieldContent_part.slotted_axioms
    FieldLabel_part.slotted_axioms
    FieldTitle_part.slotted_axioms
    FieldDescription_part.slotted_axioms
    FieldSeparator_part.slotted_axioms
    InputGroup_part.slotted_axioms
    InputGroupAddon_part.slotted_axioms
    InputGroupInput_part.slotted_axioms
    InputGroupTextarea_part.slotted_axioms
    InputOTP_part.slotted_axioms
    InputOTPGroup_part.slotted_axioms)

end
