(* ===== verification/UiContent.thy ===== *)
theory UiContent
  imports UiControls
begin

text \<open>
  Content and layout parts of \<open>Frontend/components/ui\<close>. Each definition is the component of that name;
  the interpretations show which of them keep the contract of a slotted part.
\<close>

subsection \<open>\<open>card.tsx\<close>\<close>

definition Card :: ui_component where
  \<open>Card lib ps =
    (let className = read_prop ''className'' ps;
         props = rest [''className''] ps
     in jsx ''div''
         [Attr ''data-slot'' (StrV ''card''),
           Attr ''className'' (cn lib [StrV ''bg-card text-card-foreground flex flex-col gap-6 rounded-xl border py-6 shadow-sm'',
               className]),
           Spread props]
         [])\<close>

definition CardHeader :: ui_component where
  \<open>CardHeader lib ps =
    (let className = read_prop ''className'' ps;
         props = rest [''className''] ps
     in jsx ''div''
         [Attr ''data-slot'' (StrV ''card-header''),
           Attr ''className'' (cn lib [StrV ''@container/card-header grid auto-rows-min grid-rows-[auto_auto] items-start gap-2 px-6 has-data-[slot=card-action]:grid-cols-[1fr_auto] [.border-b]:pb-6'',
               className]),
           Spread props]
         [])\<close>

definition CardTitle :: ui_component where
  \<open>CardTitle lib ps =
    (let className = read_prop ''className'' ps;
         props = rest [''className''] ps
     in jsx ''div''
         [Attr ''data-slot'' (StrV ''card-title''),
           Attr ''className'' (cn lib [StrV ''leading-none font-semibold'',
               className]),
           Spread props]
         [])\<close>

definition CardDescription :: ui_component where
  \<open>CardDescription lib ps =
    (let className = read_prop ''className'' ps;
         props = rest [''className''] ps
     in jsx ''div''
         [Attr ''data-slot'' (StrV ''card-description''),
           Attr ''className'' (cn lib [StrV ''text-muted-foreground text-sm'',
               className]),
           Spread props]
         [])\<close>

definition CardAction :: ui_component where
  \<open>CardAction lib ps =
    (let className = read_prop ''className'' ps;
         props = rest [''className''] ps
     in jsx ''div''
         [Attr ''data-slot'' (StrV ''card-action''),
           Attr ''className'' (cn lib [StrV ''col-start-2 row-span-2 row-start-1 self-start justify-self-end'',
               className]),
           Spread props]
         [])\<close>

definition CardContent :: ui_component where
  \<open>CardContent lib ps =
    (let className = read_prop ''className'' ps;
         props = rest [''className''] ps
     in jsx ''div''
         [Attr ''data-slot'' (StrV ''card-content''),
           Attr ''className'' (cn lib [StrV ''px-6'',
               className]),
           Spread props]
         [])\<close>

definition CardFooter :: ui_component where
  \<open>CardFooter lib ps =
    (let className = read_prop ''className'' ps;
         props = rest [''className''] ps
     in jsx ''div''
         [Attr ''data-slot'' (StrV ''card-footer''),
           Attr ''className'' (cn lib [StrV ''flex items-center px-6 [.border-t]:pt-6'',
               className]),
           Spread props]
         [])\<close>

subsection \<open>\<open>item.tsx\<close>\<close>

definition ItemGroup :: ui_component where
  \<open>ItemGroup lib ps =
    (let className = read_prop ''className'' ps;
         props = rest [''className''] ps
     in jsx ''div''
         [Attr ''role'' (StrV ''list''),
           Attr ''data-slot'' (StrV ''item-group''),
           Attr ''className'' (cn lib [StrV ''group/item-group flex flex-col'',
               className]),
           Spread props]
         [])\<close>

definition ItemSeparator :: ui_component where
  \<open>ItemSeparator lib ps =
    (let className = read_prop ''className'' ps;
         props = rest [''className''] ps
     in jsx ''Separator''
         [Attr ''data-slot'' (StrV ''item-separator''),
           Attr ''orientation'' (StrV ''horizontal''),
           Attr ''className'' (cn lib [StrV ''my-0'',
               className]),
           Spread props]
         [])\<close>

definition itemVariants :: "ui_lib \<Rightarrow> ui_value \<Rightarrow> ui_value" where
  \<open>itemVariants lib v = StrV (cva lib
    (StrV ''group/item flex items-center border border-transparent text-sm rounded-md transition-colors [a&]:hover:bg-accent/50 [a&]:transition-colors duration-100 flex-wrap outline-none focus-visible:border-ring focus-visible:ring-ring/50 focus-visible:ring-[3px]'')
    (ObjV (obj [Attr ''variants'' (ObjV (obj [Attr ''variant'' (ObjV (obj [Attr ''default'' (StrV ''bg-transparent''), Attr ''outline'' (StrV ''border-border''), Attr ''muted'' (StrV ''bg-muted/50'')])), Attr ''size'' (ObjV (obj [Attr ''default'' (StrV ''p-4 gap-4 ''), Attr ''sm'' (StrV ''py-3 px-4 gap-2.5'')]))])), Attr ''defaultVariants'' (ObjV (obj [Attr ''variant'' (StrV ''default''), Attr ''size'' (StrV ''default'')]))]))
    v)\<close>

definition Item :: ui_component where
  \<open>Item lib ps =
    (let className = read_prop ''className'' ps;
         variant = or_default (StrV ''default'') (read_prop ''variant'' ps);
         size' = or_default (StrV ''default'') (read_prop ''size'' ps);
         asChild = or_default (BoolV False) (read_prop ''asChild'' ps);
         props = rest [''className'', ''variant'', ''size'', ''asChild''] ps;
         Comp = (if truthy asChild then ''Slot'' else ''div'')
     in jsx Comp
         [Attr ''data-slot'' (StrV ''item''),
           Attr ''data-variant'' variant,
           Attr ''data-size'' size',
           Attr ''className'' (cn lib [itemVariants lib (ObjV (obj [Attr ''variant'' variant, Attr ''size'' size', Attr ''className'' className]))]),
           Spread props]
         [])\<close>

definition itemMediaVariants :: "ui_lib \<Rightarrow> ui_value \<Rightarrow> ui_value" where
  \<open>itemMediaVariants lib v = StrV (cva lib
    (StrV ''flex shrink-0 items-center justify-center gap-2 group-has-[[data-slot=item-description]]/item:self-start [&_svg]:pointer-events-none group-has-[[data-slot=item-description]]/item:translate-y-0.5'')
    (ObjV (obj [Attr ''variants'' (ObjV (obj [Attr ''variant'' (ObjV (obj [Attr ''default'' (StrV ''bg-transparent''), Attr ''icon'' (StrV ''size-8 border rounded-sm bg-muted [&_svg:not([class*='size-'])]:size-4''), Attr ''image'' (StrV ''size-10 rounded-sm overflow-hidden [&_img]:size-full [&_img]:object-cover'')]))])), Attr ''defaultVariants'' (ObjV (obj [Attr ''variant'' (StrV ''default'')]))]))
    v)\<close>

definition ItemMedia :: ui_component where
  \<open>ItemMedia lib ps =
    (let className = read_prop ''className'' ps;
         variant = or_default (StrV ''default'') (read_prop ''variant'' ps);
         props = rest [''className'', ''variant''] ps
     in jsx ''div''
         [Attr ''data-slot'' (StrV ''item-media''),
           Attr ''data-variant'' variant,
           Attr ''className'' (cn lib [itemMediaVariants lib (ObjV (obj [Attr ''variant'' variant, Attr ''className'' className]))]),
           Spread props]
         [])\<close>

definition ItemContent :: ui_component where
  \<open>ItemContent lib ps =
    (let className = read_prop ''className'' ps;
         props = rest [''className''] ps
     in jsx ''div''
         [Attr ''data-slot'' (StrV ''item-content''),
           Attr ''className'' (cn lib [StrV ''flex flex-1 flex-col gap-1 [&+[data-slot=item-content]]:flex-none'',
               className]),
           Spread props]
         [])\<close>

definition ItemTitle :: ui_component where
  \<open>ItemTitle lib ps =
    (let className = read_prop ''className'' ps;
         props = rest [''className''] ps
     in jsx ''div''
         [Attr ''data-slot'' (StrV ''item-title''),
           Attr ''className'' (cn lib [StrV ''flex w-fit items-center gap-2 text-sm leading-snug font-medium'',
               className]),
           Spread props]
         [])\<close>

definition ItemDescription :: ui_component where
  \<open>ItemDescription lib ps =
    (let className = read_prop ''className'' ps;
         props = rest [''className''] ps
     in jsx ''p''
         [Attr ''data-slot'' (StrV ''item-description''),
           Attr ''className'' (cn lib [StrV ''text-muted-foreground line-clamp-2 text-sm leading-normal font-normal text-balance'',
               StrV ''[&>a:hover]:text-primary [&>a]:underline [&>a]:underline-offset-4'',
               className]),
           Spread props]
         [])\<close>

definition ItemActions :: ui_component where
  \<open>ItemActions lib ps =
    (let className = read_prop ''className'' ps;
         props = rest [''className''] ps
     in jsx ''div''
         [Attr ''data-slot'' (StrV ''item-actions''),
           Attr ''className'' (cn lib [StrV ''flex items-center gap-2'',
               className]),
           Spread props]
         [])\<close>

definition ItemHeader :: ui_component where
  \<open>ItemHeader lib ps =
    (let className = read_prop ''className'' ps;
         props = rest [''className''] ps
     in jsx ''div''
         [Attr ''data-slot'' (StrV ''item-header''),
           Attr ''className'' (cn lib [StrV ''flex basis-full items-center justify-between gap-2'',
               className]),
           Spread props]
         [])\<close>

definition ItemFooter :: ui_component where
  \<open>ItemFooter lib ps =
    (let className = read_prop ''className'' ps;
         props = rest [''className''] ps
     in jsx ''div''
         [Attr ''data-slot'' (StrV ''item-footer''),
           Attr ''className'' (cn lib [StrV ''flex basis-full items-center justify-between gap-2'',
               className]),
           Spread props]
         [])\<close>

subsection \<open>\<open>empty.tsx\<close>\<close>

definition Empty :: ui_component where
  \<open>Empty lib ps =
    (let className = read_prop ''className'' ps;
         props = rest [''className''] ps
     in jsx ''div''
         [Attr ''data-slot'' (StrV ''empty''),
           Attr ''className'' (cn lib [StrV ''flex min-w-0 flex-1 flex-col items-center justify-center gap-6 rounded-lg border-dashed p-6 text-center text-balance md:p-12'',
               className]),
           Spread props]
         [])\<close>

definition EmptyHeader :: ui_component where
  \<open>EmptyHeader lib ps =
    (let className = read_prop ''className'' ps;
         props = rest [''className''] ps
     in jsx ''div''
         [Attr ''data-slot'' (StrV ''empty-header''),
           Attr ''className'' (cn lib [StrV ''flex max-w-sm flex-col items-center gap-2 text-center'',
               className]),
           Spread props]
         [])\<close>

definition emptyMediaVariants :: "ui_lib \<Rightarrow> ui_value \<Rightarrow> ui_value" where
  \<open>emptyMediaVariants lib v = StrV (cva lib
    (StrV ''flex shrink-0 items-center justify-center mb-2 [&_svg]:pointer-events-none [&_svg]:shrink-0'')
    (ObjV (obj [Attr ''variants'' (ObjV (obj [Attr ''variant'' (ObjV (obj [Attr ''default'' (StrV ''bg-transparent''), Attr ''icon'' (StrV ''bg-muted text-foreground flex size-10 shrink-0 items-center justify-center rounded-lg [&_svg:not([class*='size-'])]:size-6'')]))])), Attr ''defaultVariants'' (ObjV (obj [Attr ''variant'' (StrV ''default'')]))]))
    v)\<close>

definition EmptyMedia :: ui_component where
  \<open>EmptyMedia lib ps =
    (let className = read_prop ''className'' ps;
         variant = or_default (StrV ''default'') (read_prop ''variant'' ps);
         props = rest [''className'', ''variant''] ps
     in jsx ''div''
         [Attr ''data-slot'' (StrV ''empty-icon''),
           Attr ''data-variant'' variant,
           Attr ''className'' (cn lib [emptyMediaVariants lib (ObjV (obj [Attr ''variant'' variant, Attr ''className'' className]))]),
           Spread props]
         [])\<close>

definition EmptyTitle :: ui_component where
  \<open>EmptyTitle lib ps =
    (let className = read_prop ''className'' ps;
         props = rest [''className''] ps
     in jsx ''div''
         [Attr ''data-slot'' (StrV ''empty-title''),
           Attr ''className'' (cn lib [StrV ''text-lg font-medium tracking-tight'',
               className]),
           Spread props]
         [])\<close>

definition EmptyDescription :: ui_component where
  \<open>EmptyDescription lib ps =
    (let className = read_prop ''className'' ps;
         props = rest [''className''] ps
     in jsx ''div''
         [Attr ''data-slot'' (StrV ''empty-description''),
           Attr ''className'' (cn lib [StrV ''text-muted-foreground [&>a:hover]:text-primary text-sm/relaxed [&>a]:underline [&>a]:underline-offset-4'',
               className]),
           Spread props]
         [])\<close>

definition EmptyContent :: ui_component where
  \<open>EmptyContent lib ps =
    (let className = read_prop ''className'' ps;
         props = rest [''className''] ps
     in jsx ''div''
         [Attr ''data-slot'' (StrV ''empty-content''),
           Attr ''className'' (cn lib [StrV ''flex w-full max-w-sm min-w-0 flex-col items-center gap-4 text-sm text-balance'',
               className]),
           Spread props]
         [])\<close>

subsection \<open>\<open>table.tsx\<close>\<close>

definition Table :: ui_component where
  \<open>Table lib ps =
    (let className = read_prop ''className'' ps;
         props = rest [''className''] ps
     in jsx ''div''
         [Attr ''data-slot'' (StrV ''table-container''),
           Attr ''className'' (StrV ''relative w-full overflow-x-auto'')]
         [jsx ''table''
            [Attr ''data-slot'' (StrV ''table''),
              Attr ''className'' (cn lib [StrV ''w-full caption-bottom text-sm'',
                  className]),
              Spread props]
            []])\<close>

definition TableHeader :: ui_component where
  \<open>TableHeader lib ps =
    (let className = read_prop ''className'' ps;
         props = rest [''className''] ps
     in jsx ''thead''
         [Attr ''data-slot'' (StrV ''table-header''),
           Attr ''className'' (cn lib [StrV ''[&_tr]:border-b'',
               className]),
           Spread props]
         [])\<close>

definition TableBody :: ui_component where
  \<open>TableBody lib ps =
    (let className = read_prop ''className'' ps;
         props = rest [''className''] ps
     in jsx ''tbody''
         [Attr ''data-slot'' (StrV ''table-body''),
           Attr ''className'' (cn lib [StrV ''[&_tr:last-child]:border-0'',
               className]),
           Spread props]
         [])\<close>

definition TableFooter :: ui_component where
  \<open>TableFooter lib ps =
    (let className = read_prop ''className'' ps;
         props = rest [''className''] ps
     in jsx ''tfoot''
         [Attr ''data-slot'' (StrV ''table-footer''),
           Attr ''className'' (cn lib [StrV ''bg-muted/50 border-t font-medium [&>tr]:last:border-b-0'',
               className]),
           Spread props]
         [])\<close>

definition TableRow :: ui_component where
  \<open>TableRow lib ps =
    (let className = read_prop ''className'' ps;
         props = rest [''className''] ps
     in jsx ''tr''
         [Attr ''data-slot'' (StrV ''table-row''),
           Attr ''className'' (cn lib [StrV ''hover:bg-muted/50 data-[state=selected]:bg-muted border-b transition-colors'',
               className]),
           Spread props]
         [])\<close>

definition TableHead :: ui_component where
  \<open>TableHead lib ps =
    (let className = read_prop ''className'' ps;
         props = rest [''className''] ps
     in jsx ''th''
         [Attr ''data-slot'' (StrV ''table-head''),
           Attr ''className'' (cn lib [StrV ''text-foreground h-10 px-2 text-left align-middle font-medium whitespace-nowrap [&:has([role=checkbox])]:pr-0 [&>[role=checkbox]]:translate-y-[2px]'',
               className]),
           Spread props]
         [])\<close>

definition TableCell :: ui_component where
  \<open>TableCell lib ps =
    (let className = read_prop ''className'' ps;
         props = rest [''className''] ps
     in jsx ''td''
         [Attr ''data-slot'' (StrV ''table-cell''),
           Attr ''className'' (cn lib [StrV ''p-2 align-middle whitespace-nowrap [&:has([role=checkbox])]:pr-0 [&>[role=checkbox]]:translate-y-[2px]'',
               className]),
           Spread props]
         [])\<close>

definition TableCaption :: ui_component where
  \<open>TableCaption lib ps =
    (let className = read_prop ''className'' ps;
         props = rest [''className''] ps
     in jsx ''caption''
         [Attr ''data-slot'' (StrV ''table-caption''),
           Attr ''className'' (cn lib [StrV ''text-muted-foreground mt-4 text-sm'',
               className]),
           Spread props]
         [])\<close>

subsection \<open>\<open>breadcrumb.tsx\<close>\<close>

definition Breadcrumb :: ui_component where
  \<open>Breadcrumb lib ps =
    (let props = ps
     in jsx ''nav''
         [Attr ''aria-label'' (StrV ''breadcrumb''),
           Attr ''data-slot'' (StrV ''breadcrumb''),
           Spread props]
         [])\<close>

definition BreadcrumbList :: ui_component where
  \<open>BreadcrumbList lib ps =
    (let className = read_prop ''className'' ps;
         props = rest [''className''] ps
     in jsx ''ol''
         [Attr ''data-slot'' (StrV ''breadcrumb-list''),
           Attr ''className'' (cn lib [StrV ''text-muted-foreground flex flex-wrap items-center gap-1.5 text-sm break-words sm:gap-2.5'',
               className]),
           Spread props]
         [])\<close>

definition BreadcrumbItem :: ui_component where
  \<open>BreadcrumbItem lib ps =
    (let className = read_prop ''className'' ps;
         props = rest [''className''] ps
     in jsx ''li''
         [Attr ''data-slot'' (StrV ''breadcrumb-item''),
           Attr ''className'' (cn lib [StrV ''inline-flex items-center gap-1.5'',
               className]),
           Spread props]
         [])\<close>

definition BreadcrumbLink :: ui_component where
  \<open>BreadcrumbLink lib ps =
    (let asChild = read_prop ''asChild'' ps;
         className = read_prop ''className'' ps;
         props = rest [''asChild'', ''className''] ps;
         Comp = (if truthy asChild then ''Slot'' else ''a'')
     in jsx Comp
         [Attr ''data-slot'' (StrV ''breadcrumb-link''),
           Attr ''className'' (cn lib [StrV ''hover:text-foreground transition-colors'',
               className]),
           Spread props]
         [])\<close>

definition BreadcrumbPage :: ui_component where
  \<open>BreadcrumbPage lib ps =
    (let className = read_prop ''className'' ps;
         props = rest [''className''] ps
     in jsx ''span''
         [Attr ''data-slot'' (StrV ''breadcrumb-page''),
           Attr ''role'' (StrV ''link''),
           Attr ''aria-disabled'' (StrV ''true''),
           Attr ''aria-current'' (StrV ''page''),
           Attr ''className'' (cn lib [StrV ''text-foreground font-normal'',
               className]),
           Spread props]
         [])\<close>

definition BreadcrumbSeparator :: ui_component where
  \<open>BreadcrumbSeparator lib ps =
    (let children = read_prop ''children'' ps;
         className = read_prop ''className'' ps;
         props = rest [''children'', ''className''] ps
     in jsx ''li''
         [Attr ''data-slot'' (StrV ''breadcrumb-separator''),
           Attr ''role'' (StrV ''presentation''),
           Attr ''aria-hidden'' (StrV ''true''),
           Attr ''className'' (cn lib [StrV ''[&>svg]:size-3.5'',
               className]),
           Spread props]
         [js_nullish children (jsx ''ChevronRight''
            []
            [])])\<close>

definition BreadcrumbEllipsis :: ui_component where
  \<open>BreadcrumbEllipsis lib ps =
    (let className = read_prop ''className'' ps;
         props = rest [''className''] ps
     in jsx ''span''
         [Attr ''data-slot'' (StrV ''breadcrumb-ellipsis''),
           Attr ''role'' (StrV ''presentation''),
           Attr ''aria-hidden'' (StrV ''true''),
           Attr ''className'' (cn lib [StrV ''flex size-9 items-center justify-center'',
               className]),
           Spread props]
         [jsx ''MoreHorizontal''
            [Attr ''className'' (StrV ''size-4'')]
            [],
           jsx ''span''
            [Attr ''className'' (StrV ''sr-only'')]
            [StrV ''More'']])\<close>

subsection \<open>\<open>pagination.tsx\<close>\<close>

definition Pagination :: ui_component where
  \<open>Pagination lib ps =
    (let className = read_prop ''className'' ps;
         props = rest [''className''] ps
     in jsx ''nav''
         [Attr ''role'' (StrV ''navigation''),
           Attr ''aria-label'' (StrV ''pagination''),
           Attr ''data-slot'' (StrV ''pagination''),
           Attr ''className'' (cn lib [StrV ''mx-auto flex w-full justify-center'',
               className]),
           Spread props]
         [])\<close>

definition PaginationContent :: ui_component where
  \<open>PaginationContent lib ps =
    (let className = read_prop ''className'' ps;
         props = rest [''className''] ps
     in jsx ''ul''
         [Attr ''data-slot'' (StrV ''pagination-content''),
           Attr ''className'' (cn lib [StrV ''flex flex-row items-center gap-1'',
               className]),
           Spread props]
         [])\<close>

definition PaginationItem :: ui_component where
  \<open>PaginationItem lib ps =
    (let props = ps
     in jsx ''li''
         [Attr ''data-slot'' (StrV ''pagination-item''),
           Spread props]
         [])\<close>

definition PaginationLink :: ui_component where
  \<open>PaginationLink lib ps =
    (let className = read_prop ''className'' ps;
         isActive = read_prop ''isActive'' ps;
         size' = or_default (StrV ''icon'') (read_prop ''size'' ps);
         props = rest [''className'', ''isActive'', ''size''] ps
     in jsx ''a''
         [Attr ''aria-current'' ((if truthy isActive then StrV ''page'' else UndefV)),
           Attr ''data-slot'' (StrV ''pagination-link''),
           Attr ''data-active'' isActive,
           Attr ''className'' (cn lib [buttonVariants lib (ObjV (obj [Attr ''variant'' ((if truthy isActive then StrV ''outline'' else StrV ''ghost'')), Attr ''size'' size'])),
               className]),
           Spread props]
         [])\<close>

definition PaginationPrevious :: ui_component where
  \<open>PaginationPrevious lib ps =
    (let className = read_prop ''className'' ps;
         props = rest [''className''] ps
     in jsx ''PaginationLink''
         [Attr ''aria-label'' (StrV ''Go to previous page''),
           Attr ''size'' (StrV ''default''),
           Attr ''className'' (cn lib [StrV ''gap-1 px-2.5 sm:pl-2.5'',
               className]),
           Spread props]
         [jsx ''ChevronLeftIcon''
            []
            [],
           jsx ''span''
            [Attr ''className'' (StrV ''hidden sm:block'')]
            [StrV ''Previous'']])\<close>

definition PaginationNext :: ui_component where
  \<open>PaginationNext lib ps =
    (let className = read_prop ''className'' ps;
         props = rest [''className''] ps
     in jsx ''PaginationLink''
         [Attr ''aria-label'' (StrV ''Go to next page''),
           Attr ''size'' (StrV ''default''),
           Attr ''className'' (cn lib [StrV ''gap-1 px-2.5 sm:pr-2.5'',
               className]),
           Spread props]
         [jsx ''span''
            [Attr ''className'' (StrV ''hidden sm:block'')]
            [StrV ''Next''],
           jsx ''ChevronRightIcon''
            []
            []])\<close>

definition PaginationEllipsis :: ui_component where
  \<open>PaginationEllipsis lib ps =
    (let className = read_prop ''className'' ps;
         props = rest [''className''] ps
     in jsx ''span''
         [Attr ''aria-hidden'' (BoolV True),
           Attr ''data-slot'' (StrV ''pagination-ellipsis''),
           Attr ''className'' (cn lib [StrV ''flex size-9 items-center justify-center'',
               className]),
           Spread props]
         [jsx ''MoreHorizontalIcon''
            [Attr ''className'' (StrV ''size-4'')]
            [],
           jsx ''span''
            [Attr ''className'' (StrV ''sr-only'')]
            [StrV ''More pages'']])\<close>

subsection \<open>\<open>tabs.tsx\<close>\<close>

definition Tabs :: ui_component where
  \<open>Tabs lib ps =
    (let className = read_prop ''className'' ps;
         props = rest [''className''] ps
     in jsx ''TabsPrimitive.Root''
         [Attr ''data-slot'' (StrV ''tabs''),
           Attr ''className'' (cn lib [StrV ''flex flex-col gap-2'',
               className]),
           Spread props]
         [])\<close>

definition TabsList :: ui_component where
  \<open>TabsList lib ps =
    (let className = read_prop ''className'' ps;
         props = rest [''className''] ps
     in jsx ''TabsPrimitive.List''
         [Attr ''data-slot'' (StrV ''tabs-list''),
           Attr ''className'' (cn lib [StrV ''bg-muted text-muted-foreground inline-flex h-9 w-fit items-center justify-center rounded-lg p-[3px]'',
               className]),
           Spread props]
         [])\<close>

definition TabsTrigger :: ui_component where
  \<open>TabsTrigger lib ps =
    (let className = read_prop ''className'' ps;
         props = rest [''className''] ps
     in jsx ''TabsPrimitive.Trigger''
         [Attr ''data-slot'' (StrV ''tabs-trigger''),
           Attr ''className'' (cn lib [StrV ''data-[state=active]:bg-background dark:data-[state=active]:text-foreground focus-visible:border-ring focus-visible:ring-ring/50 focus-visible:outline-ring dark:data-[state=active]:border-input dark:data-[state=active]:bg-input/30 text-foreground dark:text-muted-foreground inline-flex h-[calc(100%-1px)] flex-1 items-center justify-center gap-1.5 rounded-md border border-transparent px-2 py-1 text-sm font-medium whitespace-nowrap transition-[color,box-shadow] focus-visible:ring-[3px] focus-visible:outline-1 disabled:pointer-events-none disabled:opacity-50 data-[state=active]:shadow-sm [&_svg]:pointer-events-none [&_svg]:shrink-0 [&_svg:not([class*='size-'])]:size-4'',
               className]),
           Spread props]
         [])\<close>

definition TabsContent :: ui_component where
  \<open>TabsContent lib ps =
    (let className = read_prop ''className'' ps;
         props = rest [''className''] ps
     in jsx ''TabsPrimitive.Content''
         [Attr ''data-slot'' (StrV ''tabs-content''),
           Attr ''className'' (cn lib [StrV ''flex-1 outline-none'',
               className]),
           Spread props]
         [])\<close>

subsection \<open>\<open>accordion.tsx\<close>\<close>

definition Accordion :: ui_component where
  \<open>Accordion lib ps =
    (let props = ps
     in jsx ''AccordionPrimitive.Root''
         [Attr ''data-slot'' (StrV ''accordion''),
           Spread props]
         [])\<close>

definition AccordionItem :: ui_component where
  \<open>AccordionItem lib ps =
    (let className = read_prop ''className'' ps;
         props = rest [''className''] ps
     in jsx ''AccordionPrimitive.Item''
         [Attr ''data-slot'' (StrV ''accordion-item''),
           Attr ''className'' (cn lib [StrV ''border-b last:border-b-0'',
               className]),
           Spread props]
         [])\<close>

definition AccordionTrigger :: ui_component where
  \<open>AccordionTrigger lib ps =
    (let className = read_prop ''className'' ps;
         children = read_prop ''children'' ps;
         props = rest [''className'', ''children''] ps
     in jsx ''AccordionPrimitive.Header''
         [Attr ''className'' (StrV ''flex'')]
         [jsx ''AccordionPrimitive.Trigger''
            [Attr ''data-slot'' (StrV ''accordion-trigger''),
              Attr ''className'' (cn lib [StrV ''focus-visible:border-ring focus-visible:ring-ring/50 flex flex-1 items-start justify-between gap-4 rounded-md py-4 text-left text-sm font-medium transition-all outline-none hover:underline focus-visible:ring-[3px] disabled:pointer-events-none disabled:opacity-50 [&[data-state=open]>svg]:rotate-180'',
                  className]),
              Spread props]
            [children,
              jsx ''ChevronDownIcon''
               [Attr ''className'' (StrV ''text-muted-foreground pointer-events-none size-4 shrink-0 translate-y-0.5 transition-transform duration-200'')]
               []]])\<close>

definition AccordionContent :: ui_component where
  \<open>AccordionContent lib ps =
    (let className = read_prop ''className'' ps;
         children = read_prop ''children'' ps;
         props = rest [''className'', ''children''] ps
     in jsx ''AccordionPrimitive.Content''
         [Attr ''data-slot'' (StrV ''accordion-content''),
           Attr ''className'' (StrV ''data-[state=closed]:animate-accordion-up data-[state=open]:animate-accordion-down overflow-hidden text-sm''),
           Spread props]
         [jsx ''div''
            [Attr ''className'' (cn lib [StrV ''pt-0 pb-4'',
                  className])]
            [children]])\<close>

subsection \<open>\<open>alert.tsx\<close>\<close>

definition alertVariants :: "ui_lib \<Rightarrow> ui_value \<Rightarrow> ui_value" where
  \<open>alertVariants lib v = StrV (cva lib
    (StrV ''relative w-full rounded-lg border px-4 py-3 text-sm grid has-[>svg]:grid-cols-[calc(var(--spacing)*4)_1fr] grid-cols-[0_1fr] has-[>svg]:gap-x-3 gap-y-0.5 items-start [&>svg]:size-4 [&>svg]:translate-y-0.5 [&>svg]:text-current'')
    (ObjV (obj [Attr ''variants'' (ObjV (obj [Attr ''variant'' (ObjV (obj [Attr ''default'' (StrV ''bg-card text-card-foreground''), Attr ''destructive'' (StrV ''text-destructive bg-card [&>svg]:text-current *:data-[slot=alert-description]:text-destructive/90'')]))])), Attr ''defaultVariants'' (ObjV (obj [Attr ''variant'' (StrV ''default'')]))]))
    v)\<close>

definition Alert :: ui_component where
  \<open>Alert lib ps =
    (let className = read_prop ''className'' ps;
         variant = read_prop ''variant'' ps;
         props = rest [''className'', ''variant''] ps
     in jsx ''div''
         [Attr ''data-slot'' (StrV ''alert''),
           Attr ''role'' (StrV ''alert''),
           Attr ''className'' (cn lib [alertVariants lib (ObjV (obj [Attr ''variant'' variant])),
               className]),
           Spread props]
         [])\<close>

definition AlertTitle :: ui_component where
  \<open>AlertTitle lib ps =
    (let className = read_prop ''className'' ps;
         props = rest [''className''] ps
     in jsx ''div''
         [Attr ''data-slot'' (StrV ''alert-title''),
           Attr ''className'' (cn lib [StrV ''col-start-2 line-clamp-1 min-h-4 font-medium tracking-tight'',
               className]),
           Spread props]
         [])\<close>

definition AlertDescription :: ui_component where
  \<open>AlertDescription lib ps =
    (let className = read_prop ''className'' ps;
         props = rest [''className''] ps
     in jsx ''div''
         [Attr ''data-slot'' (StrV ''alert-description''),
           Attr ''className'' (cn lib [StrV ''text-muted-foreground col-start-2 grid justify-items-start gap-1 text-sm [&_p]:leading-relaxed'',
               className]),
           Spread props]
         [])\<close>

subsection \<open>\<open>badge.tsx\<close>\<close>

definition badgeVariants :: "ui_lib \<Rightarrow> ui_value \<Rightarrow> ui_value" where
  \<open>badgeVariants lib v = StrV (cva lib
    (StrV ''inline-flex items-center justify-center rounded-md border px-2 py-0.5 text-xs font-medium w-fit whitespace-nowrap shrink-0 [&>svg]:size-3 gap-1 [&>svg]:pointer-events-none focus-visible:border-ring focus-visible:ring-ring/50 focus-visible:ring-[3px] aria-invalid:ring-destructive/20 dark:aria-invalid:ring-destructive/40 aria-invalid:border-destructive transition-[color,box-shadow] overflow-hidden'')
    (ObjV (obj [Attr ''variants'' (ObjV (obj [Attr ''variant'' (ObjV (obj [Attr ''default'' (StrV ''border-transparent bg-primary text-primary-foreground [a&]:hover:bg-primary/90''), Attr ''secondary'' (StrV ''border-transparent bg-secondary text-secondary-foreground [a&]:hover:bg-secondary/90''), Attr ''destructive'' (StrV ''border-transparent bg-destructive text-white [a&]:hover:bg-destructive/90 focus-visible:ring-destructive/20 dark:focus-visible:ring-destructive/40 dark:bg-destructive/60''), Attr ''outline'' (StrV ''text-foreground [a&]:hover:bg-accent [a&]:hover:text-accent-foreground'')]))])), Attr ''defaultVariants'' (ObjV (obj [Attr ''variant'' (StrV ''default'')]))]))
    v)\<close>

definition Badge :: ui_component where
  \<open>Badge lib ps =
    (let className = read_prop ''className'' ps;
         variant = read_prop ''variant'' ps;
         asChild = or_default (BoolV False) (read_prop ''asChild'' ps);
         props = rest [''className'', ''variant'', ''asChild''] ps;
         Comp = (if truthy asChild then ''Slot'' else ''span'')
     in jsx Comp
         [Attr ''data-slot'' (StrV ''badge''),
           Attr ''className'' (cn lib [badgeVariants lib (ObjV (obj [Attr ''variant'' variant])),
               className]),
           Spread props]
         [])\<close>

subsection \<open>\<open>avatar.tsx\<close>\<close>

definition Avatar :: ui_component where
  \<open>Avatar lib ps =
    (let className = read_prop ''className'' ps;
         props = rest [''className''] ps
     in jsx ''AvatarPrimitive.Root''
         [Attr ''data-slot'' (StrV ''avatar''),
           Attr ''className'' (cn lib [StrV ''relative flex size-8 shrink-0 overflow-hidden rounded-full'',
               className]),
           Spread props]
         [])\<close>

definition AvatarImage :: ui_component where
  \<open>AvatarImage lib ps =
    (let className = read_prop ''className'' ps;
         props = rest [''className''] ps
     in jsx ''AvatarPrimitive.Image''
         [Attr ''data-slot'' (StrV ''avatar-image''),
           Attr ''className'' (cn lib [StrV ''aspect-square size-full'',
               className]),
           Spread props]
         [])\<close>

definition AvatarFallback :: ui_component where
  \<open>AvatarFallback lib ps =
    (let className = read_prop ''className'' ps;
         props = rest [''className''] ps
     in jsx ''AvatarPrimitive.Fallback''
         [Attr ''data-slot'' (StrV ''avatar-fallback''),
           Attr ''className'' (cn lib [StrV ''bg-muted flex size-full items-center justify-center rounded-full'',
               className]),
           Spread props]
         [])\<close>

subsection \<open>\<open>kbd.tsx\<close>\<close>

definition Kbd :: ui_component where
  \<open>Kbd lib ps =
    (let className = read_prop ''className'' ps;
         props = rest [''className''] ps
     in jsx ''kbd''
         [Attr ''data-slot'' (StrV ''kbd''),
           Attr ''className'' (cn lib [StrV ''bg-muted w-fit text-muted-foreground pointer-events-none inline-flex h-5 min-w-5 items-center justify-center gap-1 rounded-sm px-1 font-sans text-xs font-medium select-none'',
               StrV ''[&_svg:not([class*='size-'])]:size-3'',
               StrV ''[[data-slot=tooltip-content]_&]:bg-background/20 [[data-slot=tooltip-content]_&]:text-background dark:[[data-slot=tooltip-content]_&]:bg-background/10'',
               className]),
           Spread props]
         [])\<close>

definition KbdGroup :: ui_component where
  \<open>KbdGroup lib ps =
    (let className = read_prop ''className'' ps;
         props = rest [''className''] ps
     in jsx ''kbd''
         [Attr ''data-slot'' (StrV ''kbd-group''),
           Attr ''className'' (cn lib [StrV ''inline-flex items-center gap-1'',
               className]),
           Spread props]
         [])\<close>

subsection \<open>\<open>skeleton.tsx\<close>\<close>

definition Skeleton :: ui_component where
  \<open>Skeleton lib ps =
    (let className = read_prop ''className'' ps;
         props = rest [''className''] ps
     in jsx ''div''
         [Attr ''data-slot'' (StrV ''skeleton''),
           Attr ''className'' (cn lib [StrV ''bg-accent animate-pulse rounded-md'',
               className]),
           Spread props]
         [])\<close>

subsection \<open>\<open>aspect-ratio.tsx\<close>\<close>

definition AspectRatio :: ui_component where
  \<open>AspectRatio lib ps =
    (let props = ps
     in jsx ''AspectRatioPrimitive.Root''
         [Attr ''data-slot'' (StrV ''aspect-ratio''),
           Spread props]
         [])\<close>

subsection \<open>\<open>resizable.tsx\<close>\<close>

definition ResizablePanelGroup :: ui_component where
  \<open>ResizablePanelGroup lib ps =
    (let className = read_prop ''className'' ps;
         props = rest [''className''] ps
     in jsx ''ResizablePrimitive.PanelGroup''
         [Attr ''data-slot'' (StrV ''resizable-panel-group''),
           Attr ''className'' (cn lib [StrV ''flex h-full w-full data-[panel-group-direction=vertical]:flex-col'',
               className]),
           Spread props]
         [])\<close>

definition ResizablePanel :: ui_component where
  \<open>ResizablePanel lib ps =
    (let props = ps
     in jsx ''ResizablePrimitive.Panel''
         [Attr ''data-slot'' (StrV ''resizable-panel''),
           Spread props]
         [])\<close>

definition ResizableHandle :: ui_component where
  \<open>ResizableHandle lib ps =
    (let withHandle = read_prop ''withHandle'' ps;
         className = read_prop ''className'' ps;
         props = rest [''withHandle'', ''className''] ps
     in jsx ''ResizablePrimitive.PanelResizeHandle''
         [Attr ''data-slot'' (StrV ''resizable-handle''),
           Attr ''className'' (cn lib [StrV ''bg-border focus-visible:ring-ring relative flex w-px items-center justify-center after:absolute after:inset-y-0 after:left-1/2 after:w-1 after:-translate-x-1/2 focus-visible:ring-1 focus-visible:ring-offset-1 focus-visible:outline-hidden data-[panel-group-direction=vertical]:h-px data-[panel-group-direction=vertical]:w-full data-[panel-group-direction=vertical]:after:left-0 data-[panel-group-direction=vertical]:after:h-1 data-[panel-group-direction=vertical]:after:w-full data-[panel-group-direction=vertical]:after:translate-x-0 data-[panel-group-direction=vertical]:after:-translate-y-1/2 [&[data-panel-group-direction=vertical]>div]:rotate-90'',
               className]),
           Spread props]
         [js_and withHandle (jsx ''div''
            [Attr ''className'' (StrV ''bg-border z-10 flex h-4 w-3 items-center justify-center rounded-xs border'')]
            [jsx ''GripVerticalIcon''
               [Attr ''className'' (StrV ''size-2.5'')]
               []])])\<close>

subsection \<open>\<open>scroll-area.tsx\<close>\<close>

definition ScrollArea :: ui_component where
  \<open>ScrollArea lib ps =
    (let className = read_prop ''className'' ps;
         children = read_prop ''children'' ps;
         props = rest [''className'', ''children''] ps
     in jsx ''ScrollAreaPrimitive.Root''
         [Attr ''data-slot'' (StrV ''scroll-area''),
           Attr ''className'' (cn lib [StrV ''relative'',
               className]),
           Spread props]
         [jsx ''ScrollAreaPrimitive.Viewport''
            [Attr ''data-slot'' (StrV ''scroll-area-viewport''),
              Attr ''className'' (StrV ''focus-visible:ring-ring/50 size-full rounded-[inherit] transition-[color,box-shadow] outline-none focus-visible:ring-[3px] focus-visible:outline-1'')]
            [children],
           jsx ''ScrollBar''
            []
            [],
           jsx ''ScrollAreaPrimitive.Corner''
            []
            []])\<close>

definition ScrollBar :: ui_component where
  \<open>ScrollBar lib ps =
    (let className = read_prop ''className'' ps;
         orientation = or_default (StrV ''vertical'') (read_prop ''orientation'' ps);
         props = rest [''className'', ''orientation''] ps
     in jsx ''ScrollAreaPrimitive.ScrollAreaScrollbar''
         [Attr ''data-slot'' (StrV ''scroll-area-scrollbar''),
           Attr ''orientation'' orientation,
           Attr ''className'' (cn lib [StrV ''flex touch-none p-px transition-colors select-none'',
               js_and (BoolV (strict_eq orientation (StrV ''vertical''))) (StrV ''h-full w-2.5 border-l border-l-transparent''),
               js_and (BoolV (strict_eq orientation (StrV ''horizontal''))) (StrV ''h-2.5 flex-col border-t border-t-transparent''),
               className]),
           Spread props]
         [jsx ''ScrollAreaPrimitive.ScrollAreaThumb''
            [Attr ''data-slot'' (StrV ''scroll-area-thumb''),
              Attr ''className'' (StrV ''bg-border relative flex-1 rounded-full'')]
            []])\<close>

subsection \<open>\<open>collapsible.tsx\<close>\<close>

definition Collapsible :: ui_component where
  \<open>Collapsible lib ps =
    (let props = ps
     in jsx ''CollapsiblePrimitive.Root''
         [Attr ''data-slot'' (StrV ''collapsible''),
           Spread props]
         [])\<close>

definition CollapsibleTrigger :: ui_component where
  \<open>CollapsibleTrigger lib ps =
    (let props = ps
     in jsx ''CollapsiblePrimitive.CollapsibleTrigger''
         [Attr ''data-slot'' (StrV ''collapsible-trigger''),
           Spread props]
         [])\<close>

definition CollapsibleContent :: ui_component where
  \<open>CollapsibleContent lib ps =
    (let props = ps
     in jsx ''CollapsiblePrimitive.CollapsibleContent''
         [Attr ''data-slot'' (StrV ''collapsible-content''),
           Spread props]
         [])\<close>

subsection \<open>Which parts are slotted\<close>

interpretation Card_part: slotted "Card lib" "[''className'']" "''card''" for lib
  by (rule slotted_intro, unfold Card_def Let_def, intro exI conjI, rule refl) simp_all

interpretation CardHeader_part: slotted "CardHeader lib" "[''className'']" "''card-header''" for lib
  by (rule slotted_intro, unfold CardHeader_def Let_def, intro exI conjI, rule refl) simp_all

interpretation CardTitle_part: slotted "CardTitle lib" "[''className'']" "''card-title''" for lib
  by (rule slotted_intro, unfold CardTitle_def Let_def, intro exI conjI, rule refl) simp_all

interpretation CardDescription_part: slotted "CardDescription lib" "[''className'']" "''card-description''" for lib
  by (rule slotted_intro, unfold CardDescription_def Let_def, intro exI conjI, rule refl) simp_all

interpretation CardAction_part: slotted "CardAction lib" "[''className'']" "''card-action''" for lib
  by (rule slotted_intro, unfold CardAction_def Let_def, intro exI conjI, rule refl) simp_all

interpretation CardContent_part: slotted "CardContent lib" "[''className'']" "''card-content''" for lib
  by (rule slotted_intro, unfold CardContent_def Let_def, intro exI conjI, rule refl) simp_all

interpretation CardFooter_part: slotted "CardFooter lib" "[''className'']" "''card-footer''" for lib
  by (rule slotted_intro, unfold CardFooter_def Let_def, intro exI conjI, rule refl) simp_all

interpretation ItemGroup_part: slotted "ItemGroup lib" "[''className'']" "''item-group''" for lib
  by (rule slotted_intro, unfold ItemGroup_def Let_def, intro exI conjI, rule refl) simp_all

interpretation ItemSeparator_part: slotted "ItemSeparator lib" "[''className'']" "''item-separator''" for lib
  by (rule slotted_intro, unfold ItemSeparator_def Let_def, intro exI conjI, rule refl) simp_all

interpretation Item_part: slotted "Item lib" "[''className'', ''variant'', ''size'', ''asChild'']" "''item''" for lib
  by (rule slotted_intro, unfold Item_def Let_def, intro exI conjI, rule refl) simp_all

interpretation ItemMedia_part: slotted "ItemMedia lib" "[''className'', ''variant'']" "''item-media''" for lib
  by (rule slotted_intro, unfold ItemMedia_def Let_def, intro exI conjI, rule refl) simp_all

interpretation ItemContent_part: slotted "ItemContent lib" "[''className'']" "''item-content''" for lib
  by (rule slotted_intro, unfold ItemContent_def Let_def, intro exI conjI, rule refl) simp_all

interpretation ItemTitle_part: slotted "ItemTitle lib" "[''className'']" "''item-title''" for lib
  by (rule slotted_intro, unfold ItemTitle_def Let_def, intro exI conjI, rule refl) simp_all

interpretation ItemDescription_part: slotted "ItemDescription lib" "[''className'']" "''item-description''" for lib
  by (rule slotted_intro, unfold ItemDescription_def Let_def, intro exI conjI, rule refl) simp_all

interpretation ItemActions_part: slotted "ItemActions lib" "[''className'']" "''item-actions''" for lib
  by (rule slotted_intro, unfold ItemActions_def Let_def, intro exI conjI, rule refl) simp_all

interpretation ItemHeader_part: slotted "ItemHeader lib" "[''className'']" "''item-header''" for lib
  by (rule slotted_intro, unfold ItemHeader_def Let_def, intro exI conjI, rule refl) simp_all

interpretation ItemFooter_part: slotted "ItemFooter lib" "[''className'']" "''item-footer''" for lib
  by (rule slotted_intro, unfold ItemFooter_def Let_def, intro exI conjI, rule refl) simp_all

interpretation Empty_part: slotted "Empty lib" "[''className'']" "''empty''" for lib
  by (rule slotted_intro, unfold Empty_def Let_def, intro exI conjI, rule refl) simp_all

interpretation EmptyHeader_part: slotted "EmptyHeader lib" "[''className'']" "''empty-header''" for lib
  by (rule slotted_intro, unfold EmptyHeader_def Let_def, intro exI conjI, rule refl) simp_all

interpretation EmptyMedia_part: slotted "EmptyMedia lib" "[''className'', ''variant'']" "''empty-icon''" for lib
  by (rule slotted_intro, unfold EmptyMedia_def Let_def, intro exI conjI, rule refl) simp_all

interpretation EmptyTitle_part: slotted "EmptyTitle lib" "[''className'']" "''empty-title''" for lib
  by (rule slotted_intro, unfold EmptyTitle_def Let_def, intro exI conjI, rule refl) simp_all

interpretation EmptyDescription_part: slotted "EmptyDescription lib" "[''className'']" "''empty-description''" for lib
  by (rule slotted_intro, unfold EmptyDescription_def Let_def, intro exI conjI, rule refl) simp_all

interpretation EmptyContent_part: slotted "EmptyContent lib" "[''className'']" "''empty-content''" for lib
  by (rule slotted_intro, unfold EmptyContent_def Let_def, intro exI conjI, rule refl) simp_all

interpretation TableHeader_part: slotted "TableHeader lib" "[''className'']" "''table-header''" for lib
  by (rule slotted_intro, unfold TableHeader_def Let_def, intro exI conjI, rule refl) simp_all

interpretation TableBody_part: slotted "TableBody lib" "[''className'']" "''table-body''" for lib
  by (rule slotted_intro, unfold TableBody_def Let_def, intro exI conjI, rule refl) simp_all

interpretation TableFooter_part: slotted "TableFooter lib" "[''className'']" "''table-footer''" for lib
  by (rule slotted_intro, unfold TableFooter_def Let_def, intro exI conjI, rule refl) simp_all

interpretation TableRow_part: slotted "TableRow lib" "[''className'']" "''table-row''" for lib
  by (rule slotted_intro, unfold TableRow_def Let_def, intro exI conjI, rule refl) simp_all

interpretation TableHead_part: slotted "TableHead lib" "[''className'']" "''table-head''" for lib
  by (rule slotted_intro, unfold TableHead_def Let_def, intro exI conjI, rule refl) simp_all

interpretation TableCell_part: slotted "TableCell lib" "[''className'']" "''table-cell''" for lib
  by (rule slotted_intro, unfold TableCell_def Let_def, intro exI conjI, rule refl) simp_all

interpretation TableCaption_part: slotted "TableCaption lib" "[''className'']" "''table-caption''" for lib
  by (rule slotted_intro, unfold TableCaption_def Let_def, intro exI conjI, rule refl) simp_all

interpretation Breadcrumb_part: slotted "Breadcrumb lib" "[]" "''breadcrumb''" for lib
  by (rule slotted_intro, unfold Breadcrumb_def Let_def, intro exI conjI, rule refl) simp_all

interpretation BreadcrumbList_part: slotted "BreadcrumbList lib" "[''className'']" "''breadcrumb-list''" for lib
  by (rule slotted_intro, unfold BreadcrumbList_def Let_def, intro exI conjI, rule refl) simp_all

interpretation BreadcrumbItem_part: slotted "BreadcrumbItem lib" "[''className'']" "''breadcrumb-item''" for lib
  by (rule slotted_intro, unfold BreadcrumbItem_def Let_def, intro exI conjI, rule refl) simp_all

interpretation BreadcrumbLink_part: slotted "BreadcrumbLink lib" "[''asChild'', ''className'']" "''breadcrumb-link''" for lib
  by (rule slotted_intro, unfold BreadcrumbLink_def Let_def, intro exI conjI, rule refl) simp_all

interpretation BreadcrumbPage_part: slotted "BreadcrumbPage lib" "[''className'']" "''breadcrumb-page''" for lib
  by (rule slotted_intro, unfold BreadcrumbPage_def Let_def, intro exI conjI, rule refl) simp_all

interpretation BreadcrumbSeparator_part: slotted "BreadcrumbSeparator lib" "[''children'', ''className'']" "''breadcrumb-separator''" for lib
  by (rule slotted_intro, unfold BreadcrumbSeparator_def Let_def, intro exI conjI, rule refl) simp_all

interpretation Pagination_part: slotted "Pagination lib" "[''className'']" "''pagination''" for lib
  by (rule slotted_intro, unfold Pagination_def Let_def, intro exI conjI, rule refl) simp_all

interpretation PaginationContent_part: slotted "PaginationContent lib" "[''className'']" "''pagination-content''" for lib
  by (rule slotted_intro, unfold PaginationContent_def Let_def, intro exI conjI, rule refl) simp_all

interpretation PaginationItem_part: slotted "PaginationItem lib" "[]" "''pagination-item''" for lib
  by (rule slotted_intro, unfold PaginationItem_def Let_def, intro exI conjI, rule refl) simp_all

interpretation PaginationLink_part: slotted "PaginationLink lib" "[''className'', ''isActive'', ''size'']" "''pagination-link''" for lib
  by (rule slotted_intro, unfold PaginationLink_def Let_def, intro exI conjI, rule refl) simp_all

interpretation Tabs_part: slotted "Tabs lib" "[''className'']" "''tabs''" for lib
  by (rule slotted_intro, unfold Tabs_def Let_def, intro exI conjI, rule refl) simp_all

interpretation TabsList_part: slotted "TabsList lib" "[''className'']" "''tabs-list''" for lib
  by (rule slotted_intro, unfold TabsList_def Let_def, intro exI conjI, rule refl) simp_all

interpretation TabsTrigger_part: slotted "TabsTrigger lib" "[''className'']" "''tabs-trigger''" for lib
  by (rule slotted_intro, unfold TabsTrigger_def Let_def, intro exI conjI, rule refl) simp_all

interpretation TabsContent_part: slotted "TabsContent lib" "[''className'']" "''tabs-content''" for lib
  by (rule slotted_intro, unfold TabsContent_def Let_def, intro exI conjI, rule refl) simp_all

interpretation Accordion_part: slotted "Accordion lib" "[]" "''accordion''" for lib
  by (rule slotted_intro, unfold Accordion_def Let_def, intro exI conjI, rule refl) simp_all

interpretation AccordionItem_part: slotted "AccordionItem lib" "[''className'']" "''accordion-item''" for lib
  by (rule slotted_intro, unfold AccordionItem_def Let_def, intro exI conjI, rule refl) simp_all

interpretation AccordionContent_part: slotted "AccordionContent lib" "[''className'', ''children'']" "''accordion-content''" for lib
  by (rule slotted_intro, unfold AccordionContent_def Let_def, intro exI conjI, rule refl) simp_all

interpretation Alert_part: slotted "Alert lib" "[''className'', ''variant'']" "''alert''" for lib
  by (rule slotted_intro, unfold Alert_def Let_def, intro exI conjI, rule refl) simp_all

interpretation AlertTitle_part: slotted "AlertTitle lib" "[''className'']" "''alert-title''" for lib
  by (rule slotted_intro, unfold AlertTitle_def Let_def, intro exI conjI, rule refl) simp_all

interpretation AlertDescription_part: slotted "AlertDescription lib" "[''className'']" "''alert-description''" for lib
  by (rule slotted_intro, unfold AlertDescription_def Let_def, intro exI conjI, rule refl) simp_all

interpretation Badge_part: slotted "Badge lib" "[''className'', ''variant'', ''asChild'']" "''badge''" for lib
  by (rule slotted_intro, unfold Badge_def Let_def, intro exI conjI, rule refl) simp_all

interpretation Avatar_part: slotted "Avatar lib" "[''className'']" "''avatar''" for lib
  by (rule slotted_intro, unfold Avatar_def Let_def, intro exI conjI, rule refl) simp_all

interpretation AvatarImage_part: slotted "AvatarImage lib" "[''className'']" "''avatar-image''" for lib
  by (rule slotted_intro, unfold AvatarImage_def Let_def, intro exI conjI, rule refl) simp_all

interpretation AvatarFallback_part: slotted "AvatarFallback lib" "[''className'']" "''avatar-fallback''" for lib
  by (rule slotted_intro, unfold AvatarFallback_def Let_def, intro exI conjI, rule refl) simp_all

interpretation Kbd_part: slotted "Kbd lib" "[''className'']" "''kbd''" for lib
  by (rule slotted_intro, unfold Kbd_def Let_def, intro exI conjI, rule refl) simp_all

interpretation KbdGroup_part: slotted "KbdGroup lib" "[''className'']" "''kbd-group''" for lib
  by (rule slotted_intro, unfold KbdGroup_def Let_def, intro exI conjI, rule refl) simp_all

interpretation Skeleton_part: slotted "Skeleton lib" "[''className'']" "''skeleton''" for lib
  by (rule slotted_intro, unfold Skeleton_def Let_def, intro exI conjI, rule refl) simp_all

interpretation AspectRatio_part: slotted "AspectRatio lib" "[]" "''aspect-ratio''" for lib
  by (rule slotted_intro, unfold AspectRatio_def Let_def, intro exI conjI, rule refl) simp_all

interpretation ResizablePanelGroup_part: slotted "ResizablePanelGroup lib" "[''className'']" "''resizable-panel-group''" for lib
  by (rule slotted_intro, unfold ResizablePanelGroup_def Let_def, intro exI conjI, rule refl) simp_all

interpretation ResizablePanel_part: slotted "ResizablePanel lib" "[]" "''resizable-panel''" for lib
  by (rule slotted_intro, unfold ResizablePanel_def Let_def, intro exI conjI, rule refl) simp_all

interpretation ScrollArea_part: slotted "ScrollArea lib" "[''className'', ''children'']" "''scroll-area''" for lib
  by (rule slotted_intro, unfold ScrollArea_def Let_def, intro exI conjI, rule refl) simp_all

interpretation Collapsible_part: slotted "Collapsible lib" "[]" "''collapsible''" for lib
  by (rule slotted_intro, unfold Collapsible_def Let_def, intro exI conjI, rule refl) simp_all

interpretation CollapsibleTrigger_part: slotted "CollapsibleTrigger lib" "[]" "''collapsible-trigger''" for lib
  by (rule slotted_intro, unfold CollapsibleTrigger_def Let_def, intro exI conjI, rule refl) simp_all

interpretation CollapsibleContent_part: slotted "CollapsibleContent lib" "[]" "''collapsible-content''" for lib
  by (rule slotted_intro, unfold CollapsibleContent_def Let_def, intro exI conjI, rule refl) simp_all

definition uiContent_parts :: "ui_lib \<Rightarrow> ((props \<Rightarrow> ui_value) \<times> string list \<times> string) list" where
  "uiContent_parts lib =
    [(Card lib, [''className''], ''card''),
     (CardHeader lib, [''className''], ''card-header''),
     (CardTitle lib, [''className''], ''card-title''),
     (CardDescription lib, [''className''], ''card-description''),
     (CardAction lib, [''className''], ''card-action''),
     (CardContent lib, [''className''], ''card-content''),
     (CardFooter lib, [''className''], ''card-footer''),
     (ItemGroup lib, [''className''], ''item-group''),
     (ItemSeparator lib, [''className''], ''item-separator''),
     (Item lib, [''className'', ''variant'', ''size'', ''asChild''], ''item''),
     (ItemMedia lib, [''className'', ''variant''], ''item-media''),
     (ItemContent lib, [''className''], ''item-content''),
     (ItemTitle lib, [''className''], ''item-title''),
     (ItemDescription lib, [''className''], ''item-description''),
     (ItemActions lib, [''className''], ''item-actions''),
     (ItemHeader lib, [''className''], ''item-header''),
     (ItemFooter lib, [''className''], ''item-footer''),
     (Empty lib, [''className''], ''empty''),
     (EmptyHeader lib, [''className''], ''empty-header''),
     (EmptyMedia lib, [''className'', ''variant''], ''empty-icon''),
     (EmptyTitle lib, [''className''], ''empty-title''),
     (EmptyDescription lib, [''className''], ''empty-description''),
     (EmptyContent lib, [''className''], ''empty-content''),
     (TableHeader lib, [''className''], ''table-header''),
     (TableBody lib, [''className''], ''table-body''),
     (TableFooter lib, [''className''], ''table-footer''),
     (TableRow lib, [''className''], ''table-row''),
     (TableHead lib, [''className''], ''table-head''),
     (TableCell lib, [''className''], ''table-cell''),
     (TableCaption lib, [''className''], ''table-caption''),
     (Breadcrumb lib, [], ''breadcrumb''),
     (BreadcrumbList lib, [''className''], ''breadcrumb-list''),
     (BreadcrumbItem lib, [''className''], ''breadcrumb-item''),
     (BreadcrumbLink lib, [''asChild'', ''className''], ''breadcrumb-link''),
     (BreadcrumbPage lib, [''className''], ''breadcrumb-page''),
     (BreadcrumbSeparator lib, [''children'', ''className''], ''breadcrumb-separator''),
     (Pagination lib, [''className''], ''pagination''),
     (PaginationContent lib, [''className''], ''pagination-content''),
     (PaginationItem lib, [], ''pagination-item''),
     (PaginationLink lib, [''className'', ''isActive'', ''size''], ''pagination-link''),
     (Tabs lib, [''className''], ''tabs''),
     (TabsList lib, [''className''], ''tabs-list''),
     (TabsTrigger lib, [''className''], ''tabs-trigger''),
     (TabsContent lib, [''className''], ''tabs-content''),
     (Accordion lib, [], ''accordion''),
     (AccordionItem lib, [''className''], ''accordion-item''),
     (AccordionContent lib, [''className'', ''children''], ''accordion-content''),
     (Alert lib, [''className'', ''variant''], ''alert''),
     (AlertTitle lib, [''className''], ''alert-title''),
     (AlertDescription lib, [''className''], ''alert-description''),
     (Badge lib, [''className'', ''variant'', ''asChild''], ''badge''),
     (Avatar lib, [''className''], ''avatar''),
     (AvatarImage lib, [''className''], ''avatar-image''),
     (AvatarFallback lib, [''className''], ''avatar-fallback''),
     (Kbd lib, [''className''], ''kbd''),
     (KbdGroup lib, [''className''], ''kbd-group''),
     (Skeleton lib, [''className''], ''skeleton''),
     (AspectRatio lib, [], ''aspect-ratio''),
     (ResizablePanelGroup lib, [''className''], ''resizable-panel-group''),
     (ResizablePanel lib, [], ''resizable-panel''),
     (ScrollArea lib, [''className'', ''children''], ''scroll-area''),
     (Collapsible lib, [], ''collapsible''),
     (CollapsibleTrigger lib, [], ''collapsible-trigger''),
     (CollapsibleContent lib, [], ''collapsible-content'')]"

lemma uiContent_parts_slotted: "list_all (\<lambda>(f, own, slot). slotted f own slot) (uiContent_parts lib)"
  unfolding uiContent_parts_def list.pred_inject prod.case
  by (intro conjI list.pred_inject(1) Card_part.slotted_axioms
    CardHeader_part.slotted_axioms
    CardTitle_part.slotted_axioms
    CardDescription_part.slotted_axioms
    CardAction_part.slotted_axioms
    CardContent_part.slotted_axioms
    CardFooter_part.slotted_axioms
    ItemGroup_part.slotted_axioms
    ItemSeparator_part.slotted_axioms
    Item_part.slotted_axioms
    ItemMedia_part.slotted_axioms
    ItemContent_part.slotted_axioms
    ItemTitle_part.slotted_axioms
    ItemDescription_part.slotted_axioms
    ItemActions_part.slotted_axioms
    ItemHeader_part.slotted_axioms
    ItemFooter_part.slotted_axioms
    Empty_part.slotted_axioms
    EmptyHeader_part.slotted_axioms
    EmptyMedia_part.slotted_axioms
    EmptyTitle_part.slotted_axioms
    EmptyDescription_part.slotted_axioms
    EmptyContent_part.slotted_axioms
    TableHeader_part.slotted_axioms
    TableBody_part.slotted_axioms
    TableFooter_part.slotted_axioms
    TableRow_part.slotted_axioms
    TableHead_part.slotted_axioms
    TableCell_part.slotted_axioms
    TableCaption_part.slotted_axioms
    Breadcrumb_part.slotted_axioms
    BreadcrumbList_part.slotted_axioms
    BreadcrumbItem_part.slotted_axioms
    BreadcrumbLink_part.slotted_axioms
    BreadcrumbPage_part.slotted_axioms
    BreadcrumbSeparator_part.slotted_axioms
    Pagination_part.slotted_axioms
    PaginationContent_part.slotted_axioms
    PaginationItem_part.slotted_axioms
    PaginationLink_part.slotted_axioms
    Tabs_part.slotted_axioms
    TabsList_part.slotted_axioms
    TabsTrigger_part.slotted_axioms
    TabsContent_part.slotted_axioms
    Accordion_part.slotted_axioms
    AccordionItem_part.slotted_axioms
    AccordionContent_part.slotted_axioms
    Alert_part.slotted_axioms
    AlertTitle_part.slotted_axioms
    AlertDescription_part.slotted_axioms
    Badge_part.slotted_axioms
    Avatar_part.slotted_axioms
    AvatarImage_part.slotted_axioms
    AvatarFallback_part.slotted_axioms
    Kbd_part.slotted_axioms
    KbdGroup_part.slotted_axioms
    Skeleton_part.slotted_axioms
    AspectRatio_part.slotted_axioms
    ResizablePanelGroup_part.slotted_axioms
    ResizablePanel_part.slotted_axioms
    ScrollArea_part.slotted_axioms
    Collapsible_part.slotted_axioms
    CollapsibleTrigger_part.slotted_axioms
    CollapsibleContent_part.slotted_axioms)

end
