(* ===== verification/UiOverlays.thy ===== *)
theory UiOverlays
  imports UiControls
begin

text \<open>
  Overlays of \<open>Frontend/components/ui\<close>: dialogs, sheets, drawers, popovers, tooltips, toasts and the command palette. Each definition is the component of that name;
  the interpretations show which of them keep the contract of a slotted part.
\<close>

subsection \<open>\<open>dialog.tsx\<close>\<close>

definition Dialog :: ui_component where
  \<open>Dialog lib ps =
    (let props = ps
     in jsx ''DialogPrimitive.Root''
         [Attr ''data-slot'' (StrV ''dialog''),
           Spread props]
         [])\<close>

definition DialogTrigger :: ui_component where
  \<open>DialogTrigger lib ps =
    (let props = ps
     in jsx ''DialogPrimitive.Trigger''
         [Attr ''data-slot'' (StrV ''dialog-trigger''),
           Spread props]
         [])\<close>

definition DialogPortal :: ui_component where
  \<open>DialogPortal lib ps =
    (let props = ps
     in jsx ''DialogPrimitive.Portal''
         [Attr ''data-slot'' (StrV ''dialog-portal''),
           Spread props]
         [])\<close>

definition DialogClose :: ui_component where
  \<open>DialogClose lib ps =
    (let props = ps
     in jsx ''DialogPrimitive.Close''
         [Attr ''data-slot'' (StrV ''dialog-close''),
           Spread props]
         [])\<close>

definition DialogOverlay :: ui_component where
  \<open>DialogOverlay lib ps =
    (let className = read_prop ''className'' ps;
         props = rest [''className''] ps
     in jsx ''DialogPrimitive.Overlay''
         [Attr ''data-slot'' (StrV ''dialog-overlay''),
           Attr ''className'' (cn lib [StrV ''data-[state=open]:animate-in data-[state=closed]:animate-out data-[state=closed]:fade-out-0 data-[state=open]:fade-in-0 fixed inset-0 z-50 bg-black/50'',
               className]),
           Spread props]
         [])\<close>

definition DialogContent :: ui_component where
  \<open>DialogContent lib ps =
    (let className = read_prop ''className'' ps;
         children = read_prop ''children'' ps;
         showCloseButton = or_default (BoolV True) (read_prop ''showCloseButton'' ps);
         props = rest [''className'', ''children'', ''showCloseButton''] ps
     in jsx ''DialogPortal''
         [Attr ''data-slot'' (StrV ''dialog-portal'')]
         [jsx ''DialogOverlay''
            []
            [],
           jsx ''DialogPrimitive.Content''
            [Attr ''data-slot'' (StrV ''dialog-content''),
              Attr ''className'' (cn lib [StrV ''bg-background data-[state=open]:animate-in data-[state=closed]:animate-out data-[state=closed]:fade-out-0 data-[state=open]:fade-in-0 data-[state=closed]:zoom-out-95 data-[state=open]:zoom-in-95 fixed top-[50%] left-[50%] z-50 grid w-full max-w-[calc(100%-2rem)] translate-x-[-50%] translate-y-[-50%] gap-4 rounded-lg border p-6 shadow-lg duration-200 sm:max-w-lg'',
                  className]),
              Spread props]
            [children,
              js_and showCloseButton (jsx ''DialogPrimitive.Close''
               [Attr ''data-slot'' (StrV ''dialog-close''),
                 Attr ''className'' (StrV ''ring-offset-background focus:ring-ring data-[state=open]:bg-accent data-[state=open]:text-muted-foreground absolute top-4 right-4 rounded-xs opacity-70 transition-opacity hover:opacity-100 focus:ring-2 focus:ring-offset-2 focus:outline-hidden disabled:pointer-events-none [&_svg]:pointer-events-none [&_svg]:shrink-0 [&_svg:not([class*='size-'])]:size-4'')]
               [jsx ''XIcon''
                  []
                  [],
                 jsx ''span''
                  [Attr ''className'' (StrV ''sr-only'')]
                  [StrV ''Close'']])]])\<close>

definition DialogHeader :: ui_component where
  \<open>DialogHeader lib ps =
    (let className = read_prop ''className'' ps;
         props = rest [''className''] ps
     in jsx ''div''
         [Attr ''data-slot'' (StrV ''dialog-header''),
           Attr ''className'' (cn lib [StrV ''flex flex-col gap-2 text-center sm:text-left'',
               className]),
           Spread props]
         [])\<close>

definition DialogFooter :: ui_component where
  \<open>DialogFooter lib ps =
    (let className = read_prop ''className'' ps;
         props = rest [''className''] ps
     in jsx ''div''
         [Attr ''data-slot'' (StrV ''dialog-footer''),
           Attr ''className'' (cn lib [StrV ''flex flex-col-reverse gap-2 sm:flex-row sm:justify-end'',
               className]),
           Spread props]
         [])\<close>

definition DialogTitle :: ui_component where
  \<open>DialogTitle lib ps =
    (let className = read_prop ''className'' ps;
         props = rest [''className''] ps
     in jsx ''DialogPrimitive.Title''
         [Attr ''data-slot'' (StrV ''dialog-title''),
           Attr ''className'' (cn lib [StrV ''text-lg leading-none font-semibold'',
               className]),
           Spread props]
         [])\<close>

definition DialogDescription :: ui_component where
  \<open>DialogDescription lib ps =
    (let className = read_prop ''className'' ps;
         props = rest [''className''] ps
     in jsx ''DialogPrimitive.Description''
         [Attr ''data-slot'' (StrV ''dialog-description''),
           Attr ''className'' (cn lib [StrV ''text-muted-foreground text-sm'',
               className]),
           Spread props]
         [])\<close>

subsection \<open>\<open>alert-dialog.tsx\<close>\<close>

definition AlertDialog :: ui_component where
  \<open>AlertDialog lib ps =
    (let props = ps
     in jsx ''AlertDialogPrimitive.Root''
         [Attr ''data-slot'' (StrV ''alert-dialog''),
           Spread props]
         [])\<close>

definition AlertDialogTrigger :: ui_component where
  \<open>AlertDialogTrigger lib ps =
    (let props = ps
     in jsx ''AlertDialogPrimitive.Trigger''
         [Attr ''data-slot'' (StrV ''alert-dialog-trigger''),
           Spread props]
         [])\<close>

definition AlertDialogPortal :: ui_component where
  \<open>AlertDialogPortal lib ps =
    (let props = ps
     in jsx ''AlertDialogPrimitive.Portal''
         [Attr ''data-slot'' (StrV ''alert-dialog-portal''),
           Spread props]
         [])\<close>

definition AlertDialogOverlay :: ui_component where
  \<open>AlertDialogOverlay lib ps =
    (let className = read_prop ''className'' ps;
         props = rest [''className''] ps
     in jsx ''AlertDialogPrimitive.Overlay''
         [Attr ''data-slot'' (StrV ''alert-dialog-overlay''),
           Attr ''className'' (cn lib [StrV ''data-[state=open]:animate-in data-[state=closed]:animate-out data-[state=closed]:fade-out-0 data-[state=open]:fade-in-0 fixed inset-0 z-50 bg-black/50'',
               className]),
           Spread props]
         [])\<close>

definition AlertDialogContent :: ui_component where
  \<open>AlertDialogContent lib ps =
    (let className = read_prop ''className'' ps;
         props = rest [''className''] ps
     in jsx ''AlertDialogPortal''
         []
         [jsx ''AlertDialogOverlay''
            []
            [],
           jsx ''AlertDialogPrimitive.Content''
            [Attr ''data-slot'' (StrV ''alert-dialog-content''),
              Attr ''className'' (cn lib [StrV ''bg-background data-[state=open]:animate-in data-[state=closed]:animate-out data-[state=closed]:fade-out-0 data-[state=open]:fade-in-0 data-[state=closed]:zoom-out-95 data-[state=open]:zoom-in-95 fixed top-[50%] left-[50%] z-50 grid w-full max-w-[calc(100%-2rem)] translate-x-[-50%] translate-y-[-50%] gap-4 rounded-lg border p-6 shadow-lg duration-200 sm:max-w-lg'',
                  className]),
              Spread props]
            []])\<close>

definition AlertDialogHeader :: ui_component where
  \<open>AlertDialogHeader lib ps =
    (let className = read_prop ''className'' ps;
         props = rest [''className''] ps
     in jsx ''div''
         [Attr ''data-slot'' (StrV ''alert-dialog-header''),
           Attr ''className'' (cn lib [StrV ''flex flex-col gap-2 text-center sm:text-left'',
               className]),
           Spread props]
         [])\<close>

definition AlertDialogFooter :: ui_component where
  \<open>AlertDialogFooter lib ps =
    (let className = read_prop ''className'' ps;
         props = rest [''className''] ps
     in jsx ''div''
         [Attr ''data-slot'' (StrV ''alert-dialog-footer''),
           Attr ''className'' (cn lib [StrV ''flex flex-col-reverse gap-2 sm:flex-row sm:justify-end'',
               className]),
           Spread props]
         [])\<close>

definition AlertDialogTitle :: ui_component where
  \<open>AlertDialogTitle lib ps =
    (let className = read_prop ''className'' ps;
         props = rest [''className''] ps
     in jsx ''AlertDialogPrimitive.Title''
         [Attr ''data-slot'' (StrV ''alert-dialog-title''),
           Attr ''className'' (cn lib [StrV ''text-lg font-semibold'',
               className]),
           Spread props]
         [])\<close>

definition AlertDialogDescription :: ui_component where
  \<open>AlertDialogDescription lib ps =
    (let className = read_prop ''className'' ps;
         props = rest [''className''] ps
     in jsx ''AlertDialogPrimitive.Description''
         [Attr ''data-slot'' (StrV ''alert-dialog-description''),
           Attr ''className'' (cn lib [StrV ''text-muted-foreground text-sm'',
               className]),
           Spread props]
         [])\<close>

definition AlertDialogAction :: ui_component where
  \<open>AlertDialogAction lib ps =
    (let className = read_prop ''className'' ps;
         props = rest [''className''] ps
     in jsx ''AlertDialogPrimitive.Action''
         [Attr ''className'' (cn lib [buttonVariants lib UndefV,
               className]),
           Spread props]
         [])\<close>

definition AlertDialogCancel :: ui_component where
  \<open>AlertDialogCancel lib ps =
    (let className = read_prop ''className'' ps;
         props = rest [''className''] ps
     in jsx ''AlertDialogPrimitive.Cancel''
         [Attr ''className'' (cn lib [buttonVariants lib (ObjV (obj [Attr ''variant'' (StrV ''outline'')])),
               className]),
           Spread props]
         [])\<close>

subsection \<open>\<open>sheet.tsx\<close>\<close>

definition Sheet :: ui_component where
  \<open>Sheet lib ps =
    (let props = ps
     in jsx ''SheetPrimitive.Root''
         [Attr ''data-slot'' (StrV ''sheet''),
           Spread props]
         [])\<close>

definition SheetTrigger :: ui_component where
  \<open>SheetTrigger lib ps =
    (let props = ps
     in jsx ''SheetPrimitive.Trigger''
         [Attr ''data-slot'' (StrV ''sheet-trigger''),
           Spread props]
         [])\<close>

definition SheetClose :: ui_component where
  \<open>SheetClose lib ps =
    (let props = ps
     in jsx ''SheetPrimitive.Close''
         [Attr ''data-slot'' (StrV ''sheet-close''),
           Spread props]
         [])\<close>

definition SheetPortal :: ui_component where
  \<open>SheetPortal lib ps =
    (let props = ps
     in jsx ''SheetPrimitive.Portal''
         [Attr ''data-slot'' (StrV ''sheet-portal''),
           Spread props]
         [])\<close>

definition SheetOverlay :: ui_component where
  \<open>SheetOverlay lib ps =
    (let className = read_prop ''className'' ps;
         props = rest [''className''] ps
     in jsx ''SheetPrimitive.Overlay''
         [Attr ''data-slot'' (StrV ''sheet-overlay''),
           Attr ''className'' (cn lib [StrV ''data-[state=open]:animate-in data-[state=closed]:animate-out data-[state=closed]:fade-out-0 data-[state=open]:fade-in-0 fixed inset-0 z-50 bg-black/50'',
               className]),
           Spread props]
         [])\<close>

definition SheetContent :: ui_component where
  \<open>SheetContent lib ps =
    (let className = read_prop ''className'' ps;
         children = read_prop ''children'' ps;
         side = or_default (StrV ''right'') (read_prop ''side'' ps);
         props = rest [''className'', ''children'', ''side''] ps
     in jsx ''SheetPortal''
         []
         [jsx ''SheetOverlay''
            []
            [],
           jsx ''SheetPrimitive.Content''
            [Attr ''data-slot'' (StrV ''sheet-content''),
              Attr ''className'' (cn lib [StrV ''bg-background data-[state=open]:animate-in data-[state=closed]:animate-out fixed z-50 flex flex-col gap-4 shadow-lg transition ease-in-out data-[state=closed]:duration-300 data-[state=open]:duration-500'',
                  js_and (BoolV (strict_eq side (StrV ''right''))) (StrV ''data-[state=closed]:slide-out-to-right data-[state=open]:slide-in-from-right inset-y-0 right-0 h-full w-3/4 border-l sm:max-w-sm''),
                  js_and (BoolV (strict_eq side (StrV ''left''))) (StrV ''data-[state=closed]:slide-out-to-left data-[state=open]:slide-in-from-left inset-y-0 left-0 h-full w-3/4 border-r sm:max-w-sm''),
                  js_and (BoolV (strict_eq side (StrV ''top''))) (StrV ''data-[state=closed]:slide-out-to-top data-[state=open]:slide-in-from-top inset-x-0 top-0 h-auto border-b''),
                  js_and (BoolV (strict_eq side (StrV ''bottom''))) (StrV ''data-[state=closed]:slide-out-to-bottom data-[state=open]:slide-in-from-bottom inset-x-0 bottom-0 h-auto border-t''),
                  className]),
              Spread props]
            [children,
              jsx ''SheetPrimitive.Close''
               [Attr ''className'' (StrV ''ring-offset-background focus:ring-ring data-[state=open]:bg-secondary absolute top-4 right-4 rounded-xs opacity-70 transition-opacity hover:opacity-100 focus:ring-2 focus:ring-offset-2 focus:outline-hidden disabled:pointer-events-none'')]
               [jsx ''XIcon''
                  [Attr ''className'' (StrV ''size-4'')]
                  [],
                 jsx ''span''
                  [Attr ''className'' (StrV ''sr-only'')]
                  [StrV ''Close'']]]])\<close>

definition SheetHeader :: ui_component where
  \<open>SheetHeader lib ps =
    (let className = read_prop ''className'' ps;
         props = rest [''className''] ps
     in jsx ''div''
         [Attr ''data-slot'' (StrV ''sheet-header''),
           Attr ''className'' (cn lib [StrV ''flex flex-col gap-1.5 p-4'',
               className]),
           Spread props]
         [])\<close>

definition SheetFooter :: ui_component where
  \<open>SheetFooter lib ps =
    (let className = read_prop ''className'' ps;
         props = rest [''className''] ps
     in jsx ''div''
         [Attr ''data-slot'' (StrV ''sheet-footer''),
           Attr ''className'' (cn lib [StrV ''mt-auto flex flex-col gap-2 p-4'',
               className]),
           Spread props]
         [])\<close>

definition SheetTitle :: ui_component where
  \<open>SheetTitle lib ps =
    (let className = read_prop ''className'' ps;
         props = rest [''className''] ps
     in jsx ''SheetPrimitive.Title''
         [Attr ''data-slot'' (StrV ''sheet-title''),
           Attr ''className'' (cn lib [StrV ''text-foreground font-semibold'',
               className]),
           Spread props]
         [])\<close>

definition SheetDescription :: ui_component where
  \<open>SheetDescription lib ps =
    (let className = read_prop ''className'' ps;
         props = rest [''className''] ps
     in jsx ''SheetPrimitive.Description''
         [Attr ''data-slot'' (StrV ''sheet-description''),
           Attr ''className'' (cn lib [StrV ''text-muted-foreground text-sm'',
               className]),
           Spread props]
         [])\<close>

subsection \<open>\<open>drawer.tsx\<close>\<close>

definition Drawer :: ui_component where
  \<open>Drawer lib ps =
    (let props = ps
     in jsx ''DrawerPrimitive.Root''
         [Attr ''data-slot'' (StrV ''drawer''),
           Spread props]
         [])\<close>

definition DrawerTrigger :: ui_component where
  \<open>DrawerTrigger lib ps =
    (let props = ps
     in jsx ''DrawerPrimitive.Trigger''
         [Attr ''data-slot'' (StrV ''drawer-trigger''),
           Spread props]
         [])\<close>

definition DrawerPortal :: ui_component where
  \<open>DrawerPortal lib ps =
    (let props = ps
     in jsx ''DrawerPrimitive.Portal''
         [Attr ''data-slot'' (StrV ''drawer-portal''),
           Spread props]
         [])\<close>

definition DrawerClose :: ui_component where
  \<open>DrawerClose lib ps =
    (let props = ps
     in jsx ''DrawerPrimitive.Close''
         [Attr ''data-slot'' (StrV ''drawer-close''),
           Spread props]
         [])\<close>

definition DrawerOverlay :: ui_component where
  \<open>DrawerOverlay lib ps =
    (let className = read_prop ''className'' ps;
         props = rest [''className''] ps
     in jsx ''DrawerPrimitive.Overlay''
         [Attr ''data-slot'' (StrV ''drawer-overlay''),
           Attr ''className'' (cn lib [StrV ''data-[state=open]:animate-in data-[state=closed]:animate-out data-[state=closed]:fade-out-0 data-[state=open]:fade-in-0 fixed inset-0 z-50 bg-black/50'',
               className]),
           Spread props]
         [])\<close>

definition DrawerContent :: ui_component where
  \<open>DrawerContent lib ps =
    (let className = read_prop ''className'' ps;
         children = read_prop ''children'' ps;
         props = rest [''className'', ''children''] ps
     in jsx ''DrawerPortal''
         [Attr ''data-slot'' (StrV ''drawer-portal'')]
         [jsx ''DrawerOverlay''
            []
            [],
           jsx ''DrawerPrimitive.Content''
            [Attr ''data-slot'' (StrV ''drawer-content''),
              Attr ''className'' (cn lib [StrV ''group/drawer-content bg-background fixed z-50 flex h-auto flex-col'',
                  StrV ''data-[vaul-drawer-direction=top]:inset-x-0 data-[vaul-drawer-direction=top]:top-0 data-[vaul-drawer-direction=top]:mb-24 data-[vaul-drawer-direction=top]:max-h-[80vh] data-[vaul-drawer-direction=top]:rounded-b-lg data-[vaul-drawer-direction=top]:border-b'',
                  StrV ''data-[vaul-drawer-direction=bottom]:inset-x-0 data-[vaul-drawer-direction=bottom]:bottom-0 data-[vaul-drawer-direction=bottom]:mt-24 data-[vaul-drawer-direction=bottom]:max-h-[80vh] data-[vaul-drawer-direction=bottom]:rounded-t-lg data-[vaul-drawer-direction=bottom]:border-t'',
                  StrV ''data-[vaul-drawer-direction=right]:inset-y-0 data-[vaul-drawer-direction=right]:right-0 data-[vaul-drawer-direction=right]:w-3/4 data-[vaul-drawer-direction=right]:border-l data-[vaul-drawer-direction=right]:sm:max-w-sm'',
                  StrV ''data-[vaul-drawer-direction=left]:inset-y-0 data-[vaul-drawer-direction=left]:left-0 data-[vaul-drawer-direction=left]:w-3/4 data-[vaul-drawer-direction=left]:border-r data-[vaul-drawer-direction=left]:sm:max-w-sm'',
                  className]),
              Spread props]
            [jsx ''div''
               [Attr ''className'' (StrV ''bg-muted mx-auto mt-4 hidden h-2 w-[100px] shrink-0 rounded-full group-data-[vaul-drawer-direction=bottom]/drawer-content:block'')]
               [],
              children]])\<close>

definition DrawerHeader :: ui_component where
  \<open>DrawerHeader lib ps =
    (let className = read_prop ''className'' ps;
         props = rest [''className''] ps
     in jsx ''div''
         [Attr ''data-slot'' (StrV ''drawer-header''),
           Attr ''className'' (cn lib [StrV ''flex flex-col gap-0.5 p-4 group-data-[vaul-drawer-direction=bottom]/drawer-content:text-center group-data-[vaul-drawer-direction=top]/drawer-content:text-center md:gap-1.5 md:text-left'',
               className]),
           Spread props]
         [])\<close>

definition DrawerFooter :: ui_component where
  \<open>DrawerFooter lib ps =
    (let className = read_prop ''className'' ps;
         props = rest [''className''] ps
     in jsx ''div''
         [Attr ''data-slot'' (StrV ''drawer-footer''),
           Attr ''className'' (cn lib [StrV ''mt-auto flex flex-col gap-2 p-4'',
               className]),
           Spread props]
         [])\<close>

definition DrawerTitle :: ui_component where
  \<open>DrawerTitle lib ps =
    (let className = read_prop ''className'' ps;
         props = rest [''className''] ps
     in jsx ''DrawerPrimitive.Title''
         [Attr ''data-slot'' (StrV ''drawer-title''),
           Attr ''className'' (cn lib [StrV ''text-foreground font-semibold'',
               className]),
           Spread props]
         [])\<close>

definition DrawerDescription :: ui_component where
  \<open>DrawerDescription lib ps =
    (let className = read_prop ''className'' ps;
         props = rest [''className''] ps
     in jsx ''DrawerPrimitive.Description''
         [Attr ''data-slot'' (StrV ''drawer-description''),
           Attr ''className'' (cn lib [StrV ''text-muted-foreground text-sm'',
               className]),
           Spread props]
         [])\<close>

subsection \<open>\<open>popover.tsx\<close>\<close>

definition Popover :: ui_component where
  \<open>Popover lib ps =
    (let props = ps
     in jsx ''PopoverPrimitive.Root''
         [Attr ''data-slot'' (StrV ''popover''),
           Spread props]
         [])\<close>

definition PopoverTrigger :: ui_component where
  \<open>PopoverTrigger lib ps =
    (let props = ps
     in jsx ''PopoverPrimitive.Trigger''
         [Attr ''data-slot'' (StrV ''popover-trigger''),
           Spread props]
         [])\<close>

definition PopoverContent :: ui_component where
  \<open>PopoverContent lib ps =
    (let className = read_prop ''className'' ps;
         align = or_default (StrV ''center'') (read_prop ''align'' ps);
         sideOffset = or_default (NumV (Fin 4)) (read_prop ''sideOffset'' ps);
         props = rest [''className'', ''align'', ''sideOffset''] ps
     in jsx ''PopoverPrimitive.Portal''
         []
         [jsx ''PopoverPrimitive.Content''
            [Attr ''data-slot'' (StrV ''popover-content''),
              Attr ''align'' align,
              Attr ''sideOffset'' sideOffset,
              Attr ''className'' (cn lib [StrV ''bg-popover text-popover-foreground data-[state=open]:animate-in data-[state=closed]:animate-out data-[state=closed]:fade-out-0 data-[state=open]:fade-in-0 data-[state=closed]:zoom-out-95 data-[state=open]:zoom-in-95 data-[side=bottom]:slide-in-from-top-2 data-[side=left]:slide-in-from-right-2 data-[side=right]:slide-in-from-left-2 data-[side=top]:slide-in-from-bottom-2 z-50 w-72 origin-(--radix-popover-content-transform-origin) rounded-md border p-4 shadow-md outline-hidden'',
                  className]),
              Spread props]
            []])\<close>

definition PopoverAnchor :: ui_component where
  \<open>PopoverAnchor lib ps =
    (let props = ps
     in jsx ''PopoverPrimitive.Anchor''
         [Attr ''data-slot'' (StrV ''popover-anchor''),
           Spread props]
         [])\<close>

subsection \<open>\<open>hover-card.tsx\<close>\<close>

definition HoverCard :: ui_component where
  \<open>HoverCard lib ps =
    (let props = ps
     in jsx ''HoverCardPrimitive.Root''
         [Attr ''data-slot'' (StrV ''hover-card''),
           Spread props]
         [])\<close>

definition HoverCardTrigger :: ui_component where
  \<open>HoverCardTrigger lib ps =
    (let props = ps
     in jsx ''HoverCardPrimitive.Trigger''
         [Attr ''data-slot'' (StrV ''hover-card-trigger''),
           Spread props]
         [])\<close>

definition HoverCardContent :: ui_component where
  \<open>HoverCardContent lib ps =
    (let className = read_prop ''className'' ps;
         align = or_default (StrV ''center'') (read_prop ''align'' ps);
         sideOffset = or_default (NumV (Fin 4)) (read_prop ''sideOffset'' ps);
         props = rest [''className'', ''align'', ''sideOffset''] ps
     in jsx ''HoverCardPrimitive.Portal''
         [Attr ''data-slot'' (StrV ''hover-card-portal'')]
         [jsx ''HoverCardPrimitive.Content''
            [Attr ''data-slot'' (StrV ''hover-card-content''),
              Attr ''align'' align,
              Attr ''sideOffset'' sideOffset,
              Attr ''className'' (cn lib [StrV ''bg-popover text-popover-foreground data-[state=open]:animate-in data-[state=closed]:animate-out data-[state=closed]:fade-out-0 data-[state=open]:fade-in-0 data-[state=closed]:zoom-out-95 data-[state=open]:zoom-in-95 data-[side=bottom]:slide-in-from-top-2 data-[side=left]:slide-in-from-right-2 data-[side=right]:slide-in-from-left-2 data-[side=top]:slide-in-from-bottom-2 z-50 w-64 origin-(--radix-hover-card-content-transform-origin) rounded-md border p-4 shadow-md outline-hidden'',
                  className]),
              Spread props]
            []])\<close>

subsection \<open>\<open>tooltip.tsx\<close>\<close>

definition TooltipProvider :: ui_component where
  \<open>TooltipProvider lib ps =
    (let delayDuration = or_default (NumV (Fin 0)) (read_prop ''delayDuration'' ps);
         props = rest [''delayDuration''] ps
     in jsx ''TooltipPrimitive.Provider''
         [Attr ''data-slot'' (StrV ''tooltip-provider''),
           Attr ''delayDuration'' delayDuration,
           Spread props]
         [])\<close>

definition Tooltip :: ui_component where
  \<open>Tooltip lib ps =
    (let props = ps
     in jsx ''TooltipProvider''
         []
         [jsx ''TooltipPrimitive.Root''
            [Attr ''data-slot'' (StrV ''tooltip''),
              Spread props]
            []])\<close>

definition TooltipTrigger :: ui_component where
  \<open>TooltipTrigger lib ps =
    (let props = ps
     in jsx ''TooltipPrimitive.Trigger''
         [Attr ''data-slot'' (StrV ''tooltip-trigger''),
           Spread props]
         [])\<close>

definition TooltipContent :: ui_component where
  \<open>TooltipContent lib ps =
    (let className = read_prop ''className'' ps;
         sideOffset = or_default (NumV (Fin 0)) (read_prop ''sideOffset'' ps);
         children = read_prop ''children'' ps;
         props = rest [''className'', ''sideOffset'', ''children''] ps
     in jsx ''TooltipPrimitive.Portal''
         []
         [jsx ''TooltipPrimitive.Content''
            [Attr ''data-slot'' (StrV ''tooltip-content''),
              Attr ''sideOffset'' sideOffset,
              Attr ''className'' (cn lib [StrV ''bg-foreground text-background animate-in fade-in-0 zoom-in-95 data-[state=closed]:animate-out data-[state=closed]:fade-out-0 data-[state=closed]:zoom-out-95 data-[side=bottom]:slide-in-from-top-2 data-[side=left]:slide-in-from-right-2 data-[side=right]:slide-in-from-left-2 data-[side=top]:slide-in-from-bottom-2 z-50 w-fit origin-(--radix-tooltip-content-transform-origin) rounded-md px-3 py-1.5 text-xs text-balance'',
                  className]),
              Spread props]
            [children,
              jsx ''TooltipPrimitive.Arrow''
               [Attr ''className'' (StrV ''bg-foreground fill-foreground z-50 size-2.5 translate-y-[calc(-50%_-_2px)] rotate-45 rounded-[2px]'')]
               []]])\<close>

subsection \<open>\<open>toast.tsx\<close>\<close>

definition ToastProvider :: string where
  "ToastProvider = ''ToastPrimitives.Provider''"

definition ToastViewport :: "ui_lib \<Rightarrow> ui_value \<Rightarrow> props \<Rightarrow> ui_value" where
  \<open>ToastViewport lib ref ps =
    (let className = read_prop ''className'' ps;
         props = rest [''className''] ps
     in jsx ''ToastPrimitives.Viewport''
         [Attr ''ref'' ref,
           Attr ''className'' (cn lib [StrV ''fixed top-0 z-[100] flex max-h-screen w-full flex-col-reverse p-4 sm:bottom-0 sm:right-0 sm:top-auto sm:flex-col md:max-w-[420px]'',
               className]),
           Spread props]
         [])\<close>

definition toastVariants :: "ui_lib \<Rightarrow> ui_value \<Rightarrow> ui_value" where
  \<open>toastVariants lib v = StrV (cva lib
    (StrV ''group pointer-events-auto relative flex w-full items-center justify-between space-x-4 overflow-hidden rounded-md border p-6 pr-8 shadow-lg transition-all data-[swipe=cancel]:translate-x-0 data-[swipe=end]:translate-x-[var(--radix-toast-swipe-end-x)] data-[swipe=move]:translate-x-[var(--radix-toast-swipe-move-x)] data-[swipe=move]:transition-none data-[state=open]:animate-in data-[state=closed]:animate-out data-[swipe=end]:animate-out data-[state=closed]:fade-out-80 data-[state=closed]:slide-out-to-right-full data-[state=open]:slide-in-from-top-full data-[state=open]:sm:slide-in-from-bottom-full'')
    (ObjV (obj [Attr ''variants'' (ObjV (obj [Attr ''variant'' (ObjV (obj [Attr ''default'' (StrV ''border bg-background text-foreground''), Attr ''destructive'' (StrV ''destructive group border-destructive bg-destructive text-destructive-foreground'')]))])), Attr ''defaultVariants'' (ObjV (obj [Attr ''variant'' (StrV ''default'')]))]))
    v)\<close>

definition Toast :: "ui_lib \<Rightarrow> ui_value \<Rightarrow> props \<Rightarrow> ui_value" where
  \<open>Toast lib ref ps =
    (let className = read_prop ''className'' ps;
         variant = read_prop ''variant'' ps;
         props = rest [''className'', ''variant''] ps
     in jsx ''ToastPrimitives.Root''
         [Attr ''ref'' ref,
           Attr ''className'' (cn lib [toastVariants lib (ObjV (obj [Attr ''variant'' variant])),
               className]),
           Spread props]
         [])\<close>

definition ToastAction :: "ui_lib \<Rightarrow> ui_value \<Rightarrow> props \<Rightarrow> ui_value" where
  \<open>ToastAction lib ref ps =
    (let className = read_prop ''className'' ps;
         props = rest [''className''] ps
     in jsx ''ToastPrimitives.Action''
         [Attr ''ref'' ref,
           Attr ''className'' (cn lib [StrV ''inline-flex h-8 shrink-0 items-center justify-center rounded-md border bg-transparent px-3 text-sm font-medium ring-offset-background transition-colors hover:bg-secondary focus:outline-none focus:ring-2 focus:ring-ring focus:ring-offset-2 disabled:pointer-events-none disabled:opacity-50 group-[.destructive]:border-muted/40 group-[.destructive]:hover:border-destructive/30 group-[.destructive]:hover:bg-destructive group-[.destructive]:hover:text-destructive-foreground group-[.destructive]:focus:ring-destructive'',
               className]),
           Spread props]
         [])\<close>

definition ToastClose :: "ui_lib \<Rightarrow> ui_value \<Rightarrow> props \<Rightarrow> ui_value" where
  \<open>ToastClose lib ref ps =
    (let className = read_prop ''className'' ps;
         props = rest [''className''] ps
     in jsx ''ToastPrimitives.Close''
         [Attr ''ref'' ref,
           Attr ''className'' (cn lib [StrV ''absolute right-2 top-2 rounded-md p-1 text-foreground/50 opacity-0 transition-opacity hover:text-foreground focus:opacity-100 focus:outline-none focus:ring-2 group-hover:opacity-100 group-[.destructive]:text-red-300 group-[.destructive]:hover:text-red-50 group-[.destructive]:focus:ring-red-400 group-[.destructive]:focus:ring-offset-red-600'',
               className]),
           Attr ''toast-close'' (StrV []),
           Spread props]
         [jsx ''X''
            [Attr ''className'' (StrV ''h-4 w-4'')]
            []])\<close>

definition ToastTitle :: "ui_lib \<Rightarrow> ui_value \<Rightarrow> props \<Rightarrow> ui_value" where
  \<open>ToastTitle lib ref ps =
    (let className = read_prop ''className'' ps;
         props = rest [''className''] ps
     in jsx ''ToastPrimitives.Title''
         [Attr ''ref'' ref,
           Attr ''className'' (cn lib [StrV ''text-sm font-semibold'',
               className]),
           Spread props]
         [])\<close>

definition ToastDescription :: "ui_lib \<Rightarrow> ui_value \<Rightarrow> props \<Rightarrow> ui_value" where
  \<open>ToastDescription lib ref ps =
    (let className = read_prop ''className'' ps;
         props = rest [''className''] ps
     in jsx ''ToastPrimitives.Description''
         [Attr ''ref'' ref,
           Attr ''className'' (cn lib [StrV ''text-sm opacity-90'',
               className]),
           Spread props]
         [])\<close>

subsection \<open>\<open>toaster.tsx\<close>\<close>

text \<open>\<open>toasts\<close> is the state of the store's hook, a list of objects.\<close>

definition Toaster :: "props list \<Rightarrow> ui_value" where
  \<open>Toaster toasts =
    jsx ToastProvider []
      [ArrV (map (\<lambda>t.
         (let id' = read_prop ''id'' t;
              title = read_prop ''title'' t;
              description = read_prop ''description'' t;
              action = read_prop ''action'' t;
              props = rest [''id'', ''title'', ''description'', ''action''] t
          in jsx ''Toast'' [Attr ''key'' id', Spread props]
              [jsx ''div'' [Attr ''className'' (StrV ''grid gap-1'')]
                [js_and title (jsx ''ToastTitle'' [] [title]),
                 js_and description (jsx ''ToastDescription'' [] [description])],
               action,
               jsx ''ToastClose'' [] []])) toasts),
       jsx ''ToastViewport'' [] []]\<close>

subsection \<open>\<open>command.tsx\<close>\<close>

definition Command :: ui_component where
  \<open>Command lib ps =
    (let className = read_prop ''className'' ps;
         props = rest [''className''] ps
     in jsx ''CommandPrimitive''
         [Attr ''data-slot'' (StrV ''command''),
           Attr ''className'' (cn lib [StrV ''bg-popover text-popover-foreground flex h-full w-full flex-col overflow-hidden rounded-md'',
               className]),
           Spread props]
         [])\<close>

definition CommandDialog :: ui_component where
  \<open>CommandDialog lib ps =
    (let title = or_default (StrV ''Command Palette'') (read_prop ''title'' ps);
         description = or_default (StrV ''Search for a command to run...'') (read_prop ''description'' ps);
         children = read_prop ''children'' ps;
         className = read_prop ''className'' ps;
         showCloseButton = or_default (BoolV True) (read_prop ''showCloseButton'' ps);
         props = rest [''title'', ''description'', ''children'', ''className'', ''showCloseButton''] ps
     in jsx ''Dialog''
         [Spread props]
         [jsx ''DialogHeader''
            [Attr ''className'' (StrV ''sr-only'')]
            [jsx ''DialogTitle''
               []
               [title],
              jsx ''DialogDescription''
               []
               [description]],
           jsx ''DialogContent''
            [Attr ''className'' (cn lib [StrV ''overflow-hidden p-0'',
                  className]),
              Attr ''showCloseButton'' showCloseButton]
            [jsx ''Command''
               [Attr ''className'' (StrV ''[&_[cmdk-group-heading]]:text-muted-foreground **:data-[slot=command-input-wrapper]:h-12 [&_[cmdk-group-heading]]:px-2 [&_[cmdk-group-heading]]:font-medium [&_[cmdk-group]]:px-2 [&_[cmdk-group]:not([hidden])_~[cmdk-group]]:pt-0 [&_[cmdk-input-wrapper]_svg]:h-5 [&_[cmdk-input-wrapper]_svg]:w-5 [&_[cmdk-input]]:h-12 [&_[cmdk-item]]:px-2 [&_[cmdk-item]]:py-3 [&_[cmdk-item]_svg]:h-5 [&_[cmdk-item]_svg]:w-5'')]
               [children]]])\<close>

definition CommandInput :: ui_component where
  \<open>CommandInput lib ps =
    (let className = read_prop ''className'' ps;
         props = rest [''className''] ps
     in jsx ''div''
         [Attr ''data-slot'' (StrV ''command-input-wrapper''),
           Attr ''className'' (StrV ''flex h-9 items-center gap-2 border-b px-3'')]
         [jsx ''SearchIcon''
            [Attr ''className'' (StrV ''size-4 shrink-0 opacity-50'')]
            [],
           jsx ''CommandPrimitive.Input''
            [Attr ''data-slot'' (StrV ''command-input''),
              Attr ''className'' (cn lib [StrV ''placeholder:text-muted-foreground flex h-10 w-full rounded-md bg-transparent py-3 text-sm outline-hidden disabled:cursor-not-allowed disabled:opacity-50'',
                  className]),
              Spread props]
            []])\<close>

definition CommandList :: ui_component where
  \<open>CommandList lib ps =
    (let className = read_prop ''className'' ps;
         props = rest [''className''] ps
     in jsx ''CommandPrimitive.List''
         [Attr ''data-slot'' (StrV ''command-list''),
           Attr ''className'' (cn lib [StrV ''max-h-[300px] scroll-py-1 overflow-x-hidden overflow-y-auto'',
               className]),
           Spread props]
         [])\<close>

definition CommandEmpty :: ui_component where
  \<open>CommandEmpty lib ps =
    (let props = ps
     in jsx ''CommandPrimitive.Empty''
         [Attr ''data-slot'' (StrV ''command-empty''),
           Attr ''className'' (StrV ''py-6 text-center text-sm''),
           Spread props]
         [])\<close>

definition CommandGroup :: ui_component where
  \<open>CommandGroup lib ps =
    (let className = read_prop ''className'' ps;
         props = rest [''className''] ps
     in jsx ''CommandPrimitive.Group''
         [Attr ''data-slot'' (StrV ''command-group''),
           Attr ''className'' (cn lib [StrV ''text-foreground [&_[cmdk-group-heading]]:text-muted-foreground overflow-hidden p-1 [&_[cmdk-group-heading]]:px-2 [&_[cmdk-group-heading]]:py-1.5 [&_[cmdk-group-heading]]:text-xs [&_[cmdk-group-heading]]:font-medium'',
               className]),
           Spread props]
         [])\<close>

definition CommandSeparator :: ui_component where
  \<open>CommandSeparator lib ps =
    (let className = read_prop ''className'' ps;
         props = rest [''className''] ps
     in jsx ''CommandPrimitive.Separator''
         [Attr ''data-slot'' (StrV ''command-separator''),
           Attr ''className'' (cn lib [StrV ''bg-border -mx-1 h-px'',
               className]),
           Spread props]
         [])\<close>

definition CommandItem :: ui_component where
  \<open>CommandItem lib ps =
    (let className = read_prop ''className'' ps;
         props = rest [''className''] ps
     in jsx ''CommandPrimitive.Item''
         [Attr ''data-slot'' (StrV ''command-item''),
           Attr ''className'' (cn lib [StrV ''data-[selected=true]:bg-accent data-[selected=true]:text-accent-foreground [&_svg:not([class*='text-'])]:text-muted-foreground relative flex cursor-default items-center gap-2 rounded-sm px-2 py-1.5 text-sm outline-hidden select-none data-[disabled=true]:pointer-events-none data-[disabled=true]:opacity-50 [&_svg]:pointer-events-none [&_svg]:shrink-0 [&_svg:not([class*='size-'])]:size-4'',
               className]),
           Spread props]
         [])\<close>

definition CommandShortcut :: ui_component where
  \<open>CommandShortcut lib ps =
    (let className = read_prop ''className'' ps;
         props = rest [''className''] ps
     in jsx ''span''
         [Attr ''data-slot'' (StrV ''command-shortcut''),
           Attr ''className'' (cn lib [StrV ''text-muted-foreground ml-auto text-xs tracking-widest'',
               className]),
           Spread props]
         [])\<close>

subsection \<open>Which parts are slotted\<close>

interpretation Dialog_part: slotted "Dialog lib" "[]" "''dialog''" for lib
  by (rule slotted_intro, unfold Dialog_def Let_def, intro exI conjI, rule refl) simp_all

interpretation DialogTrigger_part: slotted "DialogTrigger lib" "[]" "''dialog-trigger''" for lib
  by (rule slotted_intro, unfold DialogTrigger_def Let_def, intro exI conjI, rule refl) simp_all

interpretation DialogPortal_part: slotted "DialogPortal lib" "[]" "''dialog-portal''" for lib
  by (rule slotted_intro, unfold DialogPortal_def Let_def, intro exI conjI, rule refl) simp_all

interpretation DialogClose_part: slotted "DialogClose lib" "[]" "''dialog-close''" for lib
  by (rule slotted_intro, unfold DialogClose_def Let_def, intro exI conjI, rule refl) simp_all

interpretation DialogOverlay_part: slotted "DialogOverlay lib" "[''className'']" "''dialog-overlay''" for lib
  by (rule slotted_intro, unfold DialogOverlay_def Let_def, intro exI conjI, rule refl) simp_all

interpretation DialogHeader_part: slotted "DialogHeader lib" "[''className'']" "''dialog-header''" for lib
  by (rule slotted_intro, unfold DialogHeader_def Let_def, intro exI conjI, rule refl) simp_all

interpretation DialogFooter_part: slotted "DialogFooter lib" "[''className'']" "''dialog-footer''" for lib
  by (rule slotted_intro, unfold DialogFooter_def Let_def, intro exI conjI, rule refl) simp_all

interpretation DialogTitle_part: slotted "DialogTitle lib" "[''className'']" "''dialog-title''" for lib
  by (rule slotted_intro, unfold DialogTitle_def Let_def, intro exI conjI, rule refl) simp_all

interpretation DialogDescription_part: slotted "DialogDescription lib" "[''className'']" "''dialog-description''" for lib
  by (rule slotted_intro, unfold DialogDescription_def Let_def, intro exI conjI, rule refl) simp_all

interpretation AlertDialog_part: slotted "AlertDialog lib" "[]" "''alert-dialog''" for lib
  by (rule slotted_intro, unfold AlertDialog_def Let_def, intro exI conjI, rule refl) simp_all

interpretation AlertDialogTrigger_part: slotted "AlertDialogTrigger lib" "[]" "''alert-dialog-trigger''" for lib
  by (rule slotted_intro, unfold AlertDialogTrigger_def Let_def, intro exI conjI, rule refl) simp_all

interpretation AlertDialogPortal_part: slotted "AlertDialogPortal lib" "[]" "''alert-dialog-portal''" for lib
  by (rule slotted_intro, unfold AlertDialogPortal_def Let_def, intro exI conjI, rule refl) simp_all

interpretation AlertDialogOverlay_part: slotted "AlertDialogOverlay lib" "[''className'']" "''alert-dialog-overlay''" for lib
  by (rule slotted_intro, unfold AlertDialogOverlay_def Let_def, intro exI conjI, rule refl) simp_all

interpretation AlertDialogHeader_part: slotted "AlertDialogHeader lib" "[''className'']" "''alert-dialog-header''" for lib
  by (rule slotted_intro, unfold AlertDialogHeader_def Let_def, intro exI conjI, rule refl) simp_all

interpretation AlertDialogFooter_part: slotted "AlertDialogFooter lib" "[''className'']" "''alert-dialog-footer''" for lib
  by (rule slotted_intro, unfold AlertDialogFooter_def Let_def, intro exI conjI, rule refl) simp_all

interpretation AlertDialogTitle_part: slotted "AlertDialogTitle lib" "[''className'']" "''alert-dialog-title''" for lib
  by (rule slotted_intro, unfold AlertDialogTitle_def Let_def, intro exI conjI, rule refl) simp_all

interpretation AlertDialogDescription_part: slotted "AlertDialogDescription lib" "[''className'']" "''alert-dialog-description''" for lib
  by (rule slotted_intro, unfold AlertDialogDescription_def Let_def, intro exI conjI, rule refl) simp_all

interpretation Sheet_part: slotted "Sheet lib" "[]" "''sheet''" for lib
  by (rule slotted_intro, unfold Sheet_def Let_def, intro exI conjI, rule refl) simp_all

interpretation SheetTrigger_part: slotted "SheetTrigger lib" "[]" "''sheet-trigger''" for lib
  by (rule slotted_intro, unfold SheetTrigger_def Let_def, intro exI conjI, rule refl) simp_all

interpretation SheetClose_part: slotted "SheetClose lib" "[]" "''sheet-close''" for lib
  by (rule slotted_intro, unfold SheetClose_def Let_def, intro exI conjI, rule refl) simp_all

interpretation SheetPortal_part: slotted "SheetPortal lib" "[]" "''sheet-portal''" for lib
  by (rule slotted_intro, unfold SheetPortal_def Let_def, intro exI conjI, rule refl) simp_all

interpretation SheetOverlay_part: slotted "SheetOverlay lib" "[''className'']" "''sheet-overlay''" for lib
  by (rule slotted_intro, unfold SheetOverlay_def Let_def, intro exI conjI, rule refl) simp_all

interpretation SheetHeader_part: slotted "SheetHeader lib" "[''className'']" "''sheet-header''" for lib
  by (rule slotted_intro, unfold SheetHeader_def Let_def, intro exI conjI, rule refl) simp_all

interpretation SheetFooter_part: slotted "SheetFooter lib" "[''className'']" "''sheet-footer''" for lib
  by (rule slotted_intro, unfold SheetFooter_def Let_def, intro exI conjI, rule refl) simp_all

interpretation SheetTitle_part: slotted "SheetTitle lib" "[''className'']" "''sheet-title''" for lib
  by (rule slotted_intro, unfold SheetTitle_def Let_def, intro exI conjI, rule refl) simp_all

interpretation SheetDescription_part: slotted "SheetDescription lib" "[''className'']" "''sheet-description''" for lib
  by (rule slotted_intro, unfold SheetDescription_def Let_def, intro exI conjI, rule refl) simp_all

interpretation Drawer_part: slotted "Drawer lib" "[]" "''drawer''" for lib
  by (rule slotted_intro, unfold Drawer_def Let_def, intro exI conjI, rule refl) simp_all

interpretation DrawerTrigger_part: slotted "DrawerTrigger lib" "[]" "''drawer-trigger''" for lib
  by (rule slotted_intro, unfold DrawerTrigger_def Let_def, intro exI conjI, rule refl) simp_all

interpretation DrawerPortal_part: slotted "DrawerPortal lib" "[]" "''drawer-portal''" for lib
  by (rule slotted_intro, unfold DrawerPortal_def Let_def, intro exI conjI, rule refl) simp_all

interpretation DrawerClose_part: slotted "DrawerClose lib" "[]" "''drawer-close''" for lib
  by (rule slotted_intro, unfold DrawerClose_def Let_def, intro exI conjI, rule refl) simp_all

interpretation DrawerOverlay_part: slotted "DrawerOverlay lib" "[''className'']" "''drawer-overlay''" for lib
  by (rule slotted_intro, unfold DrawerOverlay_def Let_def, intro exI conjI, rule refl) simp_all

interpretation DrawerHeader_part: slotted "DrawerHeader lib" "[''className'']" "''drawer-header''" for lib
  by (rule slotted_intro, unfold DrawerHeader_def Let_def, intro exI conjI, rule refl) simp_all

interpretation DrawerFooter_part: slotted "DrawerFooter lib" "[''className'']" "''drawer-footer''" for lib
  by (rule slotted_intro, unfold DrawerFooter_def Let_def, intro exI conjI, rule refl) simp_all

interpretation DrawerTitle_part: slotted "DrawerTitle lib" "[''className'']" "''drawer-title''" for lib
  by (rule slotted_intro, unfold DrawerTitle_def Let_def, intro exI conjI, rule refl) simp_all

interpretation DrawerDescription_part: slotted "DrawerDescription lib" "[''className'']" "''drawer-description''" for lib
  by (rule slotted_intro, unfold DrawerDescription_def Let_def, intro exI conjI, rule refl) simp_all

interpretation Popover_part: slotted "Popover lib" "[]" "''popover''" for lib
  by (rule slotted_intro, unfold Popover_def Let_def, intro exI conjI, rule refl) simp_all

interpretation PopoverTrigger_part: slotted "PopoverTrigger lib" "[]" "''popover-trigger''" for lib
  by (rule slotted_intro, unfold PopoverTrigger_def Let_def, intro exI conjI, rule refl) simp_all

interpretation PopoverAnchor_part: slotted "PopoverAnchor lib" "[]" "''popover-anchor''" for lib
  by (rule slotted_intro, unfold PopoverAnchor_def Let_def, intro exI conjI, rule refl) simp_all

interpretation HoverCard_part: slotted "HoverCard lib" "[]" "''hover-card''" for lib
  by (rule slotted_intro, unfold HoverCard_def Let_def, intro exI conjI, rule refl) simp_all

interpretation HoverCardTrigger_part: slotted "HoverCardTrigger lib" "[]" "''hover-card-trigger''" for lib
  by (rule slotted_intro, unfold HoverCardTrigger_def Let_def, intro exI conjI, rule refl) simp_all

interpretation TooltipProvider_part: slotted "TooltipProvider lib" "[''delayDuration'']" "''tooltip-provider''" for lib
  by (rule slotted_intro, unfold TooltipProvider_def Let_def, intro exI conjI, rule refl) simp_all

interpretation TooltipTrigger_part: slotted "TooltipTrigger lib" "[]" "''tooltip-trigger''" for lib
  by (rule slotted_intro, unfold TooltipTrigger_def Let_def, intro exI conjI, rule refl) simp_all

interpretation Command_part: slotted "Command lib" "[''className'']" "''command''" for lib
  by (rule slotted_intro, unfold Command_def Let_def, intro exI conjI, rule refl) simp_all

interpretation CommandList_part: slotted "CommandList lib" "[''className'']" "''command-list''" for lib
  by (rule slotted_intro, unfold CommandList_def Let_def, intro exI conjI, rule refl) simp_all

interpretation CommandEmpty_part: slotted "CommandEmpty lib" "[]" "''command-empty''" for lib
  by (rule slotted_intro, unfold CommandEmpty_def Let_def, intro exI conjI, rule refl) simp_all

interpretation CommandGroup_part: slotted "CommandGroup lib" "[''className'']" "''command-group''" for lib
  by (rule slotted_intro, unfold CommandGroup_def Let_def, intro exI conjI, rule refl) simp_all

interpretation CommandSeparator_part: slotted "CommandSeparator lib" "[''className'']" "''command-separator''" for lib
  by (rule slotted_intro, unfold CommandSeparator_def Let_def, intro exI conjI, rule refl) simp_all

interpretation CommandItem_part: slotted "CommandItem lib" "[''className'']" "''command-item''" for lib
  by (rule slotted_intro, unfold CommandItem_def Let_def, intro exI conjI, rule refl) simp_all

interpretation CommandShortcut_part: slotted "CommandShortcut lib" "[''className'']" "''command-shortcut''" for lib
  by (rule slotted_intro, unfold CommandShortcut_def Let_def, intro exI conjI, rule refl) simp_all

definition uiOverlays_parts :: "ui_lib \<Rightarrow> ((props \<Rightarrow> ui_value) \<times> string list \<times> string) list" where
  "uiOverlays_parts lib =
    [(Dialog lib, [], ''dialog''),
     (DialogTrigger lib, [], ''dialog-trigger''),
     (DialogPortal lib, [], ''dialog-portal''),
     (DialogClose lib, [], ''dialog-close''),
     (DialogOverlay lib, [''className''], ''dialog-overlay''),
     (DialogHeader lib, [''className''], ''dialog-header''),
     (DialogFooter lib, [''className''], ''dialog-footer''),
     (DialogTitle lib, [''className''], ''dialog-title''),
     (DialogDescription lib, [''className''], ''dialog-description''),
     (AlertDialog lib, [], ''alert-dialog''),
     (AlertDialogTrigger lib, [], ''alert-dialog-trigger''),
     (AlertDialogPortal lib, [], ''alert-dialog-portal''),
     (AlertDialogOverlay lib, [''className''], ''alert-dialog-overlay''),
     (AlertDialogHeader lib, [''className''], ''alert-dialog-header''),
     (AlertDialogFooter lib, [''className''], ''alert-dialog-footer''),
     (AlertDialogTitle lib, [''className''], ''alert-dialog-title''),
     (AlertDialogDescription lib, [''className''], ''alert-dialog-description''),
     (Sheet lib, [], ''sheet''),
     (SheetTrigger lib, [], ''sheet-trigger''),
     (SheetClose lib, [], ''sheet-close''),
     (SheetPortal lib, [], ''sheet-portal''),
     (SheetOverlay lib, [''className''], ''sheet-overlay''),
     (SheetHeader lib, [''className''], ''sheet-header''),
     (SheetFooter lib, [''className''], ''sheet-footer''),
     (SheetTitle lib, [''className''], ''sheet-title''),
     (SheetDescription lib, [''className''], ''sheet-description''),
     (Drawer lib, [], ''drawer''),
     (DrawerTrigger lib, [], ''drawer-trigger''),
     (DrawerPortal lib, [], ''drawer-portal''),
     (DrawerClose lib, [], ''drawer-close''),
     (DrawerOverlay lib, [''className''], ''drawer-overlay''),
     (DrawerHeader lib, [''className''], ''drawer-header''),
     (DrawerFooter lib, [''className''], ''drawer-footer''),
     (DrawerTitle lib, [''className''], ''drawer-title''),
     (DrawerDescription lib, [''className''], ''drawer-description''),
     (Popover lib, [], ''popover''),
     (PopoverTrigger lib, [], ''popover-trigger''),
     (PopoverAnchor lib, [], ''popover-anchor''),
     (HoverCard lib, [], ''hover-card''),
     (HoverCardTrigger lib, [], ''hover-card-trigger''),
     (TooltipProvider lib, [''delayDuration''], ''tooltip-provider''),
     (TooltipTrigger lib, [], ''tooltip-trigger''),
     (Command lib, [''className''], ''command''),
     (CommandList lib, [''className''], ''command-list''),
     (CommandEmpty lib, [], ''command-empty''),
     (CommandGroup lib, [''className''], ''command-group''),
     (CommandSeparator lib, [''className''], ''command-separator''),
     (CommandItem lib, [''className''], ''command-item''),
     (CommandShortcut lib, [''className''], ''command-shortcut'')]"

lemma uiOverlays_parts_slotted: "list_all (\<lambda>(f, own, slot). slotted f own slot) (uiOverlays_parts lib)"
  unfolding uiOverlays_parts_def list.pred_inject prod.case
  by (intro conjI list.pred_inject(1) Dialog_part.slotted_axioms
    DialogTrigger_part.slotted_axioms
    DialogPortal_part.slotted_axioms
    DialogClose_part.slotted_axioms
    DialogOverlay_part.slotted_axioms
    DialogHeader_part.slotted_axioms
    DialogFooter_part.slotted_axioms
    DialogTitle_part.slotted_axioms
    DialogDescription_part.slotted_axioms
    AlertDialog_part.slotted_axioms
    AlertDialogTrigger_part.slotted_axioms
    AlertDialogPortal_part.slotted_axioms
    AlertDialogOverlay_part.slotted_axioms
    AlertDialogHeader_part.slotted_axioms
    AlertDialogFooter_part.slotted_axioms
    AlertDialogTitle_part.slotted_axioms
    AlertDialogDescription_part.slotted_axioms
    Sheet_part.slotted_axioms
    SheetTrigger_part.slotted_axioms
    SheetClose_part.slotted_axioms
    SheetPortal_part.slotted_axioms
    SheetOverlay_part.slotted_axioms
    SheetHeader_part.slotted_axioms
    SheetFooter_part.slotted_axioms
    SheetTitle_part.slotted_axioms
    SheetDescription_part.slotted_axioms
    Drawer_part.slotted_axioms
    DrawerTrigger_part.slotted_axioms
    DrawerPortal_part.slotted_axioms
    DrawerClose_part.slotted_axioms
    DrawerOverlay_part.slotted_axioms
    DrawerHeader_part.slotted_axioms
    DrawerFooter_part.slotted_axioms
    DrawerTitle_part.slotted_axioms
    DrawerDescription_part.slotted_axioms
    Popover_part.slotted_axioms
    PopoverTrigger_part.slotted_axioms
    PopoverAnchor_part.slotted_axioms
    HoverCard_part.slotted_axioms
    HoverCardTrigger_part.slotted_axioms
    TooltipProvider_part.slotted_axioms
    TooltipTrigger_part.slotted_axioms
    Command_part.slotted_axioms
    CommandList_part.slotted_axioms
    CommandEmpty_part.slotted_axioms
    CommandGroup_part.slotted_axioms
    CommandSeparator_part.slotted_axioms
    CommandItem_part.slotted_axioms
    CommandShortcut_part.slotted_axioms)

end
