(* ===== verification/UiMenus.thy ===== *)
theory UiMenus
  imports UiControls
begin

text \<open>
  Menus of \<open>Frontend/components/ui\<close>. Each definition is the component of that name;
  the interpretations show which of them keep the contract of a slotted part.
\<close>

subsection \<open>\<open>menubar.tsx\<close>\<close>

definition Menubar :: ui_component where
  \<open>Menubar lib ps =
    (let className = read_prop ''className'' ps;
         props = rest [''className''] ps
     in jsx ''MenubarPrimitive.Root''
         [Attr ''data-slot'' (StrV ''menubar''),
           Attr ''className'' (cn lib [StrV ''bg-background flex h-9 items-center gap-1 rounded-md border p-1 shadow-xs'',
               className]),
           Spread props]
         [])\<close>

definition MenubarMenu :: ui_component where
  \<open>MenubarMenu lib ps =
    (let props = ps
     in jsx ''MenubarPrimitive.Menu''
         [Attr ''data-slot'' (StrV ''menubar-menu''),
           Spread props]
         [])\<close>

definition MenubarGroup :: ui_component where
  \<open>MenubarGroup lib ps =
    (let props = ps
     in jsx ''MenubarPrimitive.Group''
         [Attr ''data-slot'' (StrV ''menubar-group''),
           Spread props]
         [])\<close>

definition MenubarPortal :: ui_component where
  \<open>MenubarPortal lib ps =
    (let props = ps
     in jsx ''MenubarPrimitive.Portal''
         [Attr ''data-slot'' (StrV ''menubar-portal''),
           Spread props]
         [])\<close>

definition MenubarRadioGroup :: ui_component where
  \<open>MenubarRadioGroup lib ps =
    (let props = ps
     in jsx ''MenubarPrimitive.RadioGroup''
         [Attr ''data-slot'' (StrV ''menubar-radio-group''),
           Spread props]
         [])\<close>

definition MenubarTrigger :: ui_component where
  \<open>MenubarTrigger lib ps =
    (let className = read_prop ''className'' ps;
         props = rest [''className''] ps
     in jsx ''MenubarPrimitive.Trigger''
         [Attr ''data-slot'' (StrV ''menubar-trigger''),
           Attr ''className'' (cn lib [StrV ''focus:bg-accent focus:text-accent-foreground data-[state=open]:bg-accent data-[state=open]:text-accent-foreground flex items-center rounded-sm px-2 py-1 text-sm font-medium outline-hidden select-none'',
               className]),
           Spread props]
         [])\<close>

definition MenubarContent :: ui_component where
  \<open>MenubarContent lib ps =
    (let className = read_prop ''className'' ps;
         align = or_default (StrV ''start'') (read_prop ''align'' ps);
         alignOffset = or_default (NumV (Fin (- 4))) (read_prop ''alignOffset'' ps);
         sideOffset = or_default (NumV (Fin 8)) (read_prop ''sideOffset'' ps);
         props = rest [''className'', ''align'', ''alignOffset'', ''sideOffset''] ps
     in jsx ''MenubarPortal''
         []
         [jsx ''MenubarPrimitive.Content''
            [Attr ''data-slot'' (StrV ''menubar-content''),
              Attr ''align'' align,
              Attr ''alignOffset'' alignOffset,
              Attr ''sideOffset'' sideOffset,
              Attr ''className'' (cn lib [StrV ''bg-popover text-popover-foreground data-[state=open]:animate-in data-[state=closed]:fade-out-0 data-[state=open]:fade-in-0 data-[state=closed]:zoom-out-95 data-[state=open]:zoom-in-95 data-[side=bottom]:slide-in-from-top-2 data-[side=left]:slide-in-from-right-2 data-[side=right]:slide-in-from-left-2 data-[side=top]:slide-in-from-bottom-2 z-50 min-w-[12rem] origin-(--radix-menubar-content-transform-origin) overflow-hidden rounded-md border p-1 shadow-md'',
                  className]),
              Spread props]
            []])\<close>

definition MenubarItem :: ui_component where
  \<open>MenubarItem lib ps =
    (let className = read_prop ''className'' ps;
         inset = read_prop ''inset'' ps;
         variant = or_default (StrV ''default'') (read_prop ''variant'' ps);
         props = rest [''className'', ''inset'', ''variant''] ps
     in jsx ''MenubarPrimitive.Item''
         [Attr ''data-slot'' (StrV ''menubar-item''),
           Attr ''data-inset'' inset,
           Attr ''data-variant'' variant,
           Attr ''className'' (cn lib [StrV ''focus:bg-accent focus:text-accent-foreground data-[variant=destructive]:text-destructive data-[variant=destructive]:focus:bg-destructive/10 dark:data-[variant=destructive]:focus:bg-destructive/20 data-[variant=destructive]:focus:text-destructive data-[variant=destructive]:*:[svg]:!text-destructive [&_svg:not([class*='text-'])]:text-muted-foreground relative flex cursor-default items-center gap-2 rounded-sm px-2 py-1.5 text-sm outline-hidden select-none data-[disabled]:pointer-events-none data-[disabled]:opacity-50 data-[inset]:pl-8 [&_svg]:pointer-events-none [&_svg]:shrink-0 [&_svg:not([class*='size-'])]:size-4'',
               className]),
           Spread props]
         [])\<close>

definition MenubarCheckboxItem :: ui_component where
  \<open>MenubarCheckboxItem lib ps =
    (let className = read_prop ''className'' ps;
         children = read_prop ''children'' ps;
         checked = read_prop ''checked'' ps;
         props = rest [''className'', ''children'', ''checked''] ps
     in jsx ''MenubarPrimitive.CheckboxItem''
         [Attr ''data-slot'' (StrV ''menubar-checkbox-item''),
           Attr ''className'' (cn lib [StrV ''focus:bg-accent focus:text-accent-foreground relative flex cursor-default items-center gap-2 rounded-xs py-1.5 pr-2 pl-8 text-sm outline-hidden select-none data-[disabled]:pointer-events-none data-[disabled]:opacity-50 [&_svg]:pointer-events-none [&_svg]:shrink-0 [&_svg:not([class*='size-'])]:size-4'',
               className]),
           Attr ''checked'' checked,
           Spread props]
         [jsx ''span''
            [Attr ''className'' (StrV ''pointer-events-none absolute left-2 flex size-3.5 items-center justify-center'')]
            [jsx ''MenubarPrimitive.ItemIndicator''
               []
               [jsx ''CheckIcon''
                  [Attr ''className'' (StrV ''size-4'')]
                  []]],
           children])\<close>

definition MenubarRadioItem :: ui_component where
  \<open>MenubarRadioItem lib ps =
    (let className = read_prop ''className'' ps;
         children = read_prop ''children'' ps;
         props = rest [''className'', ''children''] ps
     in jsx ''MenubarPrimitive.RadioItem''
         [Attr ''data-slot'' (StrV ''menubar-radio-item''),
           Attr ''className'' (cn lib [StrV ''focus:bg-accent focus:text-accent-foreground relative flex cursor-default items-center gap-2 rounded-xs py-1.5 pr-2 pl-8 text-sm outline-hidden select-none data-[disabled]:pointer-events-none data-[disabled]:opacity-50 [&_svg]:pointer-events-none [&_svg]:shrink-0 [&_svg:not([class*='size-'])]:size-4'',
               className]),
           Spread props]
         [jsx ''span''
            [Attr ''className'' (StrV ''pointer-events-none absolute left-2 flex size-3.5 items-center justify-center'')]
            [jsx ''MenubarPrimitive.ItemIndicator''
               []
               [jsx ''CircleIcon''
                  [Attr ''className'' (StrV ''size-2 fill-current'')]
                  []]],
           children])\<close>

definition MenubarLabel :: ui_component where
  \<open>MenubarLabel lib ps =
    (let className = read_prop ''className'' ps;
         inset = read_prop ''inset'' ps;
         props = rest [''className'', ''inset''] ps
     in jsx ''MenubarPrimitive.Label''
         [Attr ''data-slot'' (StrV ''menubar-label''),
           Attr ''data-inset'' inset,
           Attr ''className'' (cn lib [StrV ''px-2 py-1.5 text-sm font-medium data-[inset]:pl-8'',
               className]),
           Spread props]
         [])\<close>

definition MenubarSeparator :: ui_component where
  \<open>MenubarSeparator lib ps =
    (let className = read_prop ''className'' ps;
         props = rest [''className''] ps
     in jsx ''MenubarPrimitive.Separator''
         [Attr ''data-slot'' (StrV ''menubar-separator''),
           Attr ''className'' (cn lib [StrV ''bg-border -mx-1 my-1 h-px'',
               className]),
           Spread props]
         [])\<close>

definition MenubarShortcut :: ui_component where
  \<open>MenubarShortcut lib ps =
    (let className = read_prop ''className'' ps;
         props = rest [''className''] ps
     in jsx ''span''
         [Attr ''data-slot'' (StrV ''menubar-shortcut''),
           Attr ''className'' (cn lib [StrV ''text-muted-foreground ml-auto text-xs tracking-widest'',
               className]),
           Spread props]
         [])\<close>

definition MenubarSub :: ui_component where
  \<open>MenubarSub lib ps =
    (let props = ps
     in jsx ''MenubarPrimitive.Sub''
         [Attr ''data-slot'' (StrV ''menubar-sub''),
           Spread props]
         [])\<close>

definition MenubarSubTrigger :: ui_component where
  \<open>MenubarSubTrigger lib ps =
    (let className = read_prop ''className'' ps;
         inset = read_prop ''inset'' ps;
         children = read_prop ''children'' ps;
         props = rest [''className'', ''inset'', ''children''] ps
     in jsx ''MenubarPrimitive.SubTrigger''
         [Attr ''data-slot'' (StrV ''menubar-sub-trigger''),
           Attr ''data-inset'' inset,
           Attr ''className'' (cn lib [StrV ''focus:bg-accent focus:text-accent-foreground data-[state=open]:bg-accent data-[state=open]:text-accent-foreground flex cursor-default items-center rounded-sm px-2 py-1.5 text-sm outline-none select-none data-[inset]:pl-8'',
               className]),
           Spread props]
         [children,
           jsx ''ChevronRightIcon''
            [Attr ''className'' (StrV ''ml-auto h-4 w-4'')]
            []])\<close>

definition MenubarSubContent :: ui_component where
  \<open>MenubarSubContent lib ps =
    (let className = read_prop ''className'' ps;
         props = rest [''className''] ps
     in jsx ''MenubarPrimitive.SubContent''
         [Attr ''data-slot'' (StrV ''menubar-sub-content''),
           Attr ''className'' (cn lib [StrV ''bg-popover text-popover-foreground data-[state=open]:animate-in data-[state=closed]:animate-out data-[state=closed]:fade-out-0 data-[state=open]:fade-in-0 data-[state=closed]:zoom-out-95 data-[state=open]:zoom-in-95 data-[side=bottom]:slide-in-from-top-2 data-[side=left]:slide-in-from-right-2 data-[side=right]:slide-in-from-left-2 data-[side=top]:slide-in-from-bottom-2 z-50 min-w-[8rem] origin-(--radix-menubar-content-transform-origin) overflow-hidden rounded-md border p-1 shadow-lg'',
               className]),
           Spread props]
         [])\<close>

subsection \<open>\<open>dropdown-menu.tsx\<close>\<close>

definition DropdownMenu :: ui_component where
  \<open>DropdownMenu lib ps =
    (let props = ps
     in jsx ''DropdownMenuPrimitive.Root''
         [Attr ''data-slot'' (StrV ''dropdown-menu''),
           Spread props]
         [])\<close>

definition DropdownMenuPortal :: ui_component where
  \<open>DropdownMenuPortal lib ps =
    (let props = ps
     in jsx ''DropdownMenuPrimitive.Portal''
         [Attr ''data-slot'' (StrV ''dropdown-menu-portal''),
           Spread props]
         [])\<close>

definition DropdownMenuTrigger :: ui_component where
  \<open>DropdownMenuTrigger lib ps =
    (let props = ps
     in jsx ''DropdownMenuPrimitive.Trigger''
         [Attr ''data-slot'' (StrV ''dropdown-menu-trigger''),
           Spread props]
         [])\<close>

definition DropdownMenuContent :: ui_component where
  \<open>DropdownMenuContent lib ps =
    (let className = read_prop ''className'' ps;
         sideOffset = or_default (NumV (Fin 4)) (read_prop ''sideOffset'' ps);
         props = rest [''className'', ''sideOffset''] ps
     in jsx ''DropdownMenuPrimitive.Portal''
         []
         [jsx ''DropdownMenuPrimitive.Content''
            [Attr ''data-slot'' (StrV ''dropdown-menu-content''),
              Attr ''sideOffset'' sideOffset,
              Attr ''className'' (cn lib [StrV ''bg-popover text-popover-foreground data-[state=open]:animate-in data-[state=closed]:animate-out data-[state=closed]:fade-out-0 data-[state=open]:fade-in-0 data-[state=closed]:zoom-out-95 data-[state=open]:zoom-in-95 data-[side=bottom]:slide-in-from-top-2 data-[side=left]:slide-in-from-right-2 data-[side=right]:slide-in-from-left-2 data-[side=top]:slide-in-from-bottom-2 z-50 max-h-(--radix-dropdown-menu-content-available-height) min-w-[8rem] origin-(--radix-dropdown-menu-content-transform-origin) overflow-x-hidden overflow-y-auto rounded-md border p-1 shadow-md'',
                  className]),
              Spread props]
            []])\<close>

definition DropdownMenuGroup :: ui_component where
  \<open>DropdownMenuGroup lib ps =
    (let props = ps
     in jsx ''DropdownMenuPrimitive.Group''
         [Attr ''data-slot'' (StrV ''dropdown-menu-group''),
           Spread props]
         [])\<close>

definition DropdownMenuItem :: ui_component where
  \<open>DropdownMenuItem lib ps =
    (let className = read_prop ''className'' ps;
         inset = read_prop ''inset'' ps;
         variant = or_default (StrV ''default'') (read_prop ''variant'' ps);
         props = rest [''className'', ''inset'', ''variant''] ps
     in jsx ''DropdownMenuPrimitive.Item''
         [Attr ''data-slot'' (StrV ''dropdown-menu-item''),
           Attr ''data-inset'' inset,
           Attr ''data-variant'' variant,
           Attr ''className'' (cn lib [StrV ''focus:bg-accent focus:text-accent-foreground data-[variant=destructive]:text-destructive data-[variant=destructive]:focus:bg-destructive/10 dark:data-[variant=destructive]:focus:bg-destructive/20 data-[variant=destructive]:focus:text-destructive data-[variant=destructive]:*:[svg]:!text-destructive [&_svg:not([class*='text-'])]:text-muted-foreground relative flex cursor-default items-center gap-2 rounded-sm px-2 py-1.5 text-sm outline-hidden select-none data-[disabled]:pointer-events-none data-[disabled]:opacity-50 data-[inset]:pl-8 [&_svg]:pointer-events-none [&_svg]:shrink-0 [&_svg:not([class*='size-'])]:size-4'',
               className]),
           Spread props]
         [])\<close>

definition DropdownMenuCheckboxItem :: ui_component where
  \<open>DropdownMenuCheckboxItem lib ps =
    (let className = read_prop ''className'' ps;
         children = read_prop ''children'' ps;
         checked = read_prop ''checked'' ps;
         props = rest [''className'', ''children'', ''checked''] ps
     in jsx ''DropdownMenuPrimitive.CheckboxItem''
         [Attr ''data-slot'' (StrV ''dropdown-menu-checkbox-item''),
           Attr ''className'' (cn lib [StrV ''focus:bg-accent focus:text-accent-foreground relative flex cursor-default items-center gap-2 rounded-sm py-1.5 pr-2 pl-8 text-sm outline-hidden select-none data-[disabled]:pointer-events-none data-[disabled]:opacity-50 [&_svg]:pointer-events-none [&_svg]:shrink-0 [&_svg:not([class*='size-'])]:size-4'',
               className]),
           Attr ''checked'' checked,
           Spread props]
         [jsx ''span''
            [Attr ''className'' (StrV ''pointer-events-none absolute left-2 flex size-3.5 items-center justify-center'')]
            [jsx ''DropdownMenuPrimitive.ItemIndicator''
               []
               [jsx ''CheckIcon''
                  [Attr ''className'' (StrV ''size-4'')]
                  []]],
           children])\<close>

definition DropdownMenuRadioGroup :: ui_component where
  \<open>DropdownMenuRadioGroup lib ps =
    (let props = ps
     in jsx ''DropdownMenuPrimitive.RadioGroup''
         [Attr ''data-slot'' (StrV ''dropdown-menu-radio-group''),
           Spread props]
         [])\<close>

definition DropdownMenuRadioItem :: ui_component where
  \<open>DropdownMenuRadioItem lib ps =
    (let className = read_prop ''className'' ps;
         children = read_prop ''children'' ps;
         props = rest [''className'', ''children''] ps
     in jsx ''DropdownMenuPrimitive.RadioItem''
         [Attr ''data-slot'' (StrV ''dropdown-menu-radio-item''),
           Attr ''className'' (cn lib [StrV ''focus:bg-accent focus:text-accent-foreground relative flex cursor-default items-center gap-2 rounded-sm py-1.5 pr-2 pl-8 text-sm outline-hidden select-none data-[disabled]:pointer-events-none data-[disabled]:opacity-50 [&_svg]:pointer-events-none [&_svg]:shrink-0 [&_svg:not([class*='size-'])]:size-4'',
               className]),
           Spread props]
         [jsx ''span''
            [Attr ''className'' (StrV ''pointer-events-none absolute left-2 flex size-3.5 items-center justify-center'')]
            [jsx ''DropdownMenuPrimitive.ItemIndicator''
               []
               [jsx ''CircleIcon''
                  [Attr ''className'' (StrV ''size-2 fill-current'')]
                  []]],
           children])\<close>

definition DropdownMenuLabel :: ui_component where
  \<open>DropdownMenuLabel lib ps =
    (let className = read_prop ''className'' ps;
         inset = read_prop ''inset'' ps;
         props = rest [''className'', ''inset''] ps
     in jsx ''DropdownMenuPrimitive.Label''
         [Attr ''data-slot'' (StrV ''dropdown-menu-label''),
           Attr ''data-inset'' inset,
           Attr ''className'' (cn lib [StrV ''px-2 py-1.5 text-sm font-medium data-[inset]:pl-8'',
               className]),
           Spread props]
         [])\<close>

definition DropdownMenuSeparator :: ui_component where
  \<open>DropdownMenuSeparator lib ps =
    (let className = read_prop ''className'' ps;
         props = rest [''className''] ps
     in jsx ''DropdownMenuPrimitive.Separator''
         [Attr ''data-slot'' (StrV ''dropdown-menu-separator''),
           Attr ''className'' (cn lib [StrV ''bg-border -mx-1 my-1 h-px'',
               className]),
           Spread props]
         [])\<close>

definition DropdownMenuShortcut :: ui_component where
  \<open>DropdownMenuShortcut lib ps =
    (let className = read_prop ''className'' ps;
         props = rest [''className''] ps
     in jsx ''span''
         [Attr ''data-slot'' (StrV ''dropdown-menu-shortcut''),
           Attr ''className'' (cn lib [StrV ''text-muted-foreground ml-auto text-xs tracking-widest'',
               className]),
           Spread props]
         [])\<close>

definition DropdownMenuSub :: ui_component where
  \<open>DropdownMenuSub lib ps =
    (let props = ps
     in jsx ''DropdownMenuPrimitive.Sub''
         [Attr ''data-slot'' (StrV ''dropdown-menu-sub''),
           Spread props]
         [])\<close>

definition DropdownMenuSubTrigger :: ui_component where
  \<open>DropdownMenuSubTrigger lib ps =
    (let className = read_prop ''className'' ps;
         inset = read_prop ''inset'' ps;
         children = read_prop ''children'' ps;
         props = rest [''className'', ''inset'', ''children''] ps
     in jsx ''DropdownMenuPrimitive.SubTrigger''
         [Attr ''data-slot'' (StrV ''dropdown-menu-sub-trigger''),
           Attr ''data-inset'' inset,
           Attr ''className'' (cn lib [StrV ''focus:bg-accent focus:text-accent-foreground data-[state=open]:bg-accent data-[state=open]:text-accent-foreground [&_svg:not([class*='text-'])]:text-muted-foreground flex cursor-default items-center gap-2 rounded-sm px-2 py-1.5 text-sm outline-hidden select-none data-[inset]:pl-8 [&_svg]:pointer-events-none [&_svg]:shrink-0 [&_svg:not([class*='size-'])]:size-4'',
               className]),
           Spread props]
         [children,
           jsx ''ChevronRightIcon''
            [Attr ''className'' (StrV ''ml-auto size-4'')]
            []])\<close>

definition DropdownMenuSubContent :: ui_component where
  \<open>DropdownMenuSubContent lib ps =
    (let className = read_prop ''className'' ps;
         props = rest [''className''] ps
     in jsx ''DropdownMenuPrimitive.SubContent''
         [Attr ''data-slot'' (StrV ''dropdown-menu-sub-content''),
           Attr ''className'' (cn lib [StrV ''bg-popover text-popover-foreground data-[state=open]:animate-in data-[state=closed]:animate-out data-[state=closed]:fade-out-0 data-[state=open]:fade-in-0 data-[state=closed]:zoom-out-95 data-[state=open]:zoom-in-95 data-[side=bottom]:slide-in-from-top-2 data-[side=left]:slide-in-from-right-2 data-[side=right]:slide-in-from-left-2 data-[side=top]:slide-in-from-bottom-2 z-50 min-w-[8rem] origin-(--radix-dropdown-menu-content-transform-origin) overflow-hidden rounded-md border p-1 shadow-lg'',
               className]),
           Spread props]
         [])\<close>

subsection \<open>\<open>context-menu.tsx\<close>\<close>

definition ContextMenu :: ui_component where
  \<open>ContextMenu lib ps =
    (let props = ps
     in jsx ''ContextMenuPrimitive.Root''
         [Attr ''data-slot'' (StrV ''context-menu''),
           Spread props]
         [])\<close>

definition ContextMenuTrigger :: ui_component where
  \<open>ContextMenuTrigger lib ps =
    (let props = ps
     in jsx ''ContextMenuPrimitive.Trigger''
         [Attr ''data-slot'' (StrV ''context-menu-trigger''),
           Spread props]
         [])\<close>

definition ContextMenuGroup :: ui_component where
  \<open>ContextMenuGroup lib ps =
    (let props = ps
     in jsx ''ContextMenuPrimitive.Group''
         [Attr ''data-slot'' (StrV ''context-menu-group''),
           Spread props]
         [])\<close>

definition ContextMenuPortal :: ui_component where
  \<open>ContextMenuPortal lib ps =
    (let props = ps
     in jsx ''ContextMenuPrimitive.Portal''
         [Attr ''data-slot'' (StrV ''context-menu-portal''),
           Spread props]
         [])\<close>

definition ContextMenuSub :: ui_component where
  \<open>ContextMenuSub lib ps =
    (let props = ps
     in jsx ''ContextMenuPrimitive.Sub''
         [Attr ''data-slot'' (StrV ''context-menu-sub''),
           Spread props]
         [])\<close>

definition ContextMenuRadioGroup :: ui_component where
  \<open>ContextMenuRadioGroup lib ps =
    (let props = ps
     in jsx ''ContextMenuPrimitive.RadioGroup''
         [Attr ''data-slot'' (StrV ''context-menu-radio-group''),
           Spread props]
         [])\<close>

definition ContextMenuSubTrigger :: ui_component where
  \<open>ContextMenuSubTrigger lib ps =
    (let className = read_prop ''className'' ps;
         inset = read_prop ''inset'' ps;
         children = read_prop ''children'' ps;
         props = rest [''className'', ''inset'', ''children''] ps
     in jsx ''ContextMenuPrimitive.SubTrigger''
         [Attr ''data-slot'' (StrV ''context-menu-sub-trigger''),
           Attr ''data-inset'' inset,
           Attr ''className'' (cn lib [StrV ''focus:bg-accent focus:text-accent-foreground data-[state=open]:bg-accent data-[state=open]:text-accent-foreground [&_svg:not([class*='text-'])]:text-muted-foreground flex cursor-default items-center rounded-sm px-2 py-1.5 text-sm outline-hidden select-none data-[inset]:pl-8 [&_svg]:pointer-events-none [&_svg]:shrink-0 [&_svg:not([class*='size-'])]:size-4'',
               className]),
           Spread props]
         [children,
           jsx ''ChevronRightIcon''
            [Attr ''className'' (StrV ''ml-auto'')]
            []])\<close>

definition ContextMenuSubContent :: ui_component where
  \<open>ContextMenuSubContent lib ps =
    (let className = read_prop ''className'' ps;
         props = rest [''className''] ps
     in jsx ''ContextMenuPrimitive.SubContent''
         [Attr ''data-slot'' (StrV ''context-menu-sub-content''),
           Attr ''className'' (cn lib [StrV ''bg-popover text-popover-foreground data-[state=open]:animate-in data-[state=closed]:animate-out data-[state=closed]:fade-out-0 data-[state=open]:fade-in-0 data-[state=closed]:zoom-out-95 data-[state=open]:zoom-in-95 data-[side=bottom]:slide-in-from-top-2 data-[side=left]:slide-in-from-right-2 data-[side=right]:slide-in-from-left-2 data-[side=top]:slide-in-from-bottom-2 z-50 min-w-[8rem] origin-(--radix-context-menu-content-transform-origin) overflow-hidden rounded-md border p-1 shadow-lg'',
               className]),
           Spread props]
         [])\<close>

definition ContextMenuContent :: ui_component where
  \<open>ContextMenuContent lib ps =
    (let className = read_prop ''className'' ps;
         props = rest [''className''] ps
     in jsx ''ContextMenuPrimitive.Portal''
         []
         [jsx ''ContextMenuPrimitive.Content''
            [Attr ''data-slot'' (StrV ''context-menu-content''),
              Attr ''className'' (cn lib [StrV ''bg-popover text-popover-foreground data-[state=open]:animate-in data-[state=closed]:animate-out data-[state=closed]:fade-out-0 data-[state=open]:fade-in-0 data-[state=closed]:zoom-out-95 data-[state=open]:zoom-in-95 data-[side=bottom]:slide-in-from-top-2 data-[side=left]:slide-in-from-right-2 data-[side=right]:slide-in-from-left-2 data-[side=top]:slide-in-from-bottom-2 z-50 max-h-(--radix-context-menu-content-available-height) min-w-[8rem] origin-(--radix-context-menu-content-transform-origin) overflow-x-hidden overflow-y-auto rounded-md border p-1 shadow-md'',
                  className]),
              Spread props]
            []])\<close>

definition ContextMenuItem :: ui_component where
  \<open>ContextMenuItem lib ps =
    (let className = read_prop ''className'' ps;
         inset = read_prop ''inset'' ps;
         variant = or_default (StrV ''default'') (read_prop ''variant'' ps);
         props = rest [''className'', ''inset'', ''variant''] ps
     in jsx ''ContextMenuPrimitive.Item''
         [Attr ''data-slot'' (StrV ''context-menu-item''),
           Attr ''data-inset'' inset,
           Attr ''data-variant'' variant,
           Attr ''className'' (cn lib [StrV ''focus:bg-accent focus:text-accent-foreground data-[variant=destructive]:text-destructive data-[variant=destructive]:focus:bg-destructive/10 dark:data-[variant=destructive]:focus:bg-destructive/20 data-[variant=destructive]:focus:text-destructive data-[variant=destructive]:*:[svg]:!text-destructive [&_svg:not([class*='text-'])]:text-muted-foreground relative flex cursor-default items-center gap-2 rounded-sm px-2 py-1.5 text-sm outline-hidden select-none data-[disabled]:pointer-events-none data-[disabled]:opacity-50 data-[inset]:pl-8 [&_svg]:pointer-events-none [&_svg]:shrink-0 [&_svg:not([class*='size-'])]:size-4'',
               className]),
           Spread props]
         [])\<close>

definition ContextMenuCheckboxItem :: ui_component where
  \<open>ContextMenuCheckboxItem lib ps =
    (let className = read_prop ''className'' ps;
         children = read_prop ''children'' ps;
         checked = read_prop ''checked'' ps;
         props = rest [''className'', ''children'', ''checked''] ps
     in jsx ''ContextMenuPrimitive.CheckboxItem''
         [Attr ''data-slot'' (StrV ''context-menu-checkbox-item''),
           Attr ''className'' (cn lib [StrV ''focus:bg-accent focus:text-accent-foreground relative flex cursor-default items-center gap-2 rounded-sm py-1.5 pr-2 pl-8 text-sm outline-hidden select-none data-[disabled]:pointer-events-none data-[disabled]:opacity-50 [&_svg]:pointer-events-none [&_svg]:shrink-0 [&_svg:not([class*='size-'])]:size-4'',
               className]),
           Attr ''checked'' checked,
           Spread props]
         [jsx ''span''
            [Attr ''className'' (StrV ''pointer-events-none absolute left-2 flex size-3.5 items-center justify-center'')]
            [jsx ''ContextMenuPrimitive.ItemIndicator''
               []
               [jsx ''CheckIcon''
                  [Attr ''className'' (StrV ''size-4'')]
                  []]],
           children])\<close>

definition ContextMenuRadioItem :: ui_component where
  \<open>ContextMenuRadioItem lib ps =
    (let className = read_prop ''className'' ps;
         children = read_prop ''children'' ps;
         props = rest [''className'', ''children''] ps
     in jsx ''ContextMenuPrimitive.RadioItem''
         [Attr ''data-slot'' (StrV ''context-menu-radio-item''),
           Attr ''className'' (cn lib [StrV ''focus:bg-accent focus:text-accent-foreground relative flex cursor-default items-center gap-2 rounded-sm py-1.5 pr-2 pl-8 text-sm outline-hidden select-none data-[disabled]:pointer-events-none data-[disabled]:opacity-50 [&_svg]:pointer-events-none [&_svg]:shrink-0 [&_svg:not([class*='size-'])]:size-4'',
               className]),
           Spread props]
         [jsx ''span''
            [Attr ''className'' (StrV ''pointer-events-none absolute left-2 flex size-3.5 items-center justify-center'')]
            [jsx ''ContextMenuPrimitive.ItemIndicator''
               []
               [jsx ''CircleIcon''
                  [Attr ''className'' (StrV ''size-2 fill-current'')]
                  []]],
           children])\<close>

definition ContextMenuLabel :: ui_component where
  \<open>ContextMenuLabel lib ps =
    (let className = read_prop ''className'' ps;
         inset = read_prop ''inset'' ps;
         props = rest [''className'', ''inset''] ps
     in jsx ''ContextMenuPrimitive.Label''
         [Attr ''data-slot'' (StrV ''context-menu-label''),
           Attr ''data-inset'' inset,
           Attr ''className'' (cn lib [StrV ''text-foreground px-2 py-1.5 text-sm font-medium data-[inset]:pl-8'',
               className]),
           Spread props]
         [])\<close>

definition ContextMenuSeparator :: ui_component where
  \<open>ContextMenuSeparator lib ps =
    (let className = read_prop ''className'' ps;
         props = rest [''className''] ps
     in jsx ''ContextMenuPrimitive.Separator''
         [Attr ''data-slot'' (StrV ''context-menu-separator''),
           Attr ''className'' (cn lib [StrV ''bg-border -mx-1 my-1 h-px'',
               className]),
           Spread props]
         [])\<close>

definition ContextMenuShortcut :: ui_component where
  \<open>ContextMenuShortcut lib ps =
    (let className = read_prop ''className'' ps;
         props = rest [''className''] ps
     in jsx ''span''
         [Attr ''data-slot'' (StrV ''context-menu-shortcut''),
           Attr ''className'' (cn lib [StrV ''text-muted-foreground ml-auto text-xs tracking-widest'',
               className]),
           Spread props]
         [])\<close>

subsection \<open>\<open>navigation-menu.tsx\<close>\<close>

definition NavigationMenu :: ui_component where
  \<open>NavigationMenu lib ps =
    (let className = read_prop ''className'' ps;
         children = read_prop ''children'' ps;
         viewport = or_default (BoolV True) (read_prop ''viewport'' ps);
         props = rest [''className'', ''children'', ''viewport''] ps
     in jsx ''NavigationMenuPrimitive.Root''
         [Attr ''data-slot'' (StrV ''navigation-menu''),
           Attr ''data-viewport'' viewport,
           Attr ''className'' (cn lib [StrV ''group/navigation-menu relative flex max-w-max flex-1 items-center justify-center'',
               className]),
           Spread props]
         [children,
           js_and viewport (jsx ''NavigationMenuViewport''
            []
            [])])\<close>

definition NavigationMenuList :: ui_component where
  \<open>NavigationMenuList lib ps =
    (let className = read_prop ''className'' ps;
         props = rest [''className''] ps
     in jsx ''NavigationMenuPrimitive.List''
         [Attr ''data-slot'' (StrV ''navigation-menu-list''),
           Attr ''className'' (cn lib [StrV ''group flex flex-1 list-none items-center justify-center gap-1'',
               className]),
           Spread props]
         [])\<close>

definition NavigationMenuItem :: ui_component where
  \<open>NavigationMenuItem lib ps =
    (let className = read_prop ''className'' ps;
         props = rest [''className''] ps
     in jsx ''NavigationMenuPrimitive.Item''
         [Attr ''data-slot'' (StrV ''navigation-menu-item''),
           Attr ''className'' (cn lib [StrV ''relative'',
               className]),
           Spread props]
         [])\<close>

definition navigationMenuTriggerStyle :: "ui_lib \<Rightarrow> ui_value \<Rightarrow> ui_value" where
  \<open>navigationMenuTriggerStyle lib v = StrV (cva lib
    (StrV ''group inline-flex h-9 w-max items-center justify-center rounded-md bg-background px-4 py-2 text-sm font-medium hover:bg-accent hover:text-accent-foreground focus:bg-accent focus:text-accent-foreground disabled:pointer-events-none disabled:opacity-50 data-[state=open]:hover:bg-accent data-[state=open]:text-accent-foreground data-[state=open]:focus:bg-accent data-[state=open]:bg-accent/50 focus-visible:ring-ring/50 outline-none transition-[color,box-shadow] focus-visible:ring-[3px] focus-visible:outline-1'')
    UndefV
    v)\<close>

definition NavigationMenuTrigger :: ui_component where
  \<open>NavigationMenuTrigger lib ps =
    (let className = read_prop ''className'' ps;
         children = read_prop ''children'' ps;
         props = rest [''className'', ''children''] ps
     in jsx ''NavigationMenuPrimitive.Trigger''
         [Attr ''data-slot'' (StrV ''navigation-menu-trigger''),
           Attr ''className'' (cn lib [navigationMenuTriggerStyle lib UndefV,
               StrV ''group'',
               className]),
           Spread props]
         [children,
           StrV '' '',
           jsx ''ChevronDownIcon''
            [Attr ''className'' (StrV ''relative top-[1px] ml-1 size-3 transition duration-300 group-data-[state=open]:rotate-180''),
              Attr ''aria-hidden'' (StrV ''true'')]
            []])\<close>

definition NavigationMenuContent :: ui_component where
  \<open>NavigationMenuContent lib ps =
    (let className = read_prop ''className'' ps;
         props = rest [''className''] ps
     in jsx ''NavigationMenuPrimitive.Content''
         [Attr ''data-slot'' (StrV ''navigation-menu-content''),
           Attr ''className'' (cn lib [StrV ''data-[motion^=from-]:animate-in data-[motion^=to-]:animate-out data-[motion^=from-]:fade-in data-[motion^=to-]:fade-out data-[motion=from-end]:slide-in-from-right-52 data-[motion=from-start]:slide-in-from-left-52 data-[motion=to-end]:slide-out-to-right-52 data-[motion=to-start]:slide-out-to-left-52 top-0 left-0 w-full p-2 pr-2.5 md:absolute md:w-auto'',
               StrV ''group-data-[viewport=false]/navigation-menu:bg-popover group-data-[viewport=false]/navigation-menu:text-popover-foreground group-data-[viewport=false]/navigation-menu:data-[state=open]:animate-in group-data-[viewport=false]/navigation-menu:data-[state=closed]:animate-out group-data-[viewport=false]/navigation-menu:data-[state=closed]:zoom-out-95 group-data-[viewport=false]/navigation-menu:data-[state=open]:zoom-in-95 group-data-[viewport=false]/navigation-menu:data-[state=open]:fade-in-0 group-data-[viewport=false]/navigation-menu:data-[state=closed]:fade-out-0 group-data-[viewport=false]/navigation-menu:top-full group-data-[viewport=false]/navigation-menu:mt-1.5 group-data-[viewport=false]/navigation-menu:overflow-hidden group-data-[viewport=false]/navigation-menu:rounded-md group-data-[viewport=false]/navigation-menu:border group-data-[viewport=false]/navigation-menu:shadow group-data-[viewport=false]/navigation-menu:duration-200 **:data-[slot=navigation-menu-link]:focus:ring-0 **:data-[slot=navigation-menu-link]:focus:outline-none'',
               className]),
           Spread props]
         [])\<close>

definition NavigationMenuViewport :: ui_component where
  \<open>NavigationMenuViewport lib ps =
    (let className = read_prop ''className'' ps;
         props = rest [''className''] ps
     in jsx ''div''
         [Attr ''className'' (StrV ''absolute top-full left-0 isolate z-50 flex justify-center'')]
         [jsx ''NavigationMenuPrimitive.Viewport''
            [Attr ''data-slot'' (StrV ''navigation-menu-viewport''),
              Attr ''className'' (cn lib [StrV ''origin-top-center bg-popover text-popover-foreground data-[state=open]:animate-in data-[state=closed]:animate-out data-[state=closed]:zoom-out-95 data-[state=open]:zoom-in-90 relative mt-1.5 h-[var(--radix-navigation-menu-viewport-height)] w-full overflow-hidden rounded-md border shadow md:w-[var(--radix-navigation-menu-viewport-width)]'',
                  className]),
              Spread props]
            []])\<close>

definition NavigationMenuLink :: ui_component where
  \<open>NavigationMenuLink lib ps =
    (let className = read_prop ''className'' ps;
         props = rest [''className''] ps
     in jsx ''NavigationMenuPrimitive.Link''
         [Attr ''data-slot'' (StrV ''navigation-menu-link''),
           Attr ''className'' (cn lib [StrV ''data-[active=true]:focus:bg-accent data-[active=true]:hover:bg-accent data-[active=true]:bg-accent/50 data-[active=true]:text-accent-foreground hover:bg-accent hover:text-accent-foreground focus:bg-accent focus:text-accent-foreground focus-visible:ring-ring/50 [&_svg:not([class*='text-'])]:text-muted-foreground flex flex-col gap-1 rounded-sm p-2 text-sm transition-all outline-none focus-visible:ring-[3px] focus-visible:outline-1 [&_svg:not([class*='size-'])]:size-4'',
               className]),
           Spread props]
         [])\<close>

definition NavigationMenuIndicator :: ui_component where
  \<open>NavigationMenuIndicator lib ps =
    (let className = read_prop ''className'' ps;
         props = rest [''className''] ps
     in jsx ''NavigationMenuPrimitive.Indicator''
         [Attr ''data-slot'' (StrV ''navigation-menu-indicator''),
           Attr ''className'' (cn lib [StrV ''data-[state=visible]:animate-in data-[state=hidden]:animate-out data-[state=hidden]:fade-out data-[state=visible]:fade-in top-full z-[1] flex h-1.5 items-end justify-center overflow-hidden'',
               className]),
           Spread props]
         [jsx ''div''
            [Attr ''className'' (StrV ''bg-border relative top-[60%] h-2 w-2 rotate-45 rounded-tl-sm shadow-md'')]
            []])\<close>

subsection \<open>Which parts are slotted\<close>

interpretation Menubar_part: slotted "Menubar lib" "[''className'']" "''menubar''" for lib
  by (rule slotted_intro, unfold Menubar_def Let_def, intro exI conjI, rule refl) simp_all

interpretation MenubarMenu_part: slotted "MenubarMenu lib" "[]" "''menubar-menu''" for lib
  by (rule slotted_intro, unfold MenubarMenu_def Let_def, intro exI conjI, rule refl) simp_all

interpretation MenubarGroup_part: slotted "MenubarGroup lib" "[]" "''menubar-group''" for lib
  by (rule slotted_intro, unfold MenubarGroup_def Let_def, intro exI conjI, rule refl) simp_all

interpretation MenubarPortal_part: slotted "MenubarPortal lib" "[]" "''menubar-portal''" for lib
  by (rule slotted_intro, unfold MenubarPortal_def Let_def, intro exI conjI, rule refl) simp_all

interpretation MenubarRadioGroup_part: slotted "MenubarRadioGroup lib" "[]" "''menubar-radio-group''" for lib
  by (rule slotted_intro, unfold MenubarRadioGroup_def Let_def, intro exI conjI, rule refl) simp_all

interpretation MenubarTrigger_part: slotted "MenubarTrigger lib" "[''className'']" "''menubar-trigger''" for lib
  by (rule slotted_intro, unfold MenubarTrigger_def Let_def, intro exI conjI, rule refl) simp_all

interpretation MenubarItem_part: slotted "MenubarItem lib" "[''className'', ''inset'', ''variant'']" "''menubar-item''" for lib
  by (rule slotted_intro, unfold MenubarItem_def Let_def, intro exI conjI, rule refl) simp_all

interpretation MenubarCheckboxItem_part: slotted "MenubarCheckboxItem lib" "[''className'', ''children'', ''checked'']" "''menubar-checkbox-item''" for lib
  by (rule slotted_intro, unfold MenubarCheckboxItem_def Let_def, intro exI conjI, rule refl) simp_all

interpretation MenubarRadioItem_part: slotted "MenubarRadioItem lib" "[''className'', ''children'']" "''menubar-radio-item''" for lib
  by (rule slotted_intro, unfold MenubarRadioItem_def Let_def, intro exI conjI, rule refl) simp_all

interpretation MenubarLabel_part: slotted "MenubarLabel lib" "[''className'', ''inset'']" "''menubar-label''" for lib
  by (rule slotted_intro, unfold MenubarLabel_def Let_def, intro exI conjI, rule refl) simp_all

interpretation MenubarSeparator_part: slotted "MenubarSeparator lib" "[''className'']" "''menubar-separator''" for lib
  by (rule slotted_intro, unfold MenubarSeparator_def Let_def, intro exI conjI, rule refl) simp_all

interpretation MenubarShortcut_part: slotted "MenubarShortcut lib" "[''className'']" "''menubar-shortcut''" for lib
  by (rule slotted_intro, unfold MenubarShortcut_def Let_def, intro exI conjI, rule refl) simp_all

interpretation MenubarSub_part: slotted "MenubarSub lib" "[]" "''menubar-sub''" for lib
  by (rule slotted_intro, unfold MenubarSub_def Let_def, intro exI conjI, rule refl) simp_all

interpretation MenubarSubTrigger_part: slotted "MenubarSubTrigger lib" "[''className'', ''inset'', ''children'']" "''menubar-sub-trigger''" for lib
  by (rule slotted_intro, unfold MenubarSubTrigger_def Let_def, intro exI conjI, rule refl) simp_all

interpretation MenubarSubContent_part: slotted "MenubarSubContent lib" "[''className'']" "''menubar-sub-content''" for lib
  by (rule slotted_intro, unfold MenubarSubContent_def Let_def, intro exI conjI, rule refl) simp_all

interpretation DropdownMenu_part: slotted "DropdownMenu lib" "[]" "''dropdown-menu''" for lib
  by (rule slotted_intro, unfold DropdownMenu_def Let_def, intro exI conjI, rule refl) simp_all

interpretation DropdownMenuPortal_part: slotted "DropdownMenuPortal lib" "[]" "''dropdown-menu-portal''" for lib
  by (rule slotted_intro, unfold DropdownMenuPortal_def Let_def, intro exI conjI, rule refl) simp_all

interpretation DropdownMenuTrigger_part: slotted "DropdownMenuTrigger lib" "[]" "''dropdown-menu-trigger''" for lib
  by (rule slotted_intro, unfold DropdownMenuTrigger_def Let_def, intro exI conjI, rule refl) simp_all

interpretation DropdownMenuGroup_part: slotted "DropdownMenuGroup lib" "[]" "''dropdown-menu-group''" for lib
  by (rule slotted_intro, unfold DropdownMenuGroup_def Let_def, intro exI conjI, rule refl) simp_all

interpretation DropdownMenuItem_part: slotted "DropdownMenuItem lib" "[''className'', ''inset'', ''variant'']" "''dropdown-menu-item''" for lib
  by (rule slotted_intro, unfold DropdownMenuItem_def Let_def, intro exI conjI, rule refl) simp_all

interpretation DropdownMenuCheckboxItem_part: slotted "DropdownMenuCheckboxItem lib" "[''className'', ''children'', ''checked'']" "''dropdown-menu-checkbox-item''" for lib
  by (rule slotted_intro, unfold DropdownMenuCheckboxItem_def Let_def, intro exI conjI, rule refl) simp_all

interpretation DropdownMenuRadioGroup_part: slotted "DropdownMenuRadioGroup lib" "[]" "''dropdown-menu-radio-group''" for lib
  by (rule slotted_intro, unfold DropdownMenuRadioGroup_def Let_def, intro exI conjI, rule refl) simp_all

interpretation DropdownMenuRadioItem_part: slotted "DropdownMenuRadioItem lib" "[''className'', ''children'']" "''dropdown-menu-radio-item''" for lib
  by (rule slotted_intro, unfold DropdownMenuRadioItem_def Let_def, intro exI conjI, rule refl) simp_all

interpretation DropdownMenuLabel_part: slotted "DropdownMenuLabel lib" "[''className'', ''inset'']" "''dropdown-menu-label''" for lib
  by (rule slotted_intro, unfold DropdownMenuLabel_def Let_def, intro exI conjI, rule refl) simp_all

interpretation DropdownMenuSeparator_part: slotted "DropdownMenuSeparator lib" "[''className'']" "''dropdown-menu-separator''" for lib
  by (rule slotted_intro, unfold DropdownMenuSeparator_def Let_def, intro exI conjI, rule refl) simp_all

interpretation DropdownMenuShortcut_part: slotted "DropdownMenuShortcut lib" "[''className'']" "''dropdown-menu-shortcut''" for lib
  by (rule slotted_intro, unfold DropdownMenuShortcut_def Let_def, intro exI conjI, rule refl) simp_all

interpretation DropdownMenuSub_part: slotted "DropdownMenuSub lib" "[]" "''dropdown-menu-sub''" for lib
  by (rule slotted_intro, unfold DropdownMenuSub_def Let_def, intro exI conjI, rule refl) simp_all

interpretation DropdownMenuSubTrigger_part: slotted "DropdownMenuSubTrigger lib" "[''className'', ''inset'', ''children'']" "''dropdown-menu-sub-trigger''" for lib
  by (rule slotted_intro, unfold DropdownMenuSubTrigger_def Let_def, intro exI conjI, rule refl) simp_all

interpretation DropdownMenuSubContent_part: slotted "DropdownMenuSubContent lib" "[''className'']" "''dropdown-menu-sub-content''" for lib
  by (rule slotted_intro, unfold DropdownMenuSubContent_def Let_def, intro exI conjI, rule refl) simp_all

interpretation ContextMenu_part: slotted "ContextMenu lib" "[]" "''context-menu''" for lib
  by (rule slotted_intro, unfold ContextMenu_def Let_def, intro exI conjI, rule refl) simp_all

interpretation ContextMenuTrigger_part: slotted "ContextMenuTrigger lib" "[]" "''context-menu-trigger''" for lib
  by (rule slotted_intro, unfold ContextMenuTrigger_def Let_def, intro exI conjI, rule refl) simp_all

interpretation ContextMenuGroup_part: slotted "ContextMenuGroup lib" "[]" "''context-menu-group''" for lib
  by (rule slotted_intro, unfold ContextMenuGroup_def Let_def, intro exI conjI, rule refl) simp_all

interpretation ContextMenuPortal_part: slotted "ContextMenuPortal lib" "[]" "''context-menu-portal''" for lib
  by (rule slotted_intro, unfold ContextMenuPortal_def Let_def, intro exI conjI, rule refl) simp_all

interpretation ContextMenuSub_part: slotted "ContextMenuSub lib" "[]" "''context-menu-sub''" for lib
  by (rule slotted_intro, unfold ContextMenuSub_def Let_def, intro exI conjI, rule refl) simp_all

interpretation ContextMenuRadioGroup_part: slotted "ContextMenuRadioGroup lib" "[]" "''context-menu-radio-group''" for lib
  by (rule slotted_intro, unfold ContextMenuRadioGroup_def Let_def, intro exI conjI, rule refl) simp_all

interpretation ContextMenuSubTrigger_part: slotted "ContextMenuSubTrigger lib" "[''className'', ''inset'', ''children'']" "''context-menu-sub-trigger''" for lib
  by (rule slotted_intro, unfold ContextMenuSubTrigger_def Let_def, intro exI conjI, rule refl) simp_all

interpretation ContextMenuSubContent_part: slotted "ContextMenuSubContent lib" "[''className'']" "''context-menu-sub-content''" for lib
  by (rule slotted_intro, unfold ContextMenuSubContent_def Let_def, intro exI conjI, rule refl) simp_all

interpretation ContextMenuItem_part: slotted "ContextMenuItem lib" "[''className'', ''inset'', ''variant'']" "''context-menu-item''" for lib
  by (rule slotted_intro, unfold ContextMenuItem_def Let_def, intro exI conjI, rule refl) simp_all

interpretation ContextMenuCheckboxItem_part: slotted "ContextMenuCheckboxItem lib" "[''className'', ''children'', ''checked'']" "''context-menu-checkbox-item''" for lib
  by (rule slotted_intro, unfold ContextMenuCheckboxItem_def Let_def, intro exI conjI, rule refl) simp_all

interpretation ContextMenuRadioItem_part: slotted "ContextMenuRadioItem lib" "[''className'', ''children'']" "''context-menu-radio-item''" for lib
  by (rule slotted_intro, unfold ContextMenuRadioItem_def Let_def, intro exI conjI, rule refl) simp_all

interpretation ContextMenuLabel_part: slotted "ContextMenuLabel lib" "[''className'', ''inset'']" "''context-menu-label''" for lib
  by (rule slotted_intro, unfold ContextMenuLabel_def Let_def, intro exI conjI, rule refl) simp_all

interpretation ContextMenuSeparator_part: slotted "ContextMenuSeparator lib" "[''className'']" "''context-menu-separator''" for lib
  by (rule slotted_intro, unfold ContextMenuSeparator_def Let_def, intro exI conjI, rule refl) simp_all

interpretation ContextMenuShortcut_part: slotted "ContextMenuShortcut lib" "[''className'']" "''context-menu-shortcut''" for lib
  by (rule slotted_intro, unfold ContextMenuShortcut_def Let_def, intro exI conjI, rule refl) simp_all

interpretation NavigationMenu_part: slotted "NavigationMenu lib" "[''className'', ''children'', ''viewport'']" "''navigation-menu''" for lib
  by (rule slotted_intro, unfold NavigationMenu_def Let_def, intro exI conjI, rule refl) simp_all

interpretation NavigationMenuList_part: slotted "NavigationMenuList lib" "[''className'']" "''navigation-menu-list''" for lib
  by (rule slotted_intro, unfold NavigationMenuList_def Let_def, intro exI conjI, rule refl) simp_all

interpretation NavigationMenuItem_part: slotted "NavigationMenuItem lib" "[''className'']" "''navigation-menu-item''" for lib
  by (rule slotted_intro, unfold NavigationMenuItem_def Let_def, intro exI conjI, rule refl) simp_all

interpretation NavigationMenuTrigger_part: slotted "NavigationMenuTrigger lib" "[''className'', ''children'']" "''navigation-menu-trigger''" for lib
  by (rule slotted_intro, unfold NavigationMenuTrigger_def Let_def, intro exI conjI, rule refl) simp_all

interpretation NavigationMenuContent_part: slotted "NavigationMenuContent lib" "[''className'']" "''navigation-menu-content''" for lib
  by (rule slotted_intro, unfold NavigationMenuContent_def Let_def, intro exI conjI, rule refl) simp_all

interpretation NavigationMenuLink_part: slotted "NavigationMenuLink lib" "[''className'']" "''navigation-menu-link''" for lib
  by (rule slotted_intro, unfold NavigationMenuLink_def Let_def, intro exI conjI, rule refl) simp_all

definition uiMenus_parts :: "ui_lib \<Rightarrow> ((props \<Rightarrow> ui_value) \<times> string list \<times> string) list" where
  "uiMenus_parts lib =
    [(Menubar lib, [''className''], ''menubar''),
     (MenubarMenu lib, [], ''menubar-menu''),
     (MenubarGroup lib, [], ''menubar-group''),
     (MenubarPortal lib, [], ''menubar-portal''),
     (MenubarRadioGroup lib, [], ''menubar-radio-group''),
     (MenubarTrigger lib, [''className''], ''menubar-trigger''),
     (MenubarItem lib, [''className'', ''inset'', ''variant''], ''menubar-item''),
     (MenubarCheckboxItem lib, [''className'', ''children'', ''checked''], ''menubar-checkbox-item''),
     (MenubarRadioItem lib, [''className'', ''children''], ''menubar-radio-item''),
     (MenubarLabel lib, [''className'', ''inset''], ''menubar-label''),
     (MenubarSeparator lib, [''className''], ''menubar-separator''),
     (MenubarShortcut lib, [''className''], ''menubar-shortcut''),
     (MenubarSub lib, [], ''menubar-sub''),
     (MenubarSubTrigger lib, [''className'', ''inset'', ''children''], ''menubar-sub-trigger''),
     (MenubarSubContent lib, [''className''], ''menubar-sub-content''),
     (DropdownMenu lib, [], ''dropdown-menu''),
     (DropdownMenuPortal lib, [], ''dropdown-menu-portal''),
     (DropdownMenuTrigger lib, [], ''dropdown-menu-trigger''),
     (DropdownMenuGroup lib, [], ''dropdown-menu-group''),
     (DropdownMenuItem lib, [''className'', ''inset'', ''variant''], ''dropdown-menu-item''),
     (DropdownMenuCheckboxItem lib, [''className'', ''children'', ''checked''], ''dropdown-menu-checkbox-item''),
     (DropdownMenuRadioGroup lib, [], ''dropdown-menu-radio-group''),
     (DropdownMenuRadioItem lib, [''className'', ''children''], ''dropdown-menu-radio-item''),
     (DropdownMenuLabel lib, [''className'', ''inset''], ''dropdown-menu-label''),
     (DropdownMenuSeparator lib, [''className''], ''dropdown-menu-separator''),
     (DropdownMenuShortcut lib, [''className''], ''dropdown-menu-shortcut''),
     (DropdownMenuSub lib, [], ''dropdown-menu-sub''),
     (DropdownMenuSubTrigger lib, [''className'', ''inset'', ''children''], ''dropdown-menu-sub-trigger''),
     (DropdownMenuSubContent lib, [''className''], ''dropdown-menu-sub-content''),
     (ContextMenu lib, [], ''context-menu''),
     (ContextMenuTrigger lib, [], ''context-menu-trigger''),
     (ContextMenuGroup lib, [], ''context-menu-group''),
     (ContextMenuPortal lib, [], ''context-menu-portal''),
     (ContextMenuSub lib, [], ''context-menu-sub''),
     (ContextMenuRadioGroup lib, [], ''context-menu-radio-group''),
     (ContextMenuSubTrigger lib, [''className'', ''inset'', ''children''], ''context-menu-sub-trigger''),
     (ContextMenuSubContent lib, [''className''], ''context-menu-sub-content''),
     (ContextMenuItem lib, [''className'', ''inset'', ''variant''], ''context-menu-item''),
     (ContextMenuCheckboxItem lib, [''className'', ''children'', ''checked''], ''context-menu-checkbox-item''),
     (ContextMenuRadioItem lib, [''className'', ''children''], ''context-menu-radio-item''),
     (ContextMenuLabel lib, [''className'', ''inset''], ''context-menu-label''),
     (ContextMenuSeparator lib, [''className''], ''context-menu-separator''),
     (ContextMenuShortcut lib, [''className''], ''context-menu-shortcut''),
     (NavigationMenu lib, [''className'', ''children'', ''viewport''], ''navigation-menu''),
     (NavigationMenuList lib, [''className''], ''navigation-menu-list''),
     (NavigationMenuItem lib, [''className''], ''navigation-menu-item''),
     (NavigationMenuTrigger lib, [''className'', ''children''], ''navigation-menu-trigger''),
     (NavigationMenuContent lib, [''className''], ''navigation-menu-content''),
     (NavigationMenuLink lib, [''className''], ''navigation-menu-link'')]"

lemma uiMenus_parts_slotted: "list_all (\<lambda>(f, own, slot). slotted f own slot) (uiMenus_parts lib)"
  unfolding uiMenus_parts_def list.pred_inject prod.case
  by (intro conjI list.pred_inject(1) Menubar_part.slotted_axioms
    MenubarMenu_part.slotted_axioms
    MenubarGroup_part.slotted_axioms
    MenubarPortal_part.slotted_axioms
    MenubarRadioGroup_part.slotted_axioms
    MenubarTrigger_part.slotted_axioms
    MenubarItem_part.slotted_axioms
    MenubarCheckboxItem_part.slotted_axioms
    MenubarRadioItem_part.slotted_axioms
    MenubarLabel_part.slotted_axioms
    MenubarSeparator_part.slotted_axioms
    MenubarShortcut_part.slotted_axioms
    MenubarSub_part.slotted_axioms
    MenubarSubTrigger_part.slotted_axioms
    MenubarSubContent_part.slotted_axioms
    DropdownMenu_part.slotted_axioms
    DropdownMenuPortal_part.slotted_axioms
    DropdownMenuTrigger_part.slotted_axioms
    DropdownMenuGroup_part.slotted_axioms
    DropdownMenuItem_part.slotted_axioms
    DropdownMenuCheckboxItem_part.slotted_axioms
    DropdownMenuRadioGroup_part.slotted_axioms
    DropdownMenuRadioItem_part.slotted_axioms
    DropdownMenuLabel_part.slotted_axioms
    DropdownMenuSeparator_part.slotted_axioms
    DropdownMenuShortcut_part.slotted_axioms
    DropdownMenuSub_part.slotted_axioms
    DropdownMenuSubTrigger_part.slotted_axioms
    DropdownMenuSubContent_part.slotted_axioms
    ContextMenu_part.slotted_axioms
    ContextMenuTrigger_part.slotted_axioms
    ContextMenuGroup_part.slotted_axioms
    ContextMenuPortal_part.slotted_axioms
    ContextMenuSub_part.slotted_axioms
    ContextMenuRadioGroup_part.slotted_axioms
    ContextMenuSubTrigger_part.slotted_axioms
    ContextMenuSubContent_part.slotted_axioms
    ContextMenuItem_part.slotted_axioms
    ContextMenuCheckboxItem_part.slotted_axioms
    ContextMenuRadioItem_part.slotted_axioms
    ContextMenuLabel_part.slotted_axioms
    ContextMenuSeparator_part.slotted_axioms
    ContextMenuShortcut_part.slotted_axioms
    NavigationMenu_part.slotted_axioms
    NavigationMenuList_part.slotted_axioms
    NavigationMenuItem_part.slotted_axioms
    NavigationMenuTrigger_part.slotted_axioms
    NavigationMenuContent_part.slotted_axioms
    NavigationMenuLink_part.slotted_axioms)

end
