(* ===== verification/UiSidebar.thy ===== *)
theory UiSidebar
  imports UiControls
begin

text \<open>
  The sidebar of \<open>Frontend/components/ui\<close>: the provider with its state, the keyboard shortcut and the cookie, and the parts. Each definition is the component of that name;
  the interpretations show which of them keep the contract of a slotted part.
\<close>

subsection \<open>\<open>sidebar.tsx\<close>\<close>

definition SIDEBAR_COOKIE_NAME :: string where "SIDEBAR_COOKIE_NAME = ''sidebar_state''"

definition SIDEBAR_COOKIE_MAX_AGE :: int where "SIDEBAR_COOKIE_MAX_AGE = 60 * 60 * 24 * 7"

definition SIDEBAR_WIDTH :: string where "SIDEBAR_WIDTH = ''16rem''"

definition SIDEBAR_WIDTH_MOBILE :: string where "SIDEBAR_WIDTH_MOBILE = ''18rem''"

definition SIDEBAR_WIDTH_ICON :: string where "SIDEBAR_WIDTH_ICON = ''3rem''"

definition SIDEBAR_KEYBOARD_SHORTCUT :: string where "SIDEBAR_KEYBOARD_SHORTCUT = ''b''"

text \<open>The value of the context, or the error outside a provider.\<close>

definition useSidebar :: "props option \<Rightarrow> string + props" where
  "useSidebar ctx =
     (case ctx of None \<Rightarrow> Inl ''useSidebar must be used within a SidebarProvider.'' | Some c \<Rightarrow> Inr c)"

text \<open>
  The provider's state. A state setter changes what the next render shows; the callbacks see the
  values of the last one. \<open>openProp\<close> and \<open>has_callback\<close> are the props that control the sidebar from
  outside; \<open>callback_log\<close> collects the values handed to the callback.
\<close>

record sidebar_provider =
  sb_open :: bool
  next_open :: bool
  sb_openMobile :: bool
  next_openMobile :: bool
  sb_isMobile :: bool
  openProp :: "bool option"
  has_callback :: bool
  callback_log :: "bool list"
  cookie :: "string option"

definition mount_sidebar :: "bool option \<Rightarrow> bool option \<Rightarrow> bool \<Rightarrow> sidebar_provider" where
  "mount_sidebar defaultOpen openProp' callback =
     (let d = (case defaultOpen of None \<Rightarrow> True | Some b \<Rightarrow> b)
      in \<lparr>sb_open = d, next_open = d, sb_openMobile = False, next_openMobile = False, sb_isMobile = False,
          openProp = openProp', has_callback = callback, callback_log = [], cookie = None\<rparr>)"

definition current_open :: "sidebar_provider \<Rightarrow> bool" where
  "current_open s = (case openProp s of None \<Rightarrow> sb_open s | Some b \<Rightarrow> b)"

definition cookie_text :: "bool \<Rightarrow> string" where
  "cookie_text b =
     SIDEBAR_COOKIE_NAME @ ''='' @ (if b then ''true'' else ''false'') @ ''; path=/; max-age='' @ dec SIDEBAR_COOKIE_MAX_AGE"

definition setOpen :: "(bool \<Rightarrow> bool) \<Rightarrow> sidebar_provider \<Rightarrow> sidebar_provider" where
  "setOpen value s =
     (let openState = value (current_open s);
          s = (if has_callback s then s\<lparr>callback_log := callback_log s @ [openState]\<rparr> else s\<lparr>next_open := openState\<rparr>)
      in s\<lparr>cookie := Some (cookie_text openState)\<rparr>)"

definition toggleSidebar :: "sidebar_provider \<Rightarrow> sidebar_provider" where
  "toggleSidebar s =
     (if sb_isMobile s then s\<lparr>next_openMobile := \<not> next_openMobile s\<rparr> else setOpen (\<lambda>open'. \<not> open') s)"

text \<open>Whether the default action is prevented, and the new state.\<close>

definition handleKeyDown :: "string \<Rightarrow> bool \<Rightarrow> bool \<Rightarrow> sidebar_provider \<Rightarrow> bool \<times> sidebar_provider" where
  "handleKeyDown key metaKey ctrlKey s =
     (if key = SIDEBAR_KEYBOARD_SHORTCUT \<and> (metaKey \<or> ctrlKey) then (True, toggleSidebar s) else (False, s))"

text \<open>A render commits the queued values and sees the current width and the current props.\<close>

definition render_sidebar :: "bool \<Rightarrow> bool option \<Rightarrow> sidebar_provider \<Rightarrow> sidebar_provider" where
  "render_sidebar isMobile openProp' s =
     s\<lparr>sb_open := next_open s, sb_openMobile := next_openMobile s, sb_isMobile := isMobile, openProp := openProp'\<rparr>"

definition sidebar_context :: "sidebar_provider \<Rightarrow> props" where
  "sidebar_context s =
     obj [Attr ''state'' (StrV (if current_open s then ''expanded'' else ''collapsed'')),
          Attr ''open'' (BoolV (current_open s)),
          Attr ''setOpen'' (FunV ''setOpen'' []),
          Attr ''isMobile'' (BoolV (sb_isMobile s)),
          Attr ''openMobile'' (BoolV (sb_openMobile s)),
          Attr ''setOpenMobile'' (FunV ''setOpenMobile'' []),
          Attr ''toggleSidebar'' (FunV ''toggleSidebar'' [])]"

definition SidebarProvider :: "sidebar_provider \<Rightarrow> ui_component" where
  \<open>SidebarProvider s lib ps =
    (let className = read_prop ''className'' ps;
         style = read_prop ''style'' ps;
         children = read_prop ''children'' ps;
         props = rest [''defaultOpen'', ''open'', ''onOpenChange'', ''className'', ''style'', ''children''] ps
     in jsx ''SidebarContext.Provider'' [Attr ''value'' (ObjV (sidebar_context s))]
         [jsx ''TooltipProvider'' [Attr ''delayDuration'' (NumV (Fin 0))]
           [jsx ''div''
             [Attr ''data-slot'' (StrV ''sidebar-wrapper''),
              Attr ''style'' (ObjV (obj [Attr ''--sidebar-width'' (StrV SIDEBAR_WIDTH),
                Attr ''--sidebar-width-icon'' (StrV SIDEBAR_WIDTH_ICON), Spread (spread_fields style)])),
              Attr ''className'' (cn lib [StrV ''group/sidebar-wrapper has-data-[variant=inset]:bg-sidebar flex min-h-svh w-full'', className]),
              Spread props]
             [children]]])\<close>

definition Sidebar :: "props \<Rightarrow> ui_component" where
  \<open>Sidebar ctx lib ps =
    (let side = or_default (StrV ''left'') (read_prop ''side'' ps);
         variant = or_default (StrV ''sidebar'') (read_prop ''variant'' ps);
         collapsible = or_default (StrV ''offcanvas'') (read_prop ''collapsible'' ps);
         className = read_prop ''className'' ps;
         children = read_prop ''children'' ps;
         props = rest [''side'', ''variant'', ''collapsible'', ''className'', ''children''] ps;
         isMobile = read_prop ''isMobile'' ctx;
         state' = read_prop ''state'' ctx;
         openMobile = read_prop ''openMobile'' ctx;
         setOpenMobile = read_prop ''setOpenMobile'' ctx
     in (if truthy (BoolV (strict_eq collapsible (StrV ''none'')))
         then (jsx ''div''
               [Attr ''data-slot'' (StrV ''sidebar''),
                 Attr ''className'' (cn lib [StrV ''bg-sidebar text-sidebar-foreground flex h-full w-(--sidebar-width) flex-col'',
                     className]),
                 Spread props]
               [children])
         else ((if truthy isMobile
               then (jsx ''Sheet''
                     [Attr ''open'' openMobile,
                       Attr ''onOpenChange'' setOpenMobile,
                       Spread props]
                     [jsx ''SheetContent''
                        [Attr ''data-sidebar'' (StrV ''sidebar''),
                          Attr ''data-slot'' (StrV ''sidebar''),
                          Attr ''data-mobile'' (StrV ''true''),
                          Attr ''className'' (StrV ''bg-sidebar text-sidebar-foreground w-(--sidebar-width) p-0 [&>button]:hidden''),
                          Attr ''style'' (ObjV (obj [Attr ''--sidebar-width'' (StrV SIDEBAR_WIDTH_MOBILE)])),
                          Attr ''side'' side]
                        [jsx ''SheetHeader''
                           [Attr ''className'' (StrV ''sr-only'')]
                           [jsx ''SheetTitle''
                              []
                              [StrV ''Sidebar''],
                             jsx ''SheetDescription''
                              []
                              [StrV ''Displays the mobile sidebar.'']],
                          jsx ''div''
                           [Attr ''className'' (StrV ''flex h-full w-full flex-col'')]
                           [children]]])
               else (jsx ''div''
                     [Attr ''className'' (StrV ''group peer text-sidebar-foreground hidden md:block''),
                       Attr ''data-state'' state',
                       Attr ''data-collapsible'' ((if truthy (BoolV (strict_eq state' (StrV ''collapsed''))) then collapsible else StrV [])),
                       Attr ''data-variant'' variant,
                       Attr ''data-side'' side,
                       Attr ''data-slot'' (StrV ''sidebar'')]
                     [jsx ''div''
                        [Attr ''data-slot'' (StrV ''sidebar-gap''),
                          Attr ''className'' (cn lib [StrV ''relative w-(--sidebar-width) bg-transparent transition-[width] duration-200 ease-linear'',
                              StrV ''group-data-[collapsible=offcanvas]:w-0'',
                              StrV ''group-data-[side=right]:rotate-180'',
                              (if truthy (js_or (BoolV (strict_eq variant (StrV ''floating''))) (BoolV (strict_eq variant (StrV ''inset'')))) then StrV ''group-data-[collapsible=icon]:w-[calc(var(--sidebar-width-icon)+(--spacing(4)))]'' else StrV ''group-data-[collapsible=icon]:w-(--sidebar-width-icon)'')])]
                        [],
                       jsx ''div''
                        [Attr ''data-slot'' (StrV ''sidebar-container''),
                          Attr ''className'' (cn lib [StrV ''fixed inset-y-0 z-10 hidden h-svh w-(--sidebar-width) transition-[left,right,width] duration-200 ease-linear md:flex'',
                              (if truthy (BoolV (strict_eq side (StrV ''left''))) then StrV ''left-0 group-data-[collapsible=offcanvas]:left-[calc(var(--sidebar-width)*-1)]'' else StrV ''right-0 group-data-[collapsible=offcanvas]:right-[calc(var(--sidebar-width)*-1)]''),
                              (if truthy (js_or (BoolV (strict_eq variant (StrV ''floating''))) (BoolV (strict_eq variant (StrV ''inset'')))) then StrV ''p-2 group-data-[collapsible=icon]:w-[calc(var(--sidebar-width-icon)+(--spacing(4))+2px)]'' else StrV ''group-data-[collapsible=icon]:w-(--sidebar-width-icon) group-data-[side=left]:border-r group-data-[side=right]:border-l''),
                              className]),
                          Spread props]
                        [jsx ''div''
                           [Attr ''data-sidebar'' (StrV ''sidebar''),
                             Attr ''data-slot'' (StrV ''sidebar-inner''),
                             Attr ''className'' (StrV ''bg-sidebar group-data-[variant=floating]:border-sidebar-border flex h-full w-full flex-col group-data-[variant=floating]:rounded-lg group-data-[variant=floating]:border group-data-[variant=floating]:shadow-sm'')]
                           [children]]])))))\<close>

definition SidebarTrigger :: "props \<Rightarrow> ui_component" where
  \<open>SidebarTrigger ctx lib ps =
    (let className = read_prop ''className'' ps;
         onClick = read_prop ''onClick'' ps;
         props = rest [''className'', ''onClick''] ps;
         toggleSidebar = read_prop ''toggleSidebar'' ctx
     in jsx ''Button''
         [Attr ''data-sidebar'' (StrV ''trigger''),
           Attr ''data-slot'' (StrV ''sidebar-trigger''),
           Attr ''variant'' (StrV ''ghost''),
           Attr ''size'' (StrV ''icon''),
           Attr ''className'' (cn lib [StrV ''size-7'',
               className]),
           Attr ''onClick'' (FunV ''SidebarTrigger.onClick'' [onClick, toggleSidebar]),
           Spread props]
         [jsx ''PanelLeftIcon''
            []
            [],
           jsx ''span''
            [Attr ''className'' (StrV ''sr-only'')]
            [StrV ''Toggle Sidebar'']])\<close>

definition SidebarRail :: "props \<Rightarrow> ui_component" where
  \<open>SidebarRail ctx lib ps =
    (let className = read_prop ''className'' ps;
         props = rest [''className''] ps;
         toggleSidebar = read_prop ''toggleSidebar'' ctx
     in jsx ''button''
         [Attr ''data-sidebar'' (StrV ''rail''),
           Attr ''data-slot'' (StrV ''sidebar-rail''),
           Attr ''aria-label'' (StrV ''Toggle Sidebar''),
           Attr ''tabIndex'' (NumV (Fin (- 1))),
           Attr ''onClick'' toggleSidebar,
           Attr ''title'' (StrV ''Toggle Sidebar''),
           Attr ''className'' (cn lib [StrV ''hover:after:bg-sidebar-border absolute inset-y-0 z-20 hidden w-4 -translate-x-1/2 transition-all ease-linear group-data-[side=left]:-right-4 group-data-[side=right]:left-0 after:absolute after:inset-y-0 after:left-1/2 after:w-[2px] sm:flex'',
               StrV ''in-data-[side=left]:cursor-w-resize in-data-[side=right]:cursor-e-resize'',
               StrV ''[[data-side=left][data-state=collapsed]_&]:cursor-e-resize [[data-side=right][data-state=collapsed]_&]:cursor-w-resize'',
               StrV ''hover:group-data-[collapsible=offcanvas]:bg-sidebar group-data-[collapsible=offcanvas]:translate-x-0 group-data-[collapsible=offcanvas]:after:left-full'',
               StrV ''[[data-side=left][data-collapsible=offcanvas]_&]:-right-2'',
               StrV ''[[data-side=right][data-collapsible=offcanvas]_&]:-left-2'',
               className]),
           Spread props]
         [])\<close>

definition SidebarInset :: ui_component where
  \<open>SidebarInset lib ps =
    (let className = read_prop ''className'' ps;
         props = rest [''className''] ps
     in jsx ''main''
         [Attr ''data-slot'' (StrV ''sidebar-inset''),
           Attr ''className'' (cn lib [StrV ''bg-background relative flex w-full flex-1 flex-col'',
               StrV ''md:peer-data-[variant=inset]:m-2 md:peer-data-[variant=inset]:ml-0 md:peer-data-[variant=inset]:rounded-xl md:peer-data-[variant=inset]:shadow-sm md:peer-data-[variant=inset]:peer-data-[state=collapsed]:ml-2'',
               className]),
           Spread props]
         [])\<close>

definition SidebarInput :: ui_component where
  \<open>SidebarInput lib ps =
    (let className = read_prop ''className'' ps;
         props = rest [''className''] ps
     in jsx ''Input''
         [Attr ''data-slot'' (StrV ''sidebar-input''),
           Attr ''data-sidebar'' (StrV ''input''),
           Attr ''className'' (cn lib [StrV ''bg-background h-8 w-full shadow-none'',
               className]),
           Spread props]
         [])\<close>

definition SidebarHeader :: ui_component where
  \<open>SidebarHeader lib ps =
    (let className = read_prop ''className'' ps;
         props = rest [''className''] ps
     in jsx ''div''
         [Attr ''data-slot'' (StrV ''sidebar-header''),
           Attr ''data-sidebar'' (StrV ''header''),
           Attr ''className'' (cn lib [StrV ''flex flex-col gap-2 p-2'',
               className]),
           Spread props]
         [])\<close>

definition SidebarFooter :: ui_component where
  \<open>SidebarFooter lib ps =
    (let className = read_prop ''className'' ps;
         props = rest [''className''] ps
     in jsx ''div''
         [Attr ''data-slot'' (StrV ''sidebar-footer''),
           Attr ''data-sidebar'' (StrV ''footer''),
           Attr ''className'' (cn lib [StrV ''flex flex-col gap-2 p-2'',
               className]),
           Spread props]
         [])\<close>

definition SidebarSeparator :: ui_component where
  \<open>SidebarSeparator lib ps =
    (let className = read_prop ''className'' ps;
         props = rest [''className''] ps
     in jsx ''Separator''
         [Attr ''data-slot'' (StrV ''sidebar-separator''),
           Attr ''data-sidebar'' (StrV ''separator''),
           Attr ''className'' (cn lib [StrV ''bg-sidebar-border mx-2 w-auto'',
               className]),
           Spread props]
         [])\<close>

definition SidebarContent :: ui_component where
  \<open>SidebarContent lib ps =
    (let className = read_prop ''className'' ps;
         props = rest [''className''] ps
     in jsx ''div''
         [Attr ''data-slot'' (StrV ''sidebar-content''),
           Attr ''data-sidebar'' (StrV ''content''),
           Attr ''className'' (cn lib [StrV ''flex min-h-0 flex-1 flex-col gap-2 overflow-auto group-data-[collapsible=icon]:overflow-hidden'',
               className]),
           Spread props]
         [])\<close>

definition SidebarGroup :: ui_component where
  \<open>SidebarGroup lib ps =
    (let className = read_prop ''className'' ps;
         props = rest [''className''] ps
     in jsx ''div''
         [Attr ''data-slot'' (StrV ''sidebar-group''),
           Attr ''data-sidebar'' (StrV ''group''),
           Attr ''className'' (cn lib [StrV ''relative flex w-full min-w-0 flex-col p-2'',
               className]),
           Spread props]
         [])\<close>

definition SidebarGroupLabel :: ui_component where
  \<open>SidebarGroupLabel lib ps =
    (let className = read_prop ''className'' ps;
         asChild = or_default (BoolV False) (read_prop ''asChild'' ps);
         props = rest [''className'', ''asChild''] ps;
         Comp = (if truthy asChild then ''Slot'' else ''div'')
     in jsx Comp
         [Attr ''data-slot'' (StrV ''sidebar-group-label''),
           Attr ''data-sidebar'' (StrV ''group-label''),
           Attr ''className'' (cn lib [StrV ''text-sidebar-foreground/70 ring-sidebar-ring flex h-8 shrink-0 items-center rounded-md px-2 text-xs font-medium outline-hidden transition-[margin,opacity] duration-200 ease-linear focus-visible:ring-2 [&>svg]:size-4 [&>svg]:shrink-0'',
               StrV ''group-data-[collapsible=icon]:-mt-8 group-data-[collapsible=icon]:opacity-0'',
               className]),
           Spread props]
         [])\<close>

definition SidebarGroupAction :: ui_component where
  \<open>SidebarGroupAction lib ps =
    (let className = read_prop ''className'' ps;
         asChild = or_default (BoolV False) (read_prop ''asChild'' ps);
         props = rest [''className'', ''asChild''] ps;
         Comp = (if truthy asChild then ''Slot'' else ''button'')
     in jsx Comp
         [Attr ''data-slot'' (StrV ''sidebar-group-action''),
           Attr ''data-sidebar'' (StrV ''group-action''),
           Attr ''className'' (cn lib [StrV ''text-sidebar-foreground ring-sidebar-ring hover:bg-sidebar-accent hover:text-sidebar-accent-foreground absolute top-3.5 right-3 flex aspect-square w-5 items-center justify-center rounded-md p-0 outline-hidden transition-transform focus-visible:ring-2 [&>svg]:size-4 [&>svg]:shrink-0'',
               StrV ''after:absolute after:-inset-2 md:after:hidden'',
               StrV ''group-data-[collapsible=icon]:hidden'',
               className]),
           Spread props]
         [])\<close>

definition SidebarGroupContent :: ui_component where
  \<open>SidebarGroupContent lib ps =
    (let className = read_prop ''className'' ps;
         props = rest [''className''] ps
     in jsx ''div''
         [Attr ''data-slot'' (StrV ''sidebar-group-content''),
           Attr ''data-sidebar'' (StrV ''group-content''),
           Attr ''className'' (cn lib [StrV ''w-full text-sm'',
               className]),
           Spread props]
         [])\<close>

definition SidebarMenu :: ui_component where
  \<open>SidebarMenu lib ps =
    (let className = read_prop ''className'' ps;
         props = rest [''className''] ps
     in jsx ''ul''
         [Attr ''data-slot'' (StrV ''sidebar-menu''),
           Attr ''data-sidebar'' (StrV ''menu''),
           Attr ''className'' (cn lib [StrV ''flex w-full min-w-0 flex-col gap-1'',
               className]),
           Spread props]
         [])\<close>

definition SidebarMenuItem :: ui_component where
  \<open>SidebarMenuItem lib ps =
    (let className = read_prop ''className'' ps;
         props = rest [''className''] ps
     in jsx ''li''
         [Attr ''data-slot'' (StrV ''sidebar-menu-item''),
           Attr ''data-sidebar'' (StrV ''menu-item''),
           Attr ''className'' (cn lib [StrV ''group/menu-item relative'',
               className]),
           Spread props]
         [])\<close>

definition sidebarMenuButtonVariants :: "ui_lib \<Rightarrow> ui_value \<Rightarrow> ui_value" where
  \<open>sidebarMenuButtonVariants lib v = StrV (cva lib
    (StrV ''peer/menu-button flex w-full items-center gap-2 overflow-hidden rounded-md p-2 text-left text-sm outline-hidden ring-sidebar-ring transition-[width,height,padding] hover:bg-sidebar-accent hover:text-sidebar-accent-foreground focus-visible:ring-2 active:bg-sidebar-accent active:text-sidebar-accent-foreground disabled:pointer-events-none disabled:opacity-50 group-has-data-[sidebar=menu-action]/menu-item:pr-8 aria-disabled:pointer-events-none aria-disabled:opacity-50 data-[active=true]:bg-sidebar-accent data-[active=true]:font-medium data-[active=true]:text-sidebar-accent-foreground data-[state=open]:hover:bg-sidebar-accent data-[state=open]:hover:text-sidebar-accent-foreground group-data-[collapsible=icon]:size-8! group-data-[collapsible=icon]:p-2! [&>span:last-child]:truncate [&>svg]:size-4 [&>svg]:shrink-0'')
    (ObjV (obj [Attr ''variants'' (ObjV (obj [Attr ''variant'' (ObjV (obj [Attr ''default'' (StrV ''hover:bg-sidebar-accent hover:text-sidebar-accent-foreground''), Attr ''outline'' (StrV ''bg-background shadow-[0_0_0_1px_hsl(var(--sidebar-border))] hover:bg-sidebar-accent hover:text-sidebar-accent-foreground hover:shadow-[0_0_0_1px_hsl(var(--sidebar-accent))]'')])), Attr ''size'' (ObjV (obj [Attr ''default'' (StrV ''h-8 text-sm''), Attr ''sm'' (StrV ''h-7 text-xs''), Attr ''lg'' (StrV ''h-12 text-sm group-data-[collapsible=icon]:p-0!'')]))])), Attr ''defaultVariants'' (ObjV (obj [Attr ''variant'' (StrV ''default''), Attr ''size'' (StrV ''default'')]))]))
    v)\<close>

definition SidebarMenuAction :: ui_component where
  \<open>SidebarMenuAction lib ps =
    (let className = read_prop ''className'' ps;
         asChild = or_default (BoolV False) (read_prop ''asChild'' ps);
         showOnHover = or_default (BoolV False) (read_prop ''showOnHover'' ps);
         props = rest [''className'', ''asChild'', ''showOnHover''] ps;
         Comp = (if truthy asChild then ''Slot'' else ''button'')
     in jsx Comp
         [Attr ''data-slot'' (StrV ''sidebar-menu-action''),
           Attr ''data-sidebar'' (StrV ''menu-action''),
           Attr ''className'' (cn lib [StrV ''text-sidebar-foreground ring-sidebar-ring hover:bg-sidebar-accent hover:text-sidebar-accent-foreground peer-hover/menu-button:text-sidebar-accent-foreground absolute top-1.5 right-1 flex aspect-square w-5 items-center justify-center rounded-md p-0 outline-hidden transition-transform focus-visible:ring-2 [&>svg]:size-4 [&>svg]:shrink-0'',
               StrV ''after:absolute after:-inset-2 md:after:hidden'',
               StrV ''peer-data-[size=sm]/menu-button:top-1'',
               StrV ''peer-data-[size=default]/menu-button:top-1.5'',
               StrV ''peer-data-[size=lg]/menu-button:top-2.5'',
               StrV ''group-data-[collapsible=icon]:hidden'',
               js_and showOnHover (StrV ''peer-data-[active=true]/menu-button:text-sidebar-accent-foreground group-focus-within/menu-item:opacity-100 group-hover/menu-item:opacity-100 data-[state=open]:opacity-100 md:opacity-0''),
               className]),
           Spread props]
         [])\<close>

definition SidebarMenuBadge :: ui_component where
  \<open>SidebarMenuBadge lib ps =
    (let className = read_prop ''className'' ps;
         props = rest [''className''] ps
     in jsx ''div''
         [Attr ''data-slot'' (StrV ''sidebar-menu-badge''),
           Attr ''data-sidebar'' (StrV ''menu-badge''),
           Attr ''className'' (cn lib [StrV ''text-sidebar-foreground pointer-events-none absolute right-1 flex h-5 min-w-5 items-center justify-center rounded-md px-1 text-xs font-medium tabular-nums select-none'',
               StrV ''peer-hover/menu-button:text-sidebar-accent-foreground peer-data-[active=true]/menu-button:text-sidebar-accent-foreground'',
               StrV ''peer-data-[size=sm]/menu-button:top-1'',
               StrV ''peer-data-[size=default]/menu-button:top-1.5'',
               StrV ''peer-data-[size=lg]/menu-button:top-2.5'',
               StrV ''group-data-[collapsible=icon]:hidden'',
               className]),
           Spread props]
         [])\<close>

definition SidebarMenuSub :: ui_component where
  \<open>SidebarMenuSub lib ps =
    (let className = read_prop ''className'' ps;
         props = rest [''className''] ps
     in jsx ''ul''
         [Attr ''data-slot'' (StrV ''sidebar-menu-sub''),
           Attr ''data-sidebar'' (StrV ''menu-sub''),
           Attr ''className'' (cn lib [StrV ''border-sidebar-border mx-3.5 flex min-w-0 translate-x-px flex-col gap-1 border-l px-2.5 py-0.5'',
               StrV ''group-data-[collapsible=icon]:hidden'',
               className]),
           Spread props]
         [])\<close>

definition SidebarMenuSubItem :: ui_component where
  \<open>SidebarMenuSubItem lib ps =
    (let className = read_prop ''className'' ps;
         props = rest [''className''] ps
     in jsx ''li''
         [Attr ''data-slot'' (StrV ''sidebar-menu-sub-item''),
           Attr ''data-sidebar'' (StrV ''menu-sub-item''),
           Attr ''className'' (cn lib [StrV ''group/menu-sub-item relative'',
               className]),
           Spread props]
         [])\<close>

definition SidebarMenuSubButton :: ui_component where
  \<open>SidebarMenuSubButton lib ps =
    (let asChild = or_default (BoolV False) (read_prop ''asChild'' ps);
         size' = or_default (StrV ''md'') (read_prop ''size'' ps);
         isActive = or_default (BoolV False) (read_prop ''isActive'' ps);
         className = read_prop ''className'' ps;
         props = rest [''asChild'', ''size'', ''isActive'', ''className''] ps;
         Comp = (if truthy asChild then ''Slot'' else ''a'')
     in jsx Comp
         [Attr ''data-slot'' (StrV ''sidebar-menu-sub-button''),
           Attr ''data-sidebar'' (StrV ''menu-sub-button''),
           Attr ''data-size'' size',
           Attr ''data-active'' isActive,
           Attr ''className'' (cn lib [StrV ''text-sidebar-foreground ring-sidebar-ring hover:bg-sidebar-accent hover:text-sidebar-accent-foreground active:bg-sidebar-accent active:text-sidebar-accent-foreground [&>svg]:text-sidebar-accent-foreground flex h-7 min-w-0 -translate-x-px items-center gap-2 overflow-hidden rounded-md px-2 outline-hidden focus-visible:ring-2 disabled:pointer-events-none disabled:opacity-50 aria-disabled:pointer-events-none aria-disabled:opacity-50 [&>span:last-child]:truncate [&>svg]:size-4 [&>svg]:shrink-0'',
               StrV ''data-[active=true]:bg-sidebar-accent data-[active=true]:text-sidebar-accent-foreground'',
               js_and (BoolV (strict_eq size' (StrV ''sm''))) (StrV ''text-xs''),
               js_and (BoolV (strict_eq size' (StrV ''md''))) (StrV ''text-sm''),
               StrV ''group-data-[collapsible=icon]:hidden'',
               className]),
           Spread props]
         [])\<close>

text \<open>The functions the trigger's click handler calls, in order.\<close>

definition SidebarTrigger_onClick :: "ui_value \<Rightarrow> ui_value \<Rightarrow> ui_value list" where
  "SidebarTrigger_onClick onClick toggle =
     (if onClick = UndefV \<or> onClick = NullV then [] else [onClick]) @ [toggle]"

definition SidebarMenuButton :: "props \<Rightarrow> ui_component" where
  \<open>SidebarMenuButton ctx lib ps =
    (let asChild = or_default (BoolV False) (read_prop ''asChild'' ps);
         isActive = or_default (BoolV False) (read_prop ''isActive'' ps);
         variant = or_default (StrV ''default'') (read_prop ''variant'' ps);
         size' = or_default (StrV ''default'') (read_prop ''size'' ps);
         tooltip = read_prop ''tooltip'' ps;
         className = read_prop ''className'' ps;
         props = rest [''asChild'', ''isActive'', ''variant'', ''size'', ''tooltip'', ''className''] ps;
         Comp = (if truthy asChild then ''Slot'' else ''button'');
         isMobile = read_prop ''isMobile'' ctx;
         state' = read_prop ''state'' ctx;
         button = jsx Comp
           [Attr ''data-slot'' (StrV ''sidebar-menu-button''),
            Attr ''data-sidebar'' (StrV ''menu-button''),
            Attr ''data-size'' size',
            Attr ''data-active'' isActive,
            Attr ''className'' (cn lib [sidebarMenuButtonVariants lib (ObjV (obj [Attr ''variant'' variant, Attr ''size'' size'])), className]),
            Spread props]
           []
     in (if \<not> truthy tooltip then button
         else
           (let tooltip = (case tooltip of StrV t \<Rightarrow> ObjV (obj [Attr ''children'' tooltip]) | _ \<Rightarrow> tooltip)
            in jsx ''Tooltip'' []
                [jsx ''TooltipTrigger'' [Attr ''asChild'' (BoolV True)] [button],
                 jsx ''TooltipContent''
                   [Attr ''side'' (StrV ''right''),
                    Attr ''align'' (StrV ''center''),
                    Attr ''hidden'' (js_or (BoolV (\<not> strict_eq state' (StrV ''collapsed''))) isMobile),
                    Spread (spread_fields tooltip)]
                   []])))\<close>

text \<open>\<open>random\<close> is what \<open>Math.random()\<close> returned at the first render.\<close>

definition SidebarMenuSkeleton :: "number \<Rightarrow> ui_component" where
  \<open>SidebarMenuSkeleton random lib ps =
    (let className = read_prop ''className'' ps;
         showIcon = or_default (BoolV False) (read_prop ''showIcon'' ps);
         props = rest [''className'', ''showIcon''] ps;
         width = StrV (num_text (num_add (num_floor (num_mul random (Fin 40))) (Fin 50)) @ ''%'')
     in jsx ''div''
         [Attr ''data-slot'' (StrV ''sidebar-menu-skeleton''),
          Attr ''data-sidebar'' (StrV ''menu-skeleton''),
          Attr ''className'' (cn lib [StrV ''flex h-8 items-center gap-2 rounded-md px-2'', className]),
          Spread props]
         [js_and showIcon (jsx ''Skeleton''
            [Attr ''className'' (StrV ''size-4 rounded-md''), Attr ''data-sidebar'' (StrV ''menu-skeleton-icon'')] []),
          jsx ''Skeleton''
            [Attr ''className'' (StrV ''h-4 max-w-(--skeleton-width) flex-1''),
             Attr ''data-sidebar'' (StrV ''menu-skeleton-text''),
             Attr ''style'' (ObjV (obj [Attr ''--skeleton-width'' width]))]
            []])\<close>

subsection \<open>Which parts are slotted\<close>

interpretation SidebarInset_part: slotted "SidebarInset lib" "[''className'']" "''sidebar-inset''" for lib
  by (rule slotted_intro, unfold SidebarInset_def Let_def, intro exI conjI, rule refl) simp_all

interpretation SidebarInput_part: slotted "SidebarInput lib" "[''className'']" "''sidebar-input''" for lib
  by (rule slotted_intro, unfold SidebarInput_def Let_def, intro exI conjI, rule refl) simp_all

interpretation SidebarHeader_part: slotted "SidebarHeader lib" "[''className'']" "''sidebar-header''" for lib
  by (rule slotted_intro, unfold SidebarHeader_def Let_def, intro exI conjI, rule refl) simp_all

interpretation SidebarFooter_part: slotted "SidebarFooter lib" "[''className'']" "''sidebar-footer''" for lib
  by (rule slotted_intro, unfold SidebarFooter_def Let_def, intro exI conjI, rule refl) simp_all

interpretation SidebarSeparator_part: slotted "SidebarSeparator lib" "[''className'']" "''sidebar-separator''" for lib
  by (rule slotted_intro, unfold SidebarSeparator_def Let_def, intro exI conjI, rule refl) simp_all

interpretation SidebarContent_part: slotted "SidebarContent lib" "[''className'']" "''sidebar-content''" for lib
  by (rule slotted_intro, unfold SidebarContent_def Let_def, intro exI conjI, rule refl) simp_all

interpretation SidebarGroup_part: slotted "SidebarGroup lib" "[''className'']" "''sidebar-group''" for lib
  by (rule slotted_intro, unfold SidebarGroup_def Let_def, intro exI conjI, rule refl) simp_all

interpretation SidebarGroupLabel_part: slotted "SidebarGroupLabel lib" "[''className'', ''asChild'']" "''sidebar-group-label''" for lib
  by (rule slotted_intro, unfold SidebarGroupLabel_def Let_def, intro exI conjI, rule refl) simp_all

interpretation SidebarGroupAction_part: slotted "SidebarGroupAction lib" "[''className'', ''asChild'']" "''sidebar-group-action''" for lib
  by (rule slotted_intro, unfold SidebarGroupAction_def Let_def, intro exI conjI, rule refl) simp_all

interpretation SidebarGroupContent_part: slotted "SidebarGroupContent lib" "[''className'']" "''sidebar-group-content''" for lib
  by (rule slotted_intro, unfold SidebarGroupContent_def Let_def, intro exI conjI, rule refl) simp_all

interpretation SidebarMenu_part: slotted "SidebarMenu lib" "[''className'']" "''sidebar-menu''" for lib
  by (rule slotted_intro, unfold SidebarMenu_def Let_def, intro exI conjI, rule refl) simp_all

interpretation SidebarMenuItem_part: slotted "SidebarMenuItem lib" "[''className'']" "''sidebar-menu-item''" for lib
  by (rule slotted_intro, unfold SidebarMenuItem_def Let_def, intro exI conjI, rule refl) simp_all

interpretation SidebarMenuAction_part: slotted "SidebarMenuAction lib" "[''className'', ''asChild'', ''showOnHover'']" "''sidebar-menu-action''" for lib
  by (rule slotted_intro, unfold SidebarMenuAction_def Let_def, intro exI conjI, rule refl) simp_all

interpretation SidebarMenuBadge_part: slotted "SidebarMenuBadge lib" "[''className'']" "''sidebar-menu-badge''" for lib
  by (rule slotted_intro, unfold SidebarMenuBadge_def Let_def, intro exI conjI, rule refl) simp_all

interpretation SidebarMenuSub_part: slotted "SidebarMenuSub lib" "[''className'']" "''sidebar-menu-sub''" for lib
  by (rule slotted_intro, unfold SidebarMenuSub_def Let_def, intro exI conjI, rule refl) simp_all

interpretation SidebarMenuSubItem_part: slotted "SidebarMenuSubItem lib" "[''className'']" "''sidebar-menu-sub-item''" for lib
  by (rule slotted_intro, unfold SidebarMenuSubItem_def Let_def, intro exI conjI, rule refl) simp_all

interpretation SidebarMenuSubButton_part: slotted "SidebarMenuSubButton lib" "[''asChild'', ''size'', ''isActive'', ''className'']" "''sidebar-menu-sub-button''" for lib
  by (rule slotted_intro, unfold SidebarMenuSubButton_def Let_def, intro exI conjI, rule refl) simp_all

definition uiSidebar_parts :: "ui_lib \<Rightarrow> ((props \<Rightarrow> ui_value) \<times> string list \<times> string) list" where
  "uiSidebar_parts lib =
    [(SidebarInset lib, [''className''], ''sidebar-inset''),
     (SidebarInput lib, [''className''], ''sidebar-input''),
     (SidebarHeader lib, [''className''], ''sidebar-header''),
     (SidebarFooter lib, [''className''], ''sidebar-footer''),
     (SidebarSeparator lib, [''className''], ''sidebar-separator''),
     (SidebarContent lib, [''className''], ''sidebar-content''),
     (SidebarGroup lib, [''className''], ''sidebar-group''),
     (SidebarGroupLabel lib, [''className'', ''asChild''], ''sidebar-group-label''),
     (SidebarGroupAction lib, [''className'', ''asChild''], ''sidebar-group-action''),
     (SidebarGroupContent lib, [''className''], ''sidebar-group-content''),
     (SidebarMenu lib, [''className''], ''sidebar-menu''),
     (SidebarMenuItem lib, [''className''], ''sidebar-menu-item''),
     (SidebarMenuAction lib, [''className'', ''asChild'', ''showOnHover''], ''sidebar-menu-action''),
     (SidebarMenuBadge lib, [''className''], ''sidebar-menu-badge''),
     (SidebarMenuSub lib, [''className''], ''sidebar-menu-sub''),
     (SidebarMenuSubItem lib, [''className''], ''sidebar-menu-sub-item''),
     (SidebarMenuSubButton lib, [''asChild'', ''size'', ''isActive'', ''className''], ''sidebar-menu-sub-button'')]"

lemma uiSidebar_parts_slotted: "list_all (\<lambda>(f, own, slot). slotted f own slot) (uiSidebar_parts lib)"
  unfolding uiSidebar_parts_def list.pred_inject prod.case
  by (intro conjI list.pred_inject(1) SidebarInset_part.slotted_axioms
    SidebarInput_part.slotted_axioms
    SidebarHeader_part.slotted_axioms
    SidebarFooter_part.slotted_axioms
    SidebarSeparator_part.slotted_axioms
    SidebarContent_part.slotted_axioms
    SidebarGroup_part.slotted_axioms
    SidebarGroupLabel_part.slotted_axioms
    SidebarGroupAction_part.slotted_axioms
    SidebarGroupContent_part.slotted_axioms
    SidebarMenu_part.slotted_axioms
    SidebarMenuItem_part.slotted_axioms
    SidebarMenuAction_part.slotted_axioms
    SidebarMenuBadge_part.slotted_axioms
    SidebarMenuSub_part.slotted_axioms
    SidebarMenuSubItem_part.slotted_axioms
    SidebarMenuSubButton_part.slotted_axioms)

end
