(* ===== verification/UiFields.thy ===== *)
theory UiFields
  imports UiControls
begin

text \<open>
  Form fields and the carousel of \<open>Frontend/components/ui\<close>, whose parts read a context. Each definition is the component of that name;
  the interpretations show which of them keep the contract of a slotted part.
\<close>

subsection \<open>\<open>form.tsx\<close>\<close>

text \<open>
  The parts of a form field around the \<open>react-hook-form\<close> package. \<open>useFormField\<close> joins the two contexts
  of the field and the state the package keeps for it, an object with the field's \<open>error\<close>.
\<close>

definition Form :: string where
  "Form = ''FormProvider''"

definition FormField :: "props \<Rightarrow> ui_value" where
  \<open>FormField ps =
    (let props = ps
     in jsx ''FormFieldContext.Provider'' [Attr ''value'' (ObjV (obj [Attr ''name'' (read_prop ''name'' props)]))]
         [jsx ''Controller'' [Spread props] []])\<close>

text \<open>
  \<open>getFieldState\<close> is the package's, a function of the field's name. The guard of the source comes after
  the context has been read and is never taken: the context's default is an empty object.
\<close>

definition useFormField :: "props \<Rightarrow> props \<Rightarrow> (ui_value \<Rightarrow> props) \<Rightarrow> string + props" where
  "useFormField fieldContext itemContext getFieldState =
     (let fieldState = getFieldState (read_prop ''name'' fieldContext)
      in if \<not> truthy (ObjV fieldContext) then Inl ''useFormField should be used within <FormField>''
         else
           (let id' = read_prop ''id'' itemContext
            in Inr (obj
                 [Attr ''id'' id',
                  Attr ''name'' (read_prop ''name'' fieldContext),
                  Attr ''formItemId'' (StrV (to_text id' @ ''-form-item'')),
                  Attr ''formDescriptionId'' (StrV (to_text id' @ ''-form-item-description'')),
                  Attr ''formMessageId'' (StrV (to_text id' @ ''-form-item-message'')),
                  Spread fieldState])))"

text \<open>\<open>useId\<close> is the id React generates for the item.\<close>

definition FormItem :: "string \<Rightarrow> ui_component" where
  \<open>FormItem useId lib ps =
    (let className = read_prop ''className'' ps;
         props = rest [''className''] ps;
         id' = StrV useId
     in jsx ''FormItemContext.Provider'' [Attr ''value'' (ObjV (obj [Attr ''id'' id']))]
         [jsx ''div''
           [Attr ''data-slot'' (StrV ''form-item''),
            Attr ''className'' (cn lib [StrV ''grid gap-2'', className]),
            Spread props]
           []])\<close>

definition FormLabel :: "props \<Rightarrow> ui_component" where
  \<open>FormLabel ctx lib ps =
    (let className = read_prop ''className'' ps;
         props = rest [''className''] ps;
         error = read_prop ''error'' ctx;
         formItemId = read_prop ''formItemId'' ctx
     in jsx ''Label''
         [Attr ''data-slot'' (StrV ''form-label''),
           Attr ''data-error'' (BoolV (\<not> truthy (BoolV (\<not> truthy error)))),
           Attr ''className'' (cn lib [StrV ''data-[error=true]:text-destructive'',
               className]),
           Attr ''htmlFor'' formItemId,
           Spread props]
         [])\<close>

definition FormControl :: "props \<Rightarrow> ui_component" where
  \<open>FormControl ctx lib ps =
    (let props = ps;
         error = read_prop ''error'' ctx;
         formItemId = read_prop ''formItemId'' ctx;
         formDescriptionId = read_prop ''formDescriptionId'' ctx;
         formMessageId = read_prop ''formMessageId'' ctx
     in jsx ''Slot''
         [Attr ''data-slot'' (StrV ''form-control''),
           Attr ''id'' formItemId,
           Attr ''aria-describedby'' ((if truthy (BoolV (\<not> truthy error)) then StrV (to_text formDescriptionId) else StrV (to_text formDescriptionId @ '' '' @ to_text formMessageId))),
           Attr ''aria-invalid'' (BoolV (\<not> truthy (BoolV (\<not> truthy error)))),
           Spread props]
         [])\<close>

definition FormDescription :: "props \<Rightarrow> ui_component" where
  \<open>FormDescription ctx lib ps =
    (let className = read_prop ''className'' ps;
         props = rest [''className''] ps;
         formDescriptionId = read_prop ''formDescriptionId'' ctx
     in jsx ''p''
         [Attr ''data-slot'' (StrV ''form-description''),
           Attr ''id'' formDescriptionId,
           Attr ''className'' (cn lib [StrV ''text-muted-foreground text-sm'',
               className]),
           Spread props]
         [])\<close>

definition FormMessage :: "props \<Rightarrow> ui_component" where
  \<open>FormMessage ctx lib ps =
    (let className = read_prop ''className'' ps;
         props = rest [''className''] ps;
         error = read_prop ''error'' ctx;
         formMessageId = read_prop ''formMessageId'' ctx;
         body' = (if truthy error then StrV (to_text (js_nullish (opt_member ''message'' error) (StrV []))) else read_prop ''children'' props)
     in (if truthy (BoolV (\<not> truthy body'))
         then (NullV)
         else (jsx ''p''
               [Attr ''data-slot'' (StrV ''form-message''),
                 Attr ''id'' formMessageId,
                 Attr ''className'' (cn lib [StrV ''text-destructive text-sm'',
                     className]),
                 Spread props]
               [body'])))\<close>

subsection \<open>\<open>carousel.tsx\<close>\<close>

text \<open>
  The carousel over the \<open>embla-carousel\<close> package: its API object is there or not, answers whether
  it can scroll, scrolls, and keeps the handlers registered for each of its events. What the
  handlers call is returned as the list of names of the API's methods.
\<close>

definition useCarousel :: "props option \<Rightarrow> string + props" where
  "useCarousel ctx = (case ctx of None \<Rightarrow> Inl ''useCarousel must be used within a <Carousel />'' | Some c \<Rightarrow> Inr c)"

record carousel_state =
  canScrollPrev :: bool
  canScrollNext :: bool
  subscriptions :: "string list"

text \<open>\<open>api\<close>: what \<open>canScrollPrev()\<close> and \<open>canScrollNext()\<close> of the API return, if there is one.\<close>

definition onSelect :: "(bool \<times> bool) option \<Rightarrow> carousel_state \<Rightarrow> carousel_state" where
  "onSelect api s =
     (case api of None \<Rightarrow> s | Some (p, n) \<Rightarrow> s\<lparr>canScrollPrev := p, canScrollNext := n\<rparr>)"

definition scrollPrev :: "(bool \<times> bool) option \<Rightarrow> string list" where
  "scrollPrev api = (if api = None then [] else [''scrollPrev''])"

definition scrollNext :: "(bool \<times> bool) option \<Rightarrow> string list" where
  "scrollNext api = (if api = None then [] else [''scrollNext''])"

text \<open>Whether the default action is prevented, and what is called.\<close>

definition carousel_keydown :: "(bool \<times> bool) option \<Rightarrow> string \<Rightarrow> bool \<times> string list" where
  "carousel_keydown api key =
     (if key = ''ArrowLeft'' then (True, scrollPrev api)
      else if key = ''ArrowRight'' then (True, scrollNext api)
      else (False, []))"

text \<open>Whether \<open>setApi\<close> is called with the API.\<close>

definition effect_setApi :: "(bool \<times> bool) option \<Rightarrow> bool \<Rightarrow> bool" where
  "effect_setApi api has_setApi \<longleftrightarrow> \<not> (api = None \<or> \<not> has_setApi)"

definition effect_subscribe :: "(bool \<times> bool) option \<Rightarrow> carousel_state \<Rightarrow> carousel_state" where
  "effect_subscribe api s =
     (if api = None then s
      else (onSelect api s)\<lparr>subscriptions := subscriptions s @ [''reInit'', ''select'']\<rparr>)"

text \<open>The cleanup the effect returned; \<open>off\<close> removes the handler from the event.\<close>

definition effect_unsubscribe :: "(bool \<times> bool) option \<Rightarrow> carousel_state \<Rightarrow> carousel_state" where
  "effect_unsubscribe api s =
     (if api = None then s else s\<lparr>subscriptions := filter (\<lambda>e. e \<noteq> ''select'') (subscriptions s)\<rparr>)"

text \<open>The options handed to the package.\<close>

definition carousel_options :: "props \<Rightarrow> props" where
  "carousel_options ps =
     (let orientation = or_default (StrV ''horizontal'') (read_prop ''orientation'' ps);
          opts = read_prop ''opts'' ps
      in obj [Spread (spread_fields opts),
              Attr ''axis'' (if strict_eq orientation (StrV ''horizontal'') then StrV ''x'' else StrV ''y'')])"

text \<open>\<open>ref\<close> and \<open>api'\<close> are the two values of \<open>useEmblaCarousel\<close>.\<close>

definition Carousel :: "ui_value \<Rightarrow> ui_value \<Rightarrow> carousel_state \<Rightarrow> ui_component" where
  \<open>Carousel carouselRef api' s lib ps =
    (let orientation = or_default (StrV ''horizontal'') (read_prop ''orientation'' ps);
         opts = read_prop ''opts'' ps;
         className = read_prop ''className'' ps;
         children = read_prop ''children'' ps;
         props = rest [''orientation'', ''opts'', ''setApi'', ''plugins'', ''className'', ''children''] ps;
         context' = obj
           [Attr ''carouselRef'' carouselRef,
            Attr ''api'' api',
            Attr ''opts'' opts,
            Attr ''orientation'' (js_or orientation
              (if strict_eq (opt_member ''axis'' opts) (StrV ''y'') then StrV ''vertical'' else StrV ''horizontal'')),
            Attr ''scrollPrev'' (FunV ''scrollPrev'' [api']),
            Attr ''scrollNext'' (FunV ''scrollNext'' [api']),
            Attr ''canScrollPrev'' (BoolV (canScrollPrev s)),
            Attr ''canScrollNext'' (BoolV (canScrollNext s))]
     in jsx ''CarouselContext.Provider'' [Attr ''value'' (ObjV context')]
         [jsx ''div''
           [Attr ''onKeyDownCapture'' (FunV ''handleKeyDown'' [api']),
            Attr ''className'' (cn lib [StrV ''relative'', className]),
            Attr ''role'' (StrV ''region''),
            Attr ''aria-roledescription'' (StrV ''carousel''),
            Attr ''data-slot'' (StrV ''carousel''),
            Spread props]
           [children]])\<close>

definition CarouselContent :: "props \<Rightarrow> ui_component" where
  \<open>CarouselContent ctx lib ps =
    (let className = read_prop ''className'' ps;
         props = rest [''className''] ps;
         carouselRef = read_prop ''carouselRef'' ctx;
         orientation = read_prop ''orientation'' ctx
     in jsx ''div''
         [Attr ''ref'' carouselRef,
           Attr ''className'' (StrV ''overflow-hidden''),
           Attr ''data-slot'' (StrV ''carousel-content'')]
         [jsx ''div''
            [Attr ''className'' (cn lib [StrV ''flex'',
                  (if truthy (BoolV (strict_eq orientation (StrV ''horizontal''))) then StrV ''-ml-4'' else StrV ''-mt-4 flex-col''),
                  className]),
              Spread props]
            []])\<close>

definition CarouselItem :: "props \<Rightarrow> ui_component" where
  \<open>CarouselItem ctx lib ps =
    (let className = read_prop ''className'' ps;
         props = rest [''className''] ps;
         orientation = read_prop ''orientation'' ctx
     in jsx ''div''
         [Attr ''role'' (StrV ''group''),
           Attr ''aria-roledescription'' (StrV ''slide''),
           Attr ''data-slot'' (StrV ''carousel-item''),
           Attr ''className'' (cn lib [StrV ''min-w-0 shrink-0 grow-0 basis-full'',
               (if truthy (BoolV (strict_eq orientation (StrV ''horizontal''))) then StrV ''pl-4'' else StrV ''pt-4''),
               className]),
           Spread props]
         [])\<close>

definition CarouselPrevious :: "props \<Rightarrow> ui_component" where
  \<open>CarouselPrevious ctx lib ps =
    (let className = read_prop ''className'' ps;
         variant = or_default (StrV ''outline'') (read_prop ''variant'' ps);
         size' = or_default (StrV ''icon'') (read_prop ''size'' ps);
         props = rest [''className'', ''variant'', ''size''] ps;
         orientation = read_prop ''orientation'' ctx;
         scrollPrev = read_prop ''scrollPrev'' ctx;
         canScrollPrev = read_prop ''canScrollPrev'' ctx
     in jsx ''Button''
         [Attr ''data-slot'' (StrV ''carousel-previous''),
           Attr ''variant'' variant,
           Attr ''size'' size',
           Attr ''className'' (cn lib [StrV ''absolute size-8 rounded-full'',
               (if truthy (BoolV (strict_eq orientation (StrV ''horizontal''))) then StrV ''top-1/2 -left-12 -translate-y-1/2'' else StrV ''-top-12 left-1/2 -translate-x-1/2 rotate-90''),
               className]),
           Attr ''disabled'' (BoolV (\<not> truthy canScrollPrev)),
           Attr ''onClick'' scrollPrev,
           Spread props]
         [jsx ''ArrowLeft''
            []
            [],
           jsx ''span''
            [Attr ''className'' (StrV ''sr-only'')]
            [StrV ''Previous slide'']])\<close>

definition CarouselNext :: "props \<Rightarrow> ui_component" where
  \<open>CarouselNext ctx lib ps =
    (let className = read_prop ''className'' ps;
         variant = or_default (StrV ''outline'') (read_prop ''variant'' ps);
         size' = or_default (StrV ''icon'') (read_prop ''size'' ps);
         props = rest [''className'', ''variant'', ''size''] ps;
         orientation = read_prop ''orientation'' ctx;
         scrollNext = read_prop ''scrollNext'' ctx;
         canScrollNext = read_prop ''canScrollNext'' ctx
     in jsx ''Button''
         [Attr ''data-slot'' (StrV ''carousel-next''),
           Attr ''variant'' variant,
           Attr ''size'' size',
           Attr ''className'' (cn lib [StrV ''absolute size-8 rounded-full'',
               (if truthy (BoolV (strict_eq orientation (StrV ''horizontal''))) then StrV ''top-1/2 -right-12 -translate-y-1/2'' else StrV ''-bottom-12 left-1/2 -translate-x-1/2 rotate-90''),
               className]),
           Attr ''disabled'' (BoolV (\<not> truthy canScrollNext)),
           Attr ''onClick'' scrollNext,
           Spread props]
         [jsx ''ArrowRight''
            []
            [],
           jsx ''span''
            [Attr ''className'' (StrV ''sr-only'')]
            [StrV ''Next slide'']])\<close>

subsection \<open>Which parts are slotted\<close>

definition uiFields_parts :: "ui_lib \<Rightarrow> ((props \<Rightarrow> ui_value) \<times> string list \<times> string) list" where
  "uiFields_parts lib =
    []"

lemma uiFields_parts_slotted: "list_all (\<lambda>(f, own, slot). slotted f own slot) (uiFields_parts lib)"
  unfolding uiFields_parts_def list.pred_inject prod.case
  by (intro conjI list.pred_inject(1) )

end
