(* ===== verification/UiBehaviour.thy ===== *)
theory UiBehaviour
  imports UiSidebar UiFields
begin

text \<open>
  How the stateful parts of \<open>Frontend/components/ui\<close> behave: the sidebar as a machine of user input and
  renders, the wiring of a form field's label, control, description and message, and what the
  carousel's effect leaves behind.
\<close>

subsection \<open>The sidebar\<close>

text \<open>An uncontrolled sidebar: the user's toggles and key presses, and renders with the current width.\<close>

datatype sidebar_event = Toggle | Key string bool bool | Render bool

fun sidebar_step :: "sidebar_provider \<Rightarrow> sidebar_event \<Rightarrow> sidebar_provider" where
  "sidebar_step s Toggle = toggleSidebar s"
| "sidebar_step s (Key k m c) = snd (handleKeyDown k m c s)"
| "sidebar_step s (Render mobile) = render_sidebar mobile None s"

definition uncontrolled :: "sidebar_provider \<Rightarrow> bool" where
  "uncontrolled s \<longleftrightarrow> openProp s = None \<and> \<not> has_callback s"

text \<open>
  What holds of every uncontrolled sidebar: the value the next render shows is the one last shown or
  its opposite, and the cookie, once set, records the value the next render shows.
\<close>

definition sidebar_ok :: "sidebar_provider \<Rightarrow> bool" where
  "sidebar_ok s \<longleftrightarrow> uncontrolled s \<and> (cookie s = None \<longrightarrow> next_open s = sb_open s) \<and>
     (cookie s \<noteq> None \<longrightarrow> cookie s = Some (cookie_text (next_open s)))"

lemma toggle_ok: "sidebar_ok s \<Longrightarrow> sidebar_ok (toggleSidebar s)"
  by (simp add: sidebar_ok_def uncontrolled_def toggleSidebar_def setOpen_def Let_def)

lemma sidebar_step_ok: "sidebar_ok s \<Longrightarrow> sidebar_ok (sidebar_step s e)"
proof (cases e)
  case (Render m)
  then show "sidebar_ok s \<Longrightarrow> ?thesis" by (simp add: render_sidebar_def sidebar_ok_def uncontrolled_def Let_def)
qed (simp_all add: toggle_ok handleKeyDown_def)

lemma sidebar_run_ok: "sidebar_ok s \<Longrightarrow> sidebar_ok (foldl sidebar_step s es)"
  by (induction es arbitrary: s) (simp_all add: sidebar_step_ok)

lemma mount_ok: "sidebar_ok (mount_sidebar d None False)"
  by (simp add: sidebar_ok_def uncontrolled_def mount_sidebar_def Let_def)

text \<open>C37: The sidebar's cookie never disagrees with the sidebar: after any sequence of toggles, key presses
  and renders of an uncontrolled sidebar, on any width, the cookie, if it has been set, holds the
  state that the next render shows, and if it has not, the sidebar still shows its initial state.
  A toggle on the desktop flips what the next render shows; a second one before that render has
  no further effect, whereas on a mobile width it undoes the first.\<close>

theorem sidebar_cookie:
  fixes d :: "bool option" and es :: "sidebar_event list"
  defines "s \<equiv> foldl sidebar_step (mount_sidebar d None False) es"
  shows "(case cookie s of None \<Rightarrow> next_open s = sb_open s | Some c \<Rightarrow> c = cookie_text (next_open s)) \<and>
    (\<not> sb_isMobile s \<longrightarrow> next_open (toggleSidebar s) = (\<not> sb_open s) \<and> toggleSidebar (toggleSidebar s) = toggleSidebar s) \<and>
    (sb_isMobile s \<longrightarrow> toggleSidebar (toggleSidebar s) = s)"
proof -
  have ok: "sidebar_ok s" unfolding s_def by (rule sidebar_run_ok [OF mount_ok])
  then show ?thesis
    by (auto simp: sidebar_ok_def uncontrolled_def toggleSidebar_def setOpen_def current_open_def Let_def split: option.split)
qed

theorem sidebar_cookie_witness:
  "cookie (foldl sidebar_step (mount_sidebar None None False) [Render False, Key ''b'' False True, Toggle]) =
   Some (cookie_text False)"
  using sidebar_cookie [of None "[Render False, Key ''b'' False True, Toggle]"]
  by (simp add: mount_sidebar_def render_sidebar_def handleKeyDown_def SIDEBAR_KEYBOARD_SHORTCUT_def toggleSidebar_def
      setOpen_def current_open_def Let_def)

subsection \<open>The parts of a form field\<close>

lemma wiring_reads:
  assumes "distinct (map fst state)" "useFormField fieldContext item (\<lambda>name. state) = Inr ctx"
    and "dom (map_of state) \<inter> {''formItemId'', ''formDescriptionId'', ''formMessageId''} = {}"
  defines "i \<equiv> to_text (read_prop ''id'' item)"
  shows "read_prop ''formItemId'' ctx = StrV (i @ ''-form-item'')"
    "read_prop ''formDescriptionId'' ctx = StrV (i @ ''-form-item-description'')"
    "read_prop ''formMessageId'' ctx = StrV (i @ ''-form-item-message'')"
    "read_prop ''error'' ctx = read_prop ''error'' state"
proof -
  have none: "map_of state ''formItemId'' = None" "map_of state ''formDescriptionId'' = None" "map_of state ''formMessageId'' = None"
    using assms(3) by (auto simp: disjoint_iff domIff)
  have ctx: "ctx = obj [Attr ''id'' (read_prop ''id'' item), Attr ''name'' (read_prop ''name'' fieldContext),
      Attr ''formItemId'' (StrV (i @ ''-form-item'')), Attr ''formDescriptionId'' (StrV (i @ ''-form-item-description'')),
      Attr ''formMessageId'' (StrV (i @ ''-form-item-message'')), Spread state]"
    using assms(2) by (simp add: useFormField_def i_def Let_def)
  show "read_prop ''formItemId'' ctx = StrV (i @ ''-form-item'')"
    "read_prop ''formDescriptionId'' ctx = StrV (i @ ''-form-item-description'')"
    "read_prop ''formMessageId'' ctx = StrV (i @ ''-form-item-message'')"
    "read_prop ''error'' ctx = read_prop ''error'' state"
    unfolding ctx using assms(1) none by (simp_all add: read_obj) (simp add: read_prop_def split: option.split)
qed


text \<open>What the message part shows: the error's message if there is an error, its children otherwise.\<close>

definition message_body :: "ui_value \<Rightarrow> props \<Rightarrow> ui_value" where
  "message_body error ps =
     (if truthy error then StrV (to_text (js_nullish (opt_member ''message'' error) (StrV [])))
      else read_prop ''children'' ps)"

lemma FormMessage_body:
  "FormMessage ctx lib ps = NullV \<longleftrightarrow> \<not> truthy (message_body (read_prop ''error'' ctx) (rest [''className''] ps))"
  by (simp add: FormMessage_def message_body_def Let_def)

definition message_attrs :: "props \<Rightarrow> ui_lib \<Rightarrow> props \<Rightarrow> attr list" where
  "message_attrs ctx lib ps =
     [Attr ''data-slot'' (StrV ''form-message''),
      Attr ''id'' (read_prop ''formMessageId'' ctx),
      Attr ''className'' (cn lib [StrV ''text-destructive text-sm'', read_prop ''className'' ps]),
      Spread (rest [''className''] ps)]"

lemma FormMessage_shape:
  "FormMessage ctx lib ps =
     (let b = message_body (read_prop ''error'' ctx) (rest [''className''] ps)
      in if truthy b then jsx ''p'' (message_attrs ctx lib ps) [b] else NullV)"
  by (simp add: FormMessage_def message_body_def message_attrs_def Let_def del: jsx.simps)

definition no_own :: "string list \<Rightarrow> props \<Rightarrow> bool" where
  "no_own ks ps \<longleftrightarrow> distinct (map fst ps) \<and> list_all (\<lambda>k. map_of ps k = None) ks"

text \<open>The context of a field by its name, its item's id and its error.\<close>

definition sample_field_context :: "string \<Rightarrow> string \<Rightarrow> ui_value \<Rightarrow> props" where
  "sample_field_context name i err =
     obj [Attr ''id'' (StrV i), Attr ''name'' (StrV name), Attr ''formItemId'' (StrV (i @ ''-form-item'')),
          Attr ''formDescriptionId'' (StrV (i @ ''-form-item-description'')),
          Attr ''formMessageId'' (StrV (i @ ''-form-item-message'')), Spread [(''error'', err)]]"

text \<open>C38: The parts of a form field refer to each other: whatever state the form keeps for the field, the label
  names the control by the control's id, the control is described by the description's id and, exactly
  when there is an error, also by the message's id, and a message that is rendered carries that id.\<close>

theorem form_wiring:
  assumes "distinct (map fst state)" "useFormField fieldContext item (\<lambda>name. state) = Inr ctx"
    and "dom (map_of state) \<inter> {''formItemId'', ''formDescriptionId'', ''formMessageId''} = {}"
    and "no_own [''htmlFor''] label" "no_own [''id'', ''aria-describedby''] control" "no_own [''id''] description" "no_own [''id''] message"
  shows "\<exists>c d m. attribute ''id'' (FormControl ctx lib control) = Some (StrV c) \<and>
    attribute ''htmlFor'' (FormLabel ctx lib label) = Some (StrV c) \<and>
    attribute ''id'' (FormDescription ctx lib description) = Some (StrV d) \<and>
    attribute ''aria-describedby'' (FormControl ctx lib control) =
      Some (StrV (if truthy (read_prop ''error'' state) then d @ '' '' @ m else d)) \<and>
    (FormMessage ctx lib message \<noteq> NullV \<longrightarrow> attribute ''id'' (FormMessage ctx lib message) = Some (StrV m))"
proof -
  note r = wiring_reads [OF assms(1-3)]
  let ?i = "to_text (read_prop ''id'' item)"
  have own: "distinct (map fst label)" "map_of label ''htmlFor'' = None"
    "distinct (map fst control)" "map_of control ''id'' = None" "map_of control ''aria-describedby'' = None"
    "distinct (map fst description)" "map_of description ''id'' = None"
    "distinct (map fst message)" "map_of message ''id'' = None"
    using assms(4-7) by (simp_all add: no_own_def)
  have "attribute ''id'' (FormControl ctx lib control) = Some (StrV (?i @ ''-form-item''))"
    "attribute ''aria-describedby'' (FormControl ctx lib control) =
      Some (StrV (if truthy (read_prop ''error'' state) then (?i @ ''-form-item-description'') @ '' '' @ (?i @ ''-form-item-message'')
         else ?i @ ''-form-item-description''))"
    using own by (simp_all add: FormControl_def Let_def attribute_jsx r del: jsx.simps)
  moreover have "attribute ''htmlFor'' (FormLabel ctx lib label) = Some (StrV (?i @ ''-form-item''))"
    using own by (simp add: FormLabel_def Let_def attribute_jsx r distinct_rest map_of_rest del: jsx.simps)
  moreover have "attribute ''id'' (FormDescription ctx lib description) = Some (StrV (?i @ ''-form-item-description''))"
    using own by (simp add: FormDescription_def Let_def attribute_jsx r distinct_rest map_of_rest del: jsx.simps)
  moreover have "attribute ''id'' (FormMessage ctx lib message) = Some (StrV (?i @ ''-form-item-message''))"
    if shown: "FormMessage ctx lib message \<noteq> NullV"
  proof -
    obtain b where "FormMessage ctx lib message = jsx ''p'' (message_attrs ctx lib message) [b]"
      using shown FormMessage_shape [of ctx lib message] by (auto simp: Let_def split: if_splits simp del: jsx.simps)
    then show ?thesis using own by (simp add: message_attrs_def attribute_jsx r distinct_rest map_of_rest del: jsx.simps)
  qed
  ultimately show ?thesis by metis
qed

theorem form_wiring_witness:
  "\<exists>c d m.
     attribute ''id'' (FormControl (sample_field_context ''email'' ''r1'' (ObjV [(''message'', StrV ''no'')])) sample_lib []) = Some (StrV c) \<and>
     attribute ''htmlFor'' (FormLabel (sample_field_context ''email'' ''r1'' (ObjV [(''message'', StrV ''no'')])) sample_lib []) = Some (StrV c) \<and>
     attribute ''aria-describedby'' (FormControl (sample_field_context ''email'' ''r1'' (ObjV [(''message'', StrV ''no'')])) sample_lib []) =
       Some (StrV (d @ '' '' @ m))"
proof -
  let ?ctx = "sample_field_context ''email'' ''r1'' (ObjV [(''message'', StrV ''no'')])"
  have "useFormField [(''name'', StrV ''email'')] [(''id'', StrV ''r1'')] (\<lambda>name. [(''error'', ObjV [(''message'', StrV ''no'')])]) = Inr ?ctx"
    by (simp add: useFormField_def sample_field_context_def Let_def read_prop_def)
  from form_wiring [OF _ this, of "[]" "[]" "[]" "[]" sample_lib]
  have "\<exists>c d m. attribute ''id'' (FormControl ?ctx sample_lib []) = Some (StrV c) \<and>
      attribute ''htmlFor'' (FormLabel ?ctx sample_lib []) = Some (StrV c) \<and>
      attribute ''aria-describedby'' (FormControl ?ctx sample_lib []) = Some (StrV (d @ '' '' @ m))"
    by (auto simp: no_own_def read_prop_def simp del: jsx.simps)
  then show ?thesis .
qed

text \<open>
  The reference can dangle: an error without a message text is announced by the control, which refers
  to the message's id, but no message is rendered.
\<close>

theorem message_dangles:
  assumes "read_prop ''error'' ctx = ObjV err" "map_of err ''message'' = None" "read_prop ''formMessageId'' ctx = StrV m"
    "read_prop ''formDescriptionId'' ctx = StrV d"
  shows "FormMessage ctx lib ps = NullV \<and>
    attribute ''aria-describedby'' (FormControl ctx lib []) = Some (StrV (d @ '' '' @ m))"
proof
  show "FormMessage ctx lib ps = NullV"
    using assms by (simp add: FormMessage_body message_body_def opt_member_def read_prop_def js_nullish_def)
  show "attribute ''aria-describedby'' (FormControl ctx lib []) = Some (StrV (d @ '' '' @ m))"
    using assms by (simp add: FormControl_def Let_def attribute_jsx del: jsx.simps)
qed

subsection \<open>The carousel's subscriptions\<close>

text \<open>Every mount leaves one handler for \<open>reInit\<close> registered on the API.\<close>

theorem reinit_leaks:
  "subscriptions (((\<lambda>s. effect_unsubscribe (Some a) (effect_subscribe (Some a) s)) ^^ n)
     \<lparr>canScrollPrev = False, canScrollNext = False, subscriptions = []\<rparr>) = replicate n ''reInit''"
proof (induction n)
  case (Suc n)
  then show ?case
    by (simp add: effect_unsubscribe_def effect_subscribe_def replicate_append_same split_beta onSelect_def)
qed simp

end
