(* ===== verification/UiChart.thy ===== *)
theory UiChart
  imports UiControls
begin

text \<open>
  Charts, the calendar, the notifications of the \<open>sonner\<close> package and the hook for small screens, of
  \<open>Frontend/components/ui\<close>. The chart elements are those of the \<open>recharts\<close> package, which hands the
  tooltip and the legend their payload; \<open>call\<close> applies a function the caller passes as a prop, and
  \<open>locale_text\<close> is the platform's rendering of a value for the locale. Objects have the properties
  they list and no inherited ones.
\<close>

subsection \<open>\<open>chart.tsx\<close>\<close>

definition THEMES :: "(string \<times> string) list" where
  "THEMES = [(''light'', []), (''dark'', ''.dark'')]"

definition ChartTooltip :: string where "ChartTooltip = ''RechartsPrimitive.Tooltip''"

definition ChartLegend :: string where "ChartLegend = ''RechartsPrimitive.Legend''"

definition useChart :: "props option \<Rightarrow> string + props" where
  "useChart ctx = (case ctx of None \<Rightarrow> Inl ''useChart must be used within a <ChartContainer />'' | Some c \<Rightarrow> Inr c)"

fun is_object :: "ui_value \<Rightarrow> bool" where
  "is_object (ObjV ps) \<longleftrightarrow> True"
| "is_object (ArrV vs) \<longleftrightarrow> True"
| "is_object (ElemV t ps) \<longleftrightarrow> True"
| "is_object v \<longleftrightarrow> False"

fun is_string :: "ui_value \<Rightarrow> bool" where
  "is_string (StrV s) \<longleftrightarrow> True"
| "is_string v \<longleftrightarrow> False"

text \<open>\<open>k in v\<close> for an object \<open>v\<close>.\<close>

fun has_key :: "string \<Rightarrow> ui_value \<Rightarrow> bool" where
  "has_key k (ObjV ps) \<longleftrightarrow> map_of ps k \<noteq> None"
| "has_key k v \<longleftrightarrow> False"

definition getPayloadConfigFromPayload :: "props \<Rightarrow> ui_value \<Rightarrow> string \<Rightarrow> ui_value" where
  "getPayloadConfigFromPayload config payload key =
     (if \<not> is_object payload then UndefV
      else
        (let payloadPayload =
               (if has_key ''payload'' payload \<and> is_object (member ''payload'' payload)
                then member ''payload'' payload else UndefV);
             configLabelKey =
               (if has_key key payload \<and> is_string (member key payload) then to_text (member key payload)
                else if truthy payloadPayload \<and> has_key key payloadPayload \<and> is_string (member key payloadPayload)
                then to_text (member key payloadPayload)
                else key)
         in if has_key configLabelKey (ObjV config) then read_prop configLabelKey config else read_prop key config))"

text \<open>The element type a component value stands for.\<close>

fun component_name :: "ui_value \<Rightarrow> string" where
  "component_name (FunV n vs) = n"
| "component_name (StrV n) = n"
| "component_name v = []"

text \<open>One rule of the style sheet: the colors of the series in a theme.\<close>

definition color_line :: "string \<Rightarrow> string \<times> ui_value \<Rightarrow> string" where
  "color_line theme entry =
     (let (key, itemConfig) = entry;
          color = js_or (opt_member theme (member ''theme'' itemConfig)) (member ''color'' itemConfig)
      in if truthy color then ''  --color-'' @ key @ '': '' @ to_text color @ '';'' else [])"

definition newline :: string where
  "newline = [CHR 0x0A]"

definition ChartStyle :: "string \<Rightarrow> props \<Rightarrow> ui_value" where
  "ChartStyle id' config =
     (let colorConfig = filter (\<lambda>(k, c). truthy (js_or (member ''theme'' c) (member ''color'' c))) config
      in if colorConfig = [] then NullV
         else jsx ''style''
           [Attr ''dangerouslySetInnerHTML'' (ObjV [(''__html'', StrV (join newline
              (map (\<lambda>(theme, prefix).
                 newline @ prefix @ '' [data-chart='' @ id' @ ''] {'' @ newline @
                 join newline (map (color_line theme) colorConfig) @ newline @ ''}'' @ newline) THEMES)))])] [])"

definition ChartContainer :: "string \<Rightarrow> ui_component" where
  \<open>ChartContainer useId lib ps =
    (let id' = read_prop ''id'' ps;
         className = read_prop ''className'' ps;
         children = read_prop ''children'' ps;
         config' = read_prop ''config'' ps;
         props = rest [''id'', ''className'', ''children'', ''config''] ps;
         uniqueId = filter (\<lambda>c. c \<noteq> CHR '':'') useId;
         chartId = StrV (''chart-'' @ to_text (js_or id' (StrV uniqueId)))
     in jsx ''ChartContext.Provider''
         [Attr ''value'' (ObjV (obj [Attr ''config'' config']))]
         [jsx ''div''
            [Attr ''data-slot'' (StrV ''chart''),
              Attr ''data-chart'' chartId,
              Attr ''className'' (cn lib [StrV ''[&_.recharts-cartesian-axis-tick_text]:fill-muted-foreground [&_.recharts-cartesian-grid_line[stroke='#ccc']]:stroke-border/50 [&_.recharts-curve.recharts-tooltip-cursor]:stroke-border [&_.recharts-polar-grid_[stroke='#ccc']]:stroke-border [&_.recharts-radial-bar-background-sector]:fill-muted [&_.recharts-rectangle.recharts-tooltip-cursor]:fill-muted [&_.recharts-reference-line_[stroke='#ccc']]:stroke-border flex aspect-video justify-center text-xs [&_.recharts-dot[stroke='#fff']]:stroke-transparent [&_.recharts-layer]:outline-hidden [&_.recharts-sector]:outline-hidden [&_.recharts-sector[stroke='#fff']]:stroke-transparent [&_.recharts-surface]:outline-hidden'',
                  className]),
              Spread props]
            [jsx ''ChartStyle''
               [Attr ''id'' chartId,
                 Attr ''config'' config']
               [],
              jsx ''RechartsPrimitive.ResponsiveContainer''
               []
               [children]]])\<close>

text \<open>The label of the tooltip. \<open>label\<close>, the formatters and the payload are props from the package.\<close>

definition tooltip_label :: "(ui_value \<Rightarrow> ui_value list \<Rightarrow> ui_value) \<Rightarrow> props \<Rightarrow> ui_component" where
  \<open>tooltip_label call config lib ps =
    (let payload = read_prop ''payload'' ps;
         label = read_prop ''label'' ps;
         labelFormatter = read_prop ''labelFormatter'' ps;
         labelClassName = read_prop ''labelClassName'' ps;
         labelKey = read_prop ''labelKey'' ps;
         hideLabel = or_default (BoolV False) (read_prop ''hideLabel'' ps);
         items = (case payload of ArrV vs \<Rightarrow> vs | _ \<Rightarrow> [])
     in if truthy hideLabel \<or> items = [] then NullV
        else
          (let item = hd items;
               key = to_text (js_or labelKey (js_or (opt_member ''dataKey'' item)
                 (js_or (opt_member ''name'' item) (StrV ''value''))));
               itemConfig = getPayloadConfigFromPayload config item key;
               value' = (if \<not> truthy labelKey \<and> is_string label
                         then js_or (opt_member ''label'' (read_prop (to_text label) config)) label
                         else opt_member ''label'' itemConfig)
           in if truthy labelFormatter then
                jsx ''div'' [Attr ''className'' (cn lib [StrV ''font-medium'', labelClassName])]
                  [call labelFormatter [value', payload]]
              else if \<not> truthy value' then NullV
              else jsx ''div'' [Attr ''className'' (cn lib [StrV ''font-medium'', labelClassName])] [value']))\<close>

text \<open>
  The color of an item's indicator; reading \<open>fill\<close> of a payload that is not there throws, \<open>None\<close>.
\<close>

definition indicator_color :: "ui_value \<Rightarrow> ui_value \<Rightarrow> ui_value option" where
  "indicator_color color item =
     (if truthy color then Some color
      else if member ''payload'' item = UndefV \<or> member ''payload'' item = NullV then None
      else Some (js_or (member ''fill'' (member ''payload'' item)) (member ''color'' item)))"

definition tooltip_row :: "(ui_value \<Rightarrow> ui_value list \<Rightarrow> ui_value) \<Rightarrow> (ui_value \<Rightarrow> string) \<Rightarrow> props \<Rightarrow> ui_value \<Rightarrow> bool \<Rightarrow>
    ui_lib \<Rightarrow> props \<Rightarrow> ui_value \<Rightarrow> ui_value \<Rightarrow> ui_value option" where
  \<open>tooltip_row call locale_text config tooltipLabel nest lib ps item index =
    (let indicator = or_default (StrV ''dot'') (read_prop ''indicator'' ps);
         hideIndicator = or_default (BoolV False) (read_prop ''hideIndicator'' ps);
         formatter = read_prop ''formatter'' ps;
         color = read_prop ''color'' ps;
         nameKey = read_prop ''nameKey'' ps;
         nestLabel = BoolV nest;
         key = to_text (js_or nameKey (js_or (member ''name'' item) (js_or (member ''dataKey'' item) (StrV ''value''))));
         itemConfig = getPayloadConfigFromPayload config item key
     in map_option (\<lambda>indicatorColor.
          jsx ''div''
            [Attr ''key'' (member ''dataKey'' item),
             Attr ''className'' (cn lib
               [StrV ''[&>svg]:text-muted-foreground flex w-full flex-wrap items-stretch gap-2 [&>svg]:h-2.5 [&>svg]:w-2.5'',
                js_and (BoolV (strict_eq indicator (StrV ''dot''))) (StrV ''items-center'')])]
            [if truthy formatter \<and> member ''value'' item \<noteq> UndefV \<and> truthy (member ''name'' item) then
               call formatter [member ''value'' item, member ''name'' item, item, index, member ''payload'' item]
             else
               jsx ''React.Fragment'' []
                 [if truthy (opt_member ''icon'' itemConfig) then jsx (component_name (member ''icon'' itemConfig)) [] []
                  else js_and (BoolV (\<not> truthy hideIndicator))
                    (jsx ''div''
                      [Attr ''className'' (cn lib [StrV ''shrink-0 rounded-[2px] border-(--color-border) bg-(--color-bg)'',
                            ObjV (obj [Attr ''h-2.5 w-2.5'' (BoolV (strict_eq indicator (StrV ''dot''))), Attr ''w-1'' (BoolV (strict_eq indicator (StrV ''line''))), Attr ''w-0 border-[1.5px] border-dashed bg-transparent'' (BoolV (strict_eq indicator (StrV ''dashed''))), Attr ''my-0.5'' (js_and nestLabel (BoolV (strict_eq indicator (StrV ''dashed''))))])]),
                        Attr ''style'' (ObjV (obj [Attr ''--color-bg'' indicatorColor, Attr ''--color-border'' indicatorColor]))]
                      []),
                  jsx ''div''
                    [Attr ''className'' (cn lib [StrV ''flex flex-1 justify-between leading-none'',
                                             (if truthy nestLabel then StrV ''items-end'' else StrV ''items-center'')])]
                    [jsx ''div''
                      [Attr ''className'' (StrV ''grid gap-1.5'')]
                      [(if truthy nestLabel then tooltipLabel else NullV),
                        jsx ''span''
                         [Attr ''className'' (StrV ''text-muted-foreground'')]
                         [js_or (opt_member ''label'' itemConfig) (member ''name'' item)]],
                     js_and (member ''value'' item)
                       (jsx ''span'' [Attr ''className'' (StrV ''text-foreground font-mono font-medium tabular-nums'')]
                         [StrV (locale_text (member ''value'' item))])]]])
          (indicator_color color item))\<close>

definition ChartTooltipContent :: "(ui_value \<Rightarrow> ui_value list \<Rightarrow> ui_value) \<Rightarrow> (ui_value \<Rightarrow> string) \<Rightarrow> props \<Rightarrow>
    ui_lib \<Rightarrow> props \<Rightarrow> ui_value option" where
  \<open>ChartTooltipContent call locale_text config lib ps =
    (let active = read_prop ''active'' ps;
         payload = read_prop ''payload'' ps;
         className = read_prop ''className'' ps;
         indicator = or_default (StrV ''dot'') (read_prop ''indicator'' ps);
         items = (case payload of ArrV vs \<Rightarrow> vs | _ \<Rightarrow> []);
         tooltipLabel = tooltip_label call config lib ps
     in if \<not> truthy active \<or> items = [] then Some NullV
        else
          (let nestLabel = length items = 1 \<and> \<not> strict_eq indicator (StrV ''dot'')
           in map_option (\<lambda>rows.
                jsx ''div''
                  [Attr ''className'' (cn lib [StrV ''border-border/50 bg-background grid min-w-[8rem] items-start gap-1.5 rounded-lg border px-2.5 py-1.5 text-xs shadow-xl'',
                                           className])]
                  [if \<not> nestLabel then tooltipLabel else NullV,
                   jsx ''div'' [Attr ''className'' (StrV ''grid gap-1.5'')] [ArrV rows]])
                (those (map2 (\<lambda>item i. tooltip_row call locale_text config tooltipLabel nestLabel lib ps item
                   (NumV (Fin (of_nat i)))) items [0..<length items]))))\<close>

definition ChartLegendContent :: "props \<Rightarrow> ui_component" where
  \<open>ChartLegendContent config lib ps =
    (let className = read_prop ''className'' ps;
         hideIcon = or_default (BoolV False) (read_prop ''hideIcon'' ps);
         payload = read_prop ''payload'' ps;
         verticalAlign = or_default (StrV ''bottom'') (read_prop ''verticalAlign'' ps);
         nameKey = read_prop ''nameKey'' ps;
         items = (case payload of ArrV vs \<Rightarrow> vs | _ \<Rightarrow> [])
     in if items = [] then NullV
        else
          jsx ''div''
            [Attr ''className'' (cn lib [StrV ''flex items-center justify-center gap-4'',
                                     (if truthy (BoolV (strict_eq verticalAlign (StrV ''top''))) then StrV ''pb-3'' else StrV ''pt-3''),
                                     className])]
            [ArrV (map (\<lambda>item.
               (let key = to_text (js_or nameKey (js_or (member ''dataKey'' item) (StrV ''value'')));
                    itemConfig = getPayloadConfigFromPayload config item key
                in jsx ''div''
                     [Attr ''key'' (member ''value'' item),
                      Attr ''className'' (StrV ''[&>svg]:text-muted-foreground flex items-center gap-1.5 [&>svg]:h-3 [&>svg]:w-3'')]
                     [if truthy (js_and (opt_member ''icon'' itemConfig) (BoolV (\<not> truthy hideIcon))) then
                        jsx (component_name (member ''icon'' itemConfig)) [] []
                      else
                        jsx ''div''
                         [Attr ''className'' (StrV ''h-2 w-2 shrink-0 rounded-[2px]''),
                           Attr ''style'' (ObjV (obj [Attr ''backgroundColor'' (member ''color'' item)]))]
                         [],
                      opt_member ''label'' itemConfig])) items)])\<close>

subsection \<open>\<open>calendar.tsx\<close>\<close>

text \<open>
  The calendar hands the \<open>react-day-picker\<close> package its class names, formatters and parts.
  \<open>defaultClassNames\<close> is what \<open>getDefaultClassNames()\<close> of that package returns.
\<close>

definition calendar_class_names :: "ui_value \<Rightarrow> ui_value \<Rightarrow> ui_value \<Rightarrow> ui_value \<Rightarrow> ui_lib \<Rightarrow> ui_value" where
  \<open>calendar_class_names defaultClassNames buttonVariant captionLayout classNames lib =
    ObjV (obj [Attr ''root'' (cn lib [StrV ''w-fit'',
        member ''root'' defaultClassNames]), Attr ''months'' (cn lib [StrV ''flex gap-4 flex-col md:flex-row relative'',
        member ''months'' defaultClassNames]), Attr ''month'' (cn lib [StrV ''flex flex-col w-full gap-4'',
        member ''month'' defaultClassNames]), Attr ''nav'' (cn lib [StrV ''flex items-center gap-1 w-full absolute top-0 inset-x-0 justify-between'',
        member ''nav'' defaultClassNames]), Attr ''button_previous'' (cn lib [buttonVariants lib (ObjV (obj [Attr ''variant'' buttonVariant])),
        StrV ''size-(--cell-size) aria-disabled:opacity-50 p-0 select-none'',
        member ''button_previous'' defaultClassNames]), Attr ''button_next'' (cn lib [buttonVariants lib (ObjV (obj [Attr ''variant'' buttonVariant])),
        StrV ''size-(--cell-size) aria-disabled:opacity-50 p-0 select-none'',
        member ''button_next'' defaultClassNames]), Attr ''month_caption'' (cn lib [StrV ''flex items-center justify-center h-(--cell-size) w-full px-(--cell-size)'',
        member ''month_caption'' defaultClassNames]), Attr ''dropdowns'' (cn lib [StrV ''w-full flex items-center text-sm font-medium justify-center h-(--cell-size) gap-1.5'',
        member ''dropdowns'' defaultClassNames]), Attr ''dropdown_root'' (cn lib [StrV ''relative has-focus:border-ring border border-input shadow-xs has-focus:ring-ring/50 has-focus:ring-[3px] rounded-md'',
        member ''dropdown_root'' defaultClassNames]), Attr ''dropdown'' (cn lib [StrV ''absolute bg-popover inset-0 opacity-0'',
        member ''dropdown'' defaultClassNames]), Attr ''caption_label'' (cn lib [StrV ''select-none font-medium'',
        (if truthy (BoolV (strict_eq captionLayout (StrV ''label''))) then StrV ''text-sm'' else StrV ''rounded-md pl-2 pr-1 flex items-center gap-1 text-sm h-8 [&>svg]:text-muted-foreground [&>svg]:size-3.5''),
        member ''caption_label'' defaultClassNames]), Attr ''table'' (StrV ''w-full border-collapse''), Attr ''weekdays'' (cn lib [StrV ''flex'',
        member ''weekdays'' defaultClassNames]), Attr ''weekday'' (cn lib [StrV ''text-muted-foreground rounded-md flex-1 font-normal text-[0.8rem] select-none'',
        member ''weekday'' defaultClassNames]), Attr ''week'' (cn lib [StrV ''flex w-full mt-2'',
        member ''week'' defaultClassNames]), Attr ''week_number_header'' (cn lib [StrV ''select-none w-(--cell-size)'',
        member ''week_number_header'' defaultClassNames]), Attr ''week_number'' (cn lib [StrV ''text-[0.8rem] select-none text-muted-foreground'',
        member ''week_number'' defaultClassNames]), Attr ''day'' (cn lib [StrV ''relative w-full h-full p-0 text-center [&:first-child[data-selected=true]_button]:rounded-l-md [&:last-child[data-selected=true]_button]:rounded-r-md group/day aspect-square select-none'',
        member ''day'' defaultClassNames]), Attr ''range_start'' (cn lib [StrV ''rounded-l-md bg-accent'',
        member ''range_start'' defaultClassNames]), Attr ''range_middle'' (cn lib [StrV ''rounded-none'',
        member ''range_middle'' defaultClassNames]), Attr ''range_end'' (cn lib [StrV ''rounded-r-md bg-accent'',
        member ''range_end'' defaultClassNames]), Attr ''today'' (cn lib [StrV ''bg-accent text-accent-foreground rounded-md data-[selected=true]:rounded-none'',
        member ''today'' defaultClassNames]), Attr ''outside'' (cn lib [StrV ''text-muted-foreground aria-selected:text-muted-foreground'',
        member ''outside'' defaultClassNames]), Attr ''disabled'' (cn lib [StrV ''text-muted-foreground opacity-50'',
        member ''disabled'' defaultClassNames]), Attr ''hidden'' (cn lib [StrV ''invisible'',
        member ''hidden'' defaultClassNames]), Spread (spread_fields classNames)])\<close>

definition Calendar_Root :: ui_component where
  \<open>Calendar_Root lib ps =
    (let className = read_prop ''className'' ps;
         rootRef = read_prop ''rootRef'' ps;
         props = rest [''className'', ''rootRef''] ps
     in jsx ''div''
         [Attr ''data-slot'' (StrV ''calendar''),
           Attr ''ref'' rootRef,
           Attr ''className'' (cn lib [className]),
           Spread props]
         [])\<close>

definition Calendar_Chevron :: ui_component where
  \<open>Calendar_Chevron lib ps =
    (let className = read_prop ''className'' ps;
         orientation = read_prop ''orientation'' ps;
         props = rest [''className'', ''orientation''] ps
     in if strict_eq orientation (StrV ''left'') then
          jsx ''ChevronLeftIcon''
           [Attr ''className'' (cn lib [StrV ''size-4'',
                 className]),
             Spread props]
           []
        else if strict_eq orientation (StrV ''right'') then
          jsx ''ChevronRightIcon''
           [Attr ''className'' (cn lib [StrV ''size-4'',
                 className]),
             Spread props]
           []
        else
          jsx ''ChevronDownIcon''
           [Attr ''className'' (cn lib [StrV ''size-4'',
                 className]),
             Spread props]
           [])\<close>

definition Calendar_WeekNumber :: ui_component where
  \<open>Calendar_WeekNumber lib ps =
    (let children = read_prop ''children'' ps;
         props = rest [''children''] ps
     in jsx ''td''
         [Spread props]
         [jsx ''div''
            [Attr ''className'' (StrV ''flex size-(--cell-size) items-center justify-center text-center'')]
            [children]])\<close>

definition Calendar :: "ui_value \<Rightarrow> ui_component" where
  \<open>Calendar defaultClassNames lib ps =
    (let className = read_prop ''className'' ps;
         classNames = read_prop ''classNames'' ps;
         showOutsideDays = or_default (BoolV True) (read_prop ''showOutsideDays'' ps);
         captionLayout = or_default (StrV ''label'') (read_prop ''captionLayout'' ps);
         buttonVariant = or_default (StrV ''ghost'') (read_prop ''buttonVariant'' ps);
         formatters = read_prop ''formatters'' ps;
         components = read_prop ''components'' ps;
         props = rest [''className'', ''classNames'', ''showOutsideDays'', ''captionLayout'', ''buttonVariant'',
                       ''formatters'', ''components''] ps
     in jsx ''DayPicker''
          [Attr ''showOutsideDays'' showOutsideDays,
           Attr ''className'' (cn lib
             [StrV ''bg-background group/calendar p-3 [--cell-size:--spacing(8)] [[data-slot=card-content]_&]:bg-transparent [[data-slot=popover-content]_&]:bg-transparent'',
              StrV (''rtl:**:[.rdp-button'' @ [CHR 0x5C] @ ''_next>svg]:rotate-180''),
              StrV (''rtl:**:[.rdp-button'' @ [CHR 0x5C] @ ''_previous>svg]:rotate-180''),
              className]),
           Attr ''captionLayout'' captionLayout,
           Attr ''formatters'' (ObjV (obj [Attr ''formatMonthDropdown'' (FunV ''formatMonthDropdown'' []),
             Spread (spread_fields formatters)])),
           Attr ''classNames'' (calendar_class_names defaultClassNames buttonVariant captionLayout classNames lib),
           Attr ''components'' (ObjV (obj [Attr ''Root'' (FunV ''Calendar_Root'' []),
             Attr ''Chevron'' (FunV ''Calendar_Chevron'' []),
             Attr ''DayButton'' (FunV ''CalendarDayButton'' []),
             Attr ''WeekNumber'' (FunV ''Calendar_WeekNumber'' []),
             Spread (spread_fields components)])),
           Spread props] [])\<close>

text \<open>\<open>date_text\<close> is the platform's rendering of a date; the effect focuses the button of a focused day.\<close>

definition CalendarDayButton :: "(ui_value \<Rightarrow> string) \<Rightarrow> ui_value \<Rightarrow> ui_component" where
  \<open>CalendarDayButton date_text defaultClassNames lib ps =
    (let className = read_prop ''className'' ps;
         day = read_prop ''day'' ps;
         modifiers = read_prop ''modifiers'' ps;
         props = rest [''className'', ''day'', ''modifiers''] ps
     in jsx ''Button''
          [Attr ''ref'' (FunV ''CalendarDayButton.ref'' []),
           Attr ''variant'' (StrV ''ghost''),
           Attr ''size'' (StrV ''icon''),
           Attr ''data-day'' (StrV (date_text (member ''date'' day))),
           Attr ''data-selected-single'' (js_and (js_and (js_and (member ''selected'' modifiers) (BoolV (\<not> truthy (member ''range_start'' modifiers)))) (BoolV (\<not> truthy (member ''range_end'' modifiers)))) (BoolV (\<not> truthy (member ''range_middle'' modifiers)))),
           Attr ''data-range-start'' (member ''range_start'' modifiers),
           Attr ''data-range-end'' (member ''range_end'' modifiers),
           Attr ''data-range-middle'' (member ''range_middle'' modifiers),
           Attr ''className'' (cn lib [StrV ''data-[selected-single=true]:bg-primary data-[selected-single=true]:text-primary-foreground data-[range-middle=true]:bg-accent data-[range-middle=true]:text-accent-foreground data-[range-start=true]:bg-primary data-[range-start=true]:text-primary-foreground data-[range-end=true]:bg-primary data-[range-end=true]:text-primary-foreground group-data-[focused=true]/day:border-ring group-data-[focused=true]/day:ring-ring/50 dark:hover:text-accent-foreground flex aspect-square size-auto w-full min-w-(--cell-size) flex-col gap-1 leading-none font-normal group-data-[focused=true]/day:relative group-data-[focused=true]/day:z-10 group-data-[focused=true]/day:ring-[3px] data-[range-end=true]:rounded-md data-[range-end=true]:rounded-r-md data-[range-middle=true]:rounded-none data-[range-start=true]:rounded-md data-[range-start=true]:rounded-l-md [&>span]:text-xs [&>span]:opacity-70'',
                                   member ''day'' defaultClassNames,
                                   className]),
           Spread props] [])\<close>

definition CalendarDayButton_effect :: "ui_value \<Rightarrow> bool \<Rightarrow> string list" where
  "CalendarDayButton_effect modifiers attached =
     (if truthy (member ''focused'' modifiers) then (if attached then [''focus''] else []) else [])"

lemma truthy_js_and: "truthy (js_and a b) \<longleftrightarrow> truthy a \<and> truthy b"
  by (simp add: js_and_def)

text \<open>A day that is marked as selected on its own is in no range.\<close>

lemma selected_single_alone:
  assumes "distinct (map fst ps)" "map_of ps ''data-selected-single'' = None"
    "attribute ''data-selected-single'' (CalendarDayButton date_text dcn lib ps) = Some v" "truthy v"
  shows "\<forall>k \<in> {''range_start'', ''range_end'', ''range_middle''}. \<not> truthy (member k (read_prop ''modifiers'' ps))"
proof -
  let ?m = "read_prop ''modifiers'' ps"
  have "v = js_and (js_and (js_and (member ''selected'' ?m) (BoolV (\<not> truthy (member ''range_start'' ?m))))
      (BoolV (\<not> truthy (member ''range_end'' ?m)))) (BoolV (\<not> truthy (member ''range_middle'' ?m)))"
    using assms(1-3) by (simp add: CalendarDayButton_def Let_def attribute_jsx distinct_rest map_of_rest del: jsx.simps)
  then show ?thesis using assms(4) by (simp add: truthy_js_and)
qed

subsection \<open>\<open>sonner.tsx\<close>\<close>

text \<open>\<open>useTheme\<close> is the value of the hook of \<open>next-themes\<close>.\<close>

definition SonnerToaster :: "props \<Rightarrow> props \<Rightarrow> ui_value" where
  \<open>SonnerToaster useTheme ps =
    (let theme = or_default (StrV ''system'') (read_prop ''theme'' useTheme);
         props = ps
     in jsx ''Sonner''
          [Attr ''theme'' theme,
           Attr ''className'' (StrV ''toaster group''),
           Attr ''style'' (ObjV (obj [Attr ''--normal-bg'' (StrV ''var(--popover)''),
             Attr ''--normal-text'' (StrV ''var(--popover-foreground)''),
             Attr ''--normal-border'' (StrV ''var(--border)'')])),
           Spread props] [])\<close>

subsection \<open>\<open>use-mobile.tsx\<close>\<close>

definition MOBILE_BREAKPOINT :: int where
  "MOBILE_BREAKPOINT = 768"

text \<open>
  The hook's state is \<open>undefined\<close> until the effect has run. The media query calls its listener
  when the width crosses the breakpoint; \<open>innerWidth\<close> is the width of the window at the time.
\<close>

record mobile_hook =
  is_mobile :: "bool option"
  mql_listening :: bool

definition mount_mobile :: mobile_hook where
  "mount_mobile = \<lparr>is_mobile = None, mql_listening = False\<rparr>"

definition media_query :: string where
  "media_query = ''(max-width: '' @ dec (MOBILE_BREAKPOINT - 1) @ ''px)''"

definition mobile_onChange :: "int \<Rightarrow> mobile_hook \<Rightarrow> mobile_hook" where
  "mobile_onChange innerWidth h = h\<lparr>is_mobile := Some (innerWidth < MOBILE_BREAKPOINT)\<rparr>"

definition mobile_effect :: "int \<Rightarrow> mobile_hook \<Rightarrow> mobile_hook" where
  "mobile_effect innerWidth h =
     (h\<lparr>mql_listening := True\<rparr>)\<lparr>is_mobile := Some (innerWidth < MOBILE_BREAKPOINT)\<rparr>"

definition mobile_cleanup :: "mobile_hook \<Rightarrow> mobile_hook" where
  "mobile_cleanup h = h\<lparr>mql_listening := False\<rparr>"

definition useIsMobile :: "mobile_hook \<Rightarrow> bool" where
  "useIsMobile h \<longleftrightarrow> (case is_mobile h of None \<Rightarrow> False | Some b \<Rightarrow> b)"

text \<open>A change of width: the listener runs when the answer of the media query changes.\<close>

definition resize_mobile :: "int \<Rightarrow> int \<Rightarrow> mobile_hook \<Rightarrow> mobile_hook" where
  "resize_mobile old new h =
     (if mql_listening h \<and> (old \<le> MOBILE_BREAKPOINT - 1) \<noteq> (new \<le> MOBILE_BREAKPOINT - 1) then mobile_onChange new h else h)"

text \<open>While the hook is mounted it tells the width apart, after any sequence of resizes.\<close>

lemma mobile_tracks_width:
  "useIsMobile (snd (foldl (\<lambda>(w, h) w'. (w', resize_mobile w w' h)) (w0, mobile_effect w0 mount_mobile) ws)) =
   (last (w0 # ws) < MOBILE_BREAKPOINT)"
proof -
  have "\<forall>h. mql_listening h \<longrightarrow> is_mobile h = Some (w < MOBILE_BREAKPOINT) \<longrightarrow>
      is_mobile (snd (foldl (\<lambda>(w, h) w'. (w', resize_mobile w w' h)) (w, h) ws)) = Some (last (w # ws) < MOBILE_BREAKPOINT)" for w
  proof (induction ws arbitrary: w)
    case (Cons w' ws)
    show ?case
    proof (intro allI impI)
      fix h :: mobile_hook assume h: "mql_listening h" "is_mobile h = Some (w < MOBILE_BREAKPOINT)"
      then have "mql_listening (resize_mobile w w' h)" "is_mobile (resize_mobile w w' h) = Some (w' < MOBILE_BREAKPOINT)"
        by (auto simp: resize_mobile_def mobile_onChange_def)
      then show "is_mobile (snd (foldl (\<lambda>(w, h) w'. (w', resize_mobile w w' h)) (w, h) (w' # ws))) = Some (last (w # w' # ws) < MOBILE_BREAKPOINT)"
        using Cons.IH [of w'] by simp
    qed
  qed simp
  then show ?thesis by (simp add: mobile_effect_def mount_mobile_def useIsMobile_def)
qed

end
