(* ===== verification/JsRandom.thy ===== *)
theory JsRandom
  imports Jsx
begin

text \<open>
  Random choice in the text animations of \<open>Frontend/components\<close>: \<open>Math.random()\<close>, the index computed
  from it, and the bound that keeps the index inside the array in spite of rounding.
\<close>

definition random_value :: "number \<Rightarrow> bool" where
  "random_value x \<longleftrightarrow> (\<exists>r. x = Fin r \<and> representable r \<and> 0 \<le> r \<and> r < 1)"

definition random_index :: "nat \<Rightarrow> number \<Rightarrow> number" where
  "random_index n x = num_floor (num_mul x (Fin (of_nat n)))"

text \<open>\<open>xs[Math.floor(Math.random() * xs.length)]\<close>\<close>

definition pick :: "ui_value list \<Rightarrow> number \<Rightarrow> ui_value" where
  "pick vs x = js_at (ArrV vs) (NumV (random_index (length vs) x))"

lemma random_zero: "random_value (Fin 0)"
  using representable_int [of 0] by (simp add: random_value_def)

lemma below_one:
  assumes "representable r" "r < 1"
  shows "r \<le> 1 - pow2 (- 53)"
proof -
  obtain m e where r: "r = of_int m * pow2 e" "\<bar>m\<bar> \<le> 2 ^ 53" using assms(1) by (auto simp: representable_def)
  show ?thesis
  proof (cases "e < - 53")
    case True
    then have "pow2 e \<le> pow2 (- 54)" by simp
    moreover have "(of_int m :: rat) \<le> 2 ^ 53" using r(2) by (metis abs_le_D1 of_int_le_iff of_int_numeral of_int_power)
    ultimately have "of_int m * pow2 e \<le> 2 ^ 53 * pow2 e" "2 ^ 53 * pow2 e \<le> 2 ^ 53 * pow2 (- 54)"
      by (intro mult_right_mono mult_left_mono; simp add: less_imp_le)+
    then have "r \<le> 2 ^ 53 * pow2 (- 54)" unfolding r(1) by (rule order_trans)
    then show ?thesis by (simp add: pow2_def)
  next
    case False
    define k where "k = m * 2 ^ nat (e + 53)"
    have "pow2 e = pow2 (e + 53) * pow2 (- 53)" by (simp flip: pow2_add)
    then have k: "r = of_int k * pow2 (- 53)"
      using False by (simp add: r(1) k_def pow2_of_int)
    then have "(of_int k :: rat) < of_int (2 ^ 53)" using assms(2) by (simp add: pow2_def field_simps)
    then have "(of_int k :: rat) \<le> of_int (2 ^ 53 - 1)" by (subst of_int_le_iff) (simp only: of_int_less_iff)
    then show ?thesis using k by (simp add: pow2_def field_simps)
  qed
qed

lemma random_index_bound:
  assumes "random_value x" "fl ((1 - pow2 (- 53)) * of_nat n) < of_nat n" "n \<le> 64"
  shows "\<exists>i < n. random_index n x = Fin (of_nat i)"
proof -
  obtain r where r: "x = Fin r" "representable r" "0 \<le> r" "r < 1" using assms(1) by (auto simp: random_value_def)
  let ?y = "fl (r * of_nat n)"
  have "?y \<le> fl ((1 - pow2 (- 53)) * of_nat n)"
    using below_one [OF r(2,4)] by (intro fl_mono mult_right_mono) simp_all
  then have b: "0 \<le> ?y" "?y < of_nat n" using assms(2) r(3) fl_nonneg [of "r * of_nat n"] by simp_all
  have "\<not> pow2 1024 \<le> \<bar>?y\<bar>"
  proof -
    have "pow2 7 < pow2 1024" by simp
    moreover have "(of_nat n :: rat) \<le> of_nat 64" using assms(3) by (simp only: of_nat_le_iff)
    then have "\<bar>?y\<bar> < pow2 7" using b by (simp add: pow2_def)
    ultimately show ?thesis by linarith
  qed
  then have "num_mul x (Fin (of_nat n)) = Fin ?y"
    using b r(3) by (simp add: r(1) num_mul.simps round_to_def Let_def zero_signed_def not_less)
  then have "random_index n x = Fin (of_nat (nat \<lfloor>?y\<rfloor>))"
    using b(1) by (simp add: random_index_def of_nat_nat)
  moreover have "nat \<lfloor>?y\<rfloor> < n" using b by (auto simp: floor_less_iff nat_less_iff)
  ultimately show ?thesis by blast
qed

lemma pick_in:
  assumes "random_value x" "fl ((1 - pow2 (- 53)) * of_nat (length vs)) < of_nat (length vs)" "length vs \<le> 64"
  shows "pick vs x \<in> set vs"
proof -
  obtain i where i: "i < length vs" "random_index (length vs) x = Fin (of_nat i)"
    using random_index_bound [OF assms] by blast
  then have "whole (Fin (of_nat i)) = Some (int i)" by (simp del: whole.simps)
  then have "pick vs x = vs ! i" using i by (simp add: pick_def js_index_def)
  then show ?thesis using i(1) by simp
qed

end
