(* ===== verification/SplitFlap.thy ===== *)
theory SplitFlap
  imports JsRandom
begin

text \<open>
  The split-flap display of \<open>Frontend/components/split-flap-text.tsx\<close>: the sound it makes, the
  text, and one character as a machine. A character flips through random characters at every
  firing of its interval timer until it settles on its own. The event loop fires any live timer,
  and React runs the effect again, after the cleanup it returned, when a prop has changed. Texts are
  ASCII; \<open>framer-motion\<close> and the icons are elements of their packages.
\<close>

subsection \<open>Sound\<close>

text \<open>
  What the browser offers: a window, one of the two audio classes, vibration, whether the audio
  context is suspended and its current time, and the audio operations that throw.
\<close>

record audio_platform =
  has_window :: bool
  has_audio :: bool
  can_vibrate :: bool
  suspended :: bool
  currentTime :: number
  throws :: "string \<Rightarrow> bool"

text \<open>The provider's state, with the calls it has made on the browser.\<close>

record audio =
  isMuted :: bool
  has_context :: bool
  audio_calls :: "(string \<times> ui_value list) list"

definition new_audio :: audio where
  "new_audio = \<lparr>isMuted = True, has_context = False, audio_calls = []\<rparr>"

text \<open>Calls in order, up to the first that throws; whether all of them ran.\<close>

fun attempt :: "audio_platform \<Rightarrow> (string \<times> ui_value list) list \<Rightarrow> audio \<Rightarrow> bool \<times> audio" where
  "attempt env [] a = (True, a)"
| "attempt env (c # cs) a =
     (if throws env (fst c) then (False, a) else attempt env cs (a\<lparr>audio_calls := audio_calls a @ [c]\<rparr>))"

text \<open>Whether there is a context, \<open>None\<close> if its construction throws.\<close>

definition getAudioContext :: "audio_platform \<Rightarrow> audio \<Rightarrow> bool option \<times> audio" where
  "getAudioContext env a =
     (if \<not> has_window env then (Some False, a)
      else if \<not> has_context a \<and> has_audio env then
        (case attempt env [(''new AudioContext'', [])] a of
           (True, a) \<Rightarrow> (Some True, a\<lparr>has_context := True\<rparr>)
         | (False, a) \<Rightarrow> (None, a))
      else (Some (has_context a), a))"

definition triggerHaptic :: "audio_platform \<Rightarrow> audio \<Rightarrow> audio" where
  "triggerHaptic env a =
     (if isMuted a then a
      else if can_vibrate env then a\<lparr>audio_calls := audio_calls a @ [(''navigator.vibrate'', [NumV (Fin 10)])]\<rparr>
      else a)"

definition click_calls :: "audio_platform \<Rightarrow> number \<Rightarrow> (string \<times> ui_value list) list" where
  "click_calls env random =
     (let now = currentTime env
      in (if suspended env then [(''ctx.resume'', [])] else []) @
         [(''ctx.createOscillator'', []),
          (''ctx.createGain'', []),
          (''ctx.createBiquadFilter'', []),
          (''ctx.createBiquadFilter'', []),
          (''oscillator.type'', [StrV ''square'']),
          (''oscillator.frequency.setValueAtTime'', [NumV (num_add (Fin 800) (num_mul random (Fin 400))), NumV now]),
          (''oscillator.frequency.exponentialRampToValueAtTime'', [NumV (Fin 200), NumV (num_add now (decimal 15 3))]),
          (''filter.type'', [StrV ''bandpass'']),
          (''filter.frequency.setValueAtTime'', [NumV (Fin 1200), NumV now]),
          (''filter.Q.setValueAtTime'', [NumV (decimal 8 1), NumV now]),
          (''lowpass.type'', [StrV ''lowpass'']),
          (''lowpass.frequency.value'', [NumV (Fin 2500)]),
          (''lowpass.Q.value'', [NumV (decimal 5 1)]),
          (''gainNode.gain.setValueAtTime'', [NumV (decimal 5 2), NumV now]),
          (''gainNode.gain.exponentialRampToValueAtTime'', [NumV (decimal 1 3), NumV (num_add now (decimal 2 2))]),
          (''oscillator.connect'', [StrV ''filter'']),
          (''filter.connect'', [StrV ''gainNode'']),
          (''gainNode.connect'', [StrV ''lowpass'']),
          (''lowpass.connect'', [StrV ''ctx.destination'']),
          (''oscillator.start'', [NumV now]),
          (''oscillator.stop'', [NumV (num_add now (decimal 2 2))])])"

definition playClick :: "audio_platform \<Rightarrow> number \<Rightarrow> audio \<Rightarrow> audio" where
  "playClick env random a =
     (if isMuted a then a
      else
        (case getAudioContext env (triggerHaptic env a) of
           (Some True, a) \<Rightarrow> snd (attempt env (click_calls env random) a)
         | (_, a) \<Rightarrow> a))"

definition toggleMute :: "audio_platform \<Rightarrow> audio \<Rightarrow> audio" where
  "toggleMute env a =
     (let b = a\<lparr>isMuted := \<not> isMuted a\<rparr>
      in if isMuted a then
           (case getAudioContext env b of
              (Some True, b) \<Rightarrow> if suspended env then snd (attempt env [(''ctx.resume'', [])] b) else b
            | (_, b) \<Rightarrow> b)
         else b)"

text \<open>The context's value: the state and the two callbacks.\<close>

definition audio_context :: "audio \<Rightarrow> props" where
  "audio_context a =
     obj [Attr ''isMuted'' (BoolV (isMuted a)), Attr ''toggleMute'' (FunV ''toggleMute'' []),
          Attr ''playClick'' (FunV ''playClick'' [])]"

definition SplitFlapAudioProvider :: "audio \<Rightarrow> props \<Rightarrow> ui_value" where
  "SplitFlapAudioProvider a ps =
     jsx ''SplitFlapAudioContext.Provider'' [Attr ''value'' (ObjV (audio_context a))] [read_prop ''children'' ps]"

text \<open>\<open>audio\<close> is the value of the context, \<open>null\<close> outside a provider.\<close>

definition SplitFlapMuteToggle :: "ui_value \<Rightarrow> props \<Rightarrow> ui_value" where
  \<open>SplitFlapMuteToggle audio ps =
    (let className = or_default (StrV []) (read_prop ''className'' ps)
     in if \<not> truthy audio then NullV
        else jsx ''button''
              [Attr ''onClick'' (member ''toggleMute'' audio),
                Attr ''className'' (StrV (''inline-flex items-center gap-2 font-mono text-[10px] uppercase tracking-widest text-muted-foreground hover:text-foreground transition-colors duration-200 '' @ to_text className)),
                Attr ''aria-label'' ((if truthy (member ''isMuted'' audio) then StrV ''Unmute sound effects'' else StrV ''Mute sound effects''))]
              [(if truthy (member ''isMuted'' audio) then jsx ''VolumeX''
                 [Attr ''className'' (StrV ''w-4 h-4'')]
                 [] else jsx ''Volume2''
                 [Attr ''className'' (StrV ''w-4 h-4'')]
                 []),
                jsx ''span''
                 []
                 [(if truthy (member ''isMuted'' audio) then StrV ''Sound Off'' else StrV ''Sound On'')]])\<close>

lemma muted_silent [simp]: "isMuted a \<Longrightarrow> playClick env random a = a"
  by (simp add: playClick_def)

lemma toggled: "isMuted (toggleMute env a) = (\<not> isMuted a)"
  by (simp add: toggleMute_def getAudioContext_def Let_def split: prod.split option.split bool.split)

subsection \<open>The text\<close>

definition CHARSET :: "string list" where
  "CHARSET = map (\<lambda>c. [c]) ''ABCDEFGHIJKLMNOPQRSTUVWXYZ0123456789''"

record flap_text =
  animationKey :: nat
  hasInitialized :: bool

definition handleMouseEnter :: "flap_text \<Rightarrow> flap_text" where
  "handleMouseEnter t = t\<lparr>animationKey := animationKey t + 1\<rparr>"

text \<open>The callback of the timer of one second the effect starts.\<close>

definition initialized :: "flap_text \<Rightarrow> flap_text" where
  "initialized t = t\<lparr>hasInitialized := True\<rparr>"

definition SplitFlapTextInner :: "flap_text \<Rightarrow> ui_value \<Rightarrow> props \<Rightarrow> ui_value" where
  \<open>SplitFlapTextInner st audio ps =
    (let text = read_prop ''text'' ps;
         className = or_default (StrV []) (read_prop ''className'' ps);
         speed = or_default (NumV (Fin 50)) (read_prop ''speed'' ps);
         chars = ArrV (map (\<lambda>c. StrV [c]) (to_text text));
         animationKey = NumV (Fin (of_nat (animationKey st)));
         hasInitialized = BoolV (hasInitialized st);
         handleMouseEnter = FunV ''handleMouseEnter'' []
     in jsx ''div''
         [Attr ''className'' (StrV (''inline-flex gap-[0.08em] items-center cursor-pointer '' @ to_text className)),
           Attr ''aria-label'' text,
           Attr ''onMouseEnter'' handleMouseEnter,
           Attr ''style'' (ObjV (obj [Attr ''perspective'' (StrV ''1000px'')]))]
         [map_array (\<lambda>char index.
              jsx ''SplitFlapChar''
               [Attr ''key'' index,
                 Attr ''char'' (StrV (map to_upper (to_text char))),
                 Attr ''index'' index,
                 Attr ''animationKey'' animationKey,
                 Attr ''skipEntrance'' hasInitialized,
                 Attr ''speed'' speed,
                 Attr ''playClick'' (opt_member ''playClick'' audio)]
               [])
             chars])\<close>

definition SplitFlapText :: "props \<Rightarrow> ui_value" where
  "SplitFlapText ps = jsx ''SplitFlapTextInner'' [Spread ps] []"

subsection \<open>One character\<close>

record flap_props =
  flap_char :: string
  flap_index :: nat
  flap_key :: nat
  skipEntrance :: bool
  flap_speed :: number
  has_click :: bool

definition displayChar :: "flap_props \<Rightarrow> string" where
  "displayChar p = (if flap_char p \<in> set CHARSET then flap_char p else '' '')"

definition isSpace :: "flap_props \<Rightarrow> bool" where
  "isSpace p \<longleftrightarrow> flap_char p = '' ''"

definition tileDelay :: "flap_props \<Rightarrow> number" where
  "tileDelay p = num_mul (decimal 15 2) (Fin (of_nat (flap_index p)))"

text \<open>\<open>CHARSET[Math.floor(Math.random() * CHARSET.length)]\<close> of a random number.\<close>

definition random_char :: "number \<Rightarrow> ui_value" where
  "random_char x = pick (map StrV CHARSET) x"

text \<open>
  One run of the effect, with the variables its timers share: a timer that waits for the start, then
  one that flips. \<open>intervalRef\<close> and \<open>timeoutRef\<close> hold the ids of the last timers started, live or not.
\<close>

record flap_run =
  run_props :: flap_props
  flipIndex :: nat
  hasStartedSettling :: bool

datatype flap_timer = Timeout number flap_run | Interval number flap_run

record flap =
  currentChar :: ui_value
  isSettled :: bool
  intervalRef :: "nat option"
  timeoutRef :: "nat option"
  timers :: "(nat \<times> flap_timer) list"
  next_timer :: nat
  returned_cleanup :: bool
  flap_clicks :: nat

definition mount_flap :: "flap_props \<Rightarrow> flap" where
  "mount_flap p =
     \<lparr>currentChar = StrV (if skipEntrance p then displayChar p else '' ''), isSettled = skipEntrance p,
      intervalRef = None, timeoutRef = None, timers = [], next_timer = 1, returned_cleanup = False, flap_clicks = 0\<rparr>"

definition stop_timer :: "nat option \<Rightarrow> flap \<Rightarrow> flap" where
  "stop_timer r s =
     (case r of None \<Rightarrow> s | Some i \<Rightarrow> s\<lparr>timers := filter (\<lambda>(j, t). j \<noteq> i) (timers s)\<rparr>)"

definition clear_timers :: "flap \<Rightarrow> flap" where
  "clear_timers s = stop_timer (timeoutRef s) (stop_timer (intervalRef s) s)"

definition flap_effect :: "flap_props \<Rightarrow> number \<Rightarrow> flap \<Rightarrow> flap" where
  "flap_effect p random s =
     (let s = clear_timers s
      in if isSpace p then s\<lparr>currentChar := StrV '' '', isSettled := True, returned_cleanup := False\<rparr>
         else
           (let startDelay = (if skipEntrance p then num_mul (tileDelay p) (Fin 400) else num_mul (tileDelay p) (Fin 800));
                run = \<lparr>run_props = p, flipIndex = 0, hasStartedSettling = False\<rparr>
            in s\<lparr>isSettled := False, currentChar := random_char random,
                 timers := timers s @ [(next_timer s, Timeout startDelay run)], timeoutRef := Some (next_timer s),
                 next_timer := next_timer s + 1, returned_cleanup := True\<rparr>))"

definition baseFlips :: nat where
  "baseFlips = 8"

definition settleThreshold :: "flap_props \<Rightarrow> nat" where
  "settleThreshold p = baseFlips + flap_index p * 3"

definition click :: "flap_props \<Rightarrow> flap \<Rightarrow> flap" where
  "click p s = (if has_click p then s\<lparr>flap_clicks := flap_clicks s + 1\<rparr> else s)"

definition set_timer :: "nat \<Rightarrow> flap_timer \<Rightarrow> flap \<Rightarrow> flap" where
  "set_timer i t s = s\<lparr>timers := map (\<lambda>(j, u). (j, if j = i then t else u)) (timers s)\<rparr>"

definition flap_tick :: "nat \<Rightarrow> number \<Rightarrow> flap_run \<Rightarrow> number \<Rightarrow> flap \<Rightarrow> flap" where
  "flap_tick i period r random s =
     (let p = run_props r
      in if settleThreshold p \<le> flipIndex r \<and> \<not> hasStartedSettling r then
           (let s = set_timer i (Interval period (r\<lparr>hasStartedSettling := True\<rparr>)) s;
                s = stop_timer (intervalRef s) s
            in click p (s\<lparr>currentChar := StrV (displayChar p), isSettled := True\<rparr>))
         else
           (let s = s\<lparr>currentChar := random_char random\<rparr>;
                s = (if flipIndex r mod 2 = 0 then click p s else s)
            in set_timer i (Interval period (r\<lparr>flipIndex := flipIndex r + 1\<rparr>)) s))"

text \<open>A live timer fires.\<close>

definition fire_timer :: "nat \<Rightarrow> number \<Rightarrow> flap \<Rightarrow> flap" where
  "fire_timer i random s =
     (case map_of (timers s) i of
        None \<Rightarrow> s
      | Some (Timeout d r) \<Rightarrow>
          (let s = stop_timer (Some i) s
           in s\<lparr>timers := timers s @ [(next_timer s, Interval (flap_speed (run_props r)) r)],
                intervalRef := Some (next_timer s), next_timer := next_timer s + 1\<rparr>)
      | Some (Interval period r) \<Rightarrow> flap_tick i period r random s)"

definition flap_cleanup :: "flap \<Rightarrow> flap" where
  "flap_cleanup s = (if returned_cleanup s then clear_timers s else s)"

definition rerun :: "flap_props \<Rightarrow> number \<Rightarrow> flap \<Rightarrow> flap" where
  "rerun p random s = flap_effect p random (flap_cleanup s)"

definition SplitFlapChar :: "flap_props \<Rightarrow> flap \<Rightarrow> ui_value" where
  \<open>SplitFlapChar p s =
    (let skipEntrance = BoolV (skipEntrance p);
         animationKey = NumV (Fin (of_nat (flap_key p)));
         tileDelay = NumV (tileDelay p);
         isSettled = BoolV (isSettled s);
         currentChar = currentChar s;
         bgColor = (if truthy isSettled then StrV ''hsl(0, 0%, 0%)'' else StrV ''rgba(249, 115, 22, 0.2)'');
         textColor = (if truthy isSettled then StrV ''#ffffff'' else StrV ''#f97316'')
     in if isSpace p then
          jsx ''div''
           [Attr ''style'' (ObjV (obj [Attr ''width'' (StrV ''0.3em''), Attr ''fontSize'' (StrV ''clamp(4rem, 15vw, 14rem)'')]))]
           []
        else
          jsx ''motion.div''
           [Attr ''initial'' ((if truthy skipEntrance then BoolV False else ObjV (obj [Attr ''opacity'' (NumV (Fin 0)), Attr ''y'' (NumV (Fin 20))]))),
             Attr ''animate'' (ObjV (obj [Attr ''opacity'' (NumV (Fin 1)), Attr ''y'' (NumV (Fin 0))])),
             Attr ''transition'' (ObjV (obj [Attr ''delay'' tileDelay, Attr ''duration'' (NumV (decimal 3 1)), Attr ''ease'' (StrV ''easeOut'')])),
             Attr ''className'' (StrV ''relative overflow-hidden flex items-center justify-center font-[family-name:var(--font-bebas)]''),
             Attr ''style'' (ObjV (obj [Attr ''fontSize'' (StrV ''clamp(4rem, 15vw, 14rem)''), Attr ''width'' (StrV ''0.65em''), Attr ''height'' (StrV ''1.05em''), Attr ''backgroundColor'' bgColor, Attr ''transformStyle'' (StrV ''preserve-3d''), Attr ''transition'' (StrV ''background-color 0.15s ease'')]))]
           [jsx ''div''
              [Attr ''className'' (StrV ''absolute inset-x-0 top-1/2 h-[1px] bg-black/20 pointer-events-none z-10'')]
              [],
             jsx ''div''
              [Attr ''className'' (StrV ''absolute inset-x-0 top-0 bottom-1/2 flex items-end justify-center overflow-hidden'')]
              [jsx ''span''
                 [Attr ''className'' (StrV ''block translate-y-[0.52em] leading-none transition-colors duration-150''),
                   Attr ''style'' (ObjV (obj [Attr ''color'' textColor]))]
                 [currentChar]],
             jsx ''div''
              [Attr ''className'' (StrV ''absolute inset-x-0 top-1/2 bottom-0 flex items-start justify-center overflow-hidden'')]
              [jsx ''span''
                 [Attr ''className'' (StrV ''-translate-y-[0.52em] leading-none transition-colors duration-150''),
                   Attr ''style'' (ObjV (obj [Attr ''color'' textColor]))]
                 [currentChar]],
             jsx ''motion.div''
              [Attr ''key'' (StrV (to_text animationKey @ ''-'' @ to_text isSettled)),
                Attr ''initial'' (ObjV (obj [Attr ''rotateX'' (NumV (Fin (- 90)))])),
                Attr ''animate'' (ObjV (obj [Attr ''rotateX'' (NumV (Fin 0))])),
                Attr ''transition'' (ObjV (obj [Attr ''delay'' ((if truthy skipEntrance then js_mul tileDelay (NumV (decimal 5 1)) else js_add tileDelay (NumV (decimal 15 2)))), Attr ''duration'' (NumV (decimal 25 2)), Attr ''ease'' (ArrV [NumV (decimal 22 2), NumV (decimal 61 2), NumV (decimal 36 2), NumV (Fin 1)])])),
                Attr ''className'' (StrV ''absolute inset-x-0 top-0 bottom-1/2 origin-bottom overflow-hidden''),
                Attr ''style'' (ObjV (obj [Attr ''backgroundColor'' bgColor, Attr ''transformStyle'' (StrV ''preserve-3d''), Attr ''backfaceVisibility'' (StrV ''hidden''), Attr ''transition'' (StrV ''background-color 0.15s ease'')]))]
              [jsx ''div''
                 [Attr ''className'' (StrV ''flex h-full items-end justify-center'')]
                 [jsx ''span''
                    [Attr ''className'' (StrV ''translate-y-[0.52em] leading-none transition-colors duration-150''),
                      Attr ''style'' (ObjV (obj [Attr ''color'' textColor]))]
                    [currentChar]]]])\<close>

subsection \<open>The characters shown\<close>

lemma random_char_in: "random_value x \<Longrightarrow> \<exists>c \<in> set CHARSET. random_char x = StrV c"
proof -
  have "fl ((1 - pow2 (- 53)) * 36) < 36" by code_simp
  then show "random_value x \<Longrightarrow> ?thesis" using pick_in [of x "map StrV CHARSET"] by (auto simp: random_char_def CHARSET_def)
qed

subsection \<open>A character settles\<close>

text \<open>Any live timer fires, the effect runs again with changed props; \<open>mount\<close> runs it first.\<close>

inductive flap_step :: "flap_props \<times> flap \<Rightarrow> flap_props \<times> flap \<Rightarrow> bool" where
  fires: "i \<in> fst ` set (timers s) \<Longrightarrow> random_value x \<Longrightarrow> flap_step (p, s) (p, fire_timer i x s)"
| reruns: "random_value x \<Longrightarrow> flap_step (p, s) (p', rerun p' x s)"

inductive_cases flap_stepE: "flap_step (p, s) (p', s')"

inductive flap_reachable :: "flap_props \<times> flap \<Rightarrow> bool" where
  mounted: "random_value x \<Longrightarrow> flap_reachable (p, flap_effect p x (mount_flap p))"
| steps: "flap_reachable c \<Longrightarrow> flap_step c c' \<Longrightarrow> flap_reachable c'"

text \<open>
  A settled character has no live timer. One that is not has exactly one, which a ref holds; it waits to
  start with the props of the last run, or flips and has not flipped more often than it will.
\<close>

definition timer_ok :: "flap_props \<Rightarrow> flap \<Rightarrow> nat \<Rightarrow> flap_timer \<Rightarrow> bool" where
  "timer_ok p s i t \<longleftrightarrow>
     (case t of
        Timeout d r \<Rightarrow> timeoutRef s = Some i \<and> r = \<lparr>run_props = p, flipIndex = 0, hasStartedSettling = False\<rparr>
      | Interval d r \<Rightarrow> intervalRef s = Some i \<and> run_props r = p \<and> flipIndex r \<le> settleThreshold p \<and>
          \<not> hasStartedSettling r)"

definition shown_ok :: "flap \<Rightarrow> bool" where
  "shown_ok s \<longleftrightarrow> (\<exists>c. currentChar s = StrV c \<and> (c = '' '' \<or> c \<in> set CHARSET))"

definition flap_ok :: "flap_props \<Rightarrow> flap \<Rightarrow> bool" where
  "flap_ok p s \<longleftrightarrow> shown_ok s \<and>
     (if isSettled s then timers s = [] \<and> currentChar s = StrV (displayChar p)
      else \<not> isSpace p \<and> returned_cleanup s \<and> (\<exists>i t. timers s = [(i, t)] \<and> timer_ok p s i t))"

text \<open>The firings of its timer a character still needs.\<close>

definition flips_left :: "flap \<Rightarrow> nat" where
  "flips_left s =
     (case timers s of
        [] \<Rightarrow> 0
      | (i, Timeout d r) # ts \<Rightarrow> settleThreshold (run_props r) + 2
      | (i, Interval d r) # ts \<Rightarrow> settleThreshold (run_props r) - flipIndex r + 1)"

definition fire_live :: "flap \<Rightarrow> number \<Rightarrow> flap" where
  "fire_live s x = fire_timer (fst (hd (timers s))) x s"

lemma displayChar_shown: "displayChar p = '' '' \<or> displayChar p \<in> set CHARSET"
  by (simp add: displayChar_def)

lemma shown_random: "random_value x \<Longrightarrow> currentChar s = random_char x \<Longrightarrow> shown_ok s"
  using random_char_in [of x] by (auto simp: shown_ok_def)

lemma clear_timers_ok: "flap_ok p s \<Longrightarrow> timers (clear_timers s) = []"
  proof (cases "isSettled s")
  case False
  assume "flap_ok p s"
  then obtain i t where "timers s = [(i, t)]" "timer_ok p s i t" using False by (auto simp: flap_ok_def)
  then show ?thesis by (cases t) (auto simp: clear_timers_def stop_timer_def timer_ok_def split: option.split)
qed (auto simp: flap_ok_def clear_timers_def stop_timer_def split: option.split)

lemma clear_timers_idle: "timers s = [] \<Longrightarrow> clear_timers s = s"
  by (auto simp: clear_timers_def stop_timer_def split: option.split)

lemma flap_cleanup_ok: "flap_ok p s \<Longrightarrow> timers (flap_cleanup s) = []"
  using clear_timers_ok [of p s] by (auto simp: flap_cleanup_def) (auto simp: flap_ok_def split: if_splits)

lemma effect_ok:
  assumes "timers s = []" "random_value x"
  shows "flap_ok p (flap_effect p x s) \<and> flips_left (flap_effect p x s) = (if isSpace p then 0 else settleThreshold p + 2)"
proof (cases "isSpace p")
  case True
  moreover have "'' '' \<notin> set CHARSET" by (simp add: CHARSET_def)
  ultimately show ?thesis using assms(1)
    by (simp add: flap_effect_def clear_timers_idle flap_ok_def shown_ok_def displayChar_def isSpace_def flips_left_def)
next
  case False
  have "shown_ok (flap_effect p x s)"
    using False by (intro shown_random [OF assms(2)]) (simp add: flap_effect_def Let_def)
  then show ?thesis using False assms(1)
    by (simp add: flap_effect_def clear_timers_idle flap_ok_def timer_ok_def flips_left_def Let_def)
qed

lemma fire_live_ok:
  assumes ok: "flap_ok p s" "\<not> isSettled s" and x: "random_value x"
  shows "flap_ok p (fire_live s x) \<and> Suc (flips_left (fire_live s x)) = flips_left s"
proof -
  obtain i t where t: "timers s = [(i, t)]" "timer_ok p s i t" and sp: "\<not> isSpace p" "returned_cleanup s" "shown_ok s"
    using ok by (auto simp: flap_ok_def)
  have f: "fire_live s x = fire_timer i x s" by (simp add: fire_live_def t(1))
  show ?thesis
  proof (cases t)
    case (Timeout d r)
    then show ?thesis using t sp ok(2)
      by (simp add: f fire_timer_def stop_timer_def Let_def flap_ok_def timer_ok_def flips_left_def shown_ok_def)
  next
    case (Interval d r)
    then have r: "intervalRef s = Some i" "run_props r = p" "flipIndex r \<le> settleThreshold p" "\<not> hasStartedSettling r"
      using t(2) by (simp_all add: timer_ok_def)
    have tick: "fire_live s x = flap_tick i d r x s" by (simp add: f fire_timer_def t(1) Interval)
    show ?thesis
    proof (cases "settleThreshold p \<le> flipIndex r")
      case True
      then show ?thesis using t(1) r Interval displayChar_shown [of p]
        by (simp add: tick flap_tick_def set_timer_def stop_timer_def click_def Let_def flap_ok_def shown_ok_def flips_left_def)
    next
      case False
      have "shown_ok (flap_tick i d r x s)"
        using False r by (intro shown_random [OF x]) (simp add: flap_tick_def set_timer_def click_def Let_def)
      then show ?thesis using False t(1) r Interval ok(2) sp
        by (auto simp: tick flap_tick_def set_timer_def click_def Let_def flap_ok_def timer_ok_def flips_left_def)
    qed
  qed
qed

lemma flap_step_ok:
  assumes "flap_step (p, s) (p', s')" "flap_ok p s"
  shows "flap_ok p' s'"
  using assms(1)
proof (rule flap_stepE)
  fix i x assume fires: "p' = p" "s' = fire_timer i x s" "i \<in> fst ` set (timers s)" "random_value x"
  then have "\<not> isSettled s" using assms(2) by (auto simp: flap_ok_def)
  moreover obtain j t where "timers s = [(j, t)]" using assms(2) calculation by (auto simp: flap_ok_def)
  then have "fire_timer i x s = fire_live s x" using fires by (simp add: fire_live_def)
  ultimately show ?thesis using fires fire_live_ok [OF assms(2)] by simp
next
  fix x assume "s' = rerun p' x s" "random_value x"
  then show ?thesis using effect_ok flap_cleanup_ok [OF assms(2)] by (simp add: rerun_def)
qed

lemma flap_reachable_ok: "flap_reachable c \<Longrightarrow> flap_ok (fst c) (snd c)"
proof (induction rule: flap_reachable.induct)
  case (mounted x p)
  then show ?case using effect_ok [of "mount_flap p" x p] by (simp add: mount_flap_def)
next
  case (steps c c')
  then show ?case using flap_step_ok [of "fst c" "snd c" "fst c'" "snd c'"] by simp
qed

lemma flips_left_zero: "flap_ok p s \<Longrightarrow> flips_left s = 0 \<longleftrightarrow> isSettled s"
  by (auto simp: flap_ok_def flips_left_def split: if_splits flap_timer.splits)

lemma settles_after:
  assumes "flap_ok p s" "list_all random_value xs" "length xs \<le> flips_left s"
  shows "isSettled (foldl fire_live s xs) \<longleftrightarrow> length xs = flips_left s"
  using assms
proof (induction xs arbitrary: s)
  case Nil
  then show ?case using flips_left_zero [of p s] by auto
next
  case (Cons x xs)
  then have "\<not> isSettled s" using flips_left_zero [of p s] by auto
  with Cons show ?case using fire_live_ok [of p s x] by auto
qed

text \<open>C39: In every interleaving of timers and changes of props, a character shows only characters of the display; it is
  settled exactly when no timer of it is live, and then shows its own character. Otherwise
  exactly the predicted number of firings of its timer settles it, whatever the random numbers are:
  10 plus 3 times its position after a run of the effect, none for a space. A cleanup leaves no timer.\<close>

theorem flap_settles:
  assumes "flap_reachable (p, s)"
  shows "(\<exists>c. currentChar s = StrV c \<and> (c = '' '' \<or> c \<in> set CHARSET)) \<and>
    (isSettled s \<longleftrightarrow> timers s = []) \<and> (isSettled s \<longrightarrow> currentChar s = StrV (displayChar p)) \<and>
    (\<forall>xs. list_all random_value xs \<longrightarrow> length xs \<le> flips_left s \<longrightarrow>
      (isSettled (foldl fire_live s xs) \<longleftrightarrow> length xs = flips_left s)) \<and>
    (\<forall>p' x. random_value x \<longrightarrow> flips_left (rerun p' x s) = (if isSpace p' then 0 else 10 + 3 * flap_index p')) \<and>
    timers (flap_cleanup s) = []"
proof -
  have ok: "flap_ok p s" using flap_reachable_ok [OF assms] by simp
  have "flips_left (rerun p' x s) = (if isSpace p' then 0 else 10 + 3 * flap_index p')" if "random_value x" for p' x
    using effect_ok [OF flap_cleanup_ok [OF ok] that, of p'] by (simp add: rerun_def settleThreshold_def baseFlips_def)
  then show ?thesis
    using ok settles_after [OF ok] flap_cleanup_ok [OF ok] by (auto simp: flap_ok_def shown_ok_def split: if_splits)
qed

definition sample_flap :: flap_props where
  "sample_flap = \<lparr>flap_char = ''G'', flap_index = 4, flap_key = 0, skipEntrance = False, flap_speed = Fin 80, has_click = True\<rparr>"

theorem flap_settles_witness:
  "isSettled (foldl fire_live (rerun sample_flap (Fin 0) (flap_effect sample_flap (Fin 0) (mount_flap sample_flap)))
     (replicate 22 (Fin 0)))"
proof -
  have x: "random_value (Fin 0)" using representable_int [of 0] by (simp add: random_value_def)
  let ?s = "flap_effect sample_flap (Fin 0) (mount_flap sample_flap)"
  have r: "flap_reachable (sample_flap, ?s)" by (rule mounted [OF x])
  have "flips_left (rerun sample_flap (Fin 0) ?s) = 22"
    using flap_settles [OF r] x by (auto simp: sample_flap_def isSpace_def)
  moreover have "flap_reachable (sample_flap, rerun sample_flap (Fin 0) ?s)" using r by (rule steps) (rule reruns [OF x])
  ultimately show ?thesis using flap_settles [of sample_flap "rerun sample_flap (Fin 0) ?s"] x by (simp add: list_all_iff)
qed

end
