(* ===== verification/Pages.thy ===== *)
theory Pages
  imports SplitFlap
begin

text \<open>
  The page of \<open>Frontend/app\<close> and its sections in \<open>Frontend/components\<close>: what each renders, the calls on
  the \<open>gsap\<close> package its effect makes, and the small state machines of the navigation, the cards and
  the scroller. A ref is an object with the node React attached as its \<open>current\<close>. An effect is \<open>None\<close>
  when it returns early, and else the calls it makes with those of its cleanup. \<open>query\<close> is
  \<open>querySelectorAll\<close> of the document.
\<close>

type_synonym js_call = "string \<times> ui_value list"
type_synonym effect = "(js_call list \<times> js_call list) option"

definition current :: "ui_value \<Rightarrow> ui_value" where
  "current r = member ''current'' r"

text \<open>An effect that runs its calls in a gsap context and reverts the context, once its refs are attached.\<close>

definition gsap_effect :: "ui_value list \<Rightarrow> js_call list \<Rightarrow> effect" where
  "gsap_effect refs calls =
     (if \<exists>r \<in> set refs. \<not> truthy (current r) then None else Some (calls, [(''ctx.revert'', [])]))"

subsection \<open>\<open>bitmap-chevron.tsx\<close>, \<open>theme-provider.tsx\<close>\<close>

definition BitmapChevron :: "props \<Rightarrow> ui_value" where
  \<open>BitmapChevron ps =
    (let className = read_prop ''className'' ps
     in jsx ''svg''
         [Attr ''width'' (StrV ''18''),
           Attr ''height'' (StrV ''18''),
           Attr ''viewBox'' (StrV ''0 0 27 27''),
           Attr ''fill'' (StrV ''none''),
           Attr ''xmlns'' (StrV ''http://www.w3.org/2000/svg''),
           Attr ''className'' className]
         [jsx ''path''
            [Attr ''d'' (StrV ''M3.85715 3.85715H19.2857L23.0553 7.64066L17.5163 13.1595L22.8462 17.5055V23.1429H17.5055V13.1703L7.65696 22.9832L3.8874 19.2L13.9259 9.19781H3.85715V3.85715Z''),
              Attr ''fill'' (StrV ''currentColor'')]
            []])\<close>

definition ThemeProvider :: "props \<Rightarrow> ui_value" where
  \<open>ThemeProvider ps =
    (let children = read_prop ''children'' ps;
         props = rest [''children''] ps
     in jsx ''NextThemesProvider''
         [Spread props]
         [children])\<close>

subsection \<open>\<open>hero-section.tsx\<close>\<close>

definition HeroSection_effect :: "ui_value \<Rightarrow> ui_value \<Rightarrow> effect" where
  \<open>HeroSection_effect sectionRef contentRef =
    gsap_effect [sectionRef, contentRef]
      [(''gsap.to'',
         [member ''current'' contentRef,
          ObjV (obj [Attr ''y'' (NumV (Fin (- 100))), Attr ''opacity'' (NumV (Fin 0)), Attr ''scrollTrigger'' (ObjV (obj [Attr ''trigger'' (member ''current'' sectionRef), Attr ''start'' (StrV ''top top''), Attr ''end'' (StrV ''bottom top''), Attr ''scrub'' (NumV (Fin 1))]))])])]\<close>

definition HeroSection :: "ui_value \<Rightarrow> ui_value \<Rightarrow> ui_value" where
  \<open>HeroSection sectionRef contentRef =
    jsx ''section''
     [Attr ''ref'' sectionRef,
       Attr ''id'' (StrV ''hero''),
       Attr ''className'' (StrV ''relative min-h-screen flex items-center pl-6 md:pl-28 pr-6 md:pr-12'')]
     [jsx ''AnimatedNoise''
        [Attr ''opacity'' (NumV (decimal 3 2))]
        [],
       jsx ''div''
        [Attr ''className'' (StrV ''absolute left-4 md:left-6 top-1/2 -translate-y-1/2'')]
        [jsx ''span''
           [Attr ''className'' (StrV ''font-mono text-[10px] uppercase tracking-[0.3em] text-muted-foreground -rotate-90 origin-left block whitespace-nowrap'')]
           [StrV ''SIGNAL'']],
       jsx ''div''
        [Attr ''ref'' contentRef,
          Attr ''className'' (StrV ''flex-1 w-full'')]
        [jsx ''SplitFlapAudioProvider''
           []
           [jsx ''div''
              [Attr ''className'' (StrV ''relative'')]
              [jsx ''SplitFlapText''
                 [Attr ''text'' (StrV ''INFRGATE''),
                   Attr ''speed'' (NumV (Fin 80))]
                 [],
                jsx ''div''
                 [Attr ''className'' (StrV ''mt-4'')]
                 [jsx ''SplitFlapMuteToggle''
                    []
                    []]]],
          jsx ''h2''
           [Attr ''className'' (StrV ''font-[var(--font-bebas)] text-muted-foreground/60 text-[clamp(1rem,3vw,2rem)] mt-4 tracking-wide'')]
           [StrV ''Intelligent Inference Control Plane''],
          jsx ''p''
           [Attr ''className'' (StrV ''mt-12 max-w-md font-mono text-sm text-muted-foreground leading-relaxed'')]
           [StrV ''Enterprise-grade AI Gateway. Route requests, enforce rate limits, and guarantee reliability across LLM providers with a unified API.''],
          jsx ''div''
           [Attr ''className'' (StrV ''mt-16 flex items-center gap-8'')]
           [jsx ''a''
              [Attr ''href'' (StrV ''https://infrgate.onrender.com/''),
                Attr ''target'' (StrV ''_blank''),
                Attr ''rel'' (StrV ''noopener noreferrer''),
                Attr ''className'' (StrV ''group inline-flex items-center gap-3 border border-foreground/20 px-6 py-3 font-mono text-xs uppercase tracking-widest text-foreground hover:border-accent hover:text-accent transition-all duration-200'')]
              [jsx ''ScrambleTextOnHover''
                 [Attr ''text'' (StrV ''View Demo''),
                   Attr ''as'' (StrV ''span''),
                   Attr ''duration'' (NumV (decimal 6 1))]
                 [],
                jsx ''BitmapChevron''
                 [Attr ''className'' (StrV ''transition-transform duration-[400ms] ease-in-out group-hover:rotate-45'')]
                 []],
             jsx ''a''
              [Attr ''href'' (StrV ''https://github.com/Iam-jayant/Infrgate''),
                Attr ''target'' (StrV ''_blank''),
                Attr ''rel'' (StrV ''noopener noreferrer''),
                Attr ''className'' (StrV ''font-mono text-xs uppercase tracking-widest text-muted-foreground hover:text-foreground transition-colors duration-200'')]
              [StrV ''GitHub Repository'']]],
       jsx ''div''
        [Attr ''className'' (StrV ''absolute bottom-8 right-8 md:bottom-12 md:right-12'')]
        [jsx ''div''
           [Attr ''className'' (StrV ''border border-border px-4 py-2 font-mono text-[10px] uppercase tracking-widest text-muted-foreground'')]
           [StrV ''v.01 / Enterprise Ready'']]]\<close>

subsection \<open>\<open>signals-section.tsx\<close>\<close>

definition signals :: ui_value where
  \<open>signals = ArrV [ObjV (obj [Attr ''date'' (StrV ''FEATURE.01''), Attr ''title'' (StrV ''Unified Interface''), Attr ''note'' (StrV ''One API for all major LLM providers. Zero code changes required.'')]), ObjV (obj [Attr ''date'' (StrV ''FEATURE.02''), Attr ''title'' (StrV ''Token Rate Limiting''), Attr ''note'' (StrV ''Sliding window rate limits using Redis for extreme precision.'')]), ObjV (obj [Attr ''date'' (StrV ''FEATURE.03''), Attr ''title'' (StrV ''Idempotency''), Attr ''note'' (StrV ''Prevent duplicated requests from double billing your upstream providers.'')]), ObjV (obj [Attr ''date'' (StrV ''FEATURE.04''), Attr ''title'' (StrV ''Granular Tenancy''), Attr ''note'' (StrV ''Manage multiple tenants with independent spend caps and permissions.'')]), ObjV (obj [Attr ''date'' (StrV ''FEATURE.05''), Attr ''title'' (StrV ''Edge Routing''), Attr ''note'' (StrV ''Smart fallback and failover across model providers during outages.'')])]\<close>

text \<open>The pointer moves: the cursor follows it, relative to the section. The numbers are the event's and the section's.\<close>

definition signals_mousemove :: "ui_value \<Rightarrow> number \<Rightarrow> number \<Rightarrow> number \<Rightarrow> number \<Rightarrow> js_call" where
  \<open>signals_mousemove cursor clientX clientY rectLeft rectTop =
    (let x = NumV (num_sub clientX rectLeft);
         y = NumV (num_sub clientY rectTop)
     in (''gsap.to'',
          [cursor,
           ObjV (obj [Attr ''x'' x, Attr ''y'' y, Attr ''duration'' (NumV (decimal 5 1)), Attr ''ease'' (StrV ''power3.out'')])]))\<close>

definition signals_listeners :: "ui_value \<Rightarrow> ui_value \<Rightarrow> effect" where
  "signals_listeners sectionRef cursorRef =
     (if \<not> truthy (current sectionRef) \<or> \<not> truthy (current cursorRef) then None
      else Some
        ([(''section.addEventListener'', [StrV ''mousemove'', FunV ''handleMouseMove'' []]),
          (''section.addEventListener'', [StrV ''mouseenter'', FunV ''handleMouseEnter'' []]),
          (''section.addEventListener'', [StrV ''mouseleave'', FunV ''handleMouseLeave'' []])],
         [(''section.removeEventListener'', [StrV ''mousemove'', FunV ''handleMouseMove'' []]),
          (''section.removeEventListener'', [StrV ''mouseenter'', FunV ''handleMouseEnter'' []]),
          (''section.removeEventListener'', [StrV ''mouseleave'', FunV ''handleMouseLeave'' []])]))"

definition SignalsSection_effect :: "(ui_value \<Rightarrow> string \<Rightarrow> ui_value) \<Rightarrow> ui_value \<Rightarrow> ui_value \<Rightarrow> ui_value \<Rightarrow> effect" where
  \<open>SignalsSection_effect query sectionRef headerRef cardsRef =
    (let cards = query (current cardsRef) ''article''
     in gsap_effect [sectionRef, headerRef, cardsRef]
          ([(''gsap.fromTo'',
              [member ''current'' headerRef,
               ObjV (obj [Attr ''x'' (NumV (Fin (- 60))), Attr ''opacity'' (NumV (Fin 0))]),
               ObjV (obj [Attr ''x'' (NumV (Fin 0)), Attr ''opacity'' (NumV (Fin 1)), Attr ''duration'' (NumV (Fin 1)), Attr ''ease'' (StrV ''power3.out''), Attr ''scrollTrigger'' (ObjV (obj [Attr ''trigger'' (member ''current'' headerRef), Attr ''start'' (StrV ''top 85%''), Attr ''toggleActions'' (StrV ''play none none reverse'')]))])])] @
           (if truthy cards then
              [(''gsap.fromTo'',
                 [cards,
                  ObjV (obj [Attr ''x'' (NumV (Fin (- 100))), Attr ''opacity'' (NumV (Fin 0))]),
                  ObjV (obj [Attr ''x'' (NumV (Fin 0)), Attr ''opacity'' (NumV (Fin 1)), Attr ''duration'' (NumV (decimal 8 1)), Attr ''stagger'' (NumV (decimal 2 1)), Attr ''ease'' (StrV ''power3.out''), Attr ''scrollTrigger'' (ObjV (obj [Attr ''trigger'' (member ''current'' cardsRef), Attr ''start'' (StrV ''top 90%''), Attr ''toggleActions'' (StrV ''play none none reverse'')]))])])]
            else [])))\<close>

definition SignalCard :: "ui_lib \<Rightarrow> props \<Rightarrow> ui_value" where
  \<open>SignalCard lib ps =
    (let signal = read_prop ''signal'' ps;
         index = read_prop ''index'' ps
     in jsx ''article''
         [Attr ''className'' (cn lib [StrV ''group relative flex-shrink-0 w-80'',
               StrV ''transition-transform duration-500 ease-out'',
               StrV ''hover:-translate-y-2''])]
         [jsx ''div''
            [Attr ''className'' (StrV ''relative bg-card border border-border/50 md:border-t md:border-l md:border-r-0 md:border-b-0 p-8'')]
            [jsx ''div''
               [Attr ''className'' (StrV ''absolute -top-px left-0 right-0 h-px bg-gradient-to-r from-transparent via-border/40 to-transparent'')]
               [],
              jsx ''div''
               [Attr ''className'' (StrV ''flex items-baseline justify-between mb-8'')]
               [jsx ''span''
                  [Attr ''className'' (StrV ''font-mono text-[10px] uppercase tracking-[0.3em] text-muted-foreground'')]
                  [StrV ''No. '',
                    pad_start 2 ''0'' (StrV (to_text (js_add index (NumV (Fin 1)))))],
                 jsx ''time''
                  [Attr ''className'' (StrV ''font-mono text-[10px] text-muted-foreground/60'')]
                  [member ''date'' signal]],
              jsx ''h3''
               [Attr ''className'' (StrV ''font-[var(--font-bebas)] text-4xl tracking-tight mb-4 group-hover:text-accent transition-colors duration-300'')]
               [member ''title'' signal],
              jsx ''div''
               [Attr ''className'' (StrV ''w-12 h-px bg-accent/60 mb-6 group-hover:w-full transition-all duration-500'')]
               [],
              jsx ''p''
               [Attr ''className'' (StrV ''font-mono text-xs text-muted-foreground leading-relaxed'')]
               [member ''note'' signal],
              jsx ''div''
               [Attr ''className'' (StrV ''absolute bottom-0 right-0 w-6 h-6 overflow-hidden'')]
               [jsx ''div''
                  [Attr ''className'' (StrV ''absolute bottom-0 right-0 w-8 h-8 bg-background rotate-45 translate-x-4 translate-y-4 border-t border-l border-border/30'')]
                  []]],
           jsx ''div''
            [Attr ''className'' (StrV ''absolute inset-0 -z-10 translate-x-1 translate-y-1 bg-accent/5 opacity-0 group-hover:opacity-100 transition-opacity duration-300'')]
            []])\<close>

definition SignalsSection :: "ui_lib \<Rightarrow> bool \<Rightarrow> ui_value \<Rightarrow> ui_value \<Rightarrow> ui_value \<Rightarrow> ui_value" where
  \<open>SignalsSection lib hovering sectionRef headerRef cursorRef =
    (let isHovering = BoolV hovering
     in jsx ''section''
         [Attr ''id'' (StrV ''signals''),
           Attr ''ref'' sectionRef,
           Attr ''className'' (StrV ''relative py-32 pl-6 md:pl-28'')]
         [jsx ''div''
            [Attr ''ref'' cursorRef,
              Attr ''className'' (cn lib [StrV ''pointer-events-none absolute top-0 left-0 -translate-x-1/2 -translate-y-1/2 z-50'',
                  StrV ''w-12 h-12 rounded-full border-2 border-accent bg-accent'',
                  StrV ''transition-opacity duration-300'',
                  (if truthy isHovering then StrV ''opacity-100'' else StrV ''opacity-0'')])]
            [],
           jsx ''div''
            [Attr ''ref'' headerRef,
              Attr ''className'' (StrV ''mb-16 pr-6 md:pr-12'')]
            [jsx ''span''
               [Attr ''className'' (StrV ''font-mono text-[10px] uppercase tracking-[0.3em] text-accent'')]
               [StrV ''01 / Capabilities''],
              jsx ''h2''
               [Attr ''className'' (StrV ''mt-4 font-[var(--font-bebas)] text-5xl md:text-7xl tracking-tight'')]
               [StrV ''CORE FEATURES'']],
           jsx ''div''
            [Attr ''ref'' (FunV ''SignalsSection.ref'' []),
              Attr ''className'' (StrV ''flex gap-8 overflow-x-auto pb-8 pr-12 scrollbar-hide''),
              Attr ''style'' (ObjV (obj [Attr ''scrollbarWidth'' (StrV ''none''), Attr ''msOverflowStyle'' (StrV ''none'')]))]
            [map_array (\<lambda>signal index.
                 jsx ''SignalCard''
                  [Attr ''key'' index,
                    Attr ''signal'' signal,
                    Attr ''index'' index]
                  [])
                signals]])\<close>

subsection \<open>\<open>work-section.tsx\<close>\<close>

definition experiments :: ui_value where
  \<open>experiments = ArrV [ObjV (obj [Attr ''title'' (StrV ''Global Rate Limiting''), Attr ''medium'' (StrV ''Architecture''), Attr ''description'' (StrV ''Distributed token bucket across all edge nodes using Upstash Redis.''), Attr ''span'' (StrV ''col-span-2 row-span-2'')]), ObjV (obj [Attr ''title'' (StrV ''Provider Routing''), Attr ''medium'' (StrV ''Core Engine''), Attr ''description'' (StrV ''Dynamic routing and fallback between OpenAI, Gemini, and Hugging Face.''), Attr ''span'' (StrV ''col-span-1 row-span-1'')]), ObjV (obj [Attr ''title'' (StrV ''Streaming Support''), Attr ''medium'' (StrV ''Performance''), Attr ''description'' (StrV ''Seamless Server-Sent Events (SSE) streaming for all supported models.''), Attr ''span'' (StrV ''col-span-1 row-span-2'')]), ObjV (obj [Attr ''title'' (StrV ''Idempotency''), Attr ''medium'' (StrV ''Reliability''), Attr ''description'' (StrV ''Cache identical requests within 24h to prevent duplicate charges.''), Attr ''span'' (StrV ''col-span-1 row-span-1'')]), ObjV (obj [Attr ''title'' (StrV ''Usage Ledger''), Attr ''medium'' (StrV ''Billing''), Attr ''description'' (StrV ''Background workers aggregate token consumption by tenant.''), Attr ''span'' (StrV ''col-span-2 row-span-1'')]), ObjV (obj [Attr ''title'' (StrV ''FastAPI + asyncpg''), Attr ''medium'' (StrV ''Stack''), Attr ''description'' (StrV ''High-concurrency async stack built for minimum latency overhead.''), Attr ''span'' (StrV ''col-span-1 row-span-1'')])]\<close>

text \<open>\<open>found\<close> is the number of cards found.\<close>

definition WorkSection_effect :: "(ui_value \<Rightarrow> string \<Rightarrow> ui_value) \<Rightarrow> nat \<Rightarrow> ui_value \<Rightarrow> ui_value \<Rightarrow> ui_value \<Rightarrow> effect" where
  \<open>WorkSection_effect query found sectionRef headerRef gridRef =
    (let cards = query (current gridRef) ''article''
     in gsap_effect [sectionRef, headerRef, gridRef]
          ([(''gsap.fromTo'',
              [member ''current'' headerRef,
               ObjV (obj [Attr ''x'' (NumV (Fin (- 60))), Attr ''opacity'' (NumV (Fin 0))]),
               ObjV (obj [Attr ''x'' (NumV (Fin 0)), Attr ''opacity'' (NumV (Fin 1)), Attr ''duration'' (NumV (Fin 1)), Attr ''ease'' (StrV ''power3.out''), Attr ''scrollTrigger'' (ObjV (obj [Attr ''trigger'' (member ''current'' headerRef), Attr ''start'' (StrV ''top 90%''), Attr ''toggleActions'' (StrV ''play none none reverse'')]))])])] @
           (if truthy cards \<and> 0 < found then
              [(''gsap.set'',
                 [cards,
                  ObjV (obj [Attr ''y'' (NumV (Fin 60)), Attr ''opacity'' (NumV (Fin 0))])]),
               (''gsap.to'',
                 [cards,
                  ObjV (obj [Attr ''y'' (NumV (Fin 0)), Attr ''opacity'' (NumV (Fin 1)), Attr ''duration'' (NumV (decimal 8 1)), Attr ''stagger'' (NumV (decimal 1 1)), Attr ''ease'' (StrV ''power3.out''), Attr ''scrollTrigger'' (ObjV (obj [Attr ''trigger'' (member ''current'' gridRef), Attr ''start'' (StrV ''top 90%''), Attr ''toggleActions'' (StrV ''play none none reverse'')]))])])]
            else [])))\<close>

definition WorkSection :: "ui_value \<Rightarrow> ui_value \<Rightarrow> ui_value \<Rightarrow> ui_value" where
  \<open>WorkSection sectionRef headerRef gridRef =
    jsx ''section''
     [Attr ''ref'' sectionRef,
       Attr ''id'' (StrV ''work''),
       Attr ''className'' (StrV ''relative py-32 pl-6 md:pl-28 pr-6 md:pr-12'')]
     [jsx ''div''
        [Attr ''ref'' headerRef,
          Attr ''className'' (StrV ''mb-16 flex items-end justify-between'')]
        [jsx ''div''
           []
           [jsx ''span''
              [Attr ''className'' (StrV ''font-mono text-[10px] uppercase tracking-[0.3em] text-accent'')]
              [StrV ''02 / Use Cases''],
             jsx ''h2''
              [Attr ''className'' (StrV ''mt-4 font-[var(--font-bebas)] text-5xl md:text-7xl tracking-tight'')]
              [StrV ''ENTERPRISE USE CASES'']],
          jsx ''p''
           [Attr ''className'' (StrV ''hidden md:block max-w-xs font-mono text-xs text-muted-foreground text-right leading-relaxed'')]
           [StrV ''Production-grade architecture designed for high-throughput AI applications.'']],
       jsx ''div''
        [Attr ''ref'' gridRef,
          Attr ''className'' (StrV ''grid grid-cols-2 md:grid-cols-4 gap-4 md:gap-6 auto-rows-[180px] md:auto-rows-[200px]'')]
        [map_array (\<lambda>experiment index.
             jsx ''WorkCard''
              [Attr ''key'' index,
                Attr ''experiment'' experiment,
                Attr ''index'' index,
                Attr ''persistHover'' (BoolV (strict_eq index (NumV (Fin 0))))]
              [])
            experiments]]\<close>

record work_card =
  isHovered :: bool
  isScrollActive :: bool

definition card_enter :: "work_card \<Rightarrow> work_card" where "card_enter c = c\<lparr>isHovered := True\<rparr>"

definition card_leave :: "work_card \<Rightarrow> work_card" where "card_leave c = c\<lparr>isHovered := False\<rparr>"

definition card_scrolled :: "work_card \<Rightarrow> work_card" where "card_scrolled c = c\<lparr>isScrollActive := True\<rparr>"

definition card_isActive :: "work_card \<Rightarrow> bool" where "card_isActive c \<longleftrightarrow> isHovered c \<or> isScrollActive c"

definition WorkCard_effect :: "bool \<Rightarrow> ui_value \<Rightarrow> effect" where
  "WorkCard_effect persistHover cardRef =
     (if \<not> persistHover \<or> \<not> truthy (current cardRef) then None
      else Some
        ([(''ScrollTrigger.create'',
            [ObjV (obj [Attr ''trigger'' (current cardRef), Attr ''start'' (StrV ''top 80%''),
                        Attr ''onEnter'' (FunV ''card_scrolled'' [])])])],
         [(''ctx.revert'', [])]))"

definition WorkCard :: "ui_value \<Rightarrow> work_card \<Rightarrow> ui_component" where
  \<open>WorkCard cardRef c lib ps =
    (let experiment = read_prop ''experiment'' ps;
         index = read_prop ''index'' ps;
         isActive = BoolV (card_isActive c)
     in jsx ''article''
         [Attr ''ref'' cardRef,
           Attr ''className'' (cn lib [StrV ''group relative border border-border/40 p-5 flex flex-col justify-between transition-all duration-500 cursor-pointer overflow-hidden'',
               member ''span'' experiment,
               js_and isActive (StrV ''border-accent/60'')]),
           Attr ''onMouseEnter'' (FunV ''WorkCard.onMouseEnter'' []),
           Attr ''onMouseLeave'' (FunV ''WorkCard.onMouseLeave'' [])]
         [jsx ''div''
            [Attr ''className'' (cn lib [StrV ''absolute inset-0 bg-accent/5 transition-opacity duration-500'',
                  (if truthy isActive then StrV ''opacity-100'' else StrV ''opacity-0'')])]
            [],
           jsx ''div''
            [Attr ''className'' (StrV ''relative z-10'')]
            [jsx ''span''
               [Attr ''className'' (StrV ''font-mono text-[10px] uppercase tracking-widest text-muted-foreground'')]
               [member ''medium'' experiment],
              jsx ''h3''
               [Attr ''className'' (cn lib [StrV ''mt-3 font-[var(--font-bebas)] text-2xl md:text-4xl tracking-tight transition-colors duration-300'',
                     (if truthy isActive then StrV ''text-accent'' else StrV ''text-foreground'')])]
               [member ''title'' experiment]],
           jsx ''div''
            [Attr ''className'' (StrV ''relative z-10'')]
            [jsx ''p''
               [Attr ''className'' (cn lib [StrV ''font-mono text-xs text-muted-foreground leading-relaxed transition-all duration-500 max-w-[280px]'',
                     (if truthy isActive then StrV ''opacity-100 translate-y-0'' else StrV ''opacity-0 translate-y-2'')])]
               [member ''description'' experiment]],
           jsx ''span''
            [Attr ''className'' (cn lib [StrV ''absolute bottom-4 right-4 font-mono text-[10px] transition-colors duration-300'',
                  (if truthy isActive then StrV ''text-accent'' else StrV ''text-muted-foreground/40'')])]
            [pad_start 2 ''0'' (StrV (to_text (js_add index (NumV (Fin 1)))))],
           jsx ''div''
            [Attr ''className'' (cn lib [StrV ''absolute top-0 right-0 w-12 h-12 transition-all duration-500'',
                  (if truthy isActive then StrV ''opacity-100'' else StrV ''opacity-0'')])]
            [jsx ''div''
               [Attr ''className'' (StrV ''absolute top-0 right-0 w-full h-[1px] bg-accent'')]
               [],
              jsx ''div''
               [Attr ''className'' (StrV ''absolute top-0 right-0 w-[1px] h-full bg-accent'')]
               []]])\<close>

subsection \<open>\<open>principles-section.tsx\<close>, \<open>highlight-text.tsx\<close>\<close>

definition principles :: ui_value where
  \<open>principles = ArrV [ObjV (obj [Attr ''number'' (StrV ''01''), Attr ''titleParts'' (ArrV [ObjV (obj [Attr ''text'' (StrV ''INTERFACE''), Attr ''highlight'' (BoolV True)]), ObjV (obj [Attr ''text'' (StrV '' MINIMALISM''), Attr ''highlight'' (BoolV False)])]), Attr ''description'' (StrV ''Reduce until only the essential remains. Every element earns its place.''), Attr ''align'' (StrV ''left'')]), ObjV (obj [Attr ''number'' (StrV ''02''), Attr ''titleParts'' (ArrV [ObjV (obj [Attr ''text'' (StrV ''SYSTEMS''), Attr ''highlight'' (BoolV True)]), ObjV (obj [Attr ''text'' (StrV '' OVER SCREENS''), Attr ''highlight'' (BoolV False)])]), Attr ''description'' (StrV ''Design behaviors, not just layouts. Build logic that scales.''), Attr ''align'' (StrV ''right'')]), ObjV (obj [Attr ''number'' (StrV ''03''), Attr ''titleParts'' (ArrV [ObjV (obj [Attr ''text'' (StrV ''CONTROLLED ''), Attr ''highlight'' (BoolV False)]), ObjV (obj [Attr ''text'' (StrV ''TENSION''), Attr ''highlight'' (BoolV True)])]), Attr ''description'' (StrV ''Balance between restraint and expression. Confidence without excess.''), Attr ''align'' (StrV ''left'')]), ObjV (obj [Attr ''number'' (StrV ''04''), Attr ''titleParts'' (ArrV [ObjV (obj [Attr ''text'' (StrV ''SIGNAL ''), Attr ''highlight'' (BoolV False)]), ObjV (obj [Attr ''text'' (StrV ''CLARITY''), Attr ''highlight'' (BoolV True)])]), Attr ''description'' (StrV ''Communication that cuts through noise. Precision in every interaction.''), Attr ''align'' (StrV ''right'')])]\<close>

text \<open>The articles found are animated one by one, each from the side it is aligned to.\<close>

definition slide_in :: "ui_value \<Rightarrow> nat \<Rightarrow> js_call" where
  \<open>slide_in article index =
    (let isRight = BoolV (strict_eq (member ''align'' (js_index principles index)) (StrV ''right''))
     in (''gsap.from'',
          [article,
           ObjV (obj [Attr ''x'' ((if truthy isRight then NumV (Fin 80) else NumV (Fin (- 80)))), Attr ''opacity'' (NumV (Fin 0)), Attr ''duration'' (NumV (Fin 1)), Attr ''ease'' (StrV ''power3.out''), Attr ''scrollTrigger'' (ObjV (obj [Attr ''trigger'' article, Attr ''start'' (StrV ''top 85%''), Attr ''toggleActions'' (StrV ''play none none reverse'')]))])]))\<close>

definition PrinciplesSection_effect :: "ui_value list \<Rightarrow> ui_value \<Rightarrow> ui_value \<Rightarrow> ui_value \<Rightarrow> effect" where
  \<open>PrinciplesSection_effect articles sectionRef headerRef principlesRef =
    gsap_effect [sectionRef, headerRef, principlesRef]
      ([(''gsap.from'',
          [member ''current'' headerRef,
           ObjV (obj [Attr ''x'' (NumV (Fin (- 60))), Attr ''opacity'' (NumV (Fin 0)), Attr ''duration'' (NumV (Fin 1)), Attr ''ease'' (StrV ''power3.out''), Attr ''scrollTrigger'' (ObjV (obj [Attr ''trigger'' (member ''current'' headerRef), Attr ''start'' (StrV ''top 85%''), Attr ''toggleActions'' (StrV ''play none none reverse'')]))])])] @
       map2 slide_in articles [0..<length articles])\<close>

definition PrinciplesSection :: "ui_value \<Rightarrow> ui_value \<Rightarrow> ui_value \<Rightarrow> ui_value" where
  \<open>PrinciplesSection sectionRef headerRef principlesRef =
    jsx ''section''
     [Attr ''ref'' sectionRef,
       Attr ''id'' (StrV ''principles''),
       Attr ''className'' (StrV ''relative py-32 pl-6 md:pl-28 pr-6 md:pr-12'')]
     [jsx ''div''
        [Attr ''ref'' headerRef,
          Attr ''className'' (StrV ''mb-24'')]
        [jsx ''span''
           [Attr ''className'' (StrV ''font-mono text-[10px] uppercase tracking-[0.3em] text-accent'')]
           [StrV ''03 / Principles''],
          jsx ''h2''
           [Attr ''className'' (StrV ''mt-4 font-[var(--font-bebas)] text-5xl md:text-7xl tracking-tight'')]
           [StrV ''HOW WE WORK'']],
       jsx ''div''
        [Attr ''ref'' principlesRef,
          Attr ''className'' (StrV ''space-y-24 md:space-y-32'')]
        [map_array (\<lambda>principle index.
             jsx ''article''
              [Attr ''key'' index,
                Attr ''className'' (StrV (''flex flex-col '' @ to_text ((if truthy (BoolV (strict_eq (member ''align'' principle) (StrV ''right''))) then StrV ''items-end text-right'' else StrV ''items-start text-left''))))]
              [jsx ''span''
                 [Attr ''className'' (StrV ''font-mono text-[10px] uppercase tracking-[0.3em] text-muted-foreground mb-4'')]
                 [member ''number'' principle,
                   StrV '' / '',
                   js_index (js_words (member ''text'' (js_index (member ''titleParts'' principle) 0))) 0],
                jsx ''h3''
                 [Attr ''className'' (StrV ''font-[var(--font-bebas)] text-4xl md:text-6xl lg:text-8xl tracking-tight leading-none'')]
                 [map_array (\<lambda>part i.
                      (if truthy (member ''highlight'' part) then jsx ''HighlightText''
                       [Attr ''key'' i,
                         Attr ''parallaxSpeed'' (NumV (decimal 6 1))]
                       [member ''text'' part] else jsx ''span''
                       [Attr ''key'' i]
                       [member ''text'' part]))
                     (member ''titleParts'' principle)],
                jsx ''p''
                 [Attr ''className'' (StrV ''mt-6 max-w-md font-mono text-sm text-muted-foreground leading-relaxed'')]
                 [member ''description'' principle],
                jsx ''div''
                 [Attr ''className'' (StrV (''mt-8 h-[1px] bg-border w-24 md:w-48 '' @ to_text ((if truthy (BoolV (strict_eq (member ''align'' principle) (StrV ''right''))) then StrV ''mr-0'' else StrV ''ml-0''))))]
                 []])
            principles]]\<close>

definition HighlightText_effect :: "ui_value \<Rightarrow> ui_value \<Rightarrow> ui_value \<Rightarrow> ui_value \<Rightarrow> effect" where
  \<open>HighlightText_effect parallaxSpeed containerRef highlightRef textRef =
    gsap_effect [containerRef, highlightRef, textRef]
      [(''gsap.timeline'',
         [ObjV (obj [Attr ''scrollTrigger'' (ObjV (obj [Attr ''trigger'' (member ''current'' containerRef), Attr ''start'' (StrV ''top 80%''), Attr ''end'' (StrV ''top -20%''), Attr ''toggleActions'' (StrV ''play reverse play reverse'')]))])]),
       (''tl.fromTo'',
         [member ''current'' highlightRef,
          ObjV (obj [Attr ''scaleX'' (NumV (Fin 0)), Attr ''transformOrigin'' (StrV ''left center'')]),
          ObjV (obj [Attr ''scaleX'' (NumV (Fin 1)), Attr ''duration'' (NumV (decimal 12 1)), Attr ''ease'' (StrV ''power3.out'')])]),
       (''tl.fromTo'',
         [member ''current'' textRef,
          ObjV (obj [Attr ''color'' (StrV ''rgb(250, 250, 250)'')]),
          ObjV (obj [Attr ''color'' (StrV ''#000000''), Attr ''duration'' (NumV (decimal 6 1)), Attr ''ease'' (StrV ''power2.out'')]),
          NumV (decimal 5 1)]),
       (''gsap.to'',
         [member ''current'' highlightRef,
          ObjV (obj [Attr ''yPercent'' (js_mul (NumV (Fin (- 20))) parallaxSpeed), Attr ''scrollTrigger'' (ObjV (obj [Attr ''trigger'' (member ''current'' containerRef), Attr ''start'' (StrV ''top bottom''), Attr ''end'' (StrV ''bottom top''), Attr ''scrub'' (NumV (Fin 1))]))])])]\<close>

definition HighlightText :: "ui_value \<Rightarrow> ui_value \<Rightarrow> ui_value \<Rightarrow> props \<Rightarrow> ui_value" where
  \<open>HighlightText containerRef highlightRef textRef ps =
    (let children = read_prop ''children'' ps;
         className = or_default (StrV []) (read_prop ''className'' ps)
     in jsx ''span''
         [Attr ''ref'' containerRef,
           Attr ''className'' (StrV (''relative inline-block '' @ to_text className))]
         [jsx ''span''
            [Attr ''ref'' highlightRef,
              Attr ''className'' (StrV ''absolute inset-0 bg-accent''),
              Attr ''style'' (ObjV (obj [Attr ''left'' (StrV ''-0.1em''), Attr ''right'' (StrV ''-0.1em''), Attr ''top'' (StrV ''0.15em''), Attr ''bottom'' (StrV ''0.1em''), Attr ''transform'' (StrV ''scaleX(0)''), Attr ''transformOrigin'' (StrV ''left center'')]))]
            [],
           jsx ''span''
            [Attr ''ref'' textRef,
              Attr ''className'' (StrV ''relative z-10'')]
            [children]])\<close>

subsection \<open>\<open>colophon-section.tsx\<close>\<close>

definition ColophonSection_effect :: "(ui_value \<Rightarrow> string \<Rightarrow> ui_value) \<Rightarrow> ui_value \<Rightarrow> ui_value \<Rightarrow> ui_value \<Rightarrow> ui_value \<Rightarrow> effect" where
  \<open>ColophonSection_effect query sectionRef headerRef gridRef footerRef =
    gsap_effect [sectionRef]
      ((if truthy (current headerRef) then
          [(''gsap.from'',
             [member ''current'' headerRef,
              ObjV (obj [Attr ''x'' (NumV (Fin (- 60))), Attr ''opacity'' (NumV (Fin 0)), Attr ''duration'' (NumV (Fin 1)), Attr ''ease'' (StrV ''power3.out''), Attr ''scrollTrigger'' (ObjV (obj [Attr ''trigger'' (member ''current'' headerRef), Attr ''start'' (StrV ''top 85%''), Attr ''toggleActions'' (StrV ''play none none reverse'')]))])])]
        else []) @
       (if truthy (current gridRef) then
          (let columns = query (current gridRef) '':scope > div''
           in [(''gsap.from'',
                 [columns,
                  ObjV (obj [Attr ''y'' (NumV (Fin 40)), Attr ''opacity'' (NumV (Fin 0)), Attr ''duration'' (NumV (decimal 8 1)), Attr ''stagger'' (NumV (decimal 1 1)), Attr ''ease'' (StrV ''power3.out''), Attr ''scrollTrigger'' (ObjV (obj [Attr ''trigger'' (member ''current'' gridRef), Attr ''start'' (StrV ''top 85%''), Attr ''toggleActions'' (StrV ''play none none reverse'')]))])])])
        else []) @
       (if truthy (current footerRef) then
          [(''gsap.from'',
             [member ''current'' footerRef,
              ObjV (obj [Attr ''y'' (NumV (Fin 20)), Attr ''opacity'' (NumV (Fin 0)), Attr ''duration'' (NumV (decimal 8 1)), Attr ''ease'' (StrV ''power3.out''), Attr ''scrollTrigger'' (ObjV (obj [Attr ''trigger'' (member ''current'' footerRef), Attr ''start'' (StrV ''top 95%''), Attr ''toggleActions'' (StrV ''play none none reverse'')]))])])]
        else []))\<close>

definition ColophonSection :: "ui_value \<Rightarrow> ui_value \<Rightarrow> ui_value \<Rightarrow> ui_value \<Rightarrow> ui_value" where
  \<open>ColophonSection sectionRef headerRef gridRef footerRef =
    jsx ''section''
     [Attr ''ref'' sectionRef,
       Attr ''id'' (StrV ''colophon''),
       Attr ''className'' (StrV ''relative py-32 pl-6 md:pl-28 pr-6 md:pr-12 border-t border-border/30'')]
     [jsx ''div''
        [Attr ''ref'' headerRef,
          Attr ''className'' (StrV ''mb-16'')]
        [jsx ''span''
           [Attr ''className'' (StrV ''font-mono text-[10px] uppercase tracking-[0.3em] text-accent'')]
           [StrV ''04 / Colophon''],
          jsx ''h2''
           [Attr ''className'' (StrV ''mt-4 font-[var(--font-bebas)] text-5xl md:text-7xl tracking-tight'')]
           [StrV ''About'']],
       jsx ''div''
        [Attr ''ref'' gridRef,
          Attr ''className'' (StrV ''grid grid-cols-1 md:grid-cols-3 gap-12 max-w-4xl'')]
        [jsx ''div''
           [Attr ''className'' (StrV ''col-span-1 md:col-span-2'')]
           [jsx ''h4''
              [Attr ''className'' (StrV ''font-mono text-[9px] uppercase tracking-[0.3em] text-muted-foreground mb-4'')]
              [StrV ''About the Project''],
             jsx ''p''
              [Attr ''className'' (StrV ''font-mono text-xs text-foreground/80 leading-relaxed max-w-md'')]
              [StrV (''InfrGate is a high-performance AI Gateway designed to multiplex and route traffic to LLM providers like OpenAI, Gemini, and Hugging Face. It enforces global token rate limits, mitigates duplicate charges through idempotency caching, and accurately tracks tenant spend'' @ [CHR 0xE2] @ [CHR 0x80] @ [CHR 0x94] @ ''all behind a unified, drop-in OpenAI-compatible API.'')]],
          jsx ''div''
           [Attr ''className'' (StrV ''col-span-1'')]
           [jsx ''h4''
              [Attr ''className'' (StrV ''font-mono text-[9px] uppercase tracking-[0.3em] text-muted-foreground mb-4'')]
              [StrV ''Links''],
             jsx ''ul''
              [Attr ''className'' (StrV ''space-y-4'')]
              [jsx ''li''
                 []
                 [jsx ''a''
                    [Attr ''href'' (StrV ''https://infrgate.onrender.com/''),
                      Attr ''target'' (StrV ''_blank''),
                      Attr ''rel'' (StrV ''noopener noreferrer''),
                      Attr ''className'' (StrV ''font-mono text-xs text-accent hover:text-foreground transition-colors duration-200 uppercase tracking-widest border border-accent/20 px-4 py-2'')]
                    [StrV ''Launch Live Demo'']],
                jsx ''li''
                 []
                 [jsx ''a''
                    [Attr ''href'' (StrV ''https://github.com/Iam-jayant/Infrgate''),
                      Attr ''target'' (StrV ''_blank''),
                      Attr ''rel'' (StrV ''noopener noreferrer''),
                      Attr ''className'' (StrV ''font-mono text-xs text-foreground/80 hover:text-accent transition-colors duration-200 uppercase tracking-widest mt-2 block'')]
                    [StrV ''GitHub Repository'']]]]],
       jsx ''div''
        [Attr ''ref'' footerRef,
          Attr ''className'' (StrV ''mt-24 pt-8 border-t border-border/20 flex flex-col md:flex-row md:items-center md:justify-between gap-4'')]
        [jsx ''p''
           [Attr ''className'' (StrV ''font-mono text-[10px] text-muted-foreground uppercase tracking-widest'')]
           [StrV ([CHR 0xC2] @ [CHR 0xA9] @ '' 2025 InfrGate. Open Source under MIT.'')],
          jsx ''p''
           [Attr ''className'' (StrV ''font-mono text-[10px] text-muted-foreground'')]
           [StrV ''Built for Enterprise scale.'']]]\<close>

subsection \<open>\<open>side-nav.tsx\<close>\<close>

definition navItems :: ui_value where
  \<open>navItems = ArrV [ObjV (obj [Attr ''id'' (StrV ''hero''), Attr ''label'' (StrV ''Index'')]), ObjV (obj [Attr ''id'' (StrV ''signals''), Attr ''label'' (StrV ''Signals'')]), ObjV (obj [Attr ''id'' (StrV ''work''), Attr ''label'' (StrV ''Experiments'')]), ObjV (obj [Attr ''id'' (StrV ''principles''), Attr ''label'' (StrV ''Principles'')]), ObjV (obj [Attr ''id'' (StrV ''colophon''), Attr ''label'' (StrV ''Colophon'')])]\<close>

text \<open>The callback of the observer: the last intersecting entry, by the id of its target, becomes active.\<close>

definition observe :: "(bool \<times> string) list \<Rightarrow> string \<Rightarrow> string" where
  "observe entries active = foldl (\<lambda>a (isIntersecting, id'). if isIntersecting then id' else a) active entries"

text \<open>The ids observed: those of the items that the document has an element for.\<close>

definition SideNav_effect :: "(string \<Rightarrow> bool) \<Rightarrow> effect" where
  "SideNav_effect has_element =
     Some ((''new IntersectionObserver'', [FunV ''observe'' [], ObjV [(''threshold'', NumV (decimal 3 1))]]) #
           map (\<lambda>t. (''observer.observe'', [member ''id'' t]))
             (filter (\<lambda>t. has_element (to_text (member ''id'' t))) (case navItems of ArrV vs \<Rightarrow> vs | _ \<Rightarrow> [])),
           [(''observer.disconnect'', [])])"

definition scrollToSection :: "(string \<Rightarrow> bool) \<Rightarrow> string \<Rightarrow> js_call list" where
  "scrollToSection has_element id' =
     (if has_element id' then [(''element.scrollIntoView'', [StrV id', ObjV [(''behavior'', StrV ''smooth'')]])] else [])"

definition SideNav :: "string \<Rightarrow> ui_lib \<Rightarrow> ui_value" where
  \<open>SideNav active lib =
    (let activeSection = StrV active
     in jsx ''nav''
         [Attr ''className'' (StrV ''fixed left-0 top-0 z-50 h-screen w-16 md:w-20 hidden md:flex flex-col justify-center border-r border-border/30 bg-background/80 backdrop-blur-sm'')]
         [jsx ''div''
            [Attr ''className'' (StrV ''flex flex-col gap-6 px-4'')]
            [map_array (\<lambda>entry _.
                 let id' = member ''id'' entry;
                     label = member ''label'' entry
                 in jsx ''button''
                     [Attr ''key'' id',
                       Attr ''onClick'' (FunV ''SideNav.onClick'' [id']),
                       Attr ''className'' (StrV ''group relative flex items-center gap-3'')]
                     [jsx ''span''
                        [Attr ''className'' (cn lib [StrV ''h-1.5 w-1.5 rounded-full transition-all duration-300'',
                              (if truthy (BoolV (strict_eq activeSection id')) then StrV ''bg-accent scale-125'' else StrV ''bg-muted-foreground/40 group-hover:bg-foreground/60'')])]
                        [],
                       jsx ''span''
                        [Attr ''className'' (cn lib [StrV ''absolute left-6 font-mono text-[10px] uppercase tracking-widest opacity-0 transition-all duration-200 group-hover:opacity-100 group-hover:left-8 whitespace-nowrap'',
                              (if truthy (BoolV (strict_eq activeSection id')) then StrV ''text-accent'' else StrV ''text-muted-foreground'')])]
                        [label]])
                navItems]])\<close>

text \<open>The active section is always one of the navigation's, if the observer reports only what it observes.\<close>

lemma observe_in_items:
  assumes "active \<in> A" "list_all (\<lambda>(b, i). i \<in> A) entries"
  shows "observe entries active \<in> A"
  using assms by (induction entries arbitrary: active) (auto simp: observe_def)

subsection \<open>\<open>smooth-scroll.tsx\<close>\<close>

text \<open>
  \<open>Math.min(1, 1.001 - Math.pow(2, -10 * t))\<close>, with the power, which the platform approximates, as a parameter.
\<close>

definition lenis_easing :: "(number \<Rightarrow> number) \<Rightarrow> number \<Rightarrow> number" where
  "lenis_easing pow_2 t = num_min (Fin 1) (num_sub (decimal 1001 3) (pow_2 (num_mul (Fin (- 10)) t)))"

text \<open>
  The callbacks of gsap's ticker are the mounts' anonymous functions; \<open>remove\<close> takes away a callback
  that is the same function, and \<open>lenis.raf\<close> is not one that was added.
\<close>

datatype ticker_callback = RafArrow nat | LenisRaf nat

record scroller =
  ticker :: "ticker_callback list"
  live_lenis :: "nat list"
  next_lenis :: nat

definition scroll_effect :: "scroller \<Rightarrow> nat \<times> scroller" where
  "scroll_effect s =
     (let n = next_lenis s
      in (n, s\<lparr>live_lenis := live_lenis s @ [n], ticker := ticker s @ [RafArrow n], next_lenis := n + 1\<rparr>))"

definition scroll_cleanup :: "nat \<Rightarrow> scroller \<Rightarrow> scroller" where
  "scroll_cleanup n s =
     s\<lparr>live_lenis := filter (\<lambda>m. m \<noteq> n) (live_lenis s), ticker := filter (\<lambda>c. c \<noteq> LenisRaf n) (ticker s)\<rparr>"

text \<open>The calls of the effect on the packages.\<close>

definition scroll_calls :: "js_call list" where
  "scroll_calls =
     [(''new Lenis'', [ObjV (obj [Attr ''duration'' (NumV (decimal 12 1)), Attr ''easing'' (FunV ''lenis_easing'' []),
         Attr ''orientation'' (StrV ''vertical''), Attr ''smoothWheel'' (BoolV True)])]),
      (''lenis.on'', [StrV ''scroll'', FunV ''ScrollTrigger.update'' []]),
      (''gsap.ticker.add'', [FunV ''RafArrow'' []]),
      (''gsap.ticker.lagSmoothing'', [NumV (Fin 0)])]"

text \<open>What a tick calls: the time handed to each scroller's \<open>raf\<close>.\<close>

definition ticker_tick :: "number \<Rightarrow> scroller \<Rightarrow> (nat \<times> number) list" where
  "ticker_tick time s =
     map (\<lambda>c. case c of RafArrow n \<Rightarrow> (n, num_mul time (Fin 1000)) | LenisRaf n \<Rightarrow> (n, time)) (ticker s)"

definition SmoothScroll :: "props \<Rightarrow> ui_value" where
  "SmoothScroll ps = jsx ''React.Fragment'' [] [read_prop ''children'' ps]"

text \<open>The cleanup leaves the ticker's callback behind: after an unmount every tick still drives the destroyed scroller.\<close>

theorem ticker_leaks:
  "(n, num_mul time (Fin 1000)) \<in> set (ticker_tick time (scroll_cleanup n (snd (scroll_effect (s\<lparr>next_lenis := n\<rparr>))))) \<and>
   n \<notin> set (live_lenis (scroll_cleanup n (snd (scroll_effect (s\<lparr>next_lenis := n\<rparr>)))))"
  by (simp add: ticker_tick_def scroll_cleanup_def scroll_effect_def Let_def)

subsection \<open>\<open>animated-noise.tsx\<close>\<close>

text \<open>
  The canvas is there with a drawing context or not. A byte of image data holds its value clamped
  and rounded to the nearest integer, ties to even.
\<close>

record noise =
  frame :: nat
  canvas_width :: nat
  canvas_height :: nat
  image :: "nat list"

definition clamp_byte :: "number \<Rightarrow> nat" where
  "clamp_byte x =
     (case x of Inf negative \<Rightarrow> if negative then 0 else 255
      | _ \<Rightarrow> (case val x of None \<Rightarrow> 0 | Some r \<Rightarrow> nat (max 0 (min 255 (rnd_even r)))))"

fun noise_pixels :: "number list \<Rightarrow> nat list" where
  "noise_pixels [] = []"
| "noise_pixels (x # xs) =
     (let v = clamp_byte (num_mul x (Fin 255)) in v # v # v # 255 # noise_pixels xs)"

text \<open>\<open>random\<close> has one number for each pixel.\<close>

definition generateNoise :: "number list \<Rightarrow> noise \<Rightarrow> noise" where
  "generateNoise random n = n\<lparr>image := noise_pixels (take (canvas_width n * canvas_height n) random)\<rparr>"

text \<open>The size is assigned half the element's, without the fraction.\<close>

definition resize_canvas :: "nat \<Rightarrow> nat \<Rightarrow> noise \<Rightarrow> noise" where
  "resize_canvas offsetWidth offsetHeight n =
     n\<lparr>canvas_width := offsetWidth div 2, canvas_height := offsetHeight div 2, image := []\<rparr>"

definition animate_noise :: "number list \<Rightarrow> noise \<Rightarrow> noise" where
  "animate_noise random n =
     (let n = n\<lparr>frame := frame n + 1\<rparr>
      in if frame n mod 2 = 0 then generateNoise random n else n)"

definition AnimatedNoise :: "ui_value \<Rightarrow> props \<Rightarrow> ui_value" where
  \<open>AnimatedNoise canvasRef ps =
    (let opacity = or_default (NumV (decimal 5 2)) (read_prop ''opacity'' ps);
         className = read_prop ''className'' ps
     in jsx ''canvas''
         [Attr ''ref'' canvasRef,
           Attr ''className'' className,
           Attr ''style'' (ObjV (obj [Attr ''position'' (StrV ''absolute''), Attr ''inset'' (NumV (Fin 0)), Attr ''width'' (StrV ''100%''), Attr ''height'' (StrV ''100%''), Attr ''pointerEvents'' (StrV ''none''), Attr ''opacity'' opacity, Attr ''mixBlendMode'' (StrV ''overlay'')]))]
         [])\<close>

lemma length_noise_pixels: "length (noise_pixels xs) = 4 * length xs"
  by (induction xs rule: noise_pixels.induct) (simp_all add: Let_def)

text \<open>Noise fills the canvas with opaque grey pixels.\<close>

lemma noise_opaque_grey:
  "i < length xs \<Longrightarrow> \<exists>v \<le> 255. take 4 (drop (4 * i) (noise_pixels xs)) = [v, v, v, 255]"
proof (induction xs arbitrary: i rule: noise_pixels.induct)
  case (2 x xs)
  have "clamp_byte y \<le> 255" for y by (simp add: clamp_byte_def nat_le_iff split: number.split option.split)
  then show ?case using 2 by (cases i) (auto simp: Let_def numeral_eq_Suc)
qed simp

subsection \<open>\<open>app/page.tsx\<close>, \<open>app/layout.tsx\<close>\<close>

definition Page :: ui_value where
  \<open>Page = jsx ''main''
                 [Attr ''className'' (StrV ''relative min-h-screen'')]
                 [jsx ''SideNav''
                    []
                    [],
                   jsx ''div''
                    [Attr ''className'' (StrV ''grid-bg fixed inset-0 opacity-30''),
                      Attr ''aria-hidden'' (StrV ''true'')]
                    [],
                   jsx ''div''
                    [Attr ''className'' (StrV ''relative z-10'')]
                    [jsx ''HeroSection''
                       []
                       [],
                      jsx ''SignalsSection''
                       []
                       [],
                      jsx ''WorkSection''
                       []
                       [],
                      jsx ''PrinciplesSection''
                       []
                       [],
                      jsx ''ColophonSection''
                       []
                       []]]\<close>

definition page_metadata :: ui_value where
  \<open>page_metadata = ObjV (obj [Attr ''title'' (StrV (''InfrGate '' @ [CHR 0xE2] @ [CHR 0x80] @ [CHR 0x94] @ '' AI Gateway'')), Attr ''description'' (StrV ''High-performance AI Gateway to multiplex and route traffic to LLM providers.'')])\<close>

text \<open>The fonts are objects of \<open>next/font/google\<close>.\<close>

definition RootLayout :: "ui_value \<Rightarrow> ui_value \<Rightarrow> ui_value \<Rightarrow> props \<Rightarrow> ui_value" where
  \<open>RootLayout ibmPlexSans ibmPlexMono bebasNeue ps =
    (let children = read_prop ''children'' ps
     in jsx ''html''
         [Attr ''lang'' (StrV ''en''),
           Attr ''className'' (StrV ''dark bg-background'')]
         [jsx ''body''
            [Attr ''className'' (StrV (to_text (member ''variable'' ibmPlexSans) @ '' '' @ to_text (member ''variable'' bebasNeue) @ '' '' @ to_text (member ''variable'' ibmPlexMono) @ '' font-sans antialiased overflow-x-hidden''))]
            [jsx ''div''
               [Attr ''className'' (StrV ''noise-overlay''),
                 Attr ''aria-hidden'' (StrV ''true'')]
               [],
              jsx ''SmoothScroll''
               []
               [children]]])\<close>

end
