(* ===== verification/TextEffects.thy ===== *)
theory TextEffects
  imports JsRandom
begin

text \<open>
  The text animations of \<open>Frontend/components/scramble-text.tsx\<close> and \<open>draw-text.tsx\<close>: texts whose
  characters are random until they lock in place. A tween of the \<open>gsap\<close> package calls back with its
  progress, a number from 0 to 1, and at its end; the timers of the platform and the delayed calls of
  \<open>gsap\<close> fire once they are due. A delayed call made in a gsap context is cancelled when the context
  is reverted. Texts are ASCII.
\<close>

subsection \<open>Scrambling\<close>

definition GLYPHS :: string where
  \<open>GLYPHS = ''!@#$%^&*()_+-=<>?/'' @ [CHR 0x5C] @ ''[]{}Xx''\<close>

text \<open>A random glyph as a text; \<open>join\<close> writes nothing for an index out of range.\<close>

definition random_glyph :: "number \<Rightarrow> string" where
  "random_glyph x = (case pick (map (\<lambda>c. StrV [c]) GLYPHS) x of StrV s \<Rightarrow> s | _ \<Rightarrow> [])"

text \<open>The random numbers are drawn position by position.\<close>

definition scramble :: "(nat \<Rightarrow> number) \<Rightarrow> string \<Rightarrow> string" where
  "scramble random text = concat (map (\<lambda>i. random_glyph (random i)) [0..<length text])"

text \<open>The state a running animation keeps: its text, its duration and the indices locked so far.\<close>

record scramble_run =
  run_text :: string
  run_duration :: number
  lockedIndices :: "nat set"

definition runScrambleAnimation :: "string \<Rightarrow> number \<Rightarrow> scramble_run" where
  "runScrambleAnimation text duration = \<lparr>run_text = text, run_duration = duration, lockedIndices = {}\<rparr>"

text \<open>The indices the loop from zero up to a number visits.\<close>

fun below :: "number \<Rightarrow> nat set" where
  "below (Fin r) = {0..<nat \<lceil>r\<rceil>}"
| "below x = {}"

definition onUpdate :: "number \<Rightarrow> (nat \<Rightarrow> number) \<Rightarrow> scramble_run \<Rightarrow> string \<times> scramble_run" where
  "onUpdate progress random run =
     (let totalChars = length (run_text run);
          numLocked = num_floor (num_mul progress (Fin (of_nat totalChars)));
          locked = lockedIndices run \<union> below numLocked;
          newDisplay = concat (map (\<lambda>i. if i \<in> locked then [run_text run ! i] else random_glyph (random i)) [0..<totalChars])
      in (newDisplay, run\<lparr>lockedIndices := locked\<rparr>))"

lemma length_GLYPHS: "length GLYPHS = 25"
  by (simp add: GLYPHS_def)

lemma random_glyph_in:
  assumes "random_value x" shows "\<exists>c \<in> set GLYPHS. random_glyph x = [c]"
proof -
  have "fl ((1 - pow2 (- 53)) * 25) < 25" by code_simp
  then have "pick (map (\<lambda>c. StrV [c]) GLYPHS) x \<in> set (map (\<lambda>c. StrV [c]) GLYPHS)"
    using assms by (intro pick_in) (simp_all add: length_GLYPHS)
  then obtain c where "c \<in> set GLYPHS" "pick (map (\<lambda>c. StrV [c]) GLYPHS) x = StrV [c]" by (simp only: set_map) blast
  then show ?thesis by (intro bexI [of _ c]) (simp_all add: random_glyph_def)
qed

lemma concat_singletons: "concat (map (\<lambda>i. [f i]) is) = map f is"
  by (induction "is") simp_all

text \<open>What is shown has the length of the text, keeps every locked character and shows glyphs elsewhere.\<close>

lemma onUpdate_display:
  assumes "\<forall>i. random_value (random i)" "onUpdate progress random run = (display, run')"
  shows "length display = length (run_text run) \<and>
    (\<forall>i < length display. if i \<in> lockedIndices run' then display ! i = run_text run ! i else display ! i \<in> set GLYPHS)"
proof -
  have "\<forall>i. \<exists>c. c \<in> set GLYPHS \<and> random_glyph (random i) = [c]" using assms(1) random_glyph_in by blast
  then obtain g where g: "\<And>i. g i \<in> set GLYPHS" "\<And>i. random_glyph (random i) = [g i]" by metis
  have "display = map (\<lambda>i. if i \<in> lockedIndices run' then run_text run ! i else g i) [0..<length (run_text run)]"
  proof -
    have "(if i \<in> L then [t ! i] else random_glyph (random i)) = [if i \<in> L then t ! i else g i]" for L and t :: string and i
      by (simp add: g(2))
    then show ?thesis using assms(2) by (auto simp: onUpdate_def Let_def concat_singletons)
  qed
  then show ?thesis using g(1) by simp
qed

subsection \<open>Scrambling on mount\<close>

text \<open>\<open>starting\<close> is the timer that starts the animation, \<open>running\<close> the animation, unless killed.\<close>

record scramble_text =
  displayText :: string
  hasAnimated :: bool
  starting :: bool
  running :: "scramble_run option"

definition mount_scramble :: "string \<Rightarrow> scramble_text" where
  "mount_scramble text = \<lparr>displayText = text, hasAnimated = False, starting = False, running = None\<rparr>"

definition scramble_effect :: "string \<Rightarrow> (nat \<Rightarrow> number) \<Rightarrow> scramble_text \<Rightarrow> scramble_text" where
  "scramble_effect text random s =
     (if hasAnimated s \<or> text = [] then s
      else s\<lparr>displayText := scramble random text, starting := True\<rparr>)"

text \<open>The timer's callback, and the callbacks of the animation; the text and the duration are those of the mount.\<close>

definition scramble_start :: "string \<Rightarrow> number \<Rightarrow> scramble_text \<Rightarrow> scramble_text" where
  "scramble_start text duration s = s\<lparr>starting := False, running := Some (runScrambleAnimation text duration)\<rparr>"

definition scramble_update :: "number \<Rightarrow> (nat \<Rightarrow> number) \<Rightarrow> scramble_text \<Rightarrow> scramble_text" where
  "scramble_update progress random s =
     (case running s of
        None \<Rightarrow> s
      | Some run \<Rightarrow> (let (display, run) = onUpdate progress random run in s\<lparr>displayText := display, running := Some run\<rparr>))"

definition scramble_complete :: "scramble_text \<Rightarrow> scramble_text" where
  "scramble_complete s =
     (case running s of
        None \<Rightarrow> s
      | Some run \<Rightarrow> s\<lparr>displayText := run_text run, hasAnimated := True, running := None\<rparr>)"

definition scramble_cleanup :: "scramble_text \<Rightarrow> scramble_text" where
  "scramble_cleanup s = s\<lparr>starting := False, running := None\<rparr>"

definition scramble_text_effect :: "string \<Rightarrow> scramble_text \<Rightarrow> scramble_text" where
  "scramble_text_effect text s =
     (if hasAnimated s \<and> displayText s \<noteq> text then s\<lparr>displayText := text\<rparr> else s)"

definition ScrambleText :: "ui_value \<Rightarrow> scramble_text \<Rightarrow> props \<Rightarrow> ui_value" where
  \<open>ScrambleText containerRef s ps =
    (let text = read_prop ''text'' ps;
         className = read_prop ''className'' ps;
         displayText = StrV (displayText s)
     in jsx ''span''
         [Attr ''ref'' containerRef,
           Attr ''className'' className]
         [js_or displayText text])\<close>

subsection \<open>Scrambling on hover\<close>

record scramble_hover =
  hover_text :: string
  isAnimating :: bool
  hover_run :: "scramble_run option"

definition mount_hover :: "string \<Rightarrow> scramble_hover" where
  "mount_hover text = \<lparr>hover_text = text, isAnimating = False, hover_run = None\<rparr>"

definition hover_enter :: "string \<Rightarrow> number \<Rightarrow> (nat \<Rightarrow> number) \<Rightarrow> scramble_hover \<Rightarrow> scramble_hover" where
  "hover_enter text duration random s =
     (if isAnimating s then s
      else \<lparr>hover_text = scramble random text, isAnimating = True, hover_run = Some (runScrambleAnimation text duration)\<rparr>)"

definition hover_update :: "number \<Rightarrow> (nat \<Rightarrow> number) \<Rightarrow> scramble_hover \<Rightarrow> scramble_hover" where
  "hover_update progress random s =
     (case hover_run s of
        None \<Rightarrow> s
      | Some run \<Rightarrow> (let (display, run) = onUpdate progress random run in s\<lparr>hover_text := display, hover_run := Some run\<rparr>))"

definition hover_complete :: "scramble_hover \<Rightarrow> scramble_hover" where
  "hover_complete s =
     (case hover_run s of
        None \<Rightarrow> s
      | Some run \<Rightarrow> s\<lparr>hover_text := run_text run, isAnimating := False, hover_run := None\<rparr>)"

definition hover_text_effect :: "string \<Rightarrow> scramble_hover \<Rightarrow> scramble_hover" where
  "hover_text_effect text s = (if \<not> isAnimating s then s\<lparr>hover_text := text\<rparr> else s)"

definition ScrambleTextOnHover :: "scramble_hover \<Rightarrow> props \<Rightarrow> ui_value" where
  \<open>ScrambleTextOnHover s ps =
    (let className = read_prop ''className'' ps;
         Component = to_text (or_default (StrV ''span'') (read_prop ''as'' ps));
         onClick = read_prop ''onClick'' ps;
         displayText = StrV (hover_text s);
         handleMouseEnter = FunV ''hover_enter'' []
     in jsx Component
         [Attr ''className'' className,
           Attr ''onMouseEnter'' handleMouseEnter,
           Attr ''onClick'' onClick]
         [displayText])\<close>

datatype hover_event = Enter "nat \<Rightarrow> number" | Progress number "nat \<Rightarrow> number" | Complete

fun hover_step :: "string \<Rightarrow> number \<Rightarrow> scramble_hover \<Rightarrow> hover_event \<Rightarrow> scramble_hover" where
  "hover_step text duration s (Enter random) = hover_enter text duration random s"
| "hover_step text duration s (Progress p random) = hover_update p random s"
| "hover_step text duration s Complete = hover_complete s"

text \<open>As long as the text stays the same, it is shown whenever no animation runs.\<close>

definition hover_ok :: "string \<Rightarrow> scramble_hover \<Rightarrow> bool" where
  "hover_ok text s \<longleftrightarrow>
     (case hover_run s of
        None \<Rightarrow> \<not> isAnimating s \<and> hover_text s = text
      | Some run \<Rightarrow> isAnimating s \<and> run_text run = text)"

lemma onUpdate_text [simp]: "run_text (snd (onUpdate p random run)) = run_text run"
  by (simp add: onUpdate_def Let_def)

lemma hover_step_ok: "hover_ok text s \<Longrightarrow> hover_ok text (hover_step text duration s e)"
  by (cases e) (auto simp: hover_ok_def hover_enter_def hover_update_def hover_complete_def runScrambleAnimation_def
      Let_def split_beta split: option.splits)

lemma hover_shows_text: "hover_ok text (foldl (hover_step text duration) (mount_hover text) es)"
proof -
  have "hover_ok text s \<Longrightarrow> hover_ok text (foldl (hover_step text duration) s es)" for s
    by (induction es arbitrary: s) (simp_all add: hover_step_ok)
  then show ?thesis by (simp add: mount_hover_def hover_ok_def)
qed

text \<open>
  A text that changes while an animation runs is lost: the effect skips it, the animation ends
  with the text it started with, and nothing animates any more.
\<close>

theorem changed_text_lost:
  "let s = hover_complete (hover_text_effect new (hover_enter old duration random (mount_hover old)))
   in hover_text s = old \<and> \<not> isAnimating s \<and> hover_run s = None"
  by (simp add: Let_def hover_complete_def hover_text_effect_def hover_enter_def mount_hover_def runScrambleAnimation_def)

subsection \<open>Drawing\<close>

definition flipChars :: string where
  "flipChars = ''ABCDEFGHIJKLMNOPQRSTUVWXYZ0123456789-+#@$%''"

text \<open>
  An interval flips one character; its count and limit are variables of its closure. A delayed call
  has its delay and index and was made in the gsap context or not. The three arrays have one entry for
  each character of the text, which stays the same.
\<close>

record flip =
  flip_index :: nat
  flipCount :: nat
  maxFlips :: nat
  flip_period :: number

record draw_text =
  displayChars :: "string list"
  activeIndices :: "bool list"
  flippingIndices :: "bool list"
  has_drawn :: bool
  delayed :: "(number \<times> nat \<times> bool) list"
  flips :: "(nat \<times> flip) list"
  intervalsRef :: "nat list"
  next_interval :: nat
  has_cleanup :: bool

definition mount_draw :: "string \<Rightarrow> draw_text" where
  "mount_draw text =
     \<lparr>displayChars = map (\<lambda>c. []) text, activeIndices = map (\<lambda>c. False) text, flippingIndices = map (\<lambda>c. False) text,
      has_drawn = False, delayed = [], flips = [], intervalsRef = [], next_interval = 1, has_cleanup = False\<rparr>"

definition clear_intervals :: "draw_text \<Rightarrow> draw_text" where
  "clear_intervals s = s\<lparr>flips := filter (\<lambda>(i, f). i \<notin> set (intervalsRef s)) (flips s)\<rparr>"

definition runTickerAnimation :: "string \<Rightarrow> number \<Rightarrow> bool \<Rightarrow> number \<Rightarrow> draw_text \<Rightarrow> draw_text" where
  "runTickerAnimation text stagger in_context animationDelay s =
     (let s = (clear_intervals s)\<lparr>intervalsRef := []\<rparr>;
          s = s\<lparr>displayChars := map (\<lambda>c. []) text, activeIndices := map (\<lambda>c. False) text,
                flippingIndices := map (\<lambda>c. False) text\<rparr>
      in s\<lparr>delayed := delayed s @
           map (\<lambda>i. (num_add animationDelay (num_mul (Fin (of_nat i)) stagger), i, in_context)) [0..<length text]\<rparr>)"

definition flip_limit :: "number \<Rightarrow> nat" where
  "flip_limit random = 8 + (case whole (random_index 6 random) of Some i \<Rightarrow> nat i | None \<Rightarrow> 0)"

text \<open>The \<open>k\<close>-th delayed call fires: its character starts to flip.\<close>

definition start_flip :: "number \<Rightarrow> number \<Rightarrow> nat \<Rightarrow> draw_text \<Rightarrow> draw_text" where
  "start_flip duration random k s =
     (if k < length (delayed s) then
        (let index = fst (snd (delayed s ! k));
             s = s\<lparr>delayed := take k (delayed s) @ drop (Suc k) (delayed s),
                   flippingIndices := (flippingIndices s)[index := True]\<rparr>
         in s\<lparr>flips := flips s @
                [(next_interval s, \<lparr>flip_index = index, flipCount = 0, maxFlips = flip_limit random,
                                   flip_period = num_mul duration (Fin 1000)\<rparr>)],
              intervalsRef := intervalsRef s @ [next_interval s], next_interval := next_interval s + 1\<rparr>)
      else s)"

text \<open>A random character to show, or \<open>undefined\<close>, which shows nothing.\<close>

definition flip_char :: "number \<Rightarrow> string" where
  "flip_char random = (case pick (map (\<lambda>c. StrV [c]) flipChars) random of StrV s \<Rightarrow> s | _ \<Rightarrow> [])"

definition flip_tick :: "string \<Rightarrow> number \<Rightarrow> nat \<Rightarrow> draw_text \<Rightarrow> draw_text" where
  "flip_tick text random i s =
     (case map_of (flips s) i of
        None \<Rightarrow> s
      | Some f \<Rightarrow>
          (let f = f\<lparr>flipCount := flipCount f + 1\<rparr>;
               index = flip_index f
           in if maxFlips f \<le> flipCount f then
                s\<lparr>flips := filter (\<lambda>(j, g). j \<noteq> i) (flips s),
                  displayChars := (displayChars s)[index := [text ! index]],
                  activeIndices := (activeIndices s)[index := True],
                  flippingIndices := (flippingIndices s)[index := False]\<rparr>
              else
                s\<lparr>flips := map (\<lambda>(j, g). (j, if j = i then f else g)) (flips s),
                  displayChars := (displayChars s)[index := flip_char random]\<rparr>))"

definition draw_cleanup :: "draw_text \<Rightarrow> draw_text" where
  "draw_cleanup s = clear_intervals (s\<lparr>delayed := filter (\<lambda>(d, i, in_context). \<not> in_context) (delayed s)\<rparr>)"

text \<open>\<open>attached\<close>: the ref has its element.\<close>

definition draw_effect :: "string \<Rightarrow> number \<Rightarrow> number \<Rightarrow> bool \<Rightarrow> draw_text \<Rightarrow> draw_text" where
  "draw_effect text stagger delay attached s =
     (if \<not> attached \<or> has_drawn s then s\<lparr>has_cleanup := False\<rparr>
      else (runTickerAnimation text stagger True delay s)\<lparr>has_drawn := True, has_cleanup := True\<rparr>)"

text \<open>A dependency of the effect has changed: its cleanup runs, then the effect.\<close>

definition rerun_draw :: "string \<Rightarrow> number \<Rightarrow> number \<Rightarrow> bool \<Rightarrow> draw_text \<Rightarrow> draw_text" where
  "rerun_draw text stagger delay attached s =
     draw_effect text stagger delay attached (if has_cleanup s then draw_cleanup s else s)"

definition draw_mouse_enter :: "string \<Rightarrow> number \<Rightarrow> draw_text \<Rightarrow> draw_text" where
  "draw_mouse_enter text stagger s = (if has_drawn s then runTickerAnimation text stagger False (Fin 0) s else s)"

definition DrawText :: "ui_value \<Rightarrow> draw_text \<Rightarrow> props \<Rightarrow> ui_value" where
  \<open>DrawText containerRef s ps =
    (let className = or_default (StrV []) (read_prop ''className'' ps);
         characters = ArrV (map (\<lambda>c. StrV [c]) (to_text (read_prop ''text'' ps)));
         displayChars = ArrV (map StrV (displayChars s));
         activeIndices = ArrV (map BoolV (activeIndices s));
         flippingIndices = ArrV (map BoolV (flippingIndices s));
         handleMouseEnter = FunV ''draw_mouse_enter'' []
     in jsx ''h1''
         [Attr ''ref'' containerRef,
           Attr ''className'' className,
           Attr ''onMouseEnter'' handleMouseEnter,
           Attr ''style'' (ObjV (obj [Attr ''fontSize'' (StrV ''clamp(5rem, 18vw, 18rem)''), Attr ''lineHeight'' (NumV (decimal 9 1)), Attr ''letterSpacing'' (StrV ''0.02em''), Attr ''fontFamily'' (StrV ([CHR 0x27] @ ''Bebas Neue', sans-serif'')), Attr ''display'' (StrV ''flex''), Attr ''cursor'' (StrV ''pointer'')]))]
         [map_array (\<lambda>char index.
              jsx ''span''
               [Attr ''key'' index,
                 Attr ''className'' (StrV ''relative inline-block transition-colors duration-100''),
                 Attr ''style'' (ObjV (obj [Attr ''backgroundColor'' ((if truthy (js_at activeIndices index) then StrV ''#f97316'' else StrV ''transparent'')), Attr ''color'' ((if truthy (js_at activeIndices index) then StrV ''#000000'' else (if truthy (js_at flippingIndices index) then StrV ''#f97316'' else StrV ''transparent''))), Attr ''padding'' (StrV ''0.08em 0.05em''), Attr ''marginRight'' (StrV ''0.06em''), Attr ''minWidth'' ((if truthy (BoolV (strict_eq char (StrV '' ''))) then StrV ''0.3em'' else UndefV))]))]
               [js_or (js_at displayChars index) ((if truthy (BoolV (strict_eq char (StrV '' ''))) then StrV ([CHR 0xC2] @ [CHR 0xA0]) else StrV []))])
             characters])\<close>

text \<open>
  The entrance animation never plays: setting \<open>hasAnimated\<close> changes a dependency of the effect, so the
  next render runs its cleanup, which reverts the context and with it every delayed call, and the
  effect itself then returns early.
\<close>

theorem entrance_cancelled:
  "let s = rerun_draw text stagger delay True (draw_effect text stagger delay True (mount_draw text))
   in delayed s = [] \<and> flips s = [] \<and> displayChars s = map (\<lambda>c. []) text \<and> has_drawn s \<and>
      (\<forall>attached. rerun_draw text stagger delay attached s = s)"
proof -
  have "filter (\<lambda>(d, i, in_context). \<not> in_context) (map (\<lambda>i. (f i, i, True)) is) = []" for f :: "nat \<Rightarrow> number" and "is"
    by (induction "is") simp_all
  then show ?thesis
    by (simp add: Let_def rerun_draw_def draw_effect_def draw_cleanup_def runTickerAnimation_def clear_intervals_def mount_draw_def)
qed

text \<open>A character that flips settles on its own after exactly as many ticks as its limit.\<close>

lemma flip_settles:
  assumes "flips s = [(i, f)]" "flipCount f < maxFlips f" "length xs = maxFlips f - flipCount f"
    "flip_index f < length (displayChars s)"
  shows "flips (foldl (\<lambda>s x. flip_tick text x i s) s xs) = [] \<and>
    displayChars (foldl (\<lambda>s x. flip_tick text x i s) s xs) ! flip_index f = [text ! flip_index f]"
  using assms
proof (induction xs arbitrary: s f)
  case (Cons x xs)
  show ?case
  proof (cases "Suc (flipCount f) < maxFlips f")
    case True
    have "flips (flip_tick text x i s) = [(i, f\<lparr>flipCount := Suc (flipCount f)\<rparr>)]"
      "length (displayChars (flip_tick text x i s)) = length (displayChars s)"
      using Cons.prems(1) True by (simp_all add: flip_tick_def Let_def)
    then show ?thesis
      using Cons.IH [of "flip_tick text x i s" "f\<lparr>flipCount := Suc (flipCount f)\<rparr>"] Cons.prems(3,4) True by simp
  next
    case False
    then have "length xs = 0" using Cons.prems(2,3) unfolding list.size by linarith
    then have "xs = []" by simp
    then show ?thesis using Cons.prems False by (simp add: flip_tick_def Let_def)
  qed
qed simp

end
