(* ===== verification/Spec2Isabelle.thy ===== *)
theory Spec2Isabelle
  imports RoutingHealth Replay UseToast UiContent UiOverlays UiMenus UiBehaviour UiChart Pages TextEffects
begin

text \<open>
  A model of the TypeScript code of InfrGate: the control plane SDK of \<open>packages/sdk\<close>, which client
  programs put in front of their LLM providers, and the web interface of \<open>Frontend\<close>.

  \<^bold>\<open>The SDK.\<close> An \<open>InfrGateControlPlane\<close> (\<open>src/client.ts\<close>) owns one rate limiter, one idempotency
  guard, one scorer, and a map of circuit breakers by provider. Its \<open>execute\<close> runs a handler
  behind three gates and records each of them in a trace: it hashes the canonical text of the
  payload, looks up the replay cache, takes a token, calls the handler and caches the result. An
  \<open>InfrGateClient\<close> makes chat completion calls that way; the routing example ranks providers by
  score and tries them through their breakers. One theory models each part:

    \<^item> \<open>JsNumber\<close>, \<open>NumberText\<close>, \<open>DateText\<close>, \<open>JsonText\<close>: what the code uses of the language, namely
      binary64 arithmetic, the texts of numbers and of dates, and \<open>JSON.stringify\<close> with and without
      indentation. Each text is shown to be readable back.
    \<^item> \<open>Canonicalize\<close> (\<open>utils/canonicalize.ts\<close>) and \<open>Crypto\<close> (\<open>utils/crypto.ts\<close>): the text and the hash of a
      payload. \<open>canonical_injective\<close> says which payloads are identified; \<open>canonical_collisions\<close> shows
      what goes wrong outside its hypotheses.
    \<^item> \<open>RateLimiter\<close> (\<open>rate-limiter.ts\<close>): the map of buckets is the function \<open>buckets\<close> of the record; \<open>check\<close>
      is the operation of the same name. The results bound the tokens granted in every window of
      time, rounding included, identify the exact regime, where \<open>check\<close> is the ideal bucket, and
      show that no key's calls influence another's.
    \<^item> \<open>CircuitBreaker\<close> and \<open>AdapterScorer\<close> (\<open>circuit-breaker.ts\<close>): the breaker as a state machine whose
      \<open>execute\<close> is cut at its \<open>await\<close>, with an inductive step relation for calls in flight and its
      invariant. The labels of \<open>breaker_run\<close> carry the clock readings of each step: every run refines
      \<open>documented_circuit\<close>, the documented state machine over the whole history of failures. Further
      the equivalence of the pruned failure list with the history, recovery, and the number of
      probes in flight; then the moving averages and the score.
    \<^item> \<open>Idempotency\<close> (\<open>idempotency.ts\<close>): the cache against an abstract replay cache.
    \<^item> \<open>Trace\<close> (\<open>trace.ts\<close>): the builder, its summary, its duration and its text.
    \<^item> \<open>ControlPlane\<close>, \<open>Client\<close> (\<open>client.ts\<close>) and \<open>Routing\<close> (\<open>examples/multi-provider-routing.ts\<close>): the parts
      composed. \<open>execute\<close> is cut at its awaits into \<open>begin_execute\<close> and the pieces of \<open>resume\<close>; any
      number of executions interleave in every order. (\<open>pipeline\<close> is an auxiliary one-piece reading of
      \<open>execute_alone\<close> that some proofs go through; no property is stated on it.) Here are the
      properties that span parts: handler calls are bounded by the bucket, traces show exactly the
      steps gone through, results are replayed until they expire, executions consult no breaker,
      and the fallback loop asks the ranked providers whose breaker lets the request through, up to
      and including the first usable answer.
    \<^item> \<open>Provenance\<close>: every result of a run with executions in flight is traced back to the handler call
      that produced it. The type of results is arbitrary; read as references to objects, the same
      statement says that a replay hands out the object of the first caller.
    \<^item> \<open>Replay\<close>: the guard of a run moves by the calls of its pieces, so that the laws of the replay cache
      hold for every interleaving: what is stored is replayed to the executions in flight.
    \<^item> \<open>RoutingHealth\<close>: what the properties of breakers, scorer and ranking assume holds of every
      control plane that sequential completions produce.

  \<^bold>\<open>The interface.\<close> A React component is a function from its props to the element it renders, a
  value of \<open>Jsx\<close>; an effect is the list of calls it makes or a function on a recorded state.

    \<^item> \<open>UiControls\<close>, \<open>UiContent\<close>, \<open>UiOverlays\<close>, \<open>UiMenus\<close>, \<open>UiSidebar\<close>, \<open>UiFields\<close>, \<open>UiChart\<close>: the components of
      \<open>components/ui\<close>, file by file, with the locale \<open>slotted\<close> for what those styled parts share that
      spread the rest of their props last on one element.
      \<open>UiBehaviour\<close>: how the sidebar, form fields and the carousel behave.
    \<^item> \<open>UseToast\<close> (\<open>hooks/use-toast.ts\<close>): the store, its reducer and its timers.
    \<^item> \<open>SplitFlap\<close>, \<open>TextEffects\<close>, with \<open>JsRandom\<close>: the split-flap display and the text animations as
      machines of timer firings, tweens and renders.
    \<^item> \<open>Pages\<close>: the sections of the page, the navigation, the scroller and the noise canvas.

  \<open>Prelude\<close> holds the list and text lemmas that the parts share, and the locale \<open>shutter\<close> of an
  operation that can be shut. Locales state the interfaces between parts: \<open>replay_cache\<close>,
  \<open>metered_bucket\<close> and its special case \<open>configured_limiter\<close>, \<open>shutter\<close>, \<open>slotted\<close>; each is
  interpreted on the definitions of the code.

  \<^bold>\<open>Conventions.\<close> A clock reading, a random number, an answer of a server or a settled promise is an
  argument, one for each time the code asks. An error is a value: \<open>Inl\<close> of a sum, \<open>None\<close>, or
  \<open>Throw\<close>. A number is a binary64 value; where the code only counts, below \<open>2 ^ 53\<close>, it is an
  integer. A string is a list of code units below 256, an object the list of its properties in
  order, its keys distinct. Every recursion terminates, so no fuel is used: the search for a
  shortest decimal tries seventeen digits, which are proved to be enough, and the timer machine of
  \<open>SplitFlap\<close> comes with the number of firings after which it is settled. The hypotheses on
  sizes are those of the exact regime (integers below \<open>2 ^ 50\<close>, dates in the range of the language).

  \<^bold>\<open>Parameters.\<close> Code of other packages is an argument: the digest of Web Crypto, \<open>fetch\<close>, the UUID
  generator, \<open>clsx\<close>, \<open>tailwind-merge\<close> and \<open>class-variance-authority\<close> (the record \<open>ui_lib\<close>), the
  state of \<open>react-hook-form\<close>, the API of \<open>embla-carousel\<close>, what \<open>recharts\<close> passes to its tooltip.
  Calls on \<open>gsap\<close>, \<open>lenis\<close>, the audio API and the canvas are recorded.

  \<^bold>\<open>Not modelled.\<close> Console output; type annotations and unchecked casts, which have no effect when
  the program runs; characters beyond the code units below 256, so neither the encoding of other
  characters nor the replacement of lone surrogates by \<open>TextEncoder\<close>; cyclic metadata and payloads
  (they are finite trees here, so the \<open>TypeError\<close> that \<open>JSON.stringify\<close> throws at a cycle does not
  occur); \<open>index.ts\<close> files that only export again; configuration of the builds; tests;
  \<open>components/ui/use-toast.ts\<close> and \<open>components/ui/use-mobile.tsx\<close>, which are copies of the hooks of
  the same name; what an animation, a sound or a style sheet looks or sounds like. The gateway
  server, its SDK and its migrations are in Python and not part of this development.
\<close>

section \<open>The page and its navigation\<close>

text \<open>The sections of the page by their component, with the id each renders.\<close>

definition section_ids :: "ui_value list" where
  "section_ids =
     map (\<lambda>v. case attribute ''id'' v of Some i \<Rightarrow> i | None \<Rightarrow> UndefV)
       [HeroSection NullV NullV, SignalsSection sample_lib False NullV NullV NullV, WorkSection NullV NullV NullV,
        PrinciplesSection NullV NullV NullV, ColophonSection NullV NullV NullV NullV]"

text \<open>Every item of the navigation names a section of the page, in the order of the sections.\<close>

theorem navigation_resolves:
  "map_array (\<lambda>t i. member ''id'' t) navItems = ArrV section_ids"
  by (simp add: section_ids_def navItems_def map_array_def HeroSection_def SignalsSection_def WorkSection_def
      PrinciplesSection_def ColophonSection_def Let_def obj_def read_prop_def upt_rec)

section \<open>The styled parts of the interface\<close>

definition ui_parts :: "ui_lib \<Rightarrow> ((props \<Rightarrow> ui_value) \<times> string list \<times> string) list" where
  "ui_parts lib = uiControls_parts lib @ uiContent_parts lib @ uiOverlays_parts lib @ uiMenus_parts lib @
     uiSidebar_parts lib"

lemma ui_parts_slotted: "(f, own, slot) \<in> set (ui_parts lib) \<Longrightarrow> slotted f own slot"
  using uiControls_parts_slotted [of lib] uiContent_parts_slotted [of lib] uiOverlays_parts_slotted [of lib]
    uiMenus_parts_slotted [of lib] uiSidebar_parts_slotted [of lib]
  by (auto simp: ui_parts_def list_all_iff)

text \<open>
  The parts listed in the tables of the \<open>Ui\<close> theories, those that render one element and spread
  the rest of their props last, are transparent: every property a caller gives, other than those
  the part consumes itself, arrives unchanged, and the element carries the part's slot unless the
  caller sets another. Not among them are parts that wrap their element in a portal or another part
  (\<open>DialogContent\<close>, \<open>Sidebar\<close>), that overwrite the caller's children (\<open>Checkbox\<close>, \<open>Switch\<close>, \<open>Slider\<close>,
  \<open>InputOTPSeparator\<close>, \<open>Progress\<close>), and the parts of forms and of the carousel.
\<close>

theorem parts_pass_props:
  assumes "(f, own, slot) \<in> set (ui_parts lib)" "distinct (map fst ps)"
  shows "(k \<notin> set own \<longrightarrow> map_of ps k = Some v \<longrightarrow> attribute k (f ps) = Some v) \<and>
    (map_of ps ''data-slot'' = None \<longrightarrow> attribute ''data-slot'' (f ps) = Some (StrV slot))"
proof -
  have s: "slotted f own slot" by (rule ui_parts_slotted [OF assms(1)])
  show ?thesis using slotted.forwards [OF s assms(2)] slotted.marks [OF s assms(2)] by (auto simp: domIff)
qed

theorem parts_pass_props_witness:
  "attribute ''id'' (DialogTitle sample_lib [(''id'', StrV ''t'')]) = Some (StrV ''t'') \<and>
   attribute ''data-slot'' (DialogTitle sample_lib [(''id'', StrV ''t'')]) = Some (StrV ''dialog-title'')"
proof -
  have "(DialogTitle sample_lib, [''className''], ''dialog-title'') \<in> set (ui_parts sample_lib)"
    by (simp only: ui_parts_def uiOverlays_parts_def set_append set_simps Un_iff insert_iff prod.inject simp_thms)
  from parts_pass_props [OF this, of "[(''id'', StrV ''t'')]" "''id''"] show ?thesis by simp
qed

end
